(* ===== verification/Prelude.thy ===== *)
theory Prelude
  imports Complex_Main "HOL-Library.Multiset"
begin

text \<open>
  Shared vocabulary of the Spotlight development: the Python runtime errors the
  backend can raise, a result type \<open>py_error + 'a\<close> with its bind, Python's
  division (which raises on a zero divisor), the three states a key of a Python
  \<open>dict\<close> of features can be in, and Python's \<open>round\<close> (half to even) and
  \<open>int\<close> (truncation) on numbers. Floats are modelled as exact reals: the
  development does not model binary floating-point error.
\<close>

named_theorems py_simps "evaluation rules of the modelled Python primitives"

section \<open>Errors and results\<close>

datatype py_error =
    TypeError
  | ZeroDivisionError
  | KeyError
  | ValueError string
  | StatisticsError
  | AttributeError
  | IntegrityError
  | IndexError
  | HTTPError nat string

type_synonym 'a result = "py_error + 'a"

definition r_bind :: "'a result \<Rightarrow> ('a \<Rightarrow> 'b result) \<Rightarrow> 'b result" where
  "r_bind m f = (case m of Inl e \<Rightarrow> Inl e | Inr x \<Rightarrow> f x)"

definition r_map :: "('a \<Rightarrow> 'b) \<Rightarrow> 'a result \<Rightarrow> 'b result" where
  "r_map f m = (case m of Inl e \<Rightarrow> Inl e | Inr x \<Rightarrow> Inr (f x))"

lemma r_bind_simps [simp, py_simps]:
  "r_bind (Inl e) f = Inl e" "r_bind (Inr x) f = f x"
  by (simp_all add: r_bind_def)

lemma r_map_simps [simp, py_simps]:
  "r_map f (Inl e) = Inl e" "r_map f (Inr x) = Inr (f x)"
  by (simp_all add: r_map_def)

lemma r_bind_Inr_iff:
  "r_bind m f = Inr y \<longleftrightarrow> (\<exists>x. m = Inr x \<and> f x = Inr y)"
  by (cases m) auto

lemma r_map_Inr_iff:
  "r_map f m = Inr y \<longleftrightarrow> (\<exists>x. m = Inr x \<and> y = f x)"
  by (cases m) auto

text \<open>A list comprehension \<open>[f(x) for x in xs]\<close> whose element expression may raise.\<close>

fun map_result :: "('a \<Rightarrow> 'b result) \<Rightarrow> 'a list \<Rightarrow> 'b list result" where
  "map_result f [] = Inr []"
| "map_result f (x # xs) = r_bind (f x) (\<lambda>y. r_map (\<lambda>ys. y # ys) (map_result f xs))"

text \<open>
  A loop \<open>for x in xs: try: ys.append(f(x)) except Exception: continue\<close>: the results of
  the elements whose computation did not raise, in order.
\<close>

definition map_ok :: "('a \<Rightarrow> 'b result) \<Rightarrow> 'a list \<Rightarrow> 'b list" where
  "map_ok f xs = concat (map (\<lambda>x. case f x of Inl _ \<Rightarrow> [] | Inr y \<Rightarrow> [y]) xs)"

text \<open>Python's true division \<open>a / b\<close> raises \<open>ZeroDivisionError\<close> on a zero divisor.\<close>

definition py_div :: "real \<Rightarrow> real \<Rightarrow> real result" where
  "py_div a b = (if b = 0 then Inl ZeroDivisionError else Inr (a / b))"

lemma py_div_nonzero [simp, py_simps]: "b \<noteq> 0 \<Longrightarrow> py_div a b = Inr (a / b)"
  by (simp add: py_div_def)

lemma py_div_zero [simp, py_simps]: "py_div a 0 = Inl ZeroDivisionError"
  by (simp add: py_div_def)

section \<open>Dictionary fields\<close>

text \<open>
  A key of a Python feature dictionary is absent, present with value \<open>None\<close>,
  or present with a value. \<open>d.get(k)\<close> gives \<open>None\<close> in the first two cases;
  \<open>d.get(k, default)\<close> gives the default only when the key is absent, and
  \<open>None\<close> when the key holds \<open>None\<close>.
\<close>

datatype 'a pyfield = Missing | PyNone | Present 'a

definition field_get :: "'a pyfield \<Rightarrow> 'a option" where
  "field_get f = (case f of Present v \<Rightarrow> Some v | _ \<Rightarrow> None)"

definition field_get_default :: "'a pyfield \<Rightarrow> 'a \<Rightarrow> 'a option" where
  "field_get_default f d = (case f of Missing \<Rightarrow> Some d | PyNone \<Rightarrow> None | Present v \<Rightarrow> Some v)"

lemma field_get_simps [simp, py_simps]:
  "field_get Missing = None" "field_get PyNone = None" "field_get (Present v) = Some v"
  by (simp_all add: field_get_def)

lemma field_get_default_simps [simp, py_simps]:
  "field_get_default Missing d = Some d" "field_get_default PyNone d = None"
  "field_get_default (Present v) d = Some v"
  by (simp_all add: field_get_default_def)

text \<open>A number read from a dictionary: \<open>None\<close> in arithmetic or a comparison raises \<open>TypeError\<close>.\<close>

definition py_num :: "real option \<Rightarrow> real result" where
  "py_num v = (case v of None \<Rightarrow> Inl TypeError | Some x \<Rightarrow> Inr x)"

lemma py_num_simps [simp, py_simps]: "py_num None = Inl TypeError" "py_num (Some x) = Inr x"
  by (simp_all add: py_num_def)

definition count_present :: "'a option list \<Rightarrow> nat" where
  "count_present xs = length (filter (\<lambda>v. v \<noteq> None) xs)"

lemma count_present_le: "count_present xs \<le> length xs"
  by (simp add: count_present_def)

section \<open>Lists of rows\<close>

text \<open>
  A table is a list of rows in query order; \<open>.first()\<close> is \<open>find\<close>, and an
  attribute write on the object it returned updates that row only.
\<close>

fun update_first :: "('a \<Rightarrow> bool) \<Rightarrow> ('a \<Rightarrow> 'a) \<Rightarrow> 'a list \<Rightarrow> 'a list" where
  "update_first P g [] = []"
| "update_first P g (x # xs) = (if P x then g x # xs else x # update_first P g xs)"

text \<open>The slice \<open>xs[:k]\<close>: a negative bound counts from the end.\<close>

definition py_take :: "int \<Rightarrow> 'a list \<Rightarrow> 'a list" where
  "py_take k xs = (if 0 \<le> k then take (nat k) xs else take (nat (int (length xs) + k)) xs)"

lemma py_take_take: "\<exists>n. py_take k xs = take n xs"
  by (auto simp: py_take_def)

lemma py_take_nonneg [simp]: "0 \<le> k \<Longrightarrow> py_take k xs = take (nat k) xs"
  by (simp add: py_take_def)

lemma length_concat_map_le:
  "(\<And>x. x \<in> set xs \<Longrightarrow> length (f x) \<le> k) \<Longrightarrow> length (concat (map f xs)) \<le> length xs * k"
  by (induction xs) (auto simp: add_mono)

lemma find_Some_P: "find P xs = Some x \<Longrightarrow> P x \<and> x \<in> set xs"
  by (induction xs) (auto split: if_splits)

lemma find_update_first_Some:
  "find P xs = Some x \<Longrightarrow> P (g x) \<Longrightarrow> find P (update_first P g xs) = Some (g x)"
  by (induction xs) (auto split: if_splits)

lemma length_update_first [simp]: "length (update_first P g xs) = length xs"
  by (induction xs) auto

lemma update_first_None: "find P xs = None \<Longrightarrow> update_first P g xs = xs"
  by (induction xs) (auto split: if_splits)

lemma map_update_first_eq:
  "find P xs = Some x \<Longrightarrow> f (g x) = f x \<Longrightarrow> map f (update_first P g xs) = map f xs"
  by (induction xs) (auto split: if_splits)

lemma filter_update_first:
  "find P xs = Some x \<Longrightarrow> \<not> Q x \<Longrightarrow> \<not> Q (g x) \<Longrightarrow> filter Q (update_first P g xs) = filter Q xs"
  by (induction xs) (auto split: if_splits)

lemma find_update_first_other:
  "distinct (map key xs) \<Longrightarrow> find (\<lambda>x. key x = k) xs = Some x \<Longrightarrow> key (g x) = k \<Longrightarrow>
   y \<in> set (update_first (\<lambda>x. key x = k) g xs) \<Longrightarrow> key y = k \<Longrightarrow> y = g x"
  by (induction xs) (auto split: if_splits intro: rev_image_eqI)

lemma find_append_fresh:
  "k \<notin> set (map key xs) \<Longrightarrow> P c \<Longrightarrow> key c = k \<Longrightarrow>
   find (\<lambda>x. key x = k \<and> P x) (xs @ [c]) = Some c"
  by (induction xs) auto

lemma set_update_first:
  "set (update_first P g xs) \<subseteq> set xs \<union> g ` set xs"
  by (induction xs) auto

section \<open>The statistics module\<close>

text \<open>
  \<open>statistics.median\<close> sorts its data and takes the middle element, or the mean of
  the two middle elements for an even length; \<open>statistics.mean\<close> is the arithmetic
  mean. Both raise \<open>StatisticsError\<close> on empty data.
\<close>

definition py_median :: "real list \<Rightarrow> real result" where
  "py_median xs =
     (let ys = sort xs; n = length ys
      in if n = 0 then Inl StatisticsError
         else if odd n then Inr (ys ! (n div 2))
         else Inr ((ys ! (n div 2 - 1) + ys ! (n div 2)) / 2))"

definition py_mean :: "real list \<Rightarrow> real result" where
  "py_mean xs = (if xs = [] then Inl StatisticsError else Inr (sum_list xs / real (length xs)))"

lemma py_median_nonempty: "xs \<noteq> [] \<Longrightarrow> \<exists>m. py_median xs = Inr m"
proof (cases "py_median xs")
  case (Inl e)
  assume "xs \<noteq> []"
  then have "sort xs \<noteq> []" by (metis length_0_conv length_sort)
  with Inl show ?thesis by (simp add: py_median_def Let_def split: if_splits)
qed simp

lemma py_mean_nonempty: "xs \<noteq> [] \<Longrightarrow> py_mean xs = Inr (sum_list xs / real (length xs))"
  by (simp add: py_mean_def)

section \<open>Rounding\<close>

text \<open>
  Python 3's \<open>round(x)\<close> rounds to the nearest integer and a tie to the even one;
  \<open>round(x, n)\<close> does the same at the \<open>n\<close>-th decimal place. \<open>int(x)\<close>
  truncates toward zero.
\<close>

definition round_half_even :: "real \<Rightarrow> int" where
  "round_half_even x =
     (let f = \<lfloor>x\<rfloor>; d = x - of_int f
      in if d < 1/2 then f else if 1/2 < d then f + 1 else if even f then f else f + 1)"

definition py_round :: "nat \<Rightarrow> real \<Rightarrow> real" where
  "py_round n x = of_int (round_half_even (x * 10 ^ n)) / 10 ^ n"

definition py_int :: "real \<Rightarrow> int" where
  "py_int x = (if 0 \<le> x then \<lfloor>x\<rfloor> else \<lceil>x\<rceil>)"

lemma round_half_even_near: "\<bar>of_int (round_half_even x) - x\<bar> \<le> 1/2"
  using floor_correct [of x] unfolding round_half_even_def Let_def by auto

lemma round_half_even_of_int [simp, py_simps]: "round_half_even (of_int k) = k"
  by (simp add: round_half_even_def)

lemma round_half_even_mono:
  assumes "x \<le> y" shows "round_half_even x \<le> round_half_even y"
proof (rule ccontr)
  assume "\<not> round_half_even x \<le> round_half_even y"
  then have "round_half_even y + 1 \<le> round_half_even x" by simp
  then have lt: "real_of_int (round_half_even y) + 1 \<le> of_int (round_half_even x)" by linarith
  have "y \<le> of_int (round_half_even y) + 1/2" "of_int (round_half_even x) - 1/2 \<le> x"
    using round_half_even_near [of x] round_half_even_near [of y] by linarith+
  with lt assms have "x = y" by linarith
  with \<open>round_half_even y + 1 \<le> round_half_even x\<close> show False by simp
qed

lemma py_round_mono: "x \<le> y \<Longrightarrow> py_round n x \<le> py_round n y"
  unfolding py_round_def
  by (intro divide_right_mono of_int_le_iff [THEN iffD2] round_half_even_mono) simp_all

lemma py_round_of_int [simp, py_simps]: "py_round n (of_int k) = of_int k"
proof -
  have "of_int k * (10::real) ^ n = of_int (k * 10 ^ n)" by simp
  then have "round_half_even (of_int k * 10 ^ n) = k * 10 ^ n"
    by (simp only: round_half_even_of_int)
  then show ?thesis by (simp add: py_round_def)
qed

lemma py_round_grid [py_simps]: "py_round n (of_int k / 10 ^ n) = of_int k / 10 ^ n"
proof -
  have "of_int k / 10 ^ n * (10::real) ^ n = of_int k" by simp
  then show ?thesis by (simp add: py_round_def)
qed

lemma py_round_numeral [simp, py_simps]:
  "py_round n 0 = 0" "py_round n 1 = 1" "py_round n (numeral m) = numeral m"
  using py_round_of_int [of n 0] py_round_of_int [of n 1] py_round_of_int [of n "numeral m"]
  by simp_all

lemma py_round_between:
  "of_int a \<le> x \<Longrightarrow> x \<le> of_int b \<Longrightarrow> of_int a \<le> py_round n x \<and> py_round n x \<le> of_int b"
  using py_round_mono [of "of_int a" x n] py_round_mono [of x "of_int b" n] by simp

lemma py_round_on_grid: "\<exists>z. py_round n x = of_int z / 10 ^ n"
  by (auto simp: py_round_def)

lemma py_round_close: "\<bar>py_round n x - x\<bar> \<le> 1 / (2 * 10 ^ n)"
proof -
  let ?r = "real_of_int (round_half_even (x * 10 ^ n))"
  have near: "\<bar>?r - x * 10 ^ n\<bar> \<le> 1/2"
    by (rule round_half_even_near)
  have "py_round n x - x = (?r - x * 10 ^ n) / 10 ^ n"
    by (simp add: py_round_def field_simps)
  then have "\<bar>py_round n x - x\<bar> = \<bar>?r - x * 10 ^ n\<bar> / 10 ^ n"
    by simp
  also have "\<dots> \<le> (1/2) / 10 ^ n"
    using divide_right_mono [OF near, of "10 ^ n"] by simp
  finally show ?thesis by simp
qed

lemma py_round_nonneg: "0 \<le> x \<Longrightarrow> 0 \<le> py_round n x"
  using py_round_mono [of 0 x n] by simp

section \<open>Maximum by key\<close>

text \<open>\<open>max(keys, key=f)\<close> keeps the first key of greatest value.\<close>

lemma foldl_argmax_ge:
  "k \<in> set (b # ks) \<Longrightarrow>
   (f k :: real) \<le> f (foldl (\<lambda>best k. if f best < f k then k else best) b ks)"
proof (induction ks arbitrary: b k)
  case Nil then show ?case by simp
next
  case (Cons a ks)
  define b' where "b' = (if f b < f a then a else b)"
  have step: "foldl (\<lambda>best k. if f best < f k then k else best) b (a # ks)
            = foldl (\<lambda>best k. if f best < f k then k else best) b' ks"
    by (simp add: b'_def)
  have top: "f b' \<le> f (foldl (\<lambda>best k. if f best < f k then k else best) b' ks)"
    by (rule Cons.IH) simp
  have "f b \<le> f b'" "f a \<le> f b'" unfolding b'_def by auto
  moreover from Cons.prems have "k = b \<or> k = a \<or> k \<in> set (b' # ks)" by auto
  ultimately show ?case
    unfolding step using top Cons.IH [of _ b'] by (meson order_trans)
qed

section \<open>Clamping\<close>

lemma clamp_max_min [py_simps]:
  fixes a b x :: real
  shows "a \<le> b \<Longrightarrow> a \<le> max a (min b x) \<and> max a (min b x) \<le> b"
  by simp

lemma map_result_Inr: "map_result f xs = Inr ys \<Longrightarrow> list_all2 (\<lambda>x y. f x = Inr y) xs ys"
  by (induction xs arbitrary: ys) (auto simp: r_bind_Inr_iff r_map_Inr_iff)

lemma set_map_ok: "set (map_ok f xs) = {y. \<exists>x \<in> set xs. f x = Inr y}"
  by (induction xs) (auto simp: map_ok_def split: sum.splits)

lemma length_map_ok: "length (map_ok f xs) = length (filter (\<lambda>x. \<exists>y. f x = Inr y) xs)"
  by (induction xs) (auto simp: map_ok_def split: sum.splits)


lemma map_ok_Nil: "\<forall>x \<in> set xs. \<exists>e. f x = Inl e \<Longrightarrow> map_ok f xs = []"
  by (induction xs) (auto simp: map_ok_def)

end
