(* ===== verification/DataModel.thy ===== *)
theory DataModel
  imports Prelude
begin

text \<open>
  The persistent data of the backend (\<open>src/backend/models/database.py\<close>) and the
  feature dictionary the data collector builds for one location
  (\<open>src/backend/agents/data_collector.py\<close>). A SQLAlchemy row is a record; a
  nullable column is an \<open>option\<close>; the JSON \<open>weights\<close> column, whose five keys the
  API schema \<open>ConceptWeights\<close> requires, is a record of five reals. Timestamps are
  natural numbers (seconds).
\<close>

section \<open>Scoring weights\<close>

record weights =
  w_population :: real
  w_income :: real
  w_access :: real
  w_competition :: real
  w_walkability :: real

text \<open>\<open>sum(weights_dict.values())\<close>, in the key order of \<open>ConceptWeights\<close>.\<close>

definition weights_total :: "weights \<Rightarrow> real" where
  "weights_total w = w_population w + w_income w + w_access w + w_competition w + w_walkability w"

definition weights_nonneg :: "weights \<Rightarrow> bool" where
  "weights_nonneg w \<longleftrightarrow> 0 \<le> w_population w \<and> 0 \<le> w_income w \<and> 0 \<le> w_access w
     \<and> 0 \<le> w_competition w \<and> 0 \<le> w_walkability w"

section \<open>Concepts\<close>

record concept =
  c_id :: string
  customer_id :: string
  c_name :: string
  category :: string
  description :: "string option"
  base_revenue_eur :: int
  revenue_variance :: real
  target_income_min :: int
  target_income_max :: int
  optimal_population_density :: int
  target_competitors_per_1k :: real
  c_weights :: weights
  outcomes_count :: nat
  avg_prediction_error :: "real option"
  last_trained_at :: "nat option"
  is_system_default :: bool
  is_active :: bool

text \<open>The configuration dictionary the scoring engine reads (from the YAML file or a row).\<close>

record concept_config =
  cfg_name :: string
  cfg_base_revenue_eur :: real
  cfg_target_income_min :: real
  cfg_target_income_max :: real
  cfg_optimal_population_density :: real
  cfg_target_competitors_per_1k :: real
  cfg_weights :: weights

definition db_concept_to_config :: "concept \<Rightarrow> concept_config" where
  "db_concept_to_config c =
     \<lparr>cfg_name = c_name c,
      cfg_base_revenue_eur = of_int (base_revenue_eur c),
      cfg_target_income_min = of_int (target_income_min c),
      cfg_target_income_max = of_int (target_income_max c),
      cfg_optimal_population_density = of_int (optimal_population_density c),
      cfg_target_competitors_per_1k = target_competitors_per_1k c,
      cfg_weights = c_weights c\<rparr>"

section \<open>Site features\<close>

text \<open>
  The feature dictionary, one \<open>pyfield\<close> per key the scoring code reads. The data
  collector stores \<open>None\<close> under a key whose provider failed
  (\<open>population_data.get("population_density")\<close> on an empty dictionary), so
  \<open>PyNone\<close> is a reachable state of every key but the competitor count.
\<close>

record features =
  population_1km :: "real pyfield"
  population_density :: "real pyfield"
  median_income :: "real pyfield"
  competitors_count :: "real pyfield"
  competitors_per_1k_residents :: "real pyfield"
  nearest_metro_distance_m :: "real pyfield"
  nearest_tram_distance_m :: "real pyfield"
  walkability_poi_count :: "real pyfield"

text \<open>
  A feature dictionary is falsy in Python when it is empty: \<open>if not outcome.features_used\<close>
  (\<open>concept_learner.py\<close>) and \<open>if features_used:\<close> (\<open>trust_metrics.py\<close>).
\<close>

definition features_empty :: "features \<Rightarrow> bool" where
  "features_empty f \<longleftrightarrow> population_1km f = Missing \<and> population_density f = Missing
     \<and> median_income f = Missing \<and> competitors_count f = Missing
     \<and> competitors_per_1k_residents f = Missing \<and> nearest_metro_distance_m f = Missing
     \<and> nearest_tram_distance_m f = Missing \<and> walkability_poi_count f = Missing"

section \<open>Predictions and training outcomes\<close>

record prediction =
  pred_id :: nat
  pred_concept_id :: "string option"
  pred_latitude :: real
  pred_longitude :: real
  pred_score :: real
  pred_revenue_low :: real
  pred_revenue_mid :: real
  pred_revenue_high :: real
  pred_confidence :: real
  pred_features :: "features option"

record training_outcome =
  to_id :: nat
  to_concept_id :: string
  to_prediction_id :: nat
  predicted_revenue_eur :: real
  predicted_score :: real
  features_used :: "features option"
  actual_revenue_eur :: real
  variance_pct :: real
  opened_at :: nat
  used_in_training :: bool
  training_weight :: real

end
