(* ===== verification/Scoring.thy ===== *)
theory Scoring
  imports DataModel
begin

text \<open>
  The scoring engine of \<open>src/backend/agents/scorer.py\<close> (class \<open>ScoringEngine\<close>):
  five factor scores, their weighted sum, the revenue estimate, the data-completeness
  confidence and the revenue band, and the lookup of the concept configuration
  (database first, YAML file second). Every helper returns a \<open>result\<close>: a \<open>None\<close>
  feature reaching a comparison raises \<open>TypeError\<close>, a zero divisor raises
  \<open>ZeroDivisionError\<close>, an unknown concept raises \<open>ValueError\<close>.
\<close>

section \<open>Factor scores\<close>

definition calculate_population_score :: "real option \<Rightarrow> real \<Rightarrow> real result" where
  "calculate_population_score d optimal =
     r_bind (py_num d) (\<lambda>density.
       if optimal \<le> density then Inr 100
       else if density \<le> 0 then Inr 0
       else r_map (\<lambda>q. q * 100) (py_div density optimal))"

definition calculate_income_score :: "real option \<Rightarrow> real \<Rightarrow> real \<Rightarrow> real result" where
  "calculate_income_score mi target_min target_max =
     r_bind (py_num mi) (\<lambda>m.
       if m < target_min then
         r_map (\<lambda>q. max (50 - min (q * 100) 50) 0) (py_div (target_min - m) target_min)
       else if target_max < m then
         r_map (\<lambda>q. max (75 - min (q * 50) 25) 50) (py_div (m - target_max) target_max)
       else
         (let middle = (target_min + target_max) / 2;
              distance_from_middle = \<bar>m - middle\<bar>;
              max_distance = (target_max - target_min) / 2
          in r_map (\<lambda>q. max (100 - q * 15) 85) (py_div distance_from_middle max_distance)))"

definition calculate_access_score :: "real option \<Rightarrow> real option \<Rightarrow> real" where
  "calculate_access_score metro tram =
     (let s1 = 50 + (case metro of None \<Rightarrow> 0
                     | Some d \<Rightarrow> if d \<le> 200 then 40 else if d \<le> 500 then 30
                                 else if d \<le> 1000 then 15 else 0);
          s2 = s1 + (case tram of None \<Rightarrow> 0
                     | Some d \<Rightarrow> if d \<le> 100 then 10 else if d \<le> 300 then 5 else 0)
      in min s2 100)"

text \<open>
  \<open>competitors_per_1k == 0\<close> is a plain comparison (no error on \<open>None\<close>); the
  division that follows raises \<open>TypeError\<close> on \<open>None\<close> and
  \<open>ZeroDivisionError\<close> on a zero target.
\<close>

definition competition_of_ratio :: "real \<Rightarrow> real" where
  "competition_of_ratio ratio =
     (if 0.8 \<le> ratio \<and> ratio \<le> 1.2 then 100
      else if 0.5 \<le> ratio \<and> ratio < 0.8 then 85
      else if 1.2 < ratio \<and> ratio \<le> 1.5 then 75
      else if 1.5 < ratio then max (50 - min ((ratio - 1.5) * 30) 50) 20
      else 60)"

definition calculate_competition_score :: "real option \<Rightarrow> real \<Rightarrow> real result" where
  "calculate_competition_score c target =
     (if c = Some 0 then Inr 40
      else r_bind (py_num c) (\<lambda>cp. r_map competition_of_ratio (py_div cp target)))"

definition calculate_walkability_score :: "real option \<Rightarrow> real result" where
  "calculate_walkability_score p =
     r_bind (py_num p) (\<lambda>poi.
       Inr (if 100 \<le> poi then 100 else if 50 \<le> poi then 85 else if 25 \<le> poi then 70
            else if 10 \<le> poi then 55 else max (poi * 3) 20))"

section \<open>Revenue and confidence\<close>

definition calculate_revenue ::
  "real \<Rightarrow> real option \<Rightarrow> real option \<Rightarrow> real option \<Rightarrow> concept_config \<Rightarrow> real result" where
  "calculate_revenue base_revenue pd mi cp cfg =
     r_bind (py_num pd) (\<lambda>density.
     r_bind (py_div density (cfg_optimal_population_density cfg)) (\<lambda>q.
     let pop_multiplier = min q 1.5;
         target_mid = (cfg_target_income_min cfg + cfg_target_income_max cfg) / 2
     in r_bind (py_num mi) (\<lambda>m.
     r_bind (if 0 < m then r_map (\<lambda>r. max (min (0.7 + r * 0.3) 1.3) 0.7) (py_div m target_mid)
             else Inr 1) (\<lambda>income_multiplier.
     r_bind (py_num cp) (\<lambda>comp.
     r_bind (if cfg_target_competitors_per_1k cfg < comp
             then r_map (\<lambda>r. min ((r - 1) * 0.3) 0.4) (py_div comp (cfg_target_competitors_per_1k cfg))
             else Inr 0) (\<lambda>saturation_penalty.
     let revenue = base_revenue * pop_multiplier * income_multiplier * (1 - saturation_penalty)
     in Inr (max revenue (base_revenue * 0.5))))))))"

definition calculate_confidence :: "features \<Rightarrow> real" where
  "calculate_confidence f =
     (let present = count_present [field_get (population_density f), field_get (median_income f),
                                   field_get (competitors_count f), field_get (nearest_metro_distance_m f)];
          completeness = real present / 4
      in 0.6 + completeness * 0.4)"

section \<open>Concept lookup\<close>

text \<open>
  The engine holds an optional database session (\<open>None\<close> when it could not be
  opened) whose \<open>Concept\<close> table is a list of rows in query order, and the YAML
  dictionary of default configurations. \<open>.first()\<close> is the first matching row.
\<close>

record scoring_engine =
  db_session :: "concept list option"
  yaml_concepts :: "(string \<times> concept_config) list"

definition get_concept_config ::
  "scoring_engine \<Rightarrow> string \<Rightarrow> string option \<Rightarrow> (concept_config \<times> string option) option" where
  "get_concept_config eng cat cid =
     (let from_db =
        (case db_session eng of
           None \<Rightarrow> None
         | Some rows \<Rightarrow>
             (case (case cid of None \<Rightarrow> None | Some i \<Rightarrow>
                      if i = [] then None else find (\<lambda>c. c_id c = i \<and> is_active c) rows) of
                Some c \<Rightarrow> Some (db_concept_to_config c, Some (c_id c))
              | None \<Rightarrow>
                  (case find (\<lambda>c. category c = cat \<and> is_system_default c \<and> is_active c) rows of
                     Some c \<Rightarrow> Some (db_concept_to_config c, Some (c_id c))
                   | None \<Rightarrow> None)))
      in case from_db of
           Some r \<Rightarrow> Some r
         | None \<Rightarrow> map_option (\<lambda>cfg. (cfg, None)) (map_of (yaml_concepts eng) cat))"

section \<open>The score\<close>

record score_components =
  sc_population :: real
  sc_income :: real
  sc_access :: real
  sc_competition :: real
  sc_walkability :: real

record score_result =
  sr_score :: real
  sr_revenue_low :: real
  sr_revenue_mid :: real
  sr_revenue_high :: real
  sr_confidence :: real
  sr_components :: score_components
  sr_concept_id :: "string option"

definition weighted_score :: "weights \<Rightarrow> score_components \<Rightarrow> real" where
  "weighted_score w sc =
     w_population w * sc_population sc + w_income w * sc_income sc + w_access w * sc_access sc
     + w_competition w * sc_competition sc + w_walkability w * sc_walkability sc"

definition band_percent :: "real \<Rightarrow> real" where
  "band_percent confidence = 0.15 + 0.15 * (1 - confidence)"

definition score_components_of :: "features \<Rightarrow> concept_config \<Rightarrow> score_components result" where
  "score_components_of f cfg =
     r_bind (calculate_population_score (field_get_default (population_density f) 0)
               (cfg_optimal_population_density cfg)) (\<lambda>pop.
     r_bind (calculate_income_score (field_get_default (median_income f) 0)
               (cfg_target_income_min cfg) (cfg_target_income_max cfg)) (\<lambda>inc.
     let acc = calculate_access_score (field_get (nearest_metro_distance_m f))
                 (field_get (nearest_tram_distance_m f))
     in r_bind (calculate_competition_score (field_get_default (competitors_per_1k_residents f) 0)
               (cfg_target_competitors_per_1k cfg)) (\<lambda>comp.
     r_bind (calculate_walkability_score (field_get_default (walkability_poi_count f) 0)) (\<lambda>walk.
     Inr \<lparr>sc_population = pop, sc_income = inc, sc_access = acc,
          sc_competition = comp, sc_walkability = walk\<rparr>))))"

text \<open>The result dictionary of \<open>calculate_score\<close>, with Python's rounding of each entry.\<close>

definition score_result_of ::
  "concept_config \<Rightarrow> string option \<Rightarrow> features \<Rightarrow> score_components \<Rightarrow> real \<Rightarrow> score_result" where
  "score_result_of cfg used_id f sc revenue_mid =
     (let overall = weighted_score (cfg_weights cfg) sc;
          confidence = calculate_confidence f;
          band = band_percent confidence;
          revenue_low = revenue_mid * (1 - band);
          revenue_high = revenue_mid * (1 + band)
      in \<lparr>sr_score = py_round 1 overall,
          sr_revenue_low = of_int (round_half_even revenue_low),
          sr_revenue_mid = of_int (round_half_even revenue_mid),
          sr_revenue_high = of_int (round_half_even revenue_high),
          sr_confidence = py_round 2 confidence,
          sr_components = \<lparr>sc_population = py_round 1 (sc_population sc),
                           sc_income = py_round 1 (sc_income sc),
                           sc_access = py_round 1 (sc_access sc),
                           sc_competition = py_round 1 (sc_competition sc),
                           sc_walkability = py_round 1 (sc_walkability sc)\<rparr>,
          sr_concept_id = (case used_id of Some i \<Rightarrow> if i = [] then None else Some i
                           | None \<Rightarrow> None)\<rparr>)"

definition calculate_score ::
  "scoring_engine \<Rightarrow> features \<Rightarrow> string \<Rightarrow> string option \<Rightarrow> score_result result" where
  "calculate_score eng f concept cid =
     (case get_concept_config eng concept cid of
        None \<Rightarrow> Inl (ValueError (''Unknown concept: '' @ concept))
      | Some (cfg, used_id) \<Rightarrow>
          r_bind (score_components_of f cfg) (\<lambda>sc.
          r_map (score_result_of cfg used_id f sc)
            (calculate_revenue (cfg_base_revenue_eur cfg)
               (field_get_default (population_density f) 0)
               (field_get_default (median_income f) 0)
               (field_get_default (competitors_per_1k_residents f) 0) cfg)))"

definition get_recommendation :: "real \<Rightarrow> string" where
  "get_recommendation score =
     (if 85 \<le> score then ''strong'' else if 70 \<le> score then ''moderate''
      else if 55 \<le> score then ''weak'' else ''pass'')"


section \<open>Well-formed configurations\<close>

text \<open>
  What the lemmas below assume of a configuration: non-negative weights and positive
  income targets (the API schema \<open>ConceptCreate\<close> requires \<open>gt=0\<close> of both targets).
\<close>

definition config_ok :: "concept_config \<Rightarrow> bool" where
  "config_ok cfg \<longleftrightarrow> weights_nonneg (cfg_weights cfg) \<and> 0 < cfg_target_income_min cfg
     \<and> 0 < cfg_target_income_max cfg"

definition components_in_range :: "score_components \<Rightarrow> bool" where
  "components_in_range sc \<longleftrightarrow>
     (\<forall>x \<in> {sc_population sc, sc_income sc, sc_access sc, sc_competition sc, sc_walkability sc}.
        0 \<le> x \<and> x \<le> 100)"

text \<open>The errors arithmetic on features can raise.\<close>

definition arith_error :: "py_error \<Rightarrow> bool" where
  "arith_error e \<longleftrightarrow> e = TypeError \<or> e = ZeroDivisionError"

section \<open>A concrete configuration\<close>

definition ex_weights :: weights where
  "ex_weights = \<lparr>w_population = 0.3, w_income = 0.2, w_access = 0.2, w_competition = 0.2,
     w_walkability = 0.1\<rparr>"

definition ex_cfg :: concept_config where
  "ex_cfg = \<lparr>cfg_name = ''QSR'', cfg_base_revenue_eur = 100000, cfg_target_income_min = 30000,
     cfg_target_income_max = 50000, cfg_optimal_population_density = 10000,
     cfg_target_competitors_per_1k = 2, cfg_weights = ex_weights\<rparr>"

definition ex_engine :: scoring_engine where
  "ex_engine = \<lparr>db_session = None, yaml_concepts = [(''QSR'', ex_cfg)]\<rparr>"

definition ex_features :: features where
  "ex_features = \<lparr>population_1km = Present 20000, population_density = Present 8000,
     median_income = Present 40000, competitors_count = Present 10,
     competitors_per_1k_residents = Present 2, nearest_metro_distance_m = Present 150,
     nearest_tram_distance_m = PyNone, walkability_poi_count = Present 60\<rparr>"

definition ex_result :: score_result where
  "ex_result = \<lparr>sr_score = 90.5, sr_revenue_low = 68000, sr_revenue_mid = 80000,
     sr_revenue_high = 92000, sr_confidence = 1,
     sr_components = \<lparr>sc_population = 80, sc_income = 100, sc_access = 90,
                      sc_competition = 100, sc_walkability = 85\<rparr>,
     sr_concept_id = None\<rparr>"

lemmas scoring_defs = get_concept_config_def calculate_score_def score_components_of_def
  score_result_of_def calculate_population_score_def calculate_income_score_def
  calculate_access_score_def calculate_competition_score_def competition_of_ratio_def
  calculate_walkability_score_def calculate_revenue_def calculate_confidence_def
  count_present_def weighted_score_def band_percent_def

lemmas ex_scoring_defs = ex_engine_def ex_cfg_def ex_weights_def ex_features_def ex_result_def


section \<open>Factor scores stay in their ranges\<close>

lemma div_unit_interval: "0 < a \<Longrightarrow> a \<le> b \<Longrightarrow> 0 \<le> a / b \<and> a / (b::real) \<le> 1"
  by simp

lemma scaled_unit: "0 \<le> q \<Longrightarrow> q \<le> 1 \<Longrightarrow> 0 \<le> q * 100 \<and> q * (100::real) \<le> 100"
  by simp

lemma scaled_clamp_range:
  fixes q :: real
  assumes "0 \<le> q"
  shows "0 \<le> max (50 - min (q * 100) 50) 0 \<and> max (50 - min (q * 100) 50) 0 \<le> 100"
    and "0 \<le> max (75 - min (q * 50) 25) 50 \<and> max (75 - min (q * 50) 25) 50 \<le> 100"
    and "q \<le> 1 \<Longrightarrow> 0 \<le> max (100 - q * 15) 85 \<and> max (100 - q * 15) 85 \<le> 100"
  using assms by (auto simp: min_def max_def)

lemma calculate_population_score_range:
  "calculate_population_score d optimal = Inr s \<Longrightarrow> 0 \<le> s \<and> s \<le> 100"
proof (cases d)
  case (Some a)
  assume r: "calculate_population_score d optimal = Inr s"
  show ?thesis
  proof (cases "optimal \<le> a \<or> a \<le> 0")
    case True
    with r Some show ?thesis by (auto simp: calculate_population_score_def split: if_splits)
  next
    case False
    then have "s = a / optimal * 100" using r Some by (simp add: calculate_population_score_def)
    moreover have "0 \<le> a / optimal \<and> a / optimal \<le> 1"
      using False div_unit_interval [of a optimal] by simp
    ultimately show ?thesis using scaled_unit [of "a / optimal"] by simp
  qed
qed (simp add: calculate_population_score_def)

lemma calculate_income_score_range:
  assumes r: "calculate_income_score mi tmin tmax = Inr s" and "0 < tmin" "0 < tmax"
  shows "0 \<le> s \<and> s \<le> 100"
proof -
  obtain m where mi: "mi = Some m" using r by (cases mi) (auto simp: calculate_income_score_def)
  consider (below) "m < tmin" | (above) "\<not> m < tmin" "tmax < m" | (inside) "tmin \<le> m" "m \<le> tmax"
    by linarith
  then show ?thesis
  proof cases
    case below
    with r mi assms(2) have "s = max (50 - min ((tmin - m) / tmin * 100) 50) 0"
      by (simp add: calculate_income_score_def)
    with below assms(2) scaled_clamp_range(1) [of "(tmin - m) / tmin"] show ?thesis by simp
  next
    case above
    with r mi assms(3) have "s = max (75 - min ((m - tmax) / tmax * 50) 25) 50"
      by (simp add: calculate_income_score_def)
    with above assms(3) scaled_clamp_range(2) [of "(m - tmax) / tmax"] show ?thesis by simp
  next
    case inside
    define q where "q = \<bar>m - (tmin + tmax) / 2\<bar> / ((tmax - tmin) / 2)"
    have "\<bar>m - (tmin + tmax) / 2\<bar> \<le> (tmax - tmin) / 2"
      using inside by (simp add: abs_le_iff field_simps)
    then have q: "0 \<le> q \<and> q \<le> 1" using inside unfolding q_def by (auto simp: divide_le_eq_1)
    from r mi inside have "s = max (100 - q * 15) 85"
      by (auto simp: calculate_income_score_def Let_def py_div_def q_def split: if_splits)
    with q scaled_clamp_range(3) [of q] show ?thesis by simp
  qed
qed

lemma calculate_access_score_range:
  "50 \<le> calculate_access_score m t \<and> calculate_access_score m t \<le> 100"
  unfolding calculate_access_score_def Let_def by (auto split: option.splits)

lemma competition_of_ratio_range: "20 \<le> competition_of_ratio r \<and> competition_of_ratio r \<le> 100"
  unfolding competition_of_ratio_def by auto

lemma calculate_competition_score_range:
  "calculate_competition_score c t = Inr s \<Longrightarrow> 20 \<le> s \<and> s \<le> 100"
  unfolding calculate_competition_score_def
  using competition_of_ratio_range
  by (cases c) (auto simp: py_div_def split: if_splits)

lemma calculate_walkability_score_range:
  "calculate_walkability_score p = Inr s \<Longrightarrow> 20 \<le> s \<and> s \<le> 100"
  unfolding calculate_walkability_score_def
  by (cases p) (auto split: if_splits)

lemma score_components_of_range:
  assumes r: "score_components_of f cfg = Inr sc"
    and "0 < cfg_target_income_min cfg" "0 < cfg_target_income_max cfg"
  shows "components_in_range sc"
proof -
  from r obtain pop inc comp walk where
    "calculate_population_score (field_get_default (population_density f) 0)
       (cfg_optimal_population_density cfg) = Inr pop"
    "calculate_income_score (field_get_default (median_income f) 0)
       (cfg_target_income_min cfg) (cfg_target_income_max cfg) = Inr inc"
    "calculate_competition_score (field_get_default (competitors_per_1k_residents f) 0)
       (cfg_target_competitors_per_1k cfg) = Inr comp"
    "calculate_walkability_score (field_get_default (walkability_poi_count f) 0) = Inr walk"
    "sc = \<lparr>sc_population = pop, sc_income = inc,
           sc_access = calculate_access_score (field_get (nearest_metro_distance_m f))
                         (field_get (nearest_tram_distance_m f)),
           sc_competition = comp, sc_walkability = walk\<rparr>"
    unfolding score_components_of_def Let_def r_bind_Inr_iff by blast
  then show ?thesis
    using assms(2,3) calculate_access_score_range [of "field_get (nearest_metro_distance_m f)"
        "field_get (nearest_tram_distance_m f)"]
    by (auto simp: components_in_range_def
        dest!: calculate_population_score_range calculate_income_score_range
               calculate_competition_score_range calculate_walkability_score_range)
qed

lemma weighted_score_bounds:
  assumes "weights_nonneg w" "components_in_range sc"
  shows "0 \<le> weighted_score w sc \<and> weighted_score w sc \<le> 100 * weights_total w"
proof -
  have term_bounds: "0 \<le> a * x \<and> a * x \<le> a * 100" if "0 \<le> a" "0 \<le> x" "x \<le> (100::real)" for a x
    using that by (simp add: mult_left_mono)
  from assms show ?thesis
    unfolding weighted_score_def weights_total_def weights_nonneg_def components_in_range_def
    using term_bounds [of "w_population w" "sc_population sc"] term_bounds [of "w_income w" "sc_income sc"]
      term_bounds [of "w_access w" "sc_access sc"] term_bounds [of "w_competition w" "sc_competition sc"]
      term_bounds [of "w_walkability w" "sc_walkability sc"]
    by simp
qed

section \<open>Revenue and confidence\<close>


lemma calculate_confidence_range: "0.6 \<le> calculate_confidence f \<and> calculate_confidence f \<le> 1"
proof -
  let ?xs = "[field_get (population_density f), field_get (median_income f),
              field_get (competitors_count f), field_get (nearest_metro_distance_m f)]"
  have "count_present ?xs \<le> 4" using count_present_le [of ?xs] by simp
  then have "real (count_present ?xs) \<le> 4" by linarith
  then show ?thesis by (simp add: calculate_confidence_def Let_def)
qed

lemma calculate_revenue_floor:
  "calculate_revenue base pd mi cp cfg = Inr mid \<Longrightarrow> base * 0.5 \<le> mid"
  unfolding calculate_revenue_def Let_def r_bind_Inr_iff
  by (elim exE conjE) (simp split: if_splits add: r_map_Inr_iff)

lemma calculate_score_Inr:
  "calculate_score eng f c cid = Inr r \<longleftrightarrow>
   (\<exists>cfg u sc mid. get_concept_config eng c cid = Some (cfg, u) \<and> score_components_of f cfg = Inr sc
      \<and> calculate_revenue (cfg_base_revenue_eur cfg) (field_get_default (population_density f) 0)
          (field_get_default (median_income f) 0) (field_get_default (competitors_per_1k_residents f) 0)
          cfg = Inr mid
      \<and> r = score_result_of cfg u f sc mid)"
  by (auto simp: calculate_score_def r_bind_Inr_iff r_map_Inr_iff split: option.splits)

section \<open>Errors\<close>

lemma arith_error_basic [simp]:
  "arith_error TypeError" "arith_error ZeroDivisionError" "\<not> arith_error (ValueError m)"
  by (simp_all add: arith_error_def)








section \<open>The example evaluates\<close>

lemma ex_get_concept_config: "get_concept_config ex_engine ''QSR'' None = Some (ex_cfg, None)"
  by (simp add: ex_engine_def get_concept_config_def)

lemma ex_calculate_score: "calculate_score ex_engine ex_features ''QSR'' None = Inr ex_result"
  by (simp add: scoring_defs ex_scoring_defs Let_def py_round_def round_half_even_def)

lemma ex_cfg_ok: "config_ok ex_cfg \<and> weights_total (cfg_weights ex_cfg) \<le> 1 \<and> 0 \<le> cfg_base_revenue_eur ex_cfg"
  by (simp add: config_ok_def weights_nonneg_def weights_total_def ex_cfg_def ex_weights_def)

section \<open>Properties of the score\<close>

text \<open>
  C1: for a configuration with non-negative weights summing to at most 1 and positive
  income targets, the returned score lies in [0, 100].
\<close>

theorem calculate_score_bounds:
  assumes r: "calculate_score eng f c cid = Inr r"
    and cfg: "get_concept_config eng c cid = Some (cfg, u)"
    and ok: "config_ok cfg" and total: "weights_total (cfg_weights cfg) \<le> 1"
  shows "0 \<le> sr_score r \<and> sr_score r \<le> 100"
proof -
  from r cfg obtain sc mid where sc: "score_components_of f cfg = Inr sc"
    and rr: "r = score_result_of cfg u f sc mid"
    by (auto simp: calculate_score_Inr)
  from sc ok have "components_in_range sc"
    by (auto simp: config_ok_def intro: score_components_of_range)
  with ok have "0 \<le> weighted_score (cfg_weights cfg) sc \<and>
      weighted_score (cfg_weights cfg) sc \<le> 100 * weights_total (cfg_weights cfg)"
    by (simp add: config_ok_def weighted_score_bounds)
  with total have "of_int 0 \<le> weighted_score (cfg_weights cfg) sc \<and>
      weighted_score (cfg_weights cfg) sc \<le> of_int 100" by simp
  then show ?thesis
    using py_round_between [of 0 "weighted_score (cfg_weights cfg) sc" 100 1]
    by (simp add: rr score_result_of_def Let_def)
qed

theorem calculate_score_bounds_witness:
  "calculate_score ex_engine ex_features ''QSR'' None = Inr ex_result
   \<and> 0 \<le> sr_score ex_result \<and> sr_score ex_result \<le> 100"
  using calculate_score_bounds [OF ex_calculate_score ex_get_concept_config] ex_cfg_ok
    ex_calculate_score by simp

text \<open>
  C2: with a non-negative base revenue, the rounded revenue band is ordered:
  low \<open>\<le>\<close> mid \<open>\<le>\<close> high.
\<close>

theorem calculate_score_revenue_band:
  assumes r: "calculate_score eng f c cid = Inr r"
    and cfg: "get_concept_config eng c cid = Some (cfg, u)"
    and base: "0 \<le> cfg_base_revenue_eur cfg"
  shows "sr_revenue_low r \<le> sr_revenue_mid r \<and> sr_revenue_mid r \<le> sr_revenue_high r"
proof -
  from r cfg obtain sc mid where
    mid: "calculate_revenue (cfg_base_revenue_eur cfg) (field_get_default (population_density f) 0)
          (field_get_default (median_income f) 0) (field_get_default (competitors_per_1k_residents f) 0)
          cfg = Inr mid"
    and rr: "r = score_result_of cfg u f sc mid"
    by (auto simp: calculate_score_Inr)
  from mid base have "0 \<le> mid" using calculate_revenue_floor by fastforce
  moreover have "0 \<le> band_percent (calculate_confidence f) \<and> band_percent (calculate_confidence f) \<le> 1"
    using calculate_confidence_range [of f] unfolding band_percent_def by (auto simp: field_simps)
  ultimately have "mid * (1 - band_percent (calculate_confidence f)) \<le> mid"
      "mid \<le> mid * (1 + band_percent (calculate_confidence f))"
    by (simp_all add: mult_left_le mult_le_cancel_left1)
  then show ?thesis
    by (simp add: rr score_result_of_def Let_def round_half_even_mono)
qed

theorem calculate_score_revenue_band_witness:
  "sr_revenue_low ex_result \<le> sr_revenue_mid ex_result \<and> sr_revenue_mid ex_result \<le> sr_revenue_high ex_result"
  using calculate_score_revenue_band [OF ex_calculate_score ex_get_concept_config] ex_cfg_ok by simp



text \<open>
  C4: for a positive optimal density the population score is
  \<open>min(density / optimal, 1) * 100\<close>, and 0 for a non-positive density.
\<close>

theorem calculate_population_score_spec:
  assumes "0 < optimal"
  shows "calculate_population_score (Some d) optimal = Inr (if d \<le> 0 then 0 else min (d / optimal) 1 * 100)"
proof (cases "optimal \<le> d")
  case True
  then have "1 \<le> d / optimal" using assms by simp
  with True assms show ?thesis by (simp add: calculate_population_score_def)
next
  case False
  then have "d / optimal \<le> 1" using assms by simp
  with False assms show ?thesis by (simp add: calculate_population_score_def)
qed

theorem calculate_population_score_spec_witness:
  "calculate_population_score (Some 0) 10000 = Inr 0 \<and> calculate_population_score (Some 10000) 10000 = Inr 100
   \<and> calculate_population_score (Some 20000) 10000 = Inr 100
   \<and> calculate_population_score (Some 5000) 10000 = Inr 50"
  using calculate_population_score_spec [of 10000 0] calculate_population_score_spec [of 10000 10000]
    calculate_population_score_spec [of 10000 20000] calculate_population_score_spec [of 10000 5000]
  by simp

text \<open>
  Competition at exactly the target ratio scores 100, no competitors at all scores
  40, and three times the target ratio is floored at 20.
\<close>

theorem calculate_competition_score_points:
  assumes "0 < t"
  shows "calculate_competition_score (Some t) t = Inr 100 \<and> calculate_competition_score (Some 0) t = Inr 40
    \<and> calculate_competition_score (Some (3 * t)) t = Inr 20"
  using assms by (simp add: calculate_competition_score_def competition_of_ratio_def)

theorem calculate_competition_score_points_witness:
  "calculate_competition_score (Some 2) 2 = Inr 100 \<and> calculate_competition_score (Some 0) 2 = Inr 40
   \<and> calculate_competition_score (Some 6) 2 = Inr 20"
  using calculate_competition_score_points [of 2] by simp

text \<open>
  C6: a feature dictionary whose \<open>population_density\<close> key holds \<open>None\<close> (what the
  data collector stores when the population grid fails) makes \<open>calculate_score\<close>
  raise \<open>TypeError\<close> for every known concept, instead of degrading to a neutral value.
\<close>

theorem calculate_score_none_density:
  assumes "get_concept_config eng c cid = Some x" "population_density f = PyNone"
  shows "calculate_score eng f c cid = Inl TypeError"
  using assms
  by (cases x) (simp add: calculate_score_def score_components_of_def calculate_population_score_def)

theorem calculate_score_none_density_witness:
  "calculate_score ex_engine (ex_features\<lparr>population_density := PyNone\<rparr>) ''QSR'' None = Inl TypeError"
  using calculate_score_none_density [OF ex_get_concept_config, of "ex_features\<lparr>population_density := PyNone\<rparr>"]
  by simp



end
