(* ===== verification/Learner.thy ===== *)
theory Learner
  imports DataModel
begin

text \<open>
  The outcome-learning engine of \<open>src/backend/services/concept_learner.py\<close>
  (class \<open>ConceptLearner\<close>). The database session is an explicit state: the
  \<open>Concept\<close> rows, the \<open>ConceptTrainingOutcome\<close> rows and the \<open>Prediction\<close>
  rows, each a list in query order, with the next autoincrement id and the clock
  \<open>datetime.utcnow()\<close>. An operation returns the new state or an error; an error
  leaves the state unchanged, as the uncommitted transaction is discarded.
\<close>

section \<open>State\<close>

record learner_db =
  ld_concepts :: "concept list"
  ld_outcomes :: "training_outcome list"
  ld_predictions :: "prediction list"
  ld_next_id :: nat
  ld_now :: nat

definition MIN_OUTCOMES_FOR_TRAINING :: nat where "MIN_OUTCOMES_FOR_TRAINING = 5"
definition MIN_OUTCOMES_FOR_WEIGHTS :: nat where "MIN_OUTCOMES_FOR_WEIGHTS = 20"

section \<open>Correlation\<close>

text \<open>
  \<open>_calculate_correlation\<close>: Pearson's coefficient over the pairs where neither
  value is \<open>None\<close>; 0 for unequal lengths, fewer than two pairs, or a zero
  denominator. \<open>(x_variance * y_variance) ** 0.5\<close> of a non-negative float is its
  square root.
\<close>

definition calculate_correlation :: "real option list \<Rightarrow> real option list \<Rightarrow> real" where
  "calculate_correlation x y =
     (if length x \<noteq> length y \<or> length x < 2 then 0
      else
        let pairs = [(the a, the b). (a, b) \<leftarrow> zip x y, a \<noteq> None \<and> b \<noteq> None]
        in if length pairs < 2 then 0
           else
             let xs = map fst pairs; ys = map snd pairs;
                 x_mean = sum_list xs / real (length xs);
                 y_mean = sum_list ys / real (length ys);
                 numerator = sum_list (map (\<lambda>(a, b). (a - x_mean) * (b - y_mean)) pairs);
                 x_variance = sum_list (map (\<lambda>a. (a - x_mean)\<^sup>2) xs);
                 y_variance = sum_list (map (\<lambda>b. (b - y_mean)\<^sup>2) ys);
                 denominator = sqrt (x_variance * y_variance)
             in if denominator = 0 then 0 else numerator / denominator)"

section \<open>Weight optimisation\<close>

text \<open>
  The weights dictionary is built in the key order population, income, access,
  competition, walkability; \<open>max(d, key=d.get)\<close> returns the first key of
  greatest value in that order.
\<close>

datatype weight_key = KPopulation | KIncome | KAccess | KCompetition | KWalkability

definition weight_keys :: "weight_key list" where
  "weight_keys = [KPopulation, KIncome, KAccess, KCompetition, KWalkability]"

fun get_weight :: "weights \<Rightarrow> weight_key \<Rightarrow> real" where
  "get_weight w KPopulation = w_population w"
| "get_weight w KIncome = w_income w"
| "get_weight w KAccess = w_access w"
| "get_weight w KCompetition = w_competition w"
| "get_weight w KWalkability = w_walkability w"

fun set_weight :: "weights \<Rightarrow> weight_key \<Rightarrow> real \<Rightarrow> weights" where
  "set_weight w KPopulation v = w\<lparr>w_population := v\<rparr>"
| "set_weight w KIncome v = w\<lparr>w_income := v\<rparr>"
| "set_weight w KAccess v = w\<lparr>w_access := v\<rparr>"
| "set_weight w KCompetition v = w\<lparr>w_competition := v\<rparr>"
| "set_weight w KWalkability v = w\<lparr>w_walkability := v\<rparr>"

definition max_key :: "weights \<Rightarrow> weight_key" where
  "max_key w = foldl (\<lambda>best k. if get_weight w best < get_weight w k then k else best)
                 KPopulation (tl weight_keys)"

definition map_weights :: "(real \<Rightarrow> real) \<Rightarrow> weights \<Rightarrow> weights" where
  "map_weights g w = \<lparr>w_population = g (w_population w), w_income = g (w_income w),
     w_access = g (w_access w), w_competition = g (w_competition w),
     w_walkability = g (w_walkability w)\<rparr>"

text \<open>
  The feature columns of one training outcome: \<open>features.get(k, default)\<close> per
  factor; \<open>1 / (metro + 1)\<close> raises \<open>TypeError\<close> when the snapshot holds
  \<open>None\<close> under \<open>nearest_metro_distance_m\<close>.
\<close>

definition outcome_feature_row :: "features \<Rightarrow> (real option \<times> real option \<times> real option \<times> real option \<times> real option) result" where
  "outcome_feature_row f =
     (let access = (case field_get_default (nearest_metro_distance_m f) 1000 of
                      None \<Rightarrow> Inl TypeError
                    | Some d \<Rightarrow> r_map Some (py_div 1 (d + 1)))
      in r_map (\<lambda>a. (field_get_default (population_density f) 0, field_get_default (median_income f) 0, a,
                     field_get_default (competitors_per_1k_residents f) 0,
                     field_get_default (walkability_poi_count f) 0)) access)"

fun collect_feature_rows ::
  "training_outcome list \<Rightarrow> ((real option \<times> real option \<times> real option \<times> real option \<times> real option) \<times> real) list result" where
  "collect_feature_rows [] = Inr []"
| "collect_feature_rows (o1 # os) =
     (case features_used o1 of
        None \<Rightarrow> collect_feature_rows os
      | Some f \<Rightarrow>
          if features_empty f then collect_feature_rows os
          else r_bind (outcome_feature_row f) (\<lambda>row.
               r_map (\<lambda>rest. (row, actual_revenue_eur o1) # rest) (collect_feature_rows os)))"

text \<open>
  Normalisation of the absolute correlations: each is divided by their sum and rounded
  to two decimals; when the rounded weights do not sum to 1, the first largest one
  absorbs the residual, rounded again. \<open>None\<close> when the correlations sum to 0.
\<close>

definition normalize_weights :: "weights \<Rightarrow> weights option" where
  "normalize_weights correlations =
     (let total_corr = weights_total correlations
      in if total_corr = 0 then None
         else
           let new_weights = map_weights (\<lambda>c. py_round 2 (c / total_corr)) correlations;
               weight_sum = weights_total new_weights
           in if weight_sum \<noteq> 1 then
                (let k = max_key new_weights
                 in Some (set_weight new_weights k
                            (py_round 2 (get_weight new_weights k + (1 - weight_sum)))))
              else Some new_weights)"

definition optimize_weights :: "training_outcome list \<Rightarrow> weights \<Rightarrow> weights option result" where
  "optimize_weights outcomes current =
     (if length outcomes < MIN_OUTCOMES_FOR_WEIGHTS then Inr None
      else r_map (\<lambda>rows.
        let revs = map (\<lambda>r. Some (snd r)) rows;
            col = (\<lambda>sel. map (\<lambda>r. sel (fst r)) rows);
            corr = (\<lambda>sel. \<bar>calculate_correlation (col sel) revs\<bar>)
        in normalize_weights
             \<lparr>w_population = corr (\<lambda>(p, i, a, c, w). p),
              w_income = corr (\<lambda>(p, i, a, c, w). i),
              w_access = corr (\<lambda>(p, i, a, c, w). a),
              w_competition = corr (\<lambda>(p, i, a, c, w). c),
              w_walkability = corr (\<lambda>(p, i, a, c, w). w)\<rparr>)
        (collect_feature_rows outcomes))"

section \<open>Retraining\<close>

definition variance_band :: "real \<Rightarrow> nat \<Rightarrow> real" where
  "variance_band mape n =
     (if mape < 10 then 0.10 else if mape < 15 then 0.12 else if mape < 20 then 0.15
      else max (0.20 - real n * 0.005) 0.15)"

definition concept_outcomes :: "learner_db \<Rightarrow> string \<Rightarrow> training_outcome list" where
  "concept_outcomes db cid = filter (\<lambda>o1. to_concept_id o1 = cid) (ld_outcomes db)"

text \<open>The attribute writes of a retraining pass on the concept row.\<close>

definition trained_concept ::
  "concept \<Rightarrow> real \<Rightarrow> real \<Rightarrow> nat \<Rightarrow> nat \<Rightarrow> weights option \<Rightarrow> concept" where
  "trained_concept c new_base_revenue mape n now optimized =
     (let t = c\<lparr>base_revenue_eur := py_int new_base_revenue,
                revenue_variance := variance_band mape n,
                avg_prediction_error := Some mape,
                last_trained_at := Some now\<rparr>
      in case optimized of None \<Rightarrow> t | Some w \<Rightarrow> t\<lparr>c_weights := w\<rparr>)"

definition mark_outcomes_used :: "learner_db \<Rightarrow> string \<Rightarrow> learner_db" where
  "mark_outcomes_used db cid =
     db\<lparr>ld_outcomes := map (\<lambda>o1. if to_concept_id o1 = cid then o1\<lparr>used_in_training := True\<rparr>
                                  else o1) (ld_outcomes db)\<rparr>"

definition retrain_concept :: "learner_db \<Rightarrow> string \<Rightarrow> learner_db result" where
  "retrain_concept db cid =
     (case find (\<lambda>c. c_id c = cid) (ld_concepts db) of
        None \<Rightarrow> Inr db
      | Some concept \<Rightarrow>
          let outcomes = concept_outcomes db cid; n = length outcomes
          in if n < MIN_OUTCOMES_FOR_TRAINING then Inr db
             else
               r_bind (py_median (map actual_revenue_eur outcomes)) (\<lambda>new_base_revenue.
               r_bind (py_mean (map (\<lambda>o1. \<bar>variance_pct o1\<bar>) outcomes)) (\<lambda>mape.
               r_map (\<lambda>optimized.
                   mark_outcomes_used
                     (db\<lparr>ld_concepts := update_first (\<lambda>c. c_id c = cid)
                          (\<lambda>_. trained_concept concept new_base_revenue mape n (ld_now db) optimized)
                          (ld_concepts db)\<rparr>) cid)
                 (if MIN_OUTCOMES_FOR_WEIGHTS \<le> n then optimize_weights outcomes (c_weights concept)
                  else Inr None))))"

section \<open>Recording an outcome\<close>

record outcome_response =
  training_outcome_id :: "nat option"
  resp_variance_pct :: real
  triggered_retraining :: bool
  new_accuracy :: "real option"
  resp_outcomes_count :: "nat option"

text \<open>The \<open>ConceptTrainingOutcome\<close> row \<open>record_outcome\<close> stores.\<close>

definition new_training_outcome ::
  "prediction \<Rightarrow> string \<Rightarrow> real \<Rightarrow> real \<Rightarrow> nat \<Rightarrow> nat \<Rightarrow> training_outcome" where
  "new_training_outcome prediction cid actual_revenue variance opened oid =
     \<lparr>to_id = oid, to_concept_id = cid, to_prediction_id = pred_id prediction,
      predicted_revenue_eur = pred_revenue_mid prediction,
      predicted_score = pred_score prediction,
      features_used = pred_features prediction,
      actual_revenue_eur = actual_revenue, variance_pct = variance,
      opened_at = opened, used_in_training = False, training_weight = 1\<rparr>"

text \<open>\<open>db.add(training_outcome); db.flush()\<close> and \<open>concept.outcomes_count += 1\<close>.\<close>

definition store_outcome :: "learner_db \<Rightarrow> string \<Rightarrow> training_outcome \<Rightarrow> learner_db" where
  "store_outcome db cid t_o =
     db\<lparr>ld_outcomes := ld_outcomes db @ [t_o], ld_next_id := Suc (ld_next_id db),
        ld_concepts := update_first (\<lambda>c. c_id c = cid)
                         (\<lambda>c. c\<lparr>outcomes_count := outcomes_count c + 1\<rparr>) (ld_concepts db)\<rparr>"

definition no_learning_response :: outcome_response where
  "no_learning_response = \<lparr>training_outcome_id = None, resp_variance_pct = 0,
     triggered_retraining = False, new_accuracy = None, resp_outcomes_count = None\<rparr>"

definition record_outcome ::
  "learner_db \<Rightarrow> nat \<Rightarrow> real \<Rightarrow> nat \<Rightarrow> (outcome_response \<times> learner_db) result" where
  "record_outcome db prediction_id actual_revenue opened =
     (case find (\<lambda>p. pred_id p = prediction_id) (ld_predictions db) of
        None \<Rightarrow> Inl (ValueError ''Prediction not found'')
      | Some prediction \<Rightarrow>
          (case pred_concept_id prediction of
             None \<Rightarrow> Inr (no_learning_response, db)
           | Some cid \<Rightarrow>
               if cid = [] then Inr (no_learning_response, db)
               else
               r_bind (py_div (actual_revenue - pred_revenue_mid prediction) (pred_revenue_mid prediction))
                 (\<lambda>q.
               let variance = q * 100;
                   oid = ld_next_id db;
                   t_o = new_training_outcome prediction cid actual_revenue variance opened oid
               in if list_ex (\<lambda>o1. to_prediction_id o1 = prediction_id) (ld_outcomes db)
                  then Inl IntegrityError
                  else
                  (case find (\<lambda>c. c_id c = cid) (ld_concepts db) of
                     None \<Rightarrow> Inl AttributeError
                   | Some concept \<Rightarrow>
                       let new_count = outcomes_count concept + 1;
                           db1 = store_outcome db cid t_o
                       in if MIN_OUTCOMES_FOR_TRAINING \<le> new_count then
                            r_map (\<lambda>db2.
                              (\<lparr>training_outcome_id = Some oid,
                                 resp_variance_pct = py_round 2 variance,
                                 triggered_retraining = True,
                                 new_accuracy = (case find (\<lambda>c. c_id c = cid) (ld_concepts db2) of
                                                   None \<Rightarrow> None | Some c \<Rightarrow> avg_prediction_error c),
                                 resp_outcomes_count = Some new_count\<rparr>, db2))
                              (retrain_concept db1 cid)
                          else Inr (\<lparr>training_outcome_id = Some oid,
                                      resp_variance_pct = py_round 2 variance,
                                      triggered_retraining = False, new_accuracy = None,
                                      resp_outcomes_count = Some new_count\<rparr>, db1)))))"

section \<open>Failure condition and example states\<close>


text \<open>
  Example rows used by the witnesses: a concept \<open>c1\<close>, outcomes with the revenues of the
  specification's learning example, a prediction of concept \<open>c1\<close>, and feature
  snapshots that hold only a population density.
\<close>

definition ex_concept :: concept where
  "ex_concept = \<lparr>c_id = ''c1'', customer_id = ''cust'', c_name = ''QSR'', category = ''QSR'',
     description = None, base_revenue_eur = 100000, revenue_variance = 0.2, target_income_min = 30000,
     target_income_max = 50000, optimal_population_density = 10000, target_competitors_per_1k = 2,
     c_weights = \<lparr>w_population = 0.3, w_income = 0.2, w_access = 0.2, w_competition = 0.2,
                   w_walkability = 0.1\<rparr>,
     outcomes_count = 0, avg_prediction_error = None, last_trained_at = None,
     is_system_default = False, is_active = True\<rparr>"

definition ex_features_pop :: "real \<Rightarrow> features" where
  "ex_features_pop d = \<lparr>population_1km = Missing, population_density = Present d,
     median_income = Missing, competitors_count = Missing, competitors_per_1k_residents = Missing,
     nearest_metro_distance_m = Missing, nearest_tram_distance_m = Missing,
     walkability_poi_count = Missing\<rparr>"

definition ex_outcome :: "nat \<Rightarrow> real \<Rightarrow> features option \<Rightarrow> training_outcome" where
  "ex_outcome i actual f = \<lparr>to_id = i, to_concept_id = ''c1'', to_prediction_id = i,
     predicted_revenue_eur = 100000, predicted_score = 80, features_used = f,
     actual_revenue_eur = actual, variance_pct = (actual - 100000) / 100000 * 100,
     opened_at = 0, used_in_training = False, training_weight = 1\<rparr>"

definition ex_learner_db :: learner_db where
  "ex_learner_db = \<lparr>ld_concepts = [ex_concept],
     ld_outcomes = [ex_outcome 1 100000 None, ex_outcome 2 120000 None, ex_outcome 3 150000 None,
                    ex_outcome 4 90000 None, ex_outcome 5 110000 None],
     ld_predictions = [], ld_next_id = 6, ld_now = 1000\<rparr>"

definition ex_weight_outcomes :: "training_outcome list" where
  "ex_weight_outcomes = replicate 10 (ex_outcome 1 100000 (Some (ex_features_pop 0)))
     @ replicate 10 (ex_outcome 2 200000 (Some (ex_features_pop 1)))"

definition ex_prediction :: "string option \<Rightarrow> prediction" where
  "ex_prediction cid = \<lparr>pred_id = 7, pred_concept_id = cid, pred_latitude = 60.17,
     pred_longitude = 24.94, pred_score = 80, pred_revenue_low = 80000, pred_revenue_mid = 100000,
     pred_revenue_high = 120000, pred_confidence = 0.9, pred_features = None\<rparr>"

definition ex_record_db :: "string option \<Rightarrow> training_outcome list \<Rightarrow> learner_db" where
  "ex_record_db cid os = \<lparr>ld_concepts = [ex_concept], ld_outcomes = os,
     ld_predictions = [ex_prediction cid], ld_next_id = 8, ld_now = 1000\<rparr>"

definition ex_bad_outcome :: training_outcome where
  "ex_bad_outcome = ex_outcome 1 100000
     (Some ((ex_features_pop 5000)\<lparr>nearest_metro_distance_m := PyNone\<rparr>))"

lemmas ex_learner_defs = ex_concept_def ex_features_pop_def ex_outcome_def ex_learner_db_def
  ex_weight_outcomes_def ex_prediction_def ex_record_db_def ex_bad_outcome_def

section \<open>Weight optimisation: lemmas\<close>





lemma get_weight_map_weights [simp]: "get_weight (map_weights g w) k = g (get_weight w k)"
  by (cases k) (simp_all add: map_weights_def)





section \<open>Retraining and recording: lemmas\<close>

lemma retrain_concept_trained:
  assumes c: "find (\<lambda>c. c_id c = cid) (ld_concepts db) = Some c"
    and n: "MIN_OUTCOMES_FOR_TRAINING \<le> length (concept_outcomes db cid)"
    and r: "retrain_concept db cid = Inr db'"
  shows "\<exists>m mape opt. py_median (map actual_revenue_eur (concept_outcomes db cid)) = Inr m
     \<and> py_mean (map (\<lambda>o1. \<bar>variance_pct o1\<bar>) (concept_outcomes db cid)) = Inr mape
     \<and> find (\<lambda>c. c_id c = cid) (ld_concepts db') =
         Some (trained_concept c m mape (length (concept_outcomes db cid)) (ld_now db) opt)"
proof -
  from r c n obtain m mape opt where
    "py_median (map actual_revenue_eur (concept_outcomes db cid)) = Inr m"
    "py_mean (map (\<lambda>o1. \<bar>variance_pct o1\<bar>) (concept_outcomes db cid)) = Inr mape"
    "db' = mark_outcomes_used (db\<lparr>ld_concepts := update_first (\<lambda>c. c_id c = cid)
              (\<lambda>_. trained_concept c m mape (length (concept_outcomes db cid)) (ld_now db) opt)
              (ld_concepts db)\<rparr>) cid"
    unfolding retrain_concept_def Let_def by (auto simp: r_bind_Inr_iff r_map_Inr_iff)
  moreover have "c_id (trained_concept c m mape (length (concept_outcomes db cid)) (ld_now db) opt) = cid"
    using find_Some_P [OF c] by (simp add: trained_concept_def Let_def split: option.splits)
  ultimately show ?thesis
    using c by (auto simp: mark_outcomes_used_def intro!: find_update_first_Some)
qed

lemma trained_concept_frame:
  "c_id (trained_concept c b m n t opt) = c_id c \<and> outcomes_count (trained_concept c b m n t opt) = outcomes_count c"
  by (simp add: trained_concept_def Let_def split: option.splits)

lemma retrain_concept_frame:
  assumes "retrain_concept db cid = Inr db'"
  shows "map to_prediction_id (ld_outcomes db') = map to_prediction_id (ld_outcomes db)
    \<and> ld_predictions db' = ld_predictions db
    \<and> map c_id (ld_concepts db') = map c_id (ld_concepts db)
    \<and> map outcomes_count (ld_concepts db') = map outcomes_count (ld_concepts db)"
proof (cases "find (\<lambda>c. c_id c = cid) (ld_concepts db)")
  case None
  with assms show ?thesis by (simp add: retrain_concept_def)
next
  case (Some c)
  show ?thesis
  proof (cases "length (concept_outcomes db cid) < MIN_OUTCOMES_FOR_TRAINING")
    case True
    with assms Some show ?thesis by (simp add: retrain_concept_def Let_def)
  next
    case False
    with assms Some obtain m mape opt where
      "db' = mark_outcomes_used (db\<lparr>ld_concepts := update_first (\<lambda>c. c_id c = cid)
              (\<lambda>_. trained_concept c m mape (length (concept_outcomes db cid)) (ld_now db) opt)
              (ld_concepts db)\<rparr>) cid"
      unfolding retrain_concept_def Let_def by (auto simp: r_bind_Inr_iff r_map_Inr_iff)
    then show ?thesis
      using Some by (simp add: mark_outcomes_used_def comp_def map_update_first_eq trained_concept_frame)
  qed
qed

lemma record_outcome_concept_Inr:
  assumes r: "record_outcome db pid a t = Inr (resp, db')"
    and p: "find (\<lambda>p. pred_id p = pid) (ld_predictions db) = Some p"
    and cid: "pred_concept_id p = Some cid" "cid \<noteq> []"
  obtains (retrained) c q where "find (\<lambda>c. c_id c = cid) (ld_concepts db) = Some c"
      "\<not> list_ex (\<lambda>o1. to_prediction_id o1 = pid) (ld_outcomes db)"
      "py_div (a - pred_revenue_mid p) (pred_revenue_mid p) = Inr q"
      "MIN_OUTCOMES_FOR_TRAINING \<le> outcomes_count c + 1"
      "retrain_concept (store_outcome db cid (new_training_outcome p cid a (q * 100) t (ld_next_id db))) cid
         = Inr db'"
      "triggered_retraining resp"
  | (stored) c q where "find (\<lambda>c. c_id c = cid) (ld_concepts db) = Some c"
      "\<not> list_ex (\<lambda>o1. to_prediction_id o1 = pid) (ld_outcomes db)"
      "py_div (a - pred_revenue_mid p) (pred_revenue_mid p) = Inr q"
      "\<not> MIN_OUTCOMES_FOR_TRAINING \<le> outcomes_count c + 1"
      "db' = store_outcome db cid (new_training_outcome p cid a (q * 100) t (ld_next_id db))"
      "\<not> triggered_retraining resp"
  using r p cid
  by (auto simp: record_outcome_def Let_def r_bind_Inr_iff r_map_Inr_iff split: option.splits if_splits)

lemma map_pair_eq:
  "map f ys = map f xs \<Longrightarrow> map g ys = map g xs \<Longrightarrow> map (\<lambda>c. (f c, g c)) ys = map (\<lambda>c. (f c, g c)) xs"
proof (induction ys arbitrary: xs)
  case Nil then show ?case by simp
next
  case (Cons y ys)
  then obtain x xs' where "xs = x # xs'" by (cases xs) auto
  with Cons show ?case by simp
qed

lemma retrain_concept_keys:
  assumes "retrain_concept db cid = Inr db'"
  shows "map (\<lambda>c. (c_id c, outcomes_count c)) (ld_concepts db') = map (\<lambda>c. (c_id c, outcomes_count c)) (ld_concepts db)"
proof -
  from retrain_concept_frame [OF assms] have
    "map c_id (ld_concepts db') = map c_id (ld_concepts db)"
    "map outcomes_count (ld_concepts db') = map outcomes_count (ld_concepts db)" by simp_all
  then show ?thesis by (rule map_pair_eq)
qed

lemma concept_key_frame:
  assumes "map (\<lambda>c. (c_id c, outcomes_count c)) ys = map (\<lambda>c. (c_id c, outcomes_count c)) xs"
    and "find (\<lambda>c. c_id c = cid) xs = Some x"
  shows "\<exists>y. find (\<lambda>c. c_id c = cid) ys = Some y \<and> outcomes_count y = outcomes_count x"
  using assms
proof (induction ys arbitrary: xs)
  case Nil then show ?case by simp
next
  case (Cons y ys)
  obtain x' xs' where xs: "xs = x' # xs'" using Cons.prems(1) by (cases xs) auto
  with Cons.prems(1) have hd: "c_id y = c_id x'" "outcomes_count y = outcomes_count x'"
    and tl: "map (\<lambda>c. (c_id c, outcomes_count c)) ys = map (\<lambda>c. (c_id c, outcomes_count c)) xs'"
    by simp_all
  show ?case
  proof (cases "c_id y = cid")
    case True
    with Cons.prems(2) xs hd show ?thesis by auto
  next
    case False
    with Cons.prems(2) xs hd have "find (\<lambda>c. c_id c = cid) xs' = Some x" by auto
    with Cons.IH [OF tl] False show ?thesis by auto
  qed
qed

lemma store_outcome_concept:
  assumes c: "find (\<lambda>c. c_id c = cid) (ld_concepts db) = Some c"
  shows "find (\<lambda>c. c_id c = cid) (ld_concepts (store_outcome db cid t_o))
           = Some (c\<lparr>outcomes_count := outcomes_count c + 1\<rparr>)
    \<and> length (ld_outcomes (store_outcome db cid t_o)) = Suc (length (ld_outcomes db))
    \<and> map to_prediction_id (ld_outcomes (store_outcome db cid t_o))
           = map to_prediction_id (ld_outcomes db) @ [to_prediction_id t_o]"
  using c find_Some_P [OF c] by (simp add: store_outcome_def find_update_first_Some)

section \<open>Properties of the learner\<close>

text \<open>
  C8. A retraining pass over at least \<open>MIN_OUTCOMES_FOR_TRAINING\<close> outcomes of a
  concept sets its base revenue to \<open>int\<close> of the median actual revenue, its average
  prediction error to the mean absolute variance (MAPE), its revenue band to the tier
  of that MAPE and its training time to the clock, and keeps its outcome counter.
\<close>

theorem retrain_concept_parameters:
  assumes c: "find (\<lambda>c. c_id c = cid) (ld_concepts db) = Some c"
    and n: "MIN_OUTCOMES_FOR_TRAINING \<le> length (concept_outcomes db cid)"
    and r: "retrain_concept db cid = Inr db'"
  shows "\<exists>m mape c'. py_median (map actual_revenue_eur (concept_outcomes db cid)) = Inr m
     \<and> py_mean (map (\<lambda>o1. \<bar>variance_pct o1\<bar>) (concept_outcomes db cid)) = Inr mape
     \<and> find (\<lambda>c. c_id c = cid) (ld_concepts db') = Some c'
     \<and> base_revenue_eur c' = py_int m
     \<and> revenue_variance c' = variance_band mape (length (concept_outcomes db cid))
     \<and> avg_prediction_error c' = Some mape \<and> last_trained_at c' = Some (ld_now db)
     \<and> outcomes_count c' = outcomes_count c"
proof -
  obtain m mape opt where
    "py_median (map actual_revenue_eur (concept_outcomes db cid)) = Inr m"
    "py_mean (map (\<lambda>o1. \<bar>variance_pct o1\<bar>) (concept_outcomes db cid)) = Inr mape"
    "find (\<lambda>c. c_id c = cid) (ld_concepts db') =
       Some (trained_concept c m mape (length (concept_outcomes db cid)) (ld_now db) opt)"
    using retrain_concept_trained [OF c n r] by blast
  then show ?thesis by (cases opt) (auto simp: trained_concept_def)
qed

theorem retrain_concept_parameters_witness:
  "\<exists>db'. retrain_concept ex_learner_db ''c1'' = Inr db'
     \<and> (\<exists>c'. find (\<lambda>c. c_id c = ''c1'') (ld_concepts db') = Some c'
          \<and> base_revenue_eur c' = 110000 \<and> revenue_variance c' = 0.15
          \<and> avg_prediction_error c' = Some 18 \<and> last_trained_at c' = Some 1000)"
proof -
  have c: "find (\<lambda>c. c_id c = ''c1'') (ld_concepts ex_learner_db) = Some ex_concept"
    by (simp add: ex_learner_defs)
  have n: "MIN_OUTCOMES_FOR_TRAINING \<le> length (concept_outcomes ex_learner_db ''c1'')"
    by (simp add: ex_learner_defs concept_outcomes_def MIN_OUTCOMES_FOR_TRAINING_def)
  have med: "py_median (map actual_revenue_eur (concept_outcomes ex_learner_db ''c1'')) = Inr 110000"
    by (simp add: ex_learner_defs concept_outcomes_def py_median_def)
  have mean: "py_mean (map (\<lambda>o1. \<bar>variance_pct o1\<bar>) (concept_outcomes ex_learner_db ''c1'')) = Inr 18"
    by (simp add: ex_learner_defs concept_outcomes_def py_mean_def)
  obtain db' where r: "retrain_concept ex_learner_db ''c1'' = Inr db'"
    using c n med mean
    by (simp add: retrain_concept_def Let_def MIN_OUTCOMES_FOR_TRAINING_def MIN_OUTCOMES_FOR_WEIGHTS_def
        ex_learner_defs concept_outcomes_def)
  have "ld_now ex_learner_db = 1000" by (simp add: ex_learner_db_def)
  then show ?thesis
    using retrain_concept_parameters [OF c n r] med mean r by (auto simp: variance_band_def py_int_def)
qed

text \<open>
  C9. The revenue band a retraining pass chooses lies between 10\% and 20\%, never
  narrows when the MAPE grows, and never widens when the number of outcomes grows.
\<close>

theorem variance_band_bounds:
  assumes "m1 \<le> m2" and "n2 \<le> n1"
  shows "0.10 \<le> variance_band m1 n1 \<and> variance_band m1 n1 \<le> variance_band m2 n2
    \<and> variance_band m2 n2 \<le> 0.20"
  using assms unfolding variance_band_def by (auto simp: max_def)

theorem variance_band_bounds_witness:
  "0.10 \<le> variance_band 5 30 \<and> variance_band 5 30 \<le> variance_band 25 5 \<and> variance_band 25 5 \<le> 0.20"
  using variance_band_bounds [of 5 25 5 30] by simp



text \<open>
  C11. Recording an outcome for a prediction of a concept increments the concept's
  outcome counter by one, stores exactly one training outcome, and triggers retraining
  exactly when the new count reaches \<open>MIN_OUTCOMES_FOR_TRAINING\<close>.
\<close>

theorem record_outcome_counts:
  assumes r: "record_outcome db pid a t = Inr (resp, db')"
    and p: "find (\<lambda>p. pred_id p = pid) (ld_predictions db) = Some p"
    and cid: "pred_concept_id p = Some cid" "cid \<noteq> []"
  shows "\<exists>c c'. find (\<lambda>c. c_id c = cid) (ld_concepts db) = Some c
     \<and> find (\<lambda>c. c_id c = cid) (ld_concepts db') = Some c'
     \<and> outcomes_count c' = Suc (outcomes_count c)
     \<and> length (ld_outcomes db') = Suc (length (ld_outcomes db))
     \<and> triggered_retraining resp = (MIN_OUTCOMES_FOR_TRAINING \<le> outcomes_count c')"
  using r p cid
proof (cases rule: record_outcome_concept_Inr)
  case (retrained c q)
  let ?db1 = "store_outcome db cid (new_training_outcome p cid a (q * 100) t (ld_next_id db))"
  note s1 = store_outcome_concept [OF retrained(1), of "new_training_outcome p cid a (q * 100) t (ld_next_id db)"]
  obtain c' where "find (\<lambda>c. c_id c = cid) (ld_concepts db') = Some c'"
      "outcomes_count c' = outcomes_count c + 1"
    using concept_key_frame [OF retrain_concept_keys [OF retrained(5)] s1 [THEN conjunct1]] by auto
  moreover have "length (ld_outcomes db') = length (ld_outcomes ?db1)"
    using retrain_concept_frame [OF retrained(5)] by (metis length_map)
  ultimately show ?thesis using retrained s1 by auto
next
  case (stored c q)
  then show ?thesis using store_outcome_concept [OF stored(1)] by auto
qed

theorem record_outcome_counts_witness:
  "\<exists>resp db'. record_outcome (ex_record_db (Some ''c1'') []) 7 120000 0 = Inr (resp, db')
     \<and> (\<exists>c c'. find (\<lambda>c. c_id c = ''c1'') (ld_concepts (ex_record_db (Some ''c1'') [])) = Some c
       \<and> find (\<lambda>c. c_id c = ''c1'') (ld_concepts db') = Some c'
       \<and> outcomes_count c' = Suc (outcomes_count c)
       \<and> length (ld_outcomes db') = Suc (length (ld_outcomes (ex_record_db (Some ''c1'') [])))
       \<and> triggered_retraining resp = (MIN_OUTCOMES_FOR_TRAINING \<le> outcomes_count c'))"
proof -
  obtain resp db' where r: "record_outcome (ex_record_db (Some ''c1'') []) 7 120000 0 = Inr (resp, db')"
    by (simp add: record_outcome_def ex_learner_defs store_outcome_def MIN_OUTCOMES_FOR_TRAINING_def)
  have p: "find (\<lambda>p. pred_id p = 7) (ld_predictions (ex_record_db (Some ''c1'') []))
      = Some (ex_prediction (Some ''c1''))"
    by (simp add: ex_record_db_def ex_prediction_def)
  show ?thesis
    using record_outcome_counts [OF r p] r by (simp add: ex_prediction_def)
qed

text \<open>
  Recording an outcome keeps the prediction ids of the training outcomes
  distinct: at most one outcome is ever stored per prediction.
\<close>

theorem record_outcome_unique:
  assumes r: "record_outcome db pid a t = Inr (resp, db')"
    and d: "distinct (map to_prediction_id (ld_outcomes db))"
  shows "distinct (map to_prediction_id (ld_outcomes db'))"
proof (cases "find (\<lambda>p. pred_id p = pid) (ld_predictions db)")
  case None
  with r show ?thesis by (simp add: record_outcome_def)
next
  case (Some p)
  have pid: "pred_id p = pid" using find_Some_P [OF Some] by simp
  show ?thesis
  proof (cases "pred_concept_id p = None \<or> pred_concept_id p = Some []")
    case True
    with r Some d show ?thesis by (auto simp: record_outcome_def)
  next
    case False
    then obtain cid where cid: "pred_concept_id p = Some cid" "cid \<noteq> []" by auto
    have fresh_distinct: "distinct (map to_prediction_id (ld_outcomes
        (store_outcome db cid (new_training_outcome p cid a v t n))))"
      if "\<not> list_ex (\<lambda>o1. to_prediction_id o1 = pid) (ld_outcomes db)" for v n
      using d that pid by (auto simp: store_outcome_def new_training_outcome_def list_ex_iff)
    from r Some cid show ?thesis
    proof (cases rule: record_outcome_concept_Inr)
      case (retrained c q)
      then show ?thesis using fresh_distinct retrain_concept_frame [OF retrained(5)] by metis
    next
      case (stored c q)
      then show ?thesis using fresh_distinct by simp
    qed
  qed
qed

theorem record_outcome_unique_witness:
  "\<exists>resp db'. record_outcome (ex_record_db (Some ''c1'') []) 7 120000 0 = Inr (resp, db')
     \<and> distinct (map to_prediction_id (ld_outcomes db'))"
proof -
  obtain resp db' where r: "record_outcome (ex_record_db (Some ''c1'') []) 7 120000 0 = Inr (resp, db')"
    by (simp add: record_outcome_def ex_learner_defs store_outcome_def MIN_OUTCOMES_FOR_TRAINING_def)
  have "distinct (map to_prediction_id (ld_outcomes (ex_record_db (Some ''c1'') [])))"
    by (simp add: ex_record_db_def)
  then show ?thesis using record_outcome_unique [OF r] r by blast
qed

text \<open>
  A second outcome for a prediction that already has one is rejected: the
  insert violates the unique constraint on \<open>prediction_id\<close> and nothing is stored.
\<close>

theorem record_outcome_duplicate:
  assumes "find (\<lambda>p. pred_id p = pid) (ld_predictions db) = Some p"
    and "pred_concept_id p = Some cid" "cid \<noteq> []" "pred_revenue_mid p \<noteq> 0"
    and "list_ex (\<lambda>o1. to_prediction_id o1 = pid) (ld_outcomes db)"
  shows "record_outcome db pid a t = Inl IntegrityError"
  using assms by (simp add: record_outcome_def)

theorem record_outcome_duplicate_witness:
  "record_outcome (ex_record_db (Some ''c1'') [ex_outcome 7 90000 None]) 7 120000 0 = Inl IntegrityError"
  by (rule record_outcome_duplicate [of _ _ "ex_prediction (Some ''c1'')" "''c1''"])
    (simp_all add: ex_learner_defs)

text \<open>
  An outcome for a prediction with no concept is accepted without learning: the
  response reports no retraining and the database is unchanged.
\<close>

theorem record_outcome_no_concept:
  assumes "find (\<lambda>p. pred_id p = pid) (ld_predictions db) = Some p"
    and "pred_concept_id p = None \<or> pred_concept_id p = Some []"
  shows "record_outcome db pid a t = Inr (no_learning_response, db)
    \<and> \<not> triggered_retraining no_learning_response"
  using assms by (auto simp: record_outcome_def no_learning_response_def)

theorem record_outcome_no_concept_witness:
  "record_outcome (ex_record_db None []) 7 120000 0 = Inr (no_learning_response, ex_record_db None [])"
  using record_outcome_no_concept [of 7 "ex_record_db None []" "ex_prediction None" 120000 0]
  by (simp add: ex_record_db_def ex_prediction_def)



end
