(* ===== verification/PyStrings.thy ===== *)
theory PyStrings
  imports Prelude
begin

text \<open>
  Python's \<open>str\<close> primitives on strings of 8-bit characters (the Latin-1 part of
  Unicode, which HOL's \<open>char\<close> covers): \<open>isspace\<close>, \<open>strip\<close>, \<open>split(sep)\<close>,
  \<open>split()\<close>, the regular-expression class \<open>\d\<close>, and the decimal rendering of
  numbers that f-strings produce. Code points above 255 are not values of \<open>char\<close>; the
  theories that use these functions say where that matters.
\<close>

text \<open>
  \<open>str.isspace\<close> and the regular-expression class \<open>\s\<close> on Latin-1: tab, line feed,
  vertical tab, form feed, carriage return, the separators 28--31, space, NEL (133) and
  no-break space (160).
\<close>

definition py_isspace :: "char \<Rightarrow> bool" where
  "py_isspace c \<longleftrightarrow> of_char c \<in> ({9, 10, 11, 12, 13, 28, 29, 30, 31, 32, 133, 160} :: nat set)"

text \<open>\<open>\d\<close>: the Latin-1 range holds no decimal digit besides 0--9.\<close>

definition is_digit :: "char \<Rightarrow> bool" where
  "is_digit c \<longleftrightarrow> 48 \<le> (of_char c :: nat) \<and> (of_char c :: nat) \<le> 57"

definition py_strip :: "string \<Rightarrow> string" where
  "py_strip s = rev (dropWhile py_isspace (rev (dropWhile py_isspace s)))"

text \<open>
  \<open>s.split(sep)\<close> for a one-character separator, generalised to a predicate: the pieces
  between separators, empty ones included; the result is never empty.
\<close>

fun py_split_by :: "(char \<Rightarrow> bool) \<Rightarrow> string \<Rightarrow> string list" where
  "py_split_by P [] = [[]]"
| "py_split_by P (c # cs) =
     (if P c then [] # py_split_by P cs
      else (case py_split_by P cs of w # ws \<Rightarrow> (c # w) # ws | [] \<Rightarrow> [[c]]))"

definition py_split :: "char \<Rightarrow> string \<Rightarrow> string list" where
  "py_split sep s = py_split_by (\<lambda>c. c = sep) s"

text \<open>\<open>s.split()\<close>: runs of whitespace separate, empty pieces are dropped.\<close>

definition py_split_ws :: "string \<Rightarrow> string list" where
  "py_split_ws s = filter (\<lambda>w. w \<noteq> []) (py_split_by py_isspace s)"

text \<open>\<open>sep.join(ws)\<close>.\<close>

fun py_join :: "string \<Rightarrow> string list \<Rightarrow> string" where
  "py_join sep [] = []"
| "py_join sep [w] = w"
| "py_join sep (w # v # ws) = w @ sep @ py_join sep (v # ws)"

text \<open>Decimal digits of a natural number, as \<open>str(n)\<close>.\<close>

fun string_of_nat :: "nat \<Rightarrow> string" where
  "string_of_nat n =
     (if n < 10 then [char_of (48 + n)] else string_of_nat (n div 10) @ [char_of (48 + n mod 10)])"

declare string_of_nat.simps [simp del]

definition string_of_int :: "int \<Rightarrow> string" where
  "string_of_int i = (if i < 0 then CHR ''-'' # string_of_nat (nat (- i)) else string_of_nat (nat i))"

text \<open>
  \<open>f"{x:.1f}"\<close>: \<open>x\<close> rounded half to even at one decimal, with a minus sign when
  \<open>x\<close> is negative (so \<open>-0.04\<close> gives \<open>"-0.0"\<close>, as in Python).
\<close>

definition py_format_1f :: "real \<Rightarrow> string" where
  "py_format_1f x =
     (let z = round_half_even (x * 10)
      in (if x < 0 then ''-'' else []) @ string_of_nat (nat \<bar>z\<bar> div 10) @ ''.'' @ string_of_nat (nat \<bar>z\<bar> mod 10))"

text \<open>A string given by the code points of its characters, for non-ASCII literals.\<close>

definition latin1 :: "nat list \<Rightarrow> string" where
  "latin1 cps = map char_of cps"

text \<open>
  \<open>str.lower\<close> on Latin-1: A--Z and the capitals 192--222 but the multiplication sign 215
  move up by 32; every other character (223, \<open>\<ss>\<close>, included) is its own lower case.
\<close>

definition py_lower_char :: "char \<Rightarrow> char" where
  "py_lower_char c =
     (let n = (of_char c :: nat) in
      if (65 \<le> n \<and> n \<le> 90) \<or> (192 \<le> n \<and> n \<le> 222 \<and> n \<noteq> 215) then char_of (n + 32) else c)"

definition py_lower :: "string \<Rightarrow> string" where
  "py_lower s = map py_lower_char s"

text \<open>
  \<open>s.replace(old, new)\<close> for a non-empty \<open>old\<close>: every occurrence, scanning left to right
  without overlap.
\<close>

function py_replace :: "string \<Rightarrow> string \<Rightarrow> string \<Rightarrow> string" where
  "py_replace old new [] = []"
| "py_replace old new (c # cs) =
     (if old \<noteq> [] \<and> take (length old) (c # cs) = old
      then new @ py_replace old new (drop (length old) (c # cs))
      else c # py_replace old new cs)"
  by pat_completeness auto
termination by (relation "measure (\<lambda>(old, new, s). length s)") auto

definition py_startswith :: "string \<Rightarrow> string \<Rightarrow> bool" where
  "py_startswith s prefix \<longleftrightarrow> take (length prefix) s = prefix"

text \<open>
  \<open>int(s)\<close> in base 10: surrounding whitespace, an optional sign, and decimal digits in
  which single underscores may separate two digits; anything else raises \<open>ValueError\<close>.
  The message quotes the argument as \<open>repr\<close> does for a string without quotes,
  backslashes or control characters.
\<close>

fun py_decimal :: "string \<Rightarrow> bool" where
  "py_decimal [] = False"
| "py_decimal [c] = is_digit c"
| "py_decimal (c # d # cs) = (is_digit c \<and> (if d = CHR ''_'' then py_decimal cs else py_decimal (d # cs)))"

definition decimal_value :: "string \<Rightarrow> nat" where
  "decimal_value s = foldl (\<lambda>n c. 10 * n + (of_char c - 48)) 0 (filter is_digit s)"

definition py_int_of_string :: "string \<Rightarrow> int result" where
  "py_int_of_string s =
     (let t = py_strip s;
          err = Inl (ValueError (''invalid literal for int() with base 10: '' @ [CHR 0x27] @ s @ [CHR 0x27]))
      in case t of
           [] \<Rightarrow> err
         | c # r \<Rightarrow>
             if c = CHR ''-'' \<and> py_decimal r then Inr (- int (decimal_value r))
             else if c = CHR ''+'' \<and> py_decimal r then Inr (int (decimal_value r))
             else if py_decimal t then Inr (int (decimal_value t))
             else err)"

section \<open>Lemmas\<close>

lemma py_split_by_not_Nil [simp]: "py_split_by P s \<noteq> []"
  by (induction s) (auto split: list.splits)

lemma py_split_by_no_sep: "\<forall>c \<in> set w. \<not> P c \<Longrightarrow> py_split_by P w = [w]"
  by (induction w) auto

lemma py_split_by_append_sep:
  "\<forall>c \<in> set w. \<not> P c \<Longrightarrow> P d \<Longrightarrow> py_split_by P (w @ d # rest) = w # py_split_by P rest"
  by (induction w) auto

lemma py_split_by_pad:
  "\<forall>c \<in> set pad. \<not> P c \<Longrightarrow> py_split_by P s = y # ys \<Longrightarrow> py_split_by P (pad @ s) = (pad @ y) # ys"
  by (induction pad) auto

lemma py_split_by_join:
  "ws \<noteq> [] \<Longrightarrow> \<forall>w \<in> set ws. \<forall>c \<in> set w. \<not> P c \<Longrightarrow> P d \<Longrightarrow> \<forall>c \<in> set pad. \<not> P c \<Longrightarrow>
   py_split_by P (py_join (d # pad) ws) = hd ws # map (\<lambda>w. pad @ w) (tl ws)"
proof (induction ws rule: induct_list012)
  case (3 x y zs)
  then have "py_split_by P (pad @ py_join (d # pad) (y # zs)) = (pad @ y) # map (\<lambda>w. pad @ w) zs"
    by (intro py_split_by_pad) simp_all
  with 3 show ?case by (simp add: py_split_by_append_sep)
qed (simp_all add: py_split_by_no_sep)

lemma py_strip_id:
  assumes "s \<noteq> []" "\<not> py_isspace (hd s)" "\<not> py_isspace (last s)"
  shows "py_strip s = s"
proof -
  have "dropWhile py_isspace s = s" using assms by (cases s) auto
  moreover have "dropWhile py_isspace (rev s) = rev s"
    using assms by (cases "rev s") (auto simp: hd_rev [symmetric])
  ultimately show ?thesis by (simp add: py_strip_def)
qed

lemma py_strip_pad:
  "\<forall>c \<in> set pad. py_isspace c \<Longrightarrow> py_strip (pad @ s) = py_strip s"
  by (induction pad) (auto simp: py_strip_def)


lemma is_digit_of_nat_digit: "(k::nat) < 10 \<Longrightarrow> is_digit (char_of (48 + k))"
  by (simp add: is_digit_def of_char_of)

lemma string_of_nat_snoc:
  "string_of_nat n = (if n < 10 then [] else string_of_nat (n div 10)) @ [char_of (48 + n mod 10)]"
  by (subst string_of_nat.simps) simp

lemma string_of_nat_digits: "list_all is_digit (string_of_nat n)"
proof (induction n rule: string_of_nat.induct)
  case (1 n)
  then show ?case by (subst string_of_nat_snoc) (simp add: is_digit_of_nat_digit)
qed

lemma string_of_nat_not_Nil [simp]: "string_of_nat n \<noteq> []"
  by (subst string_of_nat_snoc) simp

lemma py_decimal_digits: "list_all is_digit s \<Longrightarrow> py_decimal s \<longleftrightarrow> s \<noteq> []"
  by (induction s rule: py_decimal.induct) (auto simp: is_digit_def)

lemma decimal_value_snoc:
  "k < 10 \<Longrightarrow> decimal_value (s @ [char_of (48 + k)]) = 10 * decimal_value s + k"
  by (simp add: decimal_value_def is_digit_of_nat_digit of_char_of)

lemma decimal_value_string_of_nat [simp]: "decimal_value (string_of_nat n) = n"
proof (induction n rule: string_of_nat.induct)
  case (1 n)
  show ?case
  proof (cases "n < 10")
    case True
    then show ?thesis using decimal_value_snoc [of "n mod 10" "[]"]
      by (subst string_of_nat_snoc) (simp add: decimal_value_def)
  next
    case False
    then show ?thesis using 1 decimal_value_snoc [of "n mod 10" "string_of_nat (n div 10)"]
      by (subst string_of_nat_snoc) simp
  qed
qed

lemma py_isspace_digit: "is_digit c \<Longrightarrow> \<not> py_isspace c"
  by (auto simp: is_digit_def py_isspace_def)

lemma string_of_nat_hd_last: "is_digit (hd (string_of_nat n)) \<and> is_digit (last (string_of_nat n))"
  using string_of_nat_digits [of n] string_of_nat_not_Nil [of n]
  by (cases "string_of_nat n") (auto simp: list_all_iff)

lemma py_int_of_string_of_int [simp]: "py_int_of_string (string_of_int i) = Inr i"
proof -
  have hl: "is_digit (hd (string_of_nat n)) \<and> is_digit (last (string_of_nat n))" for n
    by (rule string_of_nat_hd_last)
  have dec: "py_decimal (string_of_nat n)" for n
    using string_of_nat_digits [of n] by (simp add: py_decimal_digits)
  have minus: "\<not> py_isspace CHR ''-''" by (simp add: py_isspace_def)
  show ?thesis
  proof (cases "i < 0")
    case True
    have "py_strip (string_of_int i) = string_of_int i"
      using True hl [of "nat (- i)"] by (intro py_strip_id) (simp_all add: string_of_int_def minus py_isspace_digit)
    then show ?thesis using True dec [of "nat (- i)"] by (simp add: py_int_of_string_def string_of_int_def)
  next
    case False
    obtain c r where cr: "string_of_nat (nat i) = c # r" by (cases "string_of_nat (nat i)") auto
    have "py_strip (string_of_int i) = string_of_int i"
      using False hl [of "nat i"] by (intro py_strip_id) (auto simp: string_of_int_def py_isspace_digit)
    moreover have "c \<noteq> CHR ''-'' \<and> c \<noteq> CHR ''+''"
      using hl [of "nat i"] cr by (auto simp: is_digit_def)
    moreover have "int (decimal_value (c # r)) = i"
      using False decimal_value_string_of_nat [of "nat i"] cr by simp
    ultimately show ?thesis using False dec [of "nat i"] cr by (simp add: py_int_of_string_def string_of_int_def)
  qed
qed

end
