(* ===== verification/Candidates.thy ===== *)
theory Candidates
  imports PyStrings
begin

text \<open>
  The candidate generator of \<open>src/backend/services/address_generator.py\<close> (class
  \<open>AddressGenerator\<close>): the top Helsinki areas, a 3 x 3 grid of sample points per area,
  reverse geocoding with a coordinate-derived fallback address, the weighted score and
  decision of a sample point from its population, competition and transit sub-scores,
  greedy deduplication at a minimum great-circle separation, and the final ranking.
  External services enter as parameters: Python's per-process string \<open>hash\<close>, and the
  reply of \<open>DigitransitService.reverse_geocode\<close> (\<open>src/backend/services/digitransit.py\<close>).
  Strings with non-ASCII letters are written as their UTF-8 bytes.
\<close>

section \<open>Great-circle distance\<close>

definition radians :: "real \<Rightarrow> real" where
  "radians x = x * pi / 180"

text \<open>\<open>math.atan2(y, x)\<close>, the angle of the point \<open>(x, y)\<close> in \<open>(-pi, pi]\<close>.\<close>

definition atan2 :: "real \<Rightarrow> real \<Rightarrow> real" where
  "atan2 y x =
     (if 0 < x then arctan (y / x)
      else if x < 0 then (if 0 \<le> y then arctan (y / x) + pi else arctan (y / x) - pi)
      else if 0 < y then pi / 2 else if y < 0 then - (pi / 2) else 0)"

definition haversine_distance :: "real \<Rightarrow> real \<Rightarrow> real \<Rightarrow> real \<Rightarrow> real" where
  "haversine_distance lat1 lng1 lat2 lng2 =
     (let lat1_rad = radians lat1; lat2_rad = radians lat2;
          delta_lat = radians (lat2 - lat1); delta_lng = radians (lng2 - lng1);
          a = sin (delta_lat / 2) ^ 2 + cos lat1_rad * cos lat2_rad * sin (delta_lng / 2) ^ 2;
          c = 2 * atan2 (sqrt a) (sqrt (1 - a))
      in 6371000 * c)"

section \<open>Sub-scores of a sample point\<close>

record pop_data =
  pd_score :: real
  pd_population :: real
  pd_coverage :: "real option"

record comp_data =
  cd_score :: real
  cd_competitors :: real
  cd_per_1k :: "real option"
  cd_coverage :: "real option"

record transit_data =
  td_score :: real
  td_nearest_metro_m :: "real option"
  td_nearest_tram_m :: "real option"
  td_coverage :: "real option"

record hc_area =
  hc_lat :: real
  hc_lng :: real
  hc_pop :: nat

text \<open>The table of \<open>_get_hardcoded_population\<close> (the area names are not read).\<close>

definition hardcoded_areas :: "hc_area list" where
  "hardcoded_areas =
     [\<lparr>hc_lat = 60.170, hc_lng = 24.938, hc_pop = 18000\<rparr>,
      \<lparr>hc_lat = 60.169, hc_lng = 24.945, hc_pop = 16500\<rparr>,
      \<lparr>hc_lat = 60.163, hc_lng = 24.940, hc_pop = 15200\<rparr>,
      \<lparr>hc_lat = 60.158, hc_lng = 24.933, hc_pop = 14800\<rparr>,
      \<lparr>hc_lat = 60.180, hc_lng = 24.950, hc_pop = 13500\<rparr>,
      \<lparr>hc_lat = 60.175, hc_lng = 24.965, hc_pop = 12000\<rparr>,
      \<lparr>hc_lat = 60.195, hc_lng = 24.925, hc_pop = 11500\<rparr>,
      \<lparr>hc_lat = 60.203, hc_lng = 24.962, hc_pop = 10800\<rparr>,
      \<lparr>hc_lat = 60.220, hc_lng = 24.960, hc_pop = 9500\<rparr>,
      \<lparr>hc_lat = 60.210, hc_lng = 25.080, hc_pop = 8200\<rparr>,
      \<lparr>hc_lat = 60.225, hc_lng = 25.040, hc_pop = 7500\<rparr>,
      \<lparr>hc_lat = 60.160, hc_lng = 24.880, hc_pop = 8800\<rparr>]"

text \<open>
  One iteration of the closest-area loop; the minimum distance starts at
  \<open>float('inf')\<close>, written \<open>None\<close>.
\<close>

definition closest_area_step :: "real \<Rightarrow> real \<Rightarrow> real option \<times> nat \<Rightarrow> hc_area \<Rightarrow> real option \<times> nat" where
  "closest_area_step lat lng st area =
     (let dist = haversine_distance lat lng (hc_lat area) (hc_lng area)
      in if (case fst st of None \<Rightarrow> True | Some min_dist \<Rightarrow> dist < min_dist)
         then (Some dist, hc_pop area) else st)"

definition get_hardcoded_population :: "real \<Rightarrow> real \<Rightarrow> nat" where
  "get_hardcoded_population lat lng =
     (case foldl (closest_area_step lat lng) (None, 8000) hardcoded_areas of
        (min_dist, closest_pop) \<Rightarrow>
          if (case min_dist of None \<Rightarrow> False | Some d \<Rightarrow> d < 2.0) then closest_pop else 8000)"

definition get_population_score :: "real \<Rightarrow> real \<Rightarrow> pop_data" where
  "get_population_score lat lng =
     (let population = real (get_hardcoded_population lat lng)
      in if 0 < population
         then \<lparr>pd_score = min (population / 25000 * 100) 100, pd_population = population,
               pd_coverage = Some 1\<rparr>
         else \<lparr>pd_score = 50, pd_population = 8000, pd_coverage = Some 0.8\<rparr>)"

definition get_competition_score :: comp_data where
  "get_competition_score =
     (let competitors = 10; per_1k = 0.9
      in \<lparr>cd_score = max (100 - per_1k * 33.3) 0, cd_competitors = competitors,
          cd_per_1k = Some per_1k, cd_coverage = Some 0.9\<rparr>)"

definition get_transit_score :: transit_data where
  "get_transit_score =
     (let nearest_metro_m = 250; nearest_tram_m = 120;
          metro_score = max (50 - nearest_metro_m / 10) 0;
          tram_score = max (50 - nearest_tram_m / 6) 0
      in \<lparr>td_score = min (metro_score + tram_score) 100, td_nearest_metro_m = Some nearest_metro_m,
          td_nearest_tram_m = Some nearest_tram_m, td_coverage = Some 0.88\<rparr>)"

text \<open>The dictionaries \<open>_score_candidate\<close> substitutes for a sub-score that raised.\<close>

definition pop_failure_default :: pop_data where
  "pop_failure_default = \<lparr>pd_score = 50, pd_population = 0, pd_coverage = None\<rparr>"

definition comp_failure_default :: comp_data where
  "comp_failure_default = \<lparr>cd_score = 50, cd_competitors = 0, cd_per_1k = None, cd_coverage = None\<rparr>"

definition transit_failure_default :: transit_data where
  "transit_failure_default = \<lparr>td_score = 50, td_nearest_metro_m = None, td_nearest_tram_m = None,
     td_coverage = None\<rparr>"


section \<open>Score and decision of a sample point\<close>

datatype decision = MAKE_OFFER | NEGOTIATE | PASS

record recommendation_weights =
  rw_population :: real
  rw_income_fit :: real
  rw_transit_access :: real
  rw_competition_inverse :: real
  rw_traffic_access :: real
  rw_crime_penalty_cap :: real

definition candidate_weights :: "bool \<Rightarrow> recommendation_weights" where
  "candidate_weights include_crime =
     \<lparr>rw_population = 0.28, rw_income_fit = 0.22, rw_transit_access = 0.20,
      rw_competition_inverse = 0.15, rw_traffic_access = 0.10,
      rw_crime_penalty_cap = (if include_crime then 0.05 else 0)\<rparr>"

definition candidate_decision :: "real \<Rightarrow> real \<Rightarrow> decision" where
  "candidate_decision score confidence =
     (if 85 \<le> score \<and> 0.80 \<le> confidence then MAKE_OFFER
      else if 70 \<le> score \<and> 0.65 \<le> confidence then NEGOTIATE else PASS)"

text \<open>One factor of the provenance record: its score, weight, weighted score and coverage.\<close>

record provenance_entry =
  pv_score :: real
  pv_weight :: real
  pv_weighted_score :: real
  pv_coverage :: real

record score_data =
  sd_score :: real
  sd_revenue_min_eur :: int
  sd_revenue_max_eur :: int
  sd_confidence :: real
  sd_coverage_demo :: real
  sd_coverage_comp :: real
  sd_coverage_access :: real
  sd_decision :: decision
  sd_provenance :: "(string \<times> provenance_entry) list"
  sd_total_score :: real
  sd_population :: real
  sd_competitors :: real
  sd_nearest_metro_m :: "real option"
  sd_nearest_tram_m :: "real option"

definition provenance_of :: "real \<Rightarrow> real \<Rightarrow> real \<Rightarrow> provenance_entry" where
  "provenance_of s w cov = \<lparr>pv_score = py_round 1 s, pv_weight = w, pv_weighted_score = py_round 1 (s * w),
     pv_coverage = cov\<rparr>"

text \<open>
  \<open>_score_candidate\<close> after \<open>asyncio.gather(..., return_exceptions=True)\<close>: each sub-score
  arrives as a value or an exception (\<open>Inl\<close>), which is replaced by its default.
  \<open>d.get('coverage', 0.5)\<close> gives 0.5 for a default without coverage. The body raises
  nothing on these inputs, so its \<open>except\<close> branch (\<open>return None\<close>) is not reachable.
\<close>

definition score_candidate_with ::
  "bool \<Rightarrow> pop_data result \<Rightarrow> comp_data result \<Rightarrow> transit_data result \<Rightarrow> score_data" where
  "score_candidate_with include_crime pop_r comp_r transit_r =
     (let pop = (case pop_r of Inl _ \<Rightarrow> pop_failure_default | Inr d \<Rightarrow> d);
          comp = (case comp_r of Inl _ \<Rightarrow> comp_failure_default | Inr d \<Rightarrow> d);
          transit = (case transit_r of Inl _ \<Rightarrow> transit_failure_default | Inr d \<Rightarrow> d);
          weights = candidate_weights include_crime;
          pop_score = pd_score pop; comp_score = cd_score comp; transit_score = td_score transit;
          income_score = 70; traffic_score = 60;
          score = pop_score * rw_population weights + comp_score * rw_competition_inverse weights
            + transit_score * rw_transit_access weights + income_score * rw_income_fit weights
            + traffic_score * rw_traffic_access weights;
          base_revenue = 150000;
          revenue_min = py_int (base_revenue * (score / 100) * 0.65);
          revenue_max = py_int (base_revenue * (score / 100) * 1.20);
          pop_coverage = (case pd_coverage pop of None \<Rightarrow> 0.5 | Some c \<Rightarrow> c);
          comp_coverage = (case cd_coverage comp of None \<Rightarrow> 0.5 | Some c \<Rightarrow> c);
          transit_coverage = (case td_coverage transit of None \<Rightarrow> 0.5 | Some c \<Rightarrow> c);
          confidence = min (0.5 + pop_coverage * 0.2 + comp_coverage * 0.2 + transit_coverage * 0.1) 0.95
      in \<lparr>sd_score = py_round 1 score, sd_revenue_min_eur = revenue_min,
          sd_revenue_max_eur = revenue_max, sd_confidence = py_round 2 confidence,
          sd_coverage_demo = pop_coverage, sd_coverage_comp = comp_coverage,
          sd_coverage_access = transit_coverage,
          sd_decision = candidate_decision score confidence,
          sd_provenance =
            [(''population'', provenance_of pop_score (rw_population weights) pop_coverage),
             (''income_fit'', provenance_of income_score (rw_income_fit weights) 0.5),
             (''transit_access'', provenance_of transit_score (rw_transit_access weights) transit_coverage),
             (''competition_inverse'', provenance_of comp_score (rw_competition_inverse weights) comp_coverage),
             (''traffic_access'', provenance_of traffic_score (rw_traffic_access weights) 0)],
          sd_total_score = py_round 1 score,
          sd_population = pd_population pop, sd_competitors = cd_competitors comp,
          sd_nearest_metro_m = td_nearest_metro_m transit, sd_nearest_tram_m = td_nearest_tram_m transit\<rparr>)"

definition score_candidate :: "bool \<Rightarrow> real \<Rightarrow> real \<Rightarrow> score_data" where
  "score_candidate include_crime lat lng =
     score_candidate_with include_crime (Inr (get_population_score lat lng))
       (Inr get_competition_score) (Inr get_transit_score)"

section \<open>Addresses\<close>

definition mock_streets :: "string list" where
  "mock_streets =
     [''Mannerheimintie'', ''Aleksanterinkatu'', ''Esplanadi'', ''Fredrikinkatu'',
      ''Bulevardi'', ''L'' @ latin1 [246] @ ''nnrotinkatu'', ''Annankatu'', ''Unioninkatu'',
      ''Kaivokatu'', ''Mikonkatu'', ''Pohjoisesplanadi'', ''Etel'' @ latin1 [228] @ ''esplanadi'']"

definition generate_mock_address :: "real \<Rightarrow> real \<Rightarrow> string" where
  "generate_mock_address lat lng =
     (let street_idx = py_int ((lat + lng) * 1000) mod int (length mock_streets);
          street = mock_streets ! nat street_idx;
          house_num = py_int (\<bar>lat - 60.1\<bar> * 1000) mod 99 + 1;
          postal = ''00'' @ string_of_nat (nat (100 + py_int (lng * 1000) mod 890))
      in street @ '' '' @ string_of_nat (nat house_num) @ '', '' @ postal @ '' Helsinki'')"

text \<open>
  The reply of \<open>DigitransitService.reverse_geocode\<close>: \<open>None\<close>, or the flat dictionary
  \<open>{"address", "postal_code", "city"}\<close> it builds, or (what \<open>_reverse_geocode\<close> expects)
  a Pelias reply whose \<open>features\<close> carry \<open>street\<close>, \<open>housenumber\<close>, \<open>postalcode\<close> and
  \<open>locality\<close> properties (the empty string for an absent one).
\<close>

datatype geo_reply =
    GeoNone
  | GeoAddress string "string option" string
  | GeoFeatures "(string \<times> string \<times> string \<times> string) list"

text \<open>
  The service itself (\<open>digitransit.py\<close>, \<open>reverse_geocode\<close>): without an API key, or on an
  HTTP error, the mock dictionary; otherwise the first feature's \<open>label\<close>, \<open>postalcode\<close>
  and \<open>locality\<close>, or \<open>None\<close> for no feature. \<open>mock_label\<close> is the text
  \<open>f"Helsinki, {lat:.4f}, {lng:.4f}"\<close>; a reply is a list of (label, postal code,
  locality) properties, or \<open>None\<close> for an HTTP error.
\<close>

definition digitransit_reverse_geocode ::
  "bool \<Rightarrow> (string \<times> string option \<times> string option) list option \<Rightarrow> string \<Rightarrow> geo_reply" where
  "digitransit_reverse_geocode has_api_key http_reply mock_label =
     (if \<not> has_api_key then GeoAddress mock_label (Some ''00100'') ''Helsinki''
      else case http_reply of
             None \<Rightarrow> GeoAddress mock_label (Some ''00100'') ''Helsinki''
           | Some [] \<Rightarrow> GeoNone
           | Some ((label, postal, locality) # _) \<Rightarrow>
               GeoAddress label postal (case locality of None \<Rightarrow> ''Helsinki'' | Some l \<Rightarrow> l))"

definition reverse_geocode :: "geo_reply result \<Rightarrow> real \<Rightarrow> real \<Rightarrow> string" where
  "reverse_geocode reply lat lng =
     (case reply of
        Inr (GeoFeatures ((street, house_number, postal_code, locality) # _)) \<Rightarrow>
          if street \<noteq> [] \<and> locality \<noteq> [] then
            (if house_number \<noteq> [] then street @ '' '' @ house_number @ '', '' @ postal_code @ '' '' @ locality
             else street @ '', '' @ postal_code @ '' '' @ locality)
          else generate_mock_address lat lng
      | _ \<Rightarrow> generate_mock_address lat lng)"


section \<open>Areas, candidates and deduplication\<close>

text \<open>
  \<open>_get_helsinki_areas\<close> of \<open>src/backend/main.py\<close>. The name of T\<ouml>\<ouml>l\<ouml> is spelt in main.py
  as the UTF-8 text of a doubly encoded \<open>"T\<ouml>\<ouml>l\<ouml>"\<close>: \<open>"T\<Atilde>\<paragraph>\<Atilde>\<paragraph>l\<Atilde>\<paragraph>"\<close>, code points 195 and 182 for each \<open>\<ouml>\<close>.
\<close>

record helsinki_area =
  ha_id :: string
  ha_name :: string
  ha_lat :: real
  ha_lng :: real
  ha_rent_psqft :: real
  ha_properties_count :: nat

definition helsinki_areas :: "helsinki_area list" where
  "helsinki_areas =
     [\<lparr>ha_id = ''kamppi'', ha_name = ''Kamppi'', ha_lat = 60.1699, ha_lng = 24.9342, ha_rent_psqft = 42,
       ha_properties_count = 3\<rparr>,
      \<lparr>ha_id = ''kallio'', ha_name = ''Kallio'', ha_lat = 60.1847, ha_lng = 24.9504, ha_rent_psqft = 35,
       ha_properties_count = 2\<rparr>,
      \<lparr>ha_id = ''pasila'', ha_name = ''Pasila'', ha_lat = 60.1989, ha_lng = 24.9339, ha_rent_psqft = 38,
       ha_properties_count = 1\<rparr>,
      \<lparr>ha_id = ''toolo'', ha_name = ''T'' @ latin1 [195, 182, 195, 182] @ ''l'' @ latin1 [195, 182],
       ha_lat = 60.1777, ha_lng = 24.9157, ha_rent_psqft = 44, ha_properties_count = 2\<rparr>,
      \<lparr>ha_id = ''punavuori'', ha_name = ''Punavuori'', ha_lat = 60.1585, ha_lng = 24.9398, ha_rent_psqft = 48,
       ha_properties_count = 4\<rparr>,
      \<lparr>ha_id = ''kruununhaka'', ha_name = ''Kruununhaka'', ha_lat = 60.1729, ha_lng = 24.9560,
       ha_rent_psqft = 40, ha_properties_count = 1\<rparr>,
      \<lparr>ha_id = ''ullanlinna'', ha_name = ''Ullanlinna'', ha_lat = 60.1586, ha_lng = 24.9519,
       ha_rent_psqft = 46, ha_properties_count = 3\<rparr>,
      \<lparr>ha_id = ''eira'', ha_name = ''Eira'', ha_lat = 60.1543, ha_lng = 24.9374, ha_rent_psqft = 52,
       ha_properties_count = 2\<rparr>]"

record scored_area =
  ar_area_id :: string
  ar_name :: string
  ar_lat :: real
  ar_lng :: real
  ar_score :: int

text \<open>
  \<open>_get_top_areas\<close>: the mock score \<open>70 + hash(name) % 30\<close>, then a stable sort by
  descending score and the first \<open>top_n\<close>. \<open>py_hash\<close> is Python's string hash, which
  is salted per interpreter process.
\<close>

definition get_top_areas :: "(string \<Rightarrow> int) \<Rightarrow> string \<Rightarrow> int \<Rightarrow> scored_area list" where
  "get_top_areas py_hash city top_n =
     (if py_lower city \<in> set [''helsinki'', ''espoo'', ''vantaa''] then
        py_take top_n (sort_key (\<lambda>a. - ar_score a)
          (map (\<lambda>area. \<lparr>ar_area_id = ''helsinki_'' @ ha_id area, ar_name = ha_name area,
                        ar_lat = ha_lat area, ar_lng = ha_lng area,
                        ar_score = 70 + py_hash (ha_name area) mod 30\<rparr>) helsinki_areas))
      else [])"

record candidate =
  cand_address :: string
  cand_lat :: real
  cand_lng :: real
  cand_area_id :: "string option"
  cand_data :: score_data
  cand_rank :: "nat option"

abbreviation cand_score :: "candidate \<Rightarrow> real" where
  "cand_score c \<equiv> sd_score (cand_data c)"

definition grid_offsets :: "real list" where
  "grid_offsets = [-0.003, 0, 0.003]"

text \<open>
  \<open>_generate_candidates_for_area\<close>: the 3 x 3 grid, row by row; a point whose address
  is empty is skipped. \<open>geo\<close> is the outcome of the reverse-geocoding call at a point.
\<close>

definition generate_candidates_for_area ::
  "(real \<Rightarrow> real \<Rightarrow> geo_reply result) \<Rightarrow> bool \<Rightarrow> scored_area \<Rightarrow> candidate list" where
  "generate_candidates_for_area geo include_crime area =
     concat (map (\<lambda>lat_offset. concat (map (\<lambda>lng_offset.
        let candidate_lat = ar_lat area + lat_offset; candidate_lng = ar_lng area + lng_offset;
            address = reverse_geocode (geo candidate_lat candidate_lng) candidate_lat candidate_lng
        in if address = [] then []
           else [\<lparr>cand_address = address, cand_lat = candidate_lat, cand_lng = candidate_lng,
                  cand_area_id = Some (ar_area_id area),
                  cand_data = score_candidate include_crime candidate_lat candidate_lng,
                  cand_rank = None\<rparr>]) grid_offsets)) grid_offsets)"

definition too_close :: "real \<Rightarrow> candidate \<Rightarrow> candidate \<Rightarrow> bool" where
  "too_close min_distance_m c k \<longleftrightarrow>
     haversine_distance (cand_lat c) (cand_lng c) (cand_lat k) (cand_lng k) < min_distance_m"

text \<open>The greedy loop of \<open>_deduplicate_by_distance\<close>, over the candidates in score order.\<close>

fun dedup_loop :: "real \<Rightarrow> candidate list \<Rightarrow> candidate list \<Rightarrow> candidate list" where
  "dedup_loop m kept [] = kept"
| "dedup_loop m kept (c # cs) =
     dedup_loop m (if list_ex (too_close m c) kept then kept else kept @ [c]) cs"

definition sort_by_score :: "candidate list \<Rightarrow> candidate list" where
  "sort_by_score cs = sort_key (\<lambda>c. - cand_score c) cs"

definition deduplicate_by_distance :: "candidate list \<Rightarrow> real \<Rightarrow> candidate list" where
  "deduplicate_by_distance candidates min_distance_m =
     (if candidates = [] then [] else dedup_loop min_distance_m [] (sort_by_score candidates))"

fun assign_ranks :: "nat \<Rightarrow> candidate list \<Rightarrow> candidate list" where
  "assign_ranks i [] = []"
| "assign_ranks i (c # cs) = c\<lparr>cand_rank := Some (i + 1)\<rparr> # assign_ranks (Suc i) cs"

definition generate_candidates ::
  "(string \<Rightarrow> int) \<Rightarrow> (real \<Rightarrow> real \<Rightarrow> geo_reply result) \<Rightarrow> string \<Rightarrow> int \<Rightarrow> bool \<Rightarrow> candidate list" where
  "generate_candidates py_hash geo city limit include_crime =
     (let top_areas = get_top_areas py_hash city 4
      in if top_areas = [] then []
         else
           let all_candidates = concat (map (generate_candidates_for_area geo include_crime) top_areas);
               deduped = deduplicate_by_distance all_candidates 80;
               top_n = py_take limit (sort_by_score deduped)
           in assign_ranks 0 top_n)"

text \<open>
  Three candidates on one meridian used to exercise the deduplication: a site of score
  10 between two sites of score 9, about 47 m from each of them, the outer two 94 m apart.
\<close>

definition ex_dedup_candidate :: "real \<Rightarrow> real \<Rightarrow> candidate" where
  "ex_dedup_candidate lat s = \<lparr>cand_address = ''x'', cand_lat = lat, cand_lng = 24.94, cand_area_id = None,
     cand_data = (score_candidate False lat 24.94)\<lparr>sd_score := s\<rparr>, cand_rank = None\<rparr>"

section \<open>Great-circle distance: lemmas\<close>

lemma atan2_nonneg: "0 \<le> y \<Longrightarrow> 0 \<le> atan2 y x"
  using arctan_bounded [of "y / x"] by (auto simp: atan2_def zero_le_arctan_iff zero_le_divide_iff)

lemma radians_zero [simp]: "radians 0 = 0"
  by (simp add: radians_def)

lemma abs_radians: "\<bar>radians x\<bar> = pi * \<bar>x\<bar> / 180"
  using pi_gt_zero by (simp add: radians_def abs_mult)

lemma cos_radians_nonneg: "\<bar>lat\<bar> \<le> 90 \<Longrightarrow> 0 \<le> cos (radians lat)"
proof -
  assume "\<bar>lat\<bar> \<le> 90"
  then have "pi * \<bar>lat\<bar> \<le> pi * 90" using pi_gt_zero by (intro mult_left_mono) auto
  then have "\<bar>radians lat\<bar> \<le> pi / 2" by (simp add: abs_radians)
  then show ?thesis by (intro cos_ge_zero) (auto simp: abs_le_iff)
qed

lemma haversine_nonneg:
  assumes "\<bar>lat1\<bar> \<le> 90" "\<bar>lat2\<bar> \<le> 90"
  shows "0 \<le> haversine_distance lat1 lng1 lat2 lng2"
proof -
  have "0 \<le> cos (radians lat1) * cos (radians lat2)"
    using cos_radians_nonneg [OF assms(1)] cos_radians_nonneg [OF assms(2)] by simp
  then have "0 \<le> sin (radians (lat2 - lat1) / 2) ^ 2
      + cos (radians lat1) * cos (radians lat2) * sin (radians (lng2 - lng1) / 2) ^ 2"
    by simp
  then show ?thesis
    unfolding haversine_distance_def Let_def using atan2_nonneg by simp
qed

lemma haversine_same: "haversine_distance lat lng lat lng = 0"
  by (simp add: haversine_distance_def atan2_def radians_def)

lemma haversine_meridian:
  assumes "\<bar>lat2 - lat1\<bar> < 180"
  shows "haversine_distance lat1 lng lat2 lng = 6371000 * \<bar>radians (lat2 - lat1)\<bar>"
proof -
  define h where "h = radians (lat2 - lat1) / 2"
  have "pi * \<bar>lat2 - lat1\<bar> < pi * 180" using assms pi_gt_zero by (intro mult_strict_left_mono) auto
  then have hb: "\<bar>h\<bar> < pi / 2" by (simp add: h_def abs_radians)
  have cpos: "0 < cos h" by (rule cos_gt_zero_pi) (use hb in auto)
  have s: "sqrt (sin h ^ 2) = \<bar>sin h\<bar>" by (rule real_sqrt_abs)
  have c: "sqrt (1 - sin h ^ 2) = cos h"
    using cpos by (simp add: cos_squared_eq [symmetric] real_sqrt_abs)
  have t: "\<bar>sin h\<bar> / cos h = tan \<bar>h\<bar>"
  proof (cases "0 \<le> h")
    case True
    then have "0 \<le> sin h" using hb by (intro sin_ge_zero) auto
    with True show ?thesis by (simp add: tan_def)
  next
    case False
    have "0 \<le> sin (- h)" using hb False by (intro sin_ge_zero) auto
    then have "sin h \<le> 0" by simp
    with False show ?thesis by (simp add: tan_def)
  qed
  have "atan2 \<bar>sin h\<bar> (cos h) = \<bar>h\<bar>"
    using cpos hb by (simp add: atan2_def t arctan_tan)
  then show ?thesis
    unfolding haversine_distance_def Let_def h_def [symmetric] using s c
    by (simp add: h_def abs_divide)
qed

lemma pi_ge_3: "3 \<le> pi"
  using sin_x_le_x [of "pi / 6"] sin_30 pi_gt_zero by simp

lemma haversine_not_neg [simp]:
  "\<bar>lat1\<bar> \<le> 90 \<Longrightarrow> \<bar>lat2\<bar> \<le> 90 \<Longrightarrow> \<not> haversine_distance lat1 lng1 lat2 lng2 < 0"
  using haversine_nonneg by (simp add: not_less)

lemma kamppi_population: "get_hardcoded_population 60.170 24.938 = 18000"
  by (simp add: get_hardcoded_population_def hardcoded_areas_def closest_area_step_def haversine_same)

lemma ex_meridian_dist:
  "haversine_distance 60 24.94 60.0004 24.94 < 80" "haversine_distance 60.0004 24.94 60 24.94 < 80"
  "haversine_distance 60.0008 24.94 60.0004 24.94 < 80"
  "80 \<le> haversine_distance 60 24.94 60.0008 24.94"
  using pi_less_4 pi_ge_3 by (simp_all add: haversine_meridian radians_def abs_mult)

section \<open>Deduplication and ranking: lemmas\<close>

lemma haversine_sym:
  "haversine_distance lat1 lng1 lat2 lng2 = haversine_distance lat2 lng2 lat1 lng1"
proof -
  have sq: "sin (radians (y - x) / 2) ^ 2 = sin (radians (x - y) / 2) ^ 2" for x y
  proof -
    have "radians (y - x) / 2 = - (radians (x - y) / 2)" by (simp add: radians_def field_simps)
    then show ?thesis by simp
  qed
  show ?thesis
    unfolding haversine_distance_def Let_def by (simp add: sq [of lat1 lat2] sq [of lng1 lng2] mult.commute)
qed

lemma too_close_sym: "too_close m c k \<longleftrightarrow> too_close m k c"
  unfolding too_close_def by (simp add: haversine_sym)

lemma dedup_loop_kept: "set kept \<subseteq> set (dedup_loop m kept cs)"
  by (induction m kept cs rule: dedup_loop.induct) auto

lemma dedup_loop_subset: "set (dedup_loop m kept cs) \<subseteq> set kept \<union> set cs"
  by (induction m kept cs rule: dedup_loop.induct) auto

lemma dedup_loop_separated:
  "sorted_wrt (\<lambda>k c. \<not> too_close m c k) kept \<Longrightarrow>
   sorted_wrt (\<lambda>k c. \<not> too_close m c k) (dedup_loop m kept cs)"
  by (induction m kept cs rule: dedup_loop.induct) (auto simp: sorted_wrt_append list_ex_iff)

lemma dedup_loop_sorted:
  "sorted_wrt R (kept @ cs) \<Longrightarrow> sorted_wrt R (dedup_loop m kept cs)"
proof (induction m kept cs rule: dedup_loop.induct)
  case (1 m kept) then show ?case by simp
next
  case (2 m kept c cs)
  then show ?case by (auto simp: sorted_wrt_append)
qed

lemma dedup_loop_cover:
  assumes "sorted_wrt (\<lambda>a b. cand_score b \<le> cand_score a) (kept @ cs)" and "c \<in> set cs"
  shows "c \<in> set (dedup_loop m kept cs)
    \<or> (\<exists>k \<in> set (dedup_loop m kept cs). too_close m c k \<and> cand_score c \<le> cand_score k)"
  using assms
proof (induction m kept cs rule: dedup_loop.induct)
  case (1 m kept) then show ?case by simp
next
  case (2 m kept x cs)
  define kept' where "kept' = (if list_ex (too_close m x) kept then kept else kept @ [x])"
  have sorted': "sorted_wrt (\<lambda>a b. cand_score b \<le> cand_score a) (kept' @ cs)"
    using "2.prems"(1) by (auto simp: kept'_def sorted_wrt_append)
  have res: "dedup_loop m kept (x # cs) = dedup_loop m kept' cs" by (simp add: kept'_def)
  show ?case
  proof (cases "c \<in> set cs")
    case True
    from "2.IH" sorted' True show ?thesis by (simp add: res kept'_def)
  next
    case False
    with "2.prems"(2) have cx: "c = x" by simp
    show ?thesis
    proof (cases "list_ex (too_close m x) kept")
      case True
      then obtain k where k: "k \<in> set kept" "too_close m x k" by (auto simp: list_ex_iff)
      with "2.prems"(1) have "cand_score x \<le> cand_score k" by (auto simp: sorted_wrt_append)
      moreover have "k \<in> set (dedup_loop m kept' cs)" using k dedup_loop_kept [of kept' m cs]
        by (auto simp: kept'_def)
      ultimately show ?thesis using k cx res by auto
    next
      case False
      then have "x \<in> set (dedup_loop m kept' cs)" using dedup_loop_kept [of kept' m cs]
        by (auto simp: kept'_def)
      then show ?thesis using cx res by simp
    qed
  qed
qed

lemma sort_by_score_sorted: "sorted_wrt (\<lambda>a b. cand_score b \<le> cand_score a) (sort_by_score cs)"
proof -
  have "sorted (map (\<lambda>c. - cand_score c) (sort_by_score cs))"
    unfolding sort_by_score_def by (rule sorted_sort_key)
  then show ?thesis by (simp add: sorted_map)
qed

lemma set_sort_by_score [simp]: "set (sort_by_score cs) = set cs"
  by (simp add: sort_by_score_def)

lemma sort_by_score_id:
  "sorted_wrt (\<lambda>a b. cand_score b \<le> cand_score a) cs \<Longrightarrow> sort_by_score cs = cs"
  unfolding sort_by_score_def by (rule sort_key_id_if_sorted) (simp add: sorted_map)

lemma length_dedup_loop: "length (dedup_loop m kept cs) \<le> length kept + length cs"
  by (induction m kept cs rule: dedup_loop.induct) (auto intro: order_trans)

lemma length_deduplicate: "length (deduplicate_by_distance cs m) \<le> length cs"
  using length_dedup_loop [of m "[]" "sort_by_score cs"]
  by (simp add: deduplicate_by_distance_def sort_by_score_def)

lemma length_generate_candidates_for_area: "length (generate_candidates_for_area geo ic area) \<le> 9"
proof -
  have g: "length grid_offsets = 3" by (simp add: grid_offsets_def)
  show ?thesis
    unfolding generate_candidates_for_area_def
    by (rule order_trans [OF length_concat_map_le [where k = 3]],
        rule order_trans [OF length_concat_map_le [where k = 1]]) (simp_all add: g Let_def)
qed

lemma length_get_top_areas: "length (get_top_areas h city 4) \<le> 4"
  by (simp add: get_top_areas_def)

lemma deduplicate_sorted:
  "sorted_wrt (\<lambda>a b. cand_score b \<le> cand_score a) (deduplicate_by_distance cs m)"
  unfolding deduplicate_by_distance_def
  using dedup_loop_sorted [of _ "[]" "sort_by_score cs" m] sort_by_score_sorted [of cs] by simp

lemma deduplicate_separated:
  "sorted_wrt (\<lambda>k c. m \<le> haversine_distance (cand_lat k) (cand_lng k) (cand_lat c) (cand_lng c))
     (deduplicate_by_distance cs m)"
proof -
  have "sorted_wrt (\<lambda>k c. \<not> too_close m c k) (deduplicate_by_distance cs m)"
    unfolding deduplicate_by_distance_def using dedup_loop_separated [of m "[]"] by simp
  then show ?thesis
    by (rule sorted_wrt_mono_rel [rotated]) (simp add: too_close_def haversine_sym not_less)
qed

lemma map_assign_ranks:
  "(\<And>c r. g (c\<lparr>cand_rank := r\<rparr>) = g c) \<Longrightarrow> map g (assign_ranks i xs) = map g xs"
  by (induction i xs rule: assign_ranks.induct) simp_all

lemma sorted_wrt_assign_ranks:
  assumes "\<And>c r. g (c\<lparr>cand_rank := r\<rparr>) = g c" and "sorted_wrt (\<lambda>a b. R (g a) (g b)) xs"
  shows "sorted_wrt (\<lambda>a b. R (g a) (g b)) (assign_ranks i xs)"
proof -
  have "sorted_wrt R (map g xs)" using assms(2) by (simp add: sorted_wrt_map)
  then have "sorted_wrt R (map g (assign_ranks i xs))" by (simp add: map_assign_ranks [OF assms(1)])
  then show ?thesis by (simp add: sorted_wrt_map)
qed

lemma assign_ranks_ranks: "map cand_rank (assign_ranks i xs) = map (\<lambda>j. Some (Suc j)) [i..<i + length xs]"
  by (induction i xs rule: assign_ranks.induct) (simp_all add: upt_rec)

lemma length_assign_ranks [simp]: "length (assign_ranks i xs) = length xs"
  by (induction i xs rule: assign_ranks.induct) simp_all

section \<open>Sub-scores: lemmas\<close>

lemma closest_fold_inv:
  assumes "set as \<subseteq> A"
    and "(fst st = None \<and> snd st = 8000)
         \<or> (\<exists>a\<in>A. fst st = Some (haversine_distance lat lng (hc_lat a) (hc_lng a)) \<and> snd st = hc_pop a)"
  shows "(fst (foldl (closest_area_step lat lng) st as) = None \<and> snd (foldl (closest_area_step lat lng) st as) = 8000)
    \<or> (\<exists>a\<in>A. fst (foldl (closest_area_step lat lng) st as) = Some (haversine_distance lat lng (hc_lat a) (hc_lng a))
          \<and> snd (foldl (closest_area_step lat lng) st as) = hc_pop a)"
  using assms
proof (induction as arbitrary: st)
  case Nil then show ?case by simp
next
  case (Cons a as)
  show ?case
    unfolding foldl_Cons by (rule Cons.IH) (use Cons.prems in \<open>auto simp: closest_area_step_def Let_def\<close>)
qed

lemma get_hardcoded_population_cases:
  "get_hardcoded_population lat lng = 8000
   \<or> (\<exists>a\<in>set hardcoded_areas. get_hardcoded_population lat lng = hc_pop a
        \<and> haversine_distance lat lng (hc_lat a) (hc_lng a) < 2)"
  using closest_fold_inv [of hardcoded_areas "set hardcoded_areas" "(None, 8000)" lat lng]
  unfolding get_hardcoded_population_def
  by (auto split: prod.splits option.splits)

lemma get_hardcoded_population_range:
  "7500 \<le> get_hardcoded_population lat lng \<and> get_hardcoded_population lat lng \<le> 18000"
  using get_hardcoded_population_cases [of lat lng] by (auto simp: hardcoded_areas_def)

lemma get_population_score_eq:
  "\<exists>p. get_population_score lat lng = \<lparr>pd_score = min (p / 25000 * 100) 100, pd_population = p,
     pd_coverage = Some 1\<rparr> \<and> 7500 \<le> p \<and> p \<le> 18000"
  using get_hardcoded_population_range [of lat lng]
  by (auto simp: get_population_score_def Let_def)

lemma sub_scores_eq:
  "get_competition_score = \<lparr>cd_score = 70.03, cd_competitors = 10, cd_per_1k = Some 0.9, cd_coverage = Some 0.9\<rparr>"
  "get_transit_score = \<lparr>td_score = 55, td_nearest_metro_m = Some 250, td_nearest_tram_m = Some 120,
     td_coverage = Some 0.88\<rparr>"
  by (simp_all add: get_competition_score_def get_transit_score_def Let_def)

lemma score_candidate_confidence: "sd_confidence (score_candidate ic lat lng) = 0.95"
proof -
  obtain p where p: "get_population_score lat lng = \<lparr>pd_score = min (p / 25000 * 100) 100, pd_population = p,
     pd_coverage = Some 1\<rparr>"
    using get_population_score_eq by blast
  have "py_round 2 (95 / 10 ^ 2) = 95 / 10 ^ 2" using py_round_grid [of 2 95] by simp
  then show ?thesis
    by (simp add: score_candidate_def score_candidate_with_def p sub_scores_eq Let_def)
qed

section \<open>Properties of the candidate generator\<close>

text \<open>
  C16. The candidate list \<open>generate_candidates\<close> returns carries the ranks 1, 2, ... in
  order, is sorted by descending score, keeps every two returned sites at least 80 m apart
  (haversine), and has at most \<open>limit\<close> and at most 36 (4 areas of 9 points) entries.
\<close>

theorem generate_candidates_ranked:
  assumes "0 \<le> limit"
  shows "map cand_rank (generate_candidates h geo city limit ic)
           = map (\<lambda>j. Some (Suc j)) [0..<length (generate_candidates h geo city limit ic)]
    \<and> sorted_wrt (\<lambda>a b. cand_score b \<le> cand_score a) (generate_candidates h geo city limit ic)
    \<and> sorted_wrt (\<lambda>a b. 80 \<le> haversine_distance (cand_lat a) (cand_lng a) (cand_lat b) (cand_lng b))
        (generate_candidates h geo city limit ic)
    \<and> length (generate_candidates h geo city limit ic) \<le> min (nat limit) 36"
proof (cases "get_top_areas h city 4 = []")
  case True
  then show ?thesis by (simp add: generate_candidates_def)
next
  case False
  define all where "all = concat (map (generate_candidates_for_area geo ic) (get_top_areas h city 4))"
  define D where "D = deduplicate_by_distance all 80"
  have "generate_candidates h geo city limit ic = assign_ranks 0 (py_take limit (sort_by_score D))"
    using False unfolding generate_candidates_def Let_def all_def D_def by simp
  then have r: "generate_candidates h geo city limit ic = assign_ranks 0 (take (nat limit) D)"
    using assms sort_by_score_id [OF deduplicate_sorted, of all 80] by (simp add: D_def)
  have "length all \<le> length (get_top_areas h city 4) * 9"
    unfolding all_def by (rule length_concat_map_le) (rule length_generate_candidates_for_area)
  then have len_all: "length all \<le> 36"
    using length_get_top_areas [of h city] by linarith
  have s1: "sorted_wrt (\<lambda>a b. cand_score b \<le> cand_score a) (take (nat limit) D)"
    by (rule sorted_wrt_take) (simp add: D_def deduplicate_sorted)
  have s2: "sorted_wrt (\<lambda>a b. 80 \<le> haversine_distance (cand_lat a) (cand_lng a) (cand_lat b) (cand_lng b))
      (take (nat limit) D)"
    by (rule sorted_wrt_take) (simp add: D_def deduplicate_separated)
  have "sorted_wrt (\<lambda>a b. cand_score b \<le> cand_score a) (assign_ranks 0 (take (nat limit) D))"
    using sorted_wrt_assign_ranks [of cand_score "\<lambda>x y. y \<le> x"] s1 by simp
  moreover have "sorted_wrt (\<lambda>a b. 80 \<le> haversine_distance (cand_lat a) (cand_lng a) (cand_lat b) (cand_lng b))
      (assign_ranks 0 (take (nat limit) D))"
    using sorted_wrt_assign_ranks [of "\<lambda>c. (cand_lat c, cand_lng c)"
        "\<lambda>p q. 80 \<le> haversine_distance (fst p) (snd p) (fst q) (snd q)"] s2 by simp
  moreover have "length D \<le> 36" using len_all length_deduplicate [of all 80] by (simp add: D_def)
  ultimately show ?thesis by (simp add: r assign_ranks_ranks)
qed

theorem generate_candidates_ranked_witness:
  "map cand_rank (generate_candidates (\<lambda>_. 0) (\<lambda>_ _. Inl TypeError) ''Helsinki'' 10 False)
       = map (\<lambda>j. Some (Suc j)) [0..<length (generate_candidates (\<lambda>_. 0) (\<lambda>_ _. Inl TypeError) ''Helsinki'' 10 False)]
    \<and> sorted_wrt (\<lambda>a b. cand_score b \<le> cand_score a)
        (generate_candidates (\<lambda>_. 0) (\<lambda>_ _. Inl TypeError) ''Helsinki'' 10 False)
    \<and> sorted_wrt (\<lambda>a b. 80 \<le> haversine_distance (cand_lat a) (cand_lng a) (cand_lat b) (cand_lng b))
        (generate_candidates (\<lambda>_. 0) (\<lambda>_ _. Inl TypeError) ''Helsinki'' 10 False)
    \<and> length (generate_candidates (\<lambda>_. 0) (\<lambda>_ _. Inl TypeError) ''Helsinki'' 10 False) \<le> min (nat 10) 36"
  by (rule generate_candidates_ranked) simp

text \<open>
  C17. Deduplication drops a candidate only for a kept one closer than the minimum
  distance whose score is at least as high.
\<close>

theorem deduplicate_cover:
  assumes "c \<in> set cs"
  shows "c \<in> set (deduplicate_by_distance cs m)
    \<or> (\<exists>k \<in> set (deduplicate_by_distance cs m).
         haversine_distance (cand_lat c) (cand_lng c) (cand_lat k) (cand_lng k) < m
         \<and> cand_score c \<le> cand_score k)"
proof -
  have "cs \<noteq> []" using assms by auto
  then have d: "deduplicate_by_distance cs m = dedup_loop m [] (sort_by_score cs)"
    by (simp add: deduplicate_by_distance_def)
  show ?thesis
    using dedup_loop_cover [of "[]" "sort_by_score cs" c m] sort_by_score_sorted [of cs] assms
    by (simp add: d too_close_def)
qed

theorem deduplicate_cover_witness:
  "ex_dedup_candidate 60 9 \<in> set (deduplicate_by_distance [ex_dedup_candidate 60 9] 80)
    \<or> (\<exists>k \<in> set (deduplicate_by_distance [ex_dedup_candidate 60 9] 80).
         haversine_distance (cand_lat (ex_dedup_candidate 60 9)) (cand_lng (ex_dedup_candidate 60 9))
           (cand_lat k) (cand_lng k) < 80
         \<and> cand_score (ex_dedup_candidate 60 9) \<le> cand_score k)"
  by (rule deduplicate_cover) simp

text \<open>
  The greedy deduplication does not maximise the total score under the separation
  constraint: on three sites of one meridian it keeps only the best one (score 10), while
  the two others are 80 m apart or more and score 18 together.
\<close>

theorem deduplicate_not_optimal:
  "deduplicate_by_distance
      [ex_dedup_candidate 60 9, ex_dedup_candidate 60.0004 10, ex_dedup_candidate 60.0008 9] 80
     = [ex_dedup_candidate 60.0004 10]
   \<and> sorted_wrt (\<lambda>k c. 80 \<le> haversine_distance (cand_lat k) (cand_lng k) (cand_lat c) (cand_lng c))
       [ex_dedup_candidate 60 9, ex_dedup_candidate 60.0008 9]
   \<and> sum_list (map cand_score [ex_dedup_candidate 60.0004 10])
       < sum_list (map cand_score [ex_dedup_candidate 60 9, ex_dedup_candidate 60.0008 9])"
  using ex_meridian_dist
  by (simp add: deduplicate_by_distance_def sort_by_score_def ex_dedup_candidate_def too_close_def)

text \<open>
  With the placeholder sub-scores of \<open>_get_competition_score\<close> (70.03),
  \<open>_get_transit_score\<close> (55), income (70) and traffic (60), and a population of at most
  18000, every sample point scores at most 63.1 and is labelled \<open>PASS\<close>.
\<close>

theorem score_candidate_always_pass: "sd_decision (score_candidate ic lat lng) = PASS"
proof -
  obtain p where p: "get_population_score lat lng = \<lparr>pd_score = min (p / 25000 * 100) 100, pd_population = p,
     pd_coverage = Some 1\<rparr>" "p \<le> 18000"
    using get_population_score_eq by blast
  then have "min (p / 25000 * 100) 100 \<le> 72" by simp
  then show ?thesis
    by (simp add: score_candidate_def score_candidate_with_def p sub_scores_eq Let_def
        candidate_weights_def candidate_decision_def)
qed

text \<open>
  The \<open>include_crime\<close> flag only sets the unused \<open>crime_penalty_cap\<close> weight: the
  score data of a sample point are the same with and without it.
\<close>

theorem score_candidate_crime_ignored:
  "score_candidate_with True pop_r comp_r transit_r = score_candidate_with False pop_r comp_r transit_r"
  by (simp add: score_candidate_with_def candidate_weights_def Let_def)

text \<open>
  A sub-score that raises is replaced by its neutral default and lowers the
  reported confidence below that of the point with all sub-scores available (0.95).
\<close>

theorem score_candidate_degraded:
  assumes "pop_r = Inr (get_population_score lat lng) \<or> pop_r = Inl e1"
    and "comp_r = Inr get_competition_score \<or> comp_r = Inl e2"
    and "transit_r = Inr get_transit_score \<or> transit_r = Inl e3"
    and "(pop_r, comp_r, transit_r) \<noteq> (Inr (get_population_score lat lng), Inr get_competition_score, Inr get_transit_score)"
  shows "sd_confidence (score_candidate_with ic pop_r comp_r transit_r) < sd_confidence (score_candidate ic lat lng)"
proof -
  obtain p where p: "get_population_score lat lng = \<lparr>pd_score = min (p / 25000 * 100) 100, pd_population = p,
     pd_coverage = Some 1\<rparr>"
    using get_population_score_eq by blast
  define raw where "raw = min (0.5 + (case pop_r of Inl _ \<Rightarrow> 0.5 | Inr _ \<Rightarrow> 1) * 0.2
      + (case comp_r of Inl _ \<Rightarrow> 0.5 | Inr _ \<Rightarrow> 0.9) * 0.2
      + (case transit_r of Inl _ \<Rightarrow> 0.5 | Inr _ \<Rightarrow> 0.88) * 0.1) (0.95 :: real)"
  have conf: "sd_confidence (score_candidate_with ic pop_r comp_r transit_r) = py_round 2 raw"
    using assms(1-3) by (auto simp: score_candidate_with_def Let_def p sub_scores_eq raw_def
        pop_failure_default_def comp_failure_default_def transit_failure_default_def)
  have "raw \<le> 93 / 10 ^ 2"
    using assms unfolding raw_def by auto
  then have "py_round 2 raw \<le> 93 / 10 ^ 2"
    using py_round_mono [of raw "93 / 10 ^ 2" 2] py_round_grid [of 2 93] by simp
  then show ?thesis by (simp add: conf score_candidate_confidence)
qed

theorem score_candidate_degraded_witness:
  "sd_confidence (score_candidate_with False (Inl TypeError) (Inr get_competition_score) (Inr get_transit_score))
     < sd_confidence (score_candidate False 60.17 24.938)"
  by (rule score_candidate_degraded [of _ "60.17" "24.938" TypeError _ TypeError _ TypeError]) simp_all

text \<open>
  \<open>_get_hardcoded_population\<close> returns a listed area's population only for a point
  less than 2 m (the haversine distance is in metres, the threshold meant 2 km) from that
  area's centre; everywhere else it returns 8000.
\<close>

theorem get_hardcoded_population_radius:
  assumes "get_hardcoded_population lat lng \<noteq> 8000"
  shows "\<exists>a\<in>set hardcoded_areas. get_hardcoded_population lat lng = hc_pop a
     \<and> haversine_distance lat lng (hc_lat a) (hc_lng a) < 2"
  using get_hardcoded_population_cases [of lat lng] assms by auto

theorem get_hardcoded_population_radius_witness:
  "\<exists>a\<in>set hardcoded_areas. get_hardcoded_population 60.170 24.938 = hc_pop a
     \<and> haversine_distance 60.170 24.938 (hc_lat a) (hc_lng a) < 2"
  by (rule get_hardcoded_population_radius) (use kamppi_population in simp)

text \<open>
  \<open>_reverse_geocode\<close> looks for a \<open>features\<close> key that the reply of
  \<open>DigitransitService.reverse_geocode\<close> never has, so every candidate address is the
  synthetic one, whatever the service answers or raises.
\<close>

theorem reverse_geocode_always_mock:
  "reverse_geocode (Inr (digitransit_reverse_geocode has_key http_reply label)) lat lng
     = generate_mock_address lat lng
   \<and> reverse_geocode (Inl e) lat lng = generate_mock_address lat lng"
  by (simp add: reverse_geocode_def digitransit_reverse_geocode_def split: option.splits list.splits prod.splits)

text \<open>
  The synthetic address is one of the twelve street names, a house number from 1 to
  99 and a postal code \<open>00100\<close> to \<open>00989\<close>, followed by \<open>Helsinki\<close>.
\<close>

theorem generate_mock_address_format:
  "\<exists>street h p. generate_mock_address lat lng
       = street @ '' '' @ string_of_nat h @ '', 00'' @ string_of_nat p @ '' Helsinki''
     \<and> street \<in> set mock_streets \<and> 1 \<le> h \<and> h \<le> 99 \<and> 100 \<le> p \<and> p \<le> 989"
proof -
  define i where "i = py_int ((lat + lng) * 1000) mod int (length mock_streets)"
  define h where "h = py_int (\<bar>lat - 60.1\<bar> * 1000) mod 99 + 1"
  define q where "q = 100 + py_int (lng * 1000) mod 890"
  have "0 \<le> i" "i < int (length mock_streets)" by (simp_all add: i_def mock_streets_def)
  then have "mock_streets ! nat i \<in> set mock_streets" by (intro nth_mem) linarith
  moreover have "1 \<le> h" "h \<le> 99" by (simp_all add: h_def)
  moreover have "100 \<le> q" "q \<le> 989" by (simp_all add: q_def)
  ultimately show ?thesis
    unfolding generate_mock_address_def Let_def i_def [symmetric] h_def [symmetric] q_def [symmetric]
    by (intro exI [of _ "mock_streets ! nat i"] exI [of _ "nat h"] exI [of _ "nat q"]) auto
qed

end
