(* ===== verification/Jobs.thy ===== *)
theory Jobs
  imports Prelude
begin

text \<open>
  The in-memory job registry of \<open>src/backend/services/job_manager.py\<close> (class
  \<open>JobManager\<close>): the \<open>jobs\<close> dictionary, one \<open>asyncio.Queue\<close> of events per job
  (a list, \<open>put\<close> appending and \<open>get\<close> taking the head; \<open>None\<close> is the end-of-stream
  mark \<open>EndOfStream\<close>), and the TTL. The result a job carries is a type parameter
  \<open>'r\<close>; the recommendation route instantiates it. Time is a parameter \<open>now\<close> in
  seconds (\<open>datetime.utcnow()\<close>), the job id the caller's \<open>uuid4\<close>.
\<close>

section \<open>State\<close>

datatype job_status = PENDING | RUNNING | COMPLETE | FAILED | DEGRADED

datatype stage_status = StageIdle | StageRunning | StageDone | StageWarn | StageFail

type_synonym metrics = "(string \<times> int) list"

record stage_info =
  si_status :: stage_status
  si_metrics :: metrics
  si_ms :: "int option"
  si_cached :: bool
  si_timestamp :: nat

record 'r job =
  j_job_id :: string
  j_status :: job_status
  j_city :: string
  j_concept :: string
  j_limit :: int
  j_include_crime :: bool
  j_created_at :: nat
  j_expires_at :: nat
  j_stages :: "string \<rightharpoonup> stage_info"
  j_degraded :: "string list"
  j_result :: "'r option"
  j_error :: "string option"
  j_completed_at :: "nat option"

datatype 'r event =
    StageEvent string string stage_status metrics "int option" bool
  | CompleteEvent string 'r
  | ErrorEvent string string
  | EndOfStream
  | KeepAlive

record 'r job_manager =
  jm_jobs :: "string \<rightharpoonup> 'r job"
  jm_queues :: "string \<rightharpoonup> 'r event list"
  jm_ttl_seconds :: nat

definition new_job_manager :: "nat \<Rightarrow> 'r job_manager" where
  "new_job_manager ttl_seconds = \<lparr>jm_jobs = Map.empty, jm_queues = Map.empty, jm_ttl_seconds = ttl_seconds\<rparr>"

section \<open>Operations\<close>

text \<open>\<open>queue.put(event)\<close> when the job has a queue.\<close>

definition put_events :: "string \<Rightarrow> 'r event list \<Rightarrow> 'r job_manager \<Rightarrow> 'r job_manager" where
  "put_events job_id es jm =
     (case jm_queues jm job_id of
        None \<Rightarrow> jm
      | Some q \<Rightarrow> jm\<lparr>jm_queues := (jm_queues jm)(job_id \<mapsto> q @ es)\<rparr>)"

definition create_job ::
  "string \<Rightarrow> nat \<Rightarrow> string \<Rightarrow> string \<Rightarrow> int \<Rightarrow> bool \<Rightarrow> 'r job_manager \<Rightarrow> 'r job_manager" where
  "create_job job_id now city concept limit include_crime jm =
     jm\<lparr>jm_jobs := (jm_jobs jm)(job_id \<mapsto>
          \<lparr>j_job_id = job_id, j_status = PENDING, j_city = city, j_concept = concept,
           j_limit = limit, j_include_crime = include_crime, j_created_at = now,
           j_expires_at = now + jm_ttl_seconds jm, j_stages = Map.empty, j_degraded = [],
           j_result = None, j_error = None, j_completed_at = None\<rparr>),
        jm_queues := (jm_queues jm)(job_id \<mapsto> [])\<rparr>"

definition emit_stage_update ::
  "string \<Rightarrow> string \<Rightarrow> stage_status \<Rightarrow> metrics option \<Rightarrow> int option \<Rightarrow> bool \<Rightarrow> nat
   \<Rightarrow> 'r job_manager \<Rightarrow> 'r job_manager" where
  "emit_stage_update job_id stage status metrics ms cached now jm =
     (case jm_jobs jm job_id of
        None \<Rightarrow> jm
      | Some j \<Rightarrow>
          let m = (case metrics of None \<Rightarrow> [] | Some m \<Rightarrow> m)
          in put_events job_id [StageEvent job_id stage status m ms cached]
               (jm\<lparr>jm_jobs := (jm_jobs jm)(job_id \<mapsto>
                    j\<lparr>j_stages := (j_stages j)(stage \<mapsto>
                        \<lparr>si_status = status, si_metrics = m, si_ms = ms, si_cached = cached,
                         si_timestamp = now\<rparr>)\<rparr>)\<rparr>))"

definition complete_job ::
  "string \<Rightarrow> 'r \<Rightarrow> string list option \<Rightarrow> nat \<Rightarrow> 'r job_manager \<Rightarrow> 'r job_manager" where
  "complete_job job_id result degraded now jm =
     (case jm_jobs jm job_id of
        None \<Rightarrow> jm
      | Some j \<Rightarrow>
          let d = (case degraded of None \<Rightarrow> [] | Some d \<Rightarrow> d)
          in put_events job_id [CompleteEvent job_id result, EndOfStream]
               (jm\<lparr>jm_jobs := (jm_jobs jm)(job_id \<mapsto>
                    j\<lparr>j_status := (if d \<noteq> [] then DEGRADED else COMPLETE), j_result := Some result,
                      j_degraded := d, j_completed_at := Some now\<rparr>)\<rparr>))"

definition fail_job :: "string \<Rightarrow> string \<Rightarrow> nat \<Rightarrow> 'r job_manager \<Rightarrow> 'r job_manager" where
  "fail_job job_id error now jm =
     (case jm_jobs jm job_id of
        None \<Rightarrow> jm
      | Some j \<Rightarrow>
          put_events job_id [ErrorEvent job_id error, EndOfStream]
            (jm\<lparr>jm_jobs := (jm_jobs jm)(job_id \<mapsto>
                 j\<lparr>j_status := FAILED, j_error := Some error, j_completed_at := Some now\<rparr>)\<rparr>))"

definition get_job :: "string \<Rightarrow> 'r job_manager \<Rightarrow> 'r job option" where
  "get_job job_id jm = jm_jobs jm job_id"

text \<open>
  The route handler's write \<open>job['status'] = 'running'\<close> through the dictionary
  \<open>get_job\<close> returned (the same object the registry holds).
\<close>

definition set_running :: "string \<Rightarrow> 'r job_manager \<Rightarrow> 'r job_manager" where
  "set_running job_id jm =
     (case jm_jobs jm job_id of
        None \<Rightarrow> jm
      | Some j \<Rightarrow> jm\<lparr>jm_jobs := (jm_jobs jm)(job_id \<mapsto> j\<lparr>j_status := RUNNING\<rparr>)\<rparr>)"

definition cleanup_expired_jobs :: "nat \<Rightarrow> 'r job_manager \<Rightarrow> 'r job_manager" where
  "cleanup_expired_jobs now jm =
     (let expired = {job_id. case jm_jobs jm job_id of None \<Rightarrow> False | Some j \<Rightarrow> j_expires_at j < now}
      in jm\<lparr>jm_jobs := (jm_jobs jm) |` (- expired), jm_queues := (jm_queues jm) |` (- expired)\<rparr>)"

text \<open>
  The consumer loop of \<open>stream_job_events\<close> on a queue: it yields each event up to the
  end-of-stream mark, and a keep-alive after every 60-second wait on an empty queue. With
  no producer an empty queue is waited on forever, so the loop carries fuel, one unit per
  wait: \<open>None\<close> is "still waiting". It returns the yielded events and the rest of the queue.
\<close>

fun stream_queue :: "nat \<Rightarrow> 'r event list \<Rightarrow> ('r event list \<times> 'r event list) option" where
  "stream_queue 0 q = None"
| "stream_queue (Suc n) [] = map_option (\<lambda>(ys, q'). (KeepAlive # ys, q')) (stream_queue n [])"
| "stream_queue (Suc n) (EndOfStream # q) = Some ([], q)"
| "stream_queue (Suc n) (e # q) = map_option (\<lambda>(ys, q'). (e # ys, q')) (stream_queue n q)"

definition stream_job_events ::
  "nat \<Rightarrow> string \<Rightarrow> 'r job_manager \<Rightarrow> ('r event list \<times> 'r job_manager) option" where
  "stream_job_events fuel job_id jm =
     (case jm_queues jm job_id of
        None \<Rightarrow> Some ([], jm)
      | Some q \<Rightarrow> map_option (\<lambda>(ys, q'). (ys, jm\<lparr>jm_queues := (jm_queues jm)(job_id \<mapsto> q')\<rparr>))
                    (stream_queue fuel q))"


section \<open>Operations as steps\<close>

text \<open>
  The operations on the registry, including a consumer's \<open>queue.get()\<close> on a non-empty
  queue (\<open>OpGet\<close>). Any program of the backend acts on the registry through them.
\<close>

datatype 'r job_op =
    OpCreate string nat string string int bool
  | OpEmit string string stage_status "metrics option" "int option" bool nat
  | OpComplete string 'r "string list option" nat
  | OpFail string string nat
  | OpSetRunning string
  | OpCleanup nat
  | OpGet string

definition queue_get :: "string \<Rightarrow> 'r job_manager \<Rightarrow> 'r job_manager" where
  "queue_get job_id jm =
     (case jm_queues jm job_id of
        Some (e # q) \<Rightarrow> jm\<lparr>jm_queues := (jm_queues jm)(job_id \<mapsto> q)\<rparr>
      | _ \<Rightarrow> jm)"

fun apply_op :: "'r job_op \<Rightarrow> 'r job_manager \<Rightarrow> 'r job_manager" where
  "apply_op (OpCreate job_id now city concept limit ic) jm = create_job job_id now city concept limit ic jm"
| "apply_op (OpEmit job_id stage status metrics ms cached now) jm =
     emit_stage_update job_id stage status metrics ms cached now jm"
| "apply_op (OpComplete job_id result degraded now) jm = complete_job job_id result degraded now jm"
| "apply_op (OpFail job_id error now) jm = fail_job job_id error now jm"
| "apply_op (OpSetRunning job_id) jm = set_running job_id jm"
| "apply_op (OpCleanup now) jm = cleanup_expired_jobs now jm"
| "apply_op (OpGet job_id) jm = queue_get job_id jm"

inductive jm_reachable :: "nat \<Rightarrow> 'r job_manager \<Rightarrow> bool" for ttl :: nat where
  init: "jm_reachable ttl (new_job_manager ttl)"
| step: "jm_reachable ttl jm \<Longrightarrow> jm_reachable ttl (apply_op op jm)"

text \<open>
  The registry invariant: every job has a queue and every queue a job, each job is
  stored under its own id and expires \<open>ttl\<close> seconds after creation, and a job in a
  final state has a completion time.
\<close>

definition jm_invariant :: "nat \<Rightarrow> 'r job_manager \<Rightarrow> bool" where
  "jm_invariant ttl jm \<longleftrightarrow> jm_ttl_seconds jm = ttl \<and> dom (jm_jobs jm) = dom (jm_queues jm)
     \<and> (\<forall>job_id j. jm_jobs jm job_id = Some j \<longrightarrow>
          j_job_id j = job_id \<and> j_expires_at j = j_created_at j + ttl
          \<and> (j_status j \<in> {COMPLETE, FAILED, DEGRADED} \<longrightarrow> j_completed_at j \<noteq> None))"

text \<open>
  An interleaving of operations watched by the consumer of one job: it returns the final
  registry and the events the consumer's \<open>get\<close>s took from that job's queue.
\<close>

definition queue_of :: "string \<Rightarrow> 'r job_manager \<Rightarrow> 'r event list" where
  "queue_of job_id jm = (case jm_queues jm job_id of None \<Rightarrow> [] | Some q \<Rightarrow> q)"

fun run_ops :: "string \<Rightarrow> 'r job_op list \<Rightarrow> 'r job_manager \<Rightarrow> 'r job_manager \<times> 'r event list" where
  "run_ops job_id [] jm = (jm, [])"
| "run_ops job_id (op # ops) jm =
     (let taken = (if op = OpGet job_id then take 1 (queue_of job_id jm) else []);
          (jm', rest) = run_ops job_id ops (apply_op op jm)
      in (jm', taken @ rest))"

fun is_get :: "'r job_op \<Rightarrow> bool" where
  "is_get (OpGet _) = True"
| "is_get _ = False"

text \<open>The operations that could replace or delete the queue of a job.\<close>

fun resets_queue :: "string \<Rightarrow> 'r job_op \<Rightarrow> bool" where
  "resets_queue job_id (OpCreate j _ _ _ _ _) = (j = job_id)"
| "resets_queue job_id (OpCleanup _) = True"
| "resets_queue job_id _ = False"

text \<open>Two registries that agree on everything a producer reads: jobs, TTL and which queues exist.\<close>

definition same_shape :: "'r job_manager \<Rightarrow> 'r job_manager \<Rightarrow> bool" where
  "same_shape jm jm0 \<longleftrightarrow> jm_jobs jm = jm_jobs jm0 \<and> jm_ttl_seconds jm = jm_ttl_seconds jm0
     \<and> dom (jm_queues jm) = dom (jm_queues jm0)"

section \<open>Lemmas\<close>

lemma put_events_simps [simp]:
  "jm_jobs (put_events job_id es jm) = jm_jobs jm"
  "jm_ttl_seconds (put_events job_id es jm) = jm_ttl_seconds jm"
  "dom (jm_queues (put_events job_id es jm)) = dom (jm_queues jm)"
  by (auto simp: put_events_def split: option.splits)

lemma queue_of_put_events:
  "queue_of j (put_events job_id es jm)
     = queue_of j jm @ (if j = job_id \<and> jm_queues jm job_id \<noteq> None then es else [])"
  by (auto simp: put_events_def queue_of_def split: option.splits)

lemma queue_of_jobs_update [simp]: "queue_of j (jm\<lparr>jm_jobs := x\<rparr>) = queue_of j jm"
  by (simp add: queue_of_def)

lemma queue_of_create:
  "queue_of j (create_job job_id now city concept limit ic jm) = (if j = job_id then [] else queue_of j jm)"
  by (simp add: create_job_def queue_of_def)

lemma apply_op_invariant:
  assumes "jm_invariant ttl jm"
  shows "jm_invariant ttl (apply_op op jm)"
proof (cases op)
  case (OpCleanup now)
  define A where "A = - {job_id. case jm_jobs jm job_id of None \<Rightarrow> False | Some j \<Rightarrow> j_expires_at j < now}"
  have c: "apply_op op jm = jm\<lparr>jm_jobs := jm_jobs jm |` A, jm_queues := jm_queues jm |` A\<rparr>"
    by (simp add: OpCleanup cleanup_expired_jobs_def A_def Let_def)
  have d: "(jm_jobs jm x = None) = (jm_queues jm x = None)" for x
    using assms unfolding jm_invariant_def by (metis domIff)
  show ?thesis
    using assms d unfolding c jm_invariant_def
    by (auto simp: restrict_map_def split: if_splits) (metis d option.distinct(1) not_None_eq)+
next
  case (OpGet job_id)
  with assms show ?thesis
    by (auto simp: jm_invariant_def queue_get_def split: option.splits list.splits)
qed (use assms in \<open>auto simp: jm_invariant_def create_job_def emit_stage_update_def complete_job_def
      fail_job_def set_running_def Let_def split: option.splits if_splits\<close>)

lemma producer_step:
  assumes "same_shape jm jm0" "\<not> is_get op" "\<not> resets_queue job_id op"
  shows "same_shape (apply_op op jm) (apply_op op jm0)
    \<and> (\<exists>es. queue_of job_id (apply_op op jm) = queue_of job_id jm @ es
           \<and> queue_of job_id (apply_op op jm0) = queue_of job_id jm0 @ es)"
proof -
  have d: "(jm_queues jm j = None) = (jm_queues jm0 j = None)" for j
    using assms(1) unfolding same_shape_def by (metis domIff)
  show ?thesis
    using assms d
    by (cases op) (auto simp: same_shape_def emit_stage_update_def complete_job_def
        fail_job_def set_running_def queue_of_put_events queue_of_create Let_def split: option.splits,
        auto simp: create_job_def)
qed

lemma get_step:
  assumes "same_shape jm jm0"
  shows "same_shape (queue_get j jm) jm0
    \<and> queue_of job_id jm = (if j = job_id then take 1 (queue_of job_id jm) else [])
                          @ queue_of job_id (queue_get j jm)"
  using assms
  by (auto simp: same_shape_def queue_get_def queue_of_def split: option.splits list.splits)

lemma run_ops_Cons:
  "run_ops job_id (op # ops) jm =
     (fst (run_ops job_id ops (apply_op op jm)),
      (if op = OpGet job_id then take 1 (queue_of job_id jm) else []) @ snd (run_ops job_id ops (apply_op op jm)))"
  by (simp add: Let_def split: prod.split)

lemma run_ops_shadow:
  assumes "same_shape jm jm0" "queue_of job_id jm0 = P @ queue_of job_id jm"
    and "\<not> list_ex (resets_queue job_id) ops"
  shows "P @ snd (run_ops job_id ops jm) @ queue_of job_id (fst (run_ops job_id ops jm))
    = queue_of job_id (foldl (\<lambda>s op. apply_op op s) jm0 (filter (\<lambda>op. \<not> is_get op) ops))"
  using assms
proof (induction ops arbitrary: jm jm0 P)
  case Nil then show ?case by simp
next
  case (Cons op ops)
  show ?case
  proof (cases "is_get op")
    case True
    then obtain j where op: "op = OpGet j" by (cases op) auto
    define taken where "taken = (if j = job_id then take 1 (queue_of job_id jm) else [])"
    have g: "same_shape (queue_get j jm) jm0" "queue_of job_id jm = taken @ queue_of job_id (queue_get j jm)"
      using get_step [OF Cons.prems(1), of j job_id] by (simp_all add: taken_def)
    have "queue_of job_id jm0 = (P @ taken) @ queue_of job_id (queue_get j jm)"
      using Cons.prems(2) g(2) by simp
    from Cons.IH [OF g(1) this] Cons.prems(3) show ?thesis
      by (simp only: run_ops_Cons) (simp add: op taken_def)
  next
    case False
    obtain es where s: "same_shape (apply_op op jm) (apply_op op jm0)"
      "queue_of job_id (apply_op op jm) = queue_of job_id jm @ es"
      "queue_of job_id (apply_op op jm0) = queue_of job_id jm0 @ es"
      using producer_step [OF Cons.prems(1) False] Cons.prems(3) by auto
    have "queue_of job_id (apply_op op jm0) = P @ queue_of job_id (apply_op op jm)"
      using s(2,3) Cons.prems(2) by simp
    from Cons.IH [OF s(1) this] Cons.prems(3) False show ?thesis
      by (simp only: run_ops_Cons) (cases op, simp_all)
  qed
qed

lemma stream_queue_no_eos: "EndOfStream \<notin> set q \<Longrightarrow> stream_queue n q = None"
proof (induction q arbitrary: n)
  case Nil
  show ?case by (induction n) simp_all
next
  case (Cons e q)
  then show ?case by (cases n; cases e) auto
qed

lemma stream_queue_eos:
  "EndOfStream \<in> set q \<Longrightarrow> length (takeWhile (\<lambda>e. e \<noteq> EndOfStream) q) < n \<Longrightarrow>
   stream_queue n q = Some (takeWhile (\<lambda>e. e \<noteq> EndOfStream) q, tl (dropWhile (\<lambda>e. e \<noteq> EndOfStream) q))"
proof (induction q arbitrary: n)
  case Nil then show ?case by simp
next
  case (Cons e q)
  then show ?case by (cases n; cases e) auto
qed

lemma stream_queue_short:
  "n \<le> length (takeWhile (\<lambda>e. e \<noteq> EndOfStream) q) \<Longrightarrow> stream_queue n q = None"
proof (induction q arbitrary: n)
  case Nil then show ?case by simp
next
  case (Cons e q)
  then show ?case by (cases n; cases e) auto
qed

section \<open>Properties of the job registry\<close>

text \<open>
  C25. In every registry reachable from an empty one by any sequence of operations,
  every job has a queue and every queue a job, a job is stored under its own id and
  expires one TTL after its creation, and a finished job has a completion time.
\<close>

theorem jm_reachable_invariant: "jm_reachable ttl jm \<Longrightarrow> jm_invariant ttl jm"
proof (induction rule: jm_reachable.induct)
  case init
  then show ?case by (simp add: jm_invariant_def new_job_manager_def)
next
  case (step jm op)
  from step.IH show ?case by (rule apply_op_invariant)
qed

theorem jm_reachable_invariant_witness:
  "jm_invariant 3600 (apply_op (OpCreate ''j1'' 0 ''Helsinki'' ''QSR'' 10 False)
     (new_job_manager 3600 :: unit job_manager))"
  by (rule jm_reachable_invariant) (intro jm_reachable.step jm_reachable.init)

text \<open>
  C26. Event delivery is FIFO under any interleaving: whatever the order in which a
  consumer's \<open>get\<close>s interleave with the other operations (none of which re-creates
  the job or cleans up), the events the consumer took followed by what is left in the
  queue are exactly the queue the producer operations alone would have built.
\<close>

theorem run_ops_fifo:
  assumes "\<not> list_ex (resets_queue job_id) ops"
  shows "snd (run_ops job_id ops jm) @ queue_of job_id (fst (run_ops job_id ops jm))
    = queue_of job_id (foldl (\<lambda>s op. apply_op op s) jm (filter (\<lambda>op. \<not> is_get op) ops))"
  using run_ops_shadow [of jm jm job_id "[]" ops] assms by (simp add: same_shape_def)

theorem run_ops_fifo_witness:
  "snd (run_ops ''j1'' [OpEmit ''j1'' ''GEO'' StageRunning None (Some 0) False 0, OpGet ''j1'']
          (create_job ''j1'' 0 ''Helsinki'' ''QSR'' 10 False (new_job_manager 3600 :: unit job_manager)))
     @ queue_of ''j1'' (fst (run_ops ''j1'' [OpEmit ''j1'' ''GEO'' StageRunning None (Some 0) False 0, OpGet ''j1'']
          (create_job ''j1'' 0 ''Helsinki'' ''QSR'' 10 False (new_job_manager 3600 :: unit job_manager))))
   = queue_of ''j1'' (foldl (\<lambda>s op. apply_op op s)
       (create_job ''j1'' 0 ''Helsinki'' ''QSR'' 10 False (new_job_manager 3600 :: unit job_manager))
       (filter (\<lambda>op. \<not> is_get op) [OpEmit ''j1'' ''GEO'' StageRunning None (Some 0) False 0, OpGet ''j1'']))"
  by (rule run_ops_fifo) simp

text \<open>
  C27. The consumer loop of \<open>stream_job_events\<close> ends exactly when the queue holds an
  end-of-stream mark and it is given one wait for each event before it; on a queue
  without the mark (a producer that never finishes) it waits forever.
\<close>

theorem stream_queue_terminates:
  "stream_queue n q \<noteq> None
     \<longleftrightarrow> EndOfStream \<in> set q \<and> length (takeWhile (\<lambda>e. e \<noteq> EndOfStream) q) < n"
proof (cases "length (takeWhile (\<lambda>e. e \<noteq> EndOfStream) q) < n")
  case True
  then show ?thesis using stream_queue_no_eos [of q n] stream_queue_eos [of q n]
    by (cases "EndOfStream \<in> set q") auto
next
  case False
  then show ?thesis using stream_queue_short [of n q] by simp
qed

end
