(* ===== verification/Recommend.thy ===== *)
theory Recommend
  imports Jobs Candidates
begin

text \<open>
  The address-recommendation flow of \<open>src/backend/routes/recommend.py\<close>: the POST handler
  creates a job and schedules \<open>run_recommendation_job\<close>, which marks the job running,
  emits the GEO stage, awaits the candidate generator, emits the seven stage completions,
  validates the response (the pydantic models of \<open>src/backend/models/schemas.py\<close>) and
  completes the job, or fails it with the exception's message. The job registry of
  \<open>Jobs\<close> is instantiated with the response record. The awaited generator call is a
  parameter (its outcome, an exception being \<open>Inl\<close>), as is the elapsed time.
\<close>

section \<open>Response models\<close>

record recommended_address =
  ra_rank :: int
  ra_address :: string
  ra_lat :: real
  ra_lng :: real
  ra_score :: real
  ra_revenue_min_eur :: int
  ra_revenue_max_eur :: int
  ra_confidence :: real
  ra_decision :: decision
  ra_area_id :: "string option"

record recommend_response =
  rr_job_id :: string
  rr_city :: string
  rr_concept :: string
  rr_top :: "recommended_address list"
  rr_weights_version :: string
  rr_weights :: "(string \<times> real) list"
  rr_degraded :: "string list"

text \<open>
  \<open>RecommendedAddress(...)\<close>: \<open>candidate['rank']\<close> raises \<open>KeyError\<close> on a candidate
  without rank; the model validates \<open>0 \<le> score \<le> 100\<close> and \<open>0 \<le> confidence \<le> 1\<close>.
\<close>

definition to_recommended_address :: "candidate \<Rightarrow> recommended_address result" where
  "to_recommended_address c =
     (case cand_rank c of
        None \<Rightarrow> Inl KeyError
      | Some rank \<Rightarrow>
          if \<not> (0 \<le> cand_score c \<and> cand_score c \<le> 100) then Inl (ValueError ''score'')
          else if \<not> (0 \<le> sd_confidence (cand_data c) \<and> sd_confidence (cand_data c) \<le> 1)
          then Inl (ValueError ''confidence'')
          else Inr \<lparr>ra_rank = int rank, ra_address = cand_address c, ra_lat = cand_lat c,
                    ra_lng = cand_lng c, ra_score = cand_score c,
                    ra_revenue_min_eur = sd_revenue_min_eur (cand_data c),
                    ra_revenue_max_eur = sd_revenue_max_eur (cand_data c),
                    ra_confidence = sd_confidence (cand_data c), ra_decision = sd_decision (cand_data c),
                    ra_area_id = cand_area_id c\<rparr>)"

definition response_weights :: "bool \<Rightarrow> (string \<times> real) list" where
  "response_weights include_crime =
     [(''population'', 0.28), (''income_fit'', 0.22), (''transit_access'', 0.20),
      (''competition_inverse'', 0.15), (''traffic_access'', 0.10),
      (''crime_penalty_cap'', if include_crime then 0.05 else 0)]"

definition build_response ::
  "string \<Rightarrow> string \<Rightarrow> string \<Rightarrow> bool \<Rightarrow> candidate list \<Rightarrow> recommend_response result" where
  "build_response job_id city concept include_crime candidates =
     r_map (\<lambda>top. \<lparr>rr_job_id = job_id, rr_city = city, rr_concept = concept, rr_top = top,
                  rr_weights_version = ''v1.0'', rr_weights = response_weights include_crime,
                  rr_degraded = []\<rparr>)
       (map_result to_recommended_address candidates)"

section \<open>The background job\<close>

text \<open>\<open>str(e)\<close> of an exception, by kind.\<close>

fun error_text :: "py_error \<Rightarrow> string" where
  "error_text TypeError = ''TypeError''"
| "error_text ZeroDivisionError = ''division by zero''"
| "error_text KeyError = ''rank''"
| "error_text (ValueError s) = s"
| "error_text StatisticsError = ''no data''"
| "error_text AttributeError = ''AttributeError''"
| "error_text IntegrityError = ''IntegrityError''"
| "error_text (HTTPError code s) = s"

definition stage_done_ops ::
  "string \<Rightarrow> nat \<Rightarrow> nat \<Rightarrow> nat \<Rightarrow> recommend_response job_op list" where
  "stage_done_ops job_id n total_ms now =
     (let ms = Some (int (total_ms div 7))
      in [OpEmit job_id ''GEO'' StageDone (Some [(''areas_identified'', 8)]) ms False now,
          OpEmit job_id ''DEMO'' StageDone (Some [(''areas_scored'', int n)]) ms False now,
          OpEmit job_id ''COMP'' StageDone (Some [(''competitors_counted'', int n)]) ms False now,
          OpEmit job_id ''TRANSIT'' StageDone (Some [(''transit_scored'', int n)]) ms False now,
          OpEmit job_id ''TRAFFIC'' StageDone (Some [(''traffic_points'', 0)]) ms False now,
          OpEmit job_id ''RENTS'' StageDone (Some [(''rent_bands'', 0)]) ms False now,
          OpEmit job_id ''REVENUE'' StageDone (Some [(''predictions'', int n)]) ms False now])"

text \<open>
  The operations \<open>run_recommendation_job\<close> performs on the registry, in order; an
  exception anywhere in the \<open>try\<close> block ends it with \<open>fail_job\<close>.
\<close>

definition recommendation_job_ops ::
  "string \<Rightarrow> string \<Rightarrow> string \<Rightarrow> bool \<Rightarrow> candidate list result \<Rightarrow> nat \<Rightarrow> nat
   \<Rightarrow> recommend_response job_op list" where
  "recommendation_job_ops job_id city concept include_crime candidates total_ms now =
     [OpSetRunning job_id, OpEmit job_id ''GEO'' StageRunning None (Some 0) False now] @
     (case candidates of
        Inl e \<Rightarrow> [OpFail job_id (error_text e) now]
      | Inr cs \<Rightarrow>
          stage_done_ops job_id (length cs) total_ms now @
          (case build_response job_id city concept include_crime cs of
             Inl e \<Rightarrow> [OpFail job_id (error_text e) now]
           | Inr result \<Rightarrow> [OpComplete job_id result None now]))"

definition run_recommendation_job ::
  "string \<Rightarrow> string \<Rightarrow> string \<Rightarrow> bool \<Rightarrow> candidate list result \<Rightarrow> nat \<Rightarrow> nat
   \<Rightarrow> recommend_response job_manager \<Rightarrow> recommend_response job_manager" where
  "run_recommendation_job job_id city concept include_crime candidates total_ms now jm =
     foldl (\<lambda>s op. apply_op op s) jm
       (recommendation_job_ops job_id city concept include_crime candidates total_ms now)"

section \<open>Route handlers\<close>

record recommend_request =
  req_city :: string
  req_concept :: string
  req_limit :: int
  req_include_crime :: bool

text \<open>\<open>RecommendRequest\<close> validation: \<open>limit\<close> between 1 and 20 (FastAPI answers 422).\<close>

definition valid_recommend_request :: "recommend_request \<Rightarrow> bool" where
  "valid_recommend_request r \<longleftrightarrow> 1 \<le> req_limit r \<and> req_limit r \<le> 20"

text \<open>
  \<open>POST /api/recommend\<close>: creates the job (\<open>job_id\<close> from \<open>uuid4\<close>) and returns its id
  and stream URL; the scheduled pipeline runs later.
\<close>

definition recommend_addresses ::
  "string \<Rightarrow> nat \<Rightarrow> recommend_request \<Rightarrow> recommend_response job_manager
   \<Rightarrow> ((string \<times> string \<times> string) \<times> recommend_response job_manager) result" where
  "recommend_addresses job_id now r jm =
     (if \<not> valid_recommend_request r then Inl (HTTPError 422 ''limit'')
      else Inr ((job_id, ''processing'', ''/api/stream/'' @ job_id),
                create_job job_id now (req_city r) (req_concept r) (req_limit r) (req_include_crime r) jm))"

definition job_status_text :: "job_status \<Rightarrow> string" where
  "job_status_text s = (case s of PENDING \<Rightarrow> ''pending'' | RUNNING \<Rightarrow> ''running''
     | COMPLETE \<Rightarrow> ''complete'' | FAILED \<Rightarrow> ''failed'' | DEGRADED \<Rightarrow> ''degraded'')"

definition get_job_status ::
  "string \<Rightarrow> recommend_response job_manager
   \<Rightarrow> (string \<times> string \<times> recommend_response option \<times> string option) result" where
  "get_job_status job_id jm =
     (case get_job job_id jm of
        None \<Rightarrow> Inl (HTTPError 404 ''Job not found'')
      | Some j \<Rightarrow> Inr (job_id, job_status_text (j_status j), j_result j, j_error j))"

definition stream_job_progress ::
  "nat \<Rightarrow> string \<Rightarrow> recommend_response job_manager
   \<Rightarrow> (recommend_response event list \<times> recommend_response job_manager) option result" where
  "stream_job_progress fuel job_id jm =
     (case get_job job_id jm of
        None \<Rightarrow> Inl (HTTPError 404 ''Job not found'')
      | Some j \<Rightarrow> Inr (stream_job_events fuel job_id jm))"

section \<open>Lemmas\<close>

lemma score_candidate_valid:
  "0 \<le> sd_score (score_candidate ic lat lng) \<and> sd_score (score_candidate ic lat lng) \<le> 100
   \<and> 0 \<le> sd_confidence (score_candidate ic lat lng) \<and> sd_confidence (score_candidate ic lat lng) \<le> 1"
proof -
  obtain p where p: "get_population_score lat lng = \<lparr>pd_score = min (p / 25000 * 100) 100, pd_population = p,
     pd_coverage = Some 1\<rparr>" "7500 \<le> p"
    using get_population_score_eq by blast
  define s where "s = min (p / 25000 * 100) 100 * 0.28 + 70.03 * 0.15 + 55 * 0.20 + 70 * 0.22 + 60 * (0.10::real)"
  have "of_int 0 \<le> s" "s \<le> of_int 100" using p(2) by (auto simp: s_def min_def)
  then have "0 \<le> py_round 1 s \<and> py_round 1 s \<le> 100" using py_round_between [of 0 s 100 1] by simp
  moreover have "sd_score (score_candidate ic lat lng) = py_round 1 s"
    by (simp add: score_candidate_def score_candidate_with_def p sub_scores_eq Let_def candidate_weights_def s_def)
  ultimately show ?thesis by (simp add: score_candidate_confidence)
qed

lemma set_generate_candidates_for_area:
  "c \<in> set (generate_candidates_for_area geo ic area) \<Longrightarrow>
   \<exists>lat lng. cand_data c = score_candidate ic lat lng"
  unfolding generate_candidates_for_area_def Let_def
  by (fastforce split: if_splits)

lemma set_assign_ranks:
  "c \<in> set (assign_ranks i xs) \<Longrightarrow> \<exists>x \<in> set xs. \<exists>k. c = x\<lparr>cand_rank := Some k\<rparr>"
  by (induction i xs rule: assign_ranks.induct) auto

lemma set_deduplicate: "set (deduplicate_by_distance cs m) \<subseteq> set cs"
  using dedup_loop_subset [of m "[]" "sort_by_score cs"] by (auto simp: deduplicate_by_distance_def)

lemma generate_candidates_valid:
  assumes "c \<in> set (generate_candidates h geo city limit ic)"
  shows "\<exists>k lat lng. cand_rank c = Some k \<and> cand_data c = score_candidate ic lat lng"
proof -
  from assms obtain x k where x: "x \<in> set (py_take limit (sort_by_score (deduplicate_by_distance
        (concat (map (generate_candidates_for_area geo ic) (get_top_areas h city 4))) 80)))"
      and c: "c = x\<lparr>cand_rank := Some k\<rparr>"
    by (auto simp: generate_candidates_def Let_def split: if_splits dest: set_assign_ranks)
  obtain n where "py_take limit (sort_by_score (deduplicate_by_distance
        (concat (map (generate_candidates_for_area geo ic) (get_top_areas h city 4))) 80))
      = take n (sort_by_score (deduplicate_by_distance
        (concat (map (generate_candidates_for_area geo ic) (get_top_areas h city 4))) 80))"
    using py_take_take by blast
  with x have "x \<in> set (deduplicate_by_distance
        (concat (map (generate_candidates_for_area geo ic) (get_top_areas h city 4))) 80)"
    by (auto dest: in_set_takeD)
  then have "x \<in> set (concat (map (generate_candidates_for_area geo ic) (get_top_areas h city 4)))"
    using set_deduplicate by blast
  then obtain area where "x \<in> set (generate_candidates_for_area geo ic area)" by auto
  then obtain lat lng where "cand_data x = score_candidate ic lat lng"
    using set_generate_candidates_for_area by blast
  with c show ?thesis by auto
qed

lemma build_response_generated:
  "\<exists>r. build_response job_id city concept ic (generate_candidates h geo city' limit ic') = Inr r
     \<and> rr_top r = map (\<lambda>c. \<lparr>ra_rank = int (the (cand_rank c)), ra_address = cand_address c,
          ra_lat = cand_lat c, ra_lng = cand_lng c, ra_score = cand_score c,
          ra_revenue_min_eur = sd_revenue_min_eur (cand_data c),
          ra_revenue_max_eur = sd_revenue_max_eur (cand_data c),
          ra_confidence = sd_confidence (cand_data c), ra_decision = sd_decision (cand_data c),
          ra_area_id = cand_area_id c\<rparr>) (generate_candidates h geo city' limit ic')"
proof -
  have "map_result to_recommended_address xs = Inr (map (\<lambda>c. \<lparr>ra_rank = int (the (cand_rank c)),
          ra_address = cand_address c,
          ra_lat = cand_lat c, ra_lng = cand_lng c, ra_score = cand_score c,
          ra_revenue_min_eur = sd_revenue_min_eur (cand_data c),
          ra_revenue_max_eur = sd_revenue_max_eur (cand_data c),
          ra_confidence = sd_confidence (cand_data c), ra_decision = sd_decision (cand_data c),
          ra_area_id = cand_area_id c\<rparr>) xs)"
    if "set xs \<subseteq> set (generate_candidates h geo city' limit ic')" for xs
    using that
  proof (induction xs)
    case (Cons x xs)
    obtain k lat lng where "cand_rank x = Some k" "cand_data x = score_candidate ic' lat lng"
      using generate_candidates_valid Cons.prems by (meson list.set_intros(1) subsetD)
    then show ?case
      using Cons score_candidate_valid [of ic' lat lng] by (simp add: to_recommended_address_def)
  qed simp
  then show ?thesis by (simp add: build_response_def)
qed

lemma run_recommendation_job_success:
  assumes j: "jm_jobs jm job_id = Some j" and q: "jm_queues jm job_id = Some q"
    and r: "build_response job_id city concept ic cs = Inr result"
  shows "jm_queues (run_recommendation_job job_id city concept ic (Inr cs) total_ms now jm) job_id
       = Some (q @ [StageEvent job_id ''GEO'' StageRunning [] (Some 0) False,
              StageEvent job_id ''GEO'' StageDone [(''areas_identified'', 8)] (Some (int (total_ms div 7))) False,
              StageEvent job_id ''DEMO'' StageDone [(''areas_scored'', int (length cs))] (Some (int (total_ms div 7))) False,
              StageEvent job_id ''COMP'' StageDone [(''competitors_counted'', int (length cs))] (Some (int (total_ms div 7))) False,
              StageEvent job_id ''TRANSIT'' StageDone [(''transit_scored'', int (length cs))] (Some (int (total_ms div 7))) False,
              StageEvent job_id ''TRAFFIC'' StageDone [(''traffic_points'', 0)] (Some (int (total_ms div 7))) False,
              StageEvent job_id ''RENTS'' StageDone [(''rent_bands'', 0)] (Some (int (total_ms div 7))) False,
              StageEvent job_id ''REVENUE'' StageDone [(''predictions'', int (length cs))] (Some (int (total_ms div 7))) False,
              CompleteEvent job_id result, EndOfStream])
     \<and> map_option j_status (jm_jobs (run_recommendation_job job_id city concept ic (Inr cs) total_ms now jm) job_id)
         = Some COMPLETE
     \<and> map_option j_result (jm_jobs (run_recommendation_job job_id city concept ic (Inr cs) total_ms now jm) job_id)
         = Some (Some result)"
  using j q r
  by (simp add: run_recommendation_job_def recommendation_job_ops_def stage_done_ops_def set_running_def
      emit_stage_update_def complete_job_def put_events_def queue_of_def Let_def)

section \<open>Properties of the recommendation job\<close>

text \<open>
  C29. When the candidate generator raises, the job's stream receives the GEO start, an
  error event carrying the message, and the end-of-stream mark, and the job is failed
  with that message.
\<close>

theorem run_recommendation_job_failure:
  assumes j: "jm_jobs jm job_id = Some j" and q: "jm_queues jm job_id = Some q"
  shows "queue_of job_id (run_recommendation_job job_id city concept ic (Inl e) total_ms now jm)
       = q @ [StageEvent job_id ''GEO'' StageRunning [] (Some 0) False, ErrorEvent job_id (error_text e), EndOfStream]
     \<and> map_option (\<lambda>j. (j_status j, j_error j))
         (jm_jobs (run_recommendation_job job_id city concept ic (Inl e) total_ms now jm) job_id)
         = Some (FAILED, Some (error_text e))"
  using j q
  by (simp add: run_recommendation_job_def recommendation_job_ops_def set_running_def
      emit_stage_update_def fail_job_def put_events_def queue_of_def Let_def)

theorem run_recommendation_job_failure_witness:
  "queue_of ''j1'' (run_recommendation_job ''j1'' ''Helsinki'' ''QSR'' False (Inl TypeError) 700 5
      (create_job ''j1'' 0 ''Helsinki'' ''QSR'' 10 False (new_job_manager 3600)))
     = [] @ [StageEvent ''j1'' ''GEO'' StageRunning [] (Some 0) False,
             ErrorEvent ''j1'' (error_text TypeError), EndOfStream]
   \<and> map_option (\<lambda>j. (j_status j, j_error j))
       (jm_jobs (run_recommendation_job ''j1'' ''Helsinki'' ''QSR'' False (Inl TypeError) 700 5
          (create_job ''j1'' 0 ''Helsinki'' ''QSR'' 10 False (new_job_manager 3600))) ''j1'')
       = Some (FAILED, Some (error_text TypeError))"
  by (rule run_recommendation_job_failure) (simp_all add: create_job_def)

end
