(* ===== verification/TrustMetrics.thy ===== *)
theory TrustMetrics
  imports Scoring
begin

text \<open>
  \<open>src/backend/services/trust_metrics.py\<close> (class \<open>TrustMetrics\<close>): data coverage of a
  feature dictionary, the prediction confidence from the score components and the
  coverage, and the method information. A dictionary of numbers passed to these methods
  is an association list, read with \<open>map_of\<close>, so that the keys the code looks up can be
  told from the keys the caller supplies.
\<close>

section \<open>Coverage\<close>

record data_coverage =
  dc_demographics :: real
  dc_competition :: real
  dc_transit :: real
  dc_overall :: real

definition calculate_coverage :: "features \<Rightarrow> data_coverage" where
  "calculate_coverage f =
     (let demo_present = count_present [field_get (population_1km f), field_get (population_density f),
                                        field_get (median_income f)];
          demographics = real demo_present / 3;
          comp_present = count_present [field_get (competitors_count f),
                                        field_get (competitors_per_1k_residents f)];
          competition = real comp_present / 2;
          transit_present = count_present [field_get (nearest_metro_distance_m f),
                                           field_get (nearest_tram_distance_m f),
                                           field_get (walkability_poi_count f)];
          transit = real transit_present / 3;
          overall = demographics * 0.4 + competition * 0.3 + transit * 0.3
      in \<lparr>dc_demographics = py_round 2 demographics, dc_competition = py_round 2 competition,
          dc_transit = py_round 2 transit, dc_overall = py_round 2 overall\<rparr>)"

section \<open>Confidence\<close>

text \<open>\<open>score_components.get(k, 50)\<close>.\<close>

definition get_or :: "(string \<times> real) list \<Rightarrow> string \<Rightarrow> real \<Rightarrow> real" where
  "get_or d k v = (case map_of d k of None \<Rightarrow> v | Some x \<Rightarrow> x)"

definition confidence_required_features :: "string list" where
  "confidence_required_features =
     [''population_1km'', ''median_income'', ''competitors_count'', ''nearest_metro_distance_m'',
      ''walkability_poi_count'']"

definition trust_confidence :: "(string \<times> real) list \<Rightarrow> data_coverage \<Rightarrow> real" where
  "trust_confidence score_components coverage =
     (let coverage_score = dc_overall coverage * 0.4;
          scores = [get_or score_components ''population'' 50, get_or score_components ''income'' 50,
                    get_or score_components ''access'' 50, get_or score_components ''competition'' 50];
          avg_score = sum_list scores / 4;
          variance = sum_list (map (\<lambda>s. (s - avg_score)\<^sup>2) scores) / 4;
          std_dev = sqrt variance;
          consistency = max 0 (1 - std_dev / 50);
          consistency_score = consistency * 0.3;
          features_present = length (filter (\<lambda>k. map_of score_components k \<noteq> None)
                                        confidence_required_features);
          completeness = real features_present / 5;
          completeness_score = completeness * 0.3;
          confidence = coverage_score + consistency_score + completeness_score
      in py_round 2 (min confidence 1))"

text \<open>
  The \<open>score_components\<close> dictionary of \<open>ScoringEngine.calculate_score\<close>, which the
  discovery endpoints of \<open>main.py\<close> pass to \<open>calculate_confidence\<close>.
\<close>

definition components_dict :: "score_components \<Rightarrow> (string \<times> real) list" where
  "components_dict sc =
     [(''population'', sc_population sc), (''income'', sc_income sc), (''access'', sc_access sc),
      (''competition'', sc_competition sc), (''walkability'', sc_walkability sc)]"

section \<open>Method information\<close>

record method_info =
  mi_scoring_method :: string
  mi_data_sources :: "string list"
  mi_last_updated :: string
  mi_confidence_basis :: string

text \<open>Truthiness of a dictionary value: present and non-zero.\<close>

definition field_truthy :: "real pyfield \<Rightarrow> bool" where
  "field_truthy v = (case v of Present x \<Rightarrow> x \<noteq> 0 | _ \<Rightarrow> False)"

text \<open>
  \<open>get_method_info\<close>; \<open>postal_code\<close> is the dictionary's \<open>postal_code\<close> entry and
  \<open>now\<close> the ISO time stamp. \<open>MethodInfo\<close> accepts only the two scoring methods.
\<close>

definition get_method_info ::
  "string \<Rightarrow> features option \<Rightarrow> string option \<Rightarrow> string \<Rightarrow> method_info result" where
  "get_method_info scoring_method features postal_code now =
     (let data_sources =
        (case features of
           None \<Rightarrow> []
         | Some f \<Rightarrow>
             if features_empty f then []
             else (if field_truthy (population_1km f) \<or> field_truthy (population_density f)
                   then [''Statistics Finland Population Grid (1km)''] else [])
               @ (if field_truthy (median_income f) \<or> (postal_code \<noteq> None \<and> postal_code \<noteq> Some [])
                  then [''Statistics Finland PAAVO (Postal Code Demographics)''] else [])
               @ (if field_truthy (competitors_count f) then [''OpenStreetMap (Competition Data)''] else [])
               @ (if field_truthy (nearest_metro_distance_m f) \<or> field_truthy (nearest_tram_distance_m f)
                  then [''OpenStreetMap (Transit Data)''] else []));
          confidence_basis =
            (if scoring_method = ''heuristic'' then ''Based on data coverage and score component consistency''
             else if scoring_method = ''agent_based'' then ''Based on Agno reasoning agents' confidence levels''
             else ''Based on available data quality'')
      in if scoring_method \<notin> {''heuristic'', ''agent_based''} then Inl (ValueError ''scoring_method'')
         else Inr \<lparr>mi_scoring_method = scoring_method,
                   mi_data_sources = (if data_sources = [] then [''Limited data available''] else data_sources),
                   mi_last_updated = now @ ''Z'', mi_confidence_basis = confidence_basis\<rparr>)"

definition ex_coverage :: data_coverage where
  "ex_coverage = \<lparr>dc_demographics = 1, dc_competition = 1, dc_transit = 0.67, dc_overall = 0.9\<rparr>"

section \<open>Properties\<close>

lemma share_range: "k \<le> n \<Longrightarrow> 0 < n \<Longrightarrow> 0 \<le> real k / real n \<and> real k / real n \<le> 1"
  by simp

lemma py_round_unit: "0 \<le> x \<Longrightarrow> x \<le> 1 \<Longrightarrow> 0 \<le> py_round n x \<and> py_round n x \<le> 1"
  using py_round_between [of 0 x 1 n] by simp

lemma count_present_le3: "count_present [a, b, c] \<le> 3"
  using count_present_le [of "[a, b, c]"] by simp

lemma count_present_le2: "count_present [a, b] \<le> 2"
  using count_present_le [of "[a, b]"] by simp

lemma count_present_lt: "None \<in> set xs \<Longrightarrow> count_present xs < length xs"
  unfolding count_present_def by (induction xs) (auto simp: le_imp_less_Suc)

lemma count_present_all: "None \<notin> set xs \<Longrightarrow> count_present xs = length xs"
proof (induction xs)
  case (Cons a xs)
  have "a \<noteq> None" using Cons.prems by (metis list.set_intros(1))
  moreover have "count_present xs = length xs" using Cons by simp
  ultimately show ?case by (simp add: count_present_def)
qed (simp add: count_present_def)

lemma rounded_share_lt1:
  assumes "k < n" "n \<le> 3"
  shows "py_round 2 (real k / real n) < 1"
proof -
  have "3 * k \<le> 2 * n" using assms by linarith
  then have "real k / real n \<le> 67 / 10 ^ 2" using assms by (simp add: field_simps)
  then have "py_round 2 (real k / real n) \<le> 67 / 10 ^ 2"
    using py_round_mono [of "real k / real n" "67 / 10 ^ 2" 2] py_round_grid [of 2 67] by simp
  then show ?thesis by simp
qed

lemma trust_confidence_components_dict:
  "\<exists>cons. 0 \<le> cons \<and> cons \<le> 1 \<and>
     trust_confidence (components_dict sc) cov = py_round 2 (min (dc_overall cov * 0.4 + cons * 0.3) 1)"
proof -
  define s where "s = [sc_population sc, sc_income sc, sc_access sc, sc_competition sc]"
  define cons where "cons = max 0 (1 - sqrt (sum_list (map (\<lambda>x. (x - sum_list s / 4)\<^sup>2) s) / 4) / 50)"
  have "0 \<le> sum_list (map (\<lambda>x. (x - sum_list s / 4)\<^sup>2) s)" by (rule sum_list_nonneg) auto
  then have "0 \<le> cons \<and> cons \<le> 1" by (simp add: cons_def)
  moreover have "trust_confidence (components_dict sc) cov = py_round 2 (min (dc_overall cov * 0.4 + cons * 0.3) 1)"
    by (simp add: trust_confidence_def components_dict_def get_or_def confidence_required_features_def
        Let_def cons_def s_def)
  ultimately show ?thesis by blast
qed

lemma rounded_confidence_le:
  assumes "ov \<le> 1" "cons \<le> 1"
  shows "py_round 2 (min (ov * 0.4 + cons * 0.3) 1) \<le> 0.7"
proof -
  have "min (ov * 0.4 + cons * 0.3) 1 \<le> 70 / 10 ^ 2" using assms by simp
  then have "py_round 2 (min (ov * 0.4 + cons * 0.3) 1) \<le> 70 / 10 ^ 2"
    using py_round_mono [of _ "70 / 10 ^ 2" 2] py_round_grid [of 2 70] by fastforce
  then show ?thesis by simp
qed

lemma calculate_coverage_shares:
  "\<exists>d c t. 0 \<le> d \<and> d \<le> 1 \<and> 0 \<le> c \<and> c \<le> 1 \<and> 0 \<le> t \<and> t \<le> 1 \<and>
     calculate_coverage f = \<lparr>dc_demographics = py_round 2 d, dc_competition = py_round 2 c,
       dc_transit = py_round 2 t, dc_overall = py_round 2 (d * 0.4 + c * 0.3 + t * 0.3)\<rparr>"
proof -
  define d where "d = real (count_present [field_get (population_1km f), field_get (population_density f),
                                        field_get (median_income f)]) / 3"
  define c where "c = real (count_present [field_get (competitors_count f),
                                        field_get (competitors_per_1k_residents f)]) / 2"
  define t where "t = real (count_present [field_get (nearest_metro_distance_m f),
                                           field_get (nearest_tram_distance_m f),
                                           field_get (walkability_poi_count f)]) / 3"
  have "0 \<le> d" "d \<le> 1" "0 \<le> c" "c \<le> 1" "0 \<le> t" "t \<le> 1"
    unfolding d_def c_def t_def using count_present_le3 count_present_le2 by auto
  moreover have "calculate_coverage f = \<lparr>dc_demographics = py_round 2 d, dc_competition = py_round 2 c,
       dc_transit = py_round 2 t, dc_overall = py_round 2 (d * 0.4 + c * 0.3 + t * 0.3)\<rparr>"
    unfolding calculate_coverage_def Let_def d_def c_def t_def by simp
  ultimately show ?thesis by blast
qed

lemma calculate_coverage_overall_le: "dc_overall (calculate_coverage f) \<le> 1"
proof -
  obtain d c t where "d \<le> 1" "c \<le> 1" "t \<le> 1" "0 \<le> d" "0 \<le> c" "0 \<le> t"
    "dc_overall (calculate_coverage f) = py_round 2 (d * 0.4 + c * 0.3 + t * 0.3)"
    using calculate_coverage_shares by (metis data_coverage.select_convs(4))
  then show ?thesis using py_round_unit [of "d * 0.4 + c * 0.3 + t * 0.3" 2] by simp
qed

text \<open>
  Every entry of the data coverage (demographics, competition, transit, overall) lies
  in [0, 1].
\<close>

theorem calculate_coverage_range:
  "0 \<le> dc_demographics (calculate_coverage f) \<and> dc_demographics (calculate_coverage f) \<le> 1
   \<and> 0 \<le> dc_competition (calculate_coverage f) \<and> dc_competition (calculate_coverage f) \<le> 1
   \<and> 0 \<le> dc_transit (calculate_coverage f) \<and> dc_transit (calculate_coverage f) \<le> 1
   \<and> 0 \<le> dc_overall (calculate_coverage f) \<and> dc_overall (calculate_coverage f) \<le> 1"
proof -
  obtain d c t where s: "0 \<le> d" "d \<le> 1" "0 \<le> c" "c \<le> 1" "0 \<le> t" "t \<le> 1"
    "calculate_coverage f = \<lparr>dc_demographics = py_round 2 d, dc_competition = py_round 2 c,
       dc_transit = py_round 2 t, dc_overall = py_round 2 (d * 0.4 + c * 0.3 + t * 0.3)\<rparr>"
    using calculate_coverage_shares by blast
  then have "0 \<le> d * 0.4 + c * 0.3 + t * 0.3" "d * 0.4 + c * 0.3 + t * 0.3 \<le> 1" by linarith+
  with s show ?thesis using py_round_unit by simp
qed

text \<open>
  The coverage is 1 in every entry exactly when none of the eight feature keys it reads
  is missing or None.
\<close>

theorem calculate_coverage_complete:
  "calculate_coverage f = \<lparr>dc_demographics = 1, dc_competition = 1, dc_transit = 1, dc_overall = 1\<rparr>
   \<longleftrightarrow> None \<notin> set [field_get (population_1km f), field_get (population_density f), field_get (median_income f),
        field_get (competitors_count f), field_get (competitors_per_1k_residents f),
        field_get (nearest_metro_distance_m f), field_get (nearest_tram_distance_m f),
        field_get (walkability_poi_count f)]"
  (is "?lhs \<longleftrightarrow> None \<notin> set ?all")
proof
  assume l: ?lhs
  let ?d = "[field_get (population_1km f), field_get (population_density f), field_get (median_income f)]"
  let ?c = "[field_get (competitors_count f), field_get (competitors_per_1k_residents f)]"
  let ?t = "[field_get (nearest_metro_distance_m f), field_get (nearest_tram_distance_m f),
             field_get (walkability_poi_count f)]"
  have "py_round 2 (real (count_present ?d) / 3) = 1" "py_round 2 (real (count_present ?c) / 2) = 1"
       "py_round 2 (real (count_present ?t) / 3) = 1"
    using l by (simp_all add: calculate_coverage_def Let_def)
  then have "None \<notin> set ?d" "None \<notin> set ?c" "None \<notin> set ?t"
    using rounded_share_lt1 [of "count_present ?d" 3] rounded_share_lt1 [of "count_present ?c" 2]
      rounded_share_lt1 [of "count_present ?t" 3]
      count_present_lt [of ?d] count_present_lt [of ?c] count_present_lt [of ?t]
    by (auto simp del: set_simps)
  then show "None \<notin> set ?all" by auto
next
  let ?d = "[field_get (population_1km f), field_get (population_density f), field_get (median_income f)]"
  let ?c = "[field_get (competitors_count f), field_get (competitors_per_1k_residents f)]"
  let ?t = "[field_get (nearest_metro_distance_m f), field_get (nearest_tram_distance_m f),
             field_get (walkability_poi_count f)]"
  assume "None \<notin> set ?all"
  then have "None \<notin> set ?d" "None \<notin> set ?c" "None \<notin> set ?t" by auto
  then have "count_present ?d = 3" "count_present ?c = 2" "count_present ?t = 3"
    using count_present_all [of ?d] count_present_all [of ?c] count_present_all [of ?t] by simp_all
  then show ?lhs by (simp add: calculate_coverage_def Let_def)
qed

text \<open>
  For a coverage whose overall entry lies in [0, 1], the confidence computed by
  \<open>calculate_confidence\<close> lies in [0, 1].
\<close>

theorem trust_confidence_range:
  assumes "0 \<le> dc_overall cov" "dc_overall cov \<le> 1"
  shows "0 \<le> trust_confidence comps cov \<and> trust_confidence comps cov \<le> 1"
proof -
  define cons where "cons = max 0 (1 - sqrt (sum_list (map (\<lambda>s. (s - sum_list
      [get_or comps ''population'' 50, get_or comps ''income'' 50, get_or comps ''access'' 50,
       get_or comps ''competition'' 50] / 4)\<^sup>2)
      [get_or comps ''population'' 50, get_or comps ''income'' 50, get_or comps ''access'' 50,
       get_or comps ''competition'' 50]) / 4) / 50)"
  define k where "k = length (filter (\<lambda>k. map_of comps k \<noteq> None) confidence_required_features)"
  have "0 \<le> cons" by (simp add: cons_def)
  moreover have "k \<le> 5" using length_filter_le [of _ confidence_required_features]
    by (simp add: k_def confidence_required_features_def)
  ultimately have "0 \<le> min (dc_overall cov * 0.4 + cons * 0.3 + real k / 5 * 0.3) 1"
    using assms by simp
  then show ?thesis
    using py_round_unit [of "min (dc_overall cov * 0.4 + cons * 0.3 + real k / 5 * 0.3) 1" 2]
    by (simp add: trust_confidence_def Let_def cons_def k_def)
qed

theorem trust_confidence_range_witness:
  "0 \<le> dc_overall ex_coverage \<and> dc_overall ex_coverage \<le> 1
   \<and> 0 \<le> trust_confidence [(''population'', 80), (''median_income'', 40000)] ex_coverage
   \<and> trust_confidence [(''population'', 80), (''median_income'', 40000)] ex_coverage \<le> 1"
  using trust_confidence_range [of ex_coverage "[(''population'', 80), (''median_income'', 40000)]"]
  by (simp add: ex_coverage_def)

text \<open>
  C38. Called, as the endpoints of main.py call it, with the score components of the scoring
  engine, \<open>calculate_confidence\<close> finds none of the feature names it looks for in that
  dictionary: the completeness share is 0 and the confidence never exceeds 0.7.
\<close>

theorem trust_confidence_scorer_components:
  assumes "dc_overall cov \<le> 1"
  shows "trust_confidence (components_dict sc) cov \<le> 0.7"
proof -
  obtain cons where "cons \<le> 1"
    "trust_confidence (components_dict sc) cov = py_round 2 (min (dc_overall cov * 0.4 + cons * 0.3) 1)"
    using trust_confidence_components_dict by blast
  with assms show ?thesis using rounded_confidence_le by simp
qed

theorem trust_confidence_scorer_components_witness:
  "dc_overall ex_coverage \<le> 1
   \<and> trust_confidence (components_dict (sr_components ex_result)) ex_coverage \<le> 0.7"
  using trust_confidence_scorer_components [of ex_coverage "sr_components ex_result"]
  by (simp add: ex_coverage_def)

end
