(* ===== verification/ConceptRoutes.thy ===== *)
theory ConceptRoutes
  imports DataModel
begin

text \<open>
  The concept management API of \<open>src/backend/routes/concepts.py\<close> over an explicit store:
  the \<open>Concept\<close> rows in query order and the ids of the \<open>Customer\<close> rows. A handler returns
  its response and the committed store, or an HTTP error (\<open>HTTPError code detail\<close>) or a
  database error, after which nothing is committed. Request bodies are validated by pydantic
  before the handler runs (FastAPI answers 422). New ids (\<open>generate_uuid\<close>) are parameters.
  A field of \<open>ConceptUpdate\<close> left out of the body is \<open>Missing\<close>, one sent as \<open>null\<close>
  \<open>PyNone\<close>; the model takes \<open>weights\<close> and \<open>is_active\<close> as absent or a value: a JSON
  \<open>null\<close> stored in those columns is not a value of the concept record.
\<close>

section \<open>State and requests\<close>

record concept_store =
  cs_concepts :: "concept list"
  cs_customers :: "string list"

text \<open>\<open>ConceptWeights\<close>: each weight in [0, 1].\<close>

definition valid_concept_weights :: "weights \<Rightarrow> bool" where
  "valid_concept_weights w \<longleftrightarrow>
     (\<forall>x \<in> set [w_population w, w_income w, w_access w, w_competition w, w_walkability w]. 0 \<le> x \<and> x \<le> 1)"

text \<open>The handlers' check \<open>0.95 <= sum(weights) <= 1.05\<close>.\<close>

definition weights_sum_ok :: "weights \<Rightarrow> bool" where
  "weights_sum_ok w \<longleftrightarrow> 0.95 \<le> weights_total w \<and> weights_total w \<le> 1.05"

record concept_create =
  cc_customer_id :: string
  cc_name :: string
  cc_category :: string
  cc_description :: "string option"
  cc_base_revenue_eur :: int
  cc_target_income_min :: int
  cc_target_income_max :: int
  cc_optimal_population_density :: int
  cc_target_competitors_per_1k :: real
  cc_weights :: weights

definition valid_concept_create :: "concept_create \<Rightarrow> bool" where
  "valid_concept_create d \<longleftrightarrow> 0 < cc_base_revenue_eur d \<and> 0 < cc_target_income_min d
     \<and> 0 < cc_target_income_max d \<and> 0 < cc_optimal_population_density d
     \<and> 0 < cc_target_competitors_per_1k d \<and> valid_concept_weights (cc_weights d)"

record concept_update =
  cu_name :: "string pyfield"
  cu_description :: "string pyfield"
  cu_base_revenue_eur :: "int pyfield"
  cu_target_income_min :: "int pyfield"
  cu_target_income_max :: "int pyfield"
  cu_optimal_population_density :: "int pyfield"
  cu_target_competitors_per_1k :: "real pyfield"
  cu_weights :: "weights option"
  cu_is_active :: "bool option"

definition valid_concept_update :: "concept_update \<Rightarrow> bool" where
  "valid_concept_update u \<longleftrightarrow> (case cu_weights u of None \<Rightarrow> True | Some w \<Rightarrow> valid_concept_weights w)"

section \<open>Handlers\<close>

definition find_concept :: "string \<Rightarrow> concept_store \<Rightarrow> concept option" where
  "find_concept concept_id st = find (\<lambda>c. c_id c = concept_id) (cs_concepts st)"

text \<open>\<open>if customer_id:\<close> and \<open>if category:\<close> test for a non-empty string.\<close>

definition list_concepts ::
  "string option \<Rightarrow> string option \<Rightarrow> bool \<Rightarrow> concept_store \<Rightarrow> concept list \<times> nat \<times> nat \<times> nat" where
  "list_concepts customer_filter category_filter is_active_filter st =
     (let q1 = (case customer_filter of Some cid \<Rightarrow> if cid \<noteq> [] then filter (\<lambda>c. customer_id c = cid) (cs_concepts st)
                                                else cs_concepts st
                                  | None \<Rightarrow> cs_concepts st);
          q2 = (case category_filter of Some cat \<Rightarrow> if cat \<noteq> [] then filter (\<lambda>c. category c = cat) q1 else q1
                              | None \<Rightarrow> q1);
          concepts = filter (\<lambda>c. is_active c = is_active_filter) q2;
          system_defaults = length (filter is_system_default concepts)
      in (concepts, length concepts, system_defaults, length concepts - system_defaults))"


definition get_concept :: "string \<Rightarrow> concept_store \<Rightarrow> concept result" where
  "get_concept concept_id st =
     (case find_concept concept_id st of
        None \<Rightarrow> Inl (HTTPError 404 (''Concept '' @ concept_id @ '' not found''))
      | Some c \<Rightarrow> Inr c)"

text \<open>
  \<open>db.add\<close> and \<open>db.commit\<close> of a new row: the primary key \<open>id\<close> must be fresh, else the
  commit raises \<open>IntegrityError\<close>.
\<close>

definition insert_concept :: "concept \<Rightarrow> concept_store \<Rightarrow> (concept \<times> concept_store) result" where
  "insert_concept c st =
     (if c_id c \<in> set (map c_id (cs_concepts st)) then Inl IntegrityError
      else Inr (c, st\<lparr>cs_concepts := cs_concepts st @ [c]\<rparr>))"

definition create_concept ::
  "string \<Rightarrow> concept_create \<Rightarrow> concept_store \<Rightarrow> (concept \<times> concept_store) result" where
  "create_concept new_id d st =
     (if \<not> valid_concept_create d then Inl (HTTPError 422 ''validation'')
      else if cc_customer_id d \<notin> set (cs_customers st) then Inl (HTTPError 404 (''Customer '' @ cc_customer_id d @ '' not found''))
      else if \<not> weights_sum_ok (cc_weights d)
      then Inl (HTTPError 400 ''Weights must sum to approximately 1.0'')
      else insert_concept
             \<lparr>c_id = new_id, customer_id = cc_customer_id d, c_name = cc_name d, category = cc_category d,
              description = cc_description d, base_revenue_eur = cc_base_revenue_eur d,
              revenue_variance = 0.2, target_income_min = cc_target_income_min d,
              target_income_max = cc_target_income_max d,
              optimal_population_density = cc_optimal_population_density d,
              target_competitors_per_1k = cc_target_competitors_per_1k d, c_weights = cc_weights d,
              outcomes_count = 0, avg_prediction_error = None, last_trained_at = None,
              is_system_default = False, is_active = True\<rparr> st)"

text \<open>
  \<open>setattr(concept, field, value)\<close> on a column declared \<open>nullable=False\<close>: an explicit
  \<open>null\<close> makes the commit raise \<open>IntegrityError\<close>.
\<close>

definition set_required :: "'a pyfield \<Rightarrow> 'a \<Rightarrow> 'a result" where
  "set_required v old = (case v of Missing \<Rightarrow> Inr old | PyNone \<Rightarrow> Inl IntegrityError | Present x \<Rightarrow> Inr x)"

definition set_nullable :: "'a pyfield \<Rightarrow> 'a option \<Rightarrow> 'a option" where
  "set_nullable v old = (case v of Missing \<Rightarrow> old | PyNone \<Rightarrow> None | Present x \<Rightarrow> Some x)"

definition apply_concept_update :: "concept_update \<Rightarrow> concept \<Rightarrow> concept result" where
  "apply_concept_update u c =
     r_bind (set_required (cu_name u) (c_name c)) (\<lambda>name.
     r_bind (set_required (cu_base_revenue_eur u) (base_revenue_eur c)) (\<lambda>base.
     r_bind (set_required (cu_target_income_min u) (target_income_min c)) (\<lambda>tmin.
     r_bind (set_required (cu_target_income_max u) (target_income_max c)) (\<lambda>tmax.
     r_bind (set_required (cu_optimal_population_density u) (optimal_population_density c)) (\<lambda>opt.
     r_map (\<lambda>tcomp.
        c\<lparr>c_name := name, description := set_nullable (cu_description u) (description c),
          base_revenue_eur := base, target_income_min := tmin, target_income_max := tmax,
          optimal_population_density := opt, target_competitors_per_1k := tcomp,
          c_weights := (case cu_weights u of None \<Rightarrow> c_weights c | Some w \<Rightarrow> w),
          is_active := (case cu_is_active u of None \<Rightarrow> is_active c | Some a \<Rightarrow> a)\<rparr>)
       (set_required (cu_target_competitors_per_1k u) (target_competitors_per_1k c)))))))"

definition update_concept ::
  "string \<Rightarrow> concept_update \<Rightarrow> concept_store \<Rightarrow> (concept \<times> concept_store) result" where
  "update_concept concept_id u st =
     (if \<not> valid_concept_update u then Inl (HTTPError 422 ''validation'')
      else case find_concept concept_id st of
        None \<Rightarrow> Inl (HTTPError 404 (''Concept '' @ concept_id @ '' not found''))
      | Some c \<Rightarrow>
          if is_system_default c then Inl (HTTPError 403 ''Cannot modify system default concepts. Clone it first.'')
          else if (case cu_weights u of None \<Rightarrow> False | Some w \<Rightarrow> \<not> weights_sum_ok w)
          then Inl (HTTPError 400 ''Weights must sum to approximately 1.0'')
          else r_map (\<lambda>c'. (c', st\<lparr>cs_concepts := update_first (\<lambda>x. c_id x = concept_id) (\<lambda>_. c') (cs_concepts st)\<rparr>))
                 (apply_concept_update u c))"

definition clone_concept ::
  "string \<Rightarrow> string \<Rightarrow> string \<Rightarrow> string \<Rightarrow> concept_store \<Rightarrow> (concept \<times> concept_store) result" where
  "clone_concept concept_id new_name customer new_id st =
     (case find_concept concept_id st of
        None \<Rightarrow> Inl (HTTPError 404 (''Source concept '' @ concept_id @ '' not found''))
      | Some src \<Rightarrow>
          if customer \<notin> set (cs_customers st) then Inl (HTTPError 404 (''Customer '' @ customer @ '' not found''))
          else insert_concept
                 \<lparr>c_id = new_id, customer_id = customer, c_name = new_name, category = category src,
                  description = Some (''Cloned from '' @ c_name src), base_revenue_eur = base_revenue_eur src,
                  revenue_variance = revenue_variance src, target_income_min = target_income_min src,
                  target_income_max = target_income_max src,
                  optimal_population_density = optimal_population_density src,
                  target_competitors_per_1k = target_competitors_per_1k src, c_weights = c_weights src,
                  outcomes_count = 0, avg_prediction_error = None, last_trained_at = None,
                  is_system_default = False, is_active = True\<rparr> st)"

definition delete_concept ::
  "string \<Rightarrow> concept_store \<Rightarrow> ((string \<times> string) \<times> concept_store) result" where
  "delete_concept concept_id st =
     (case find_concept concept_id st of
        None \<Rightarrow> Inl (HTTPError 404 (''Concept '' @ concept_id @ '' not found''))
      | Some c \<Rightarrow>
          if is_system_default c then Inl (HTTPError 403 ''Cannot delete system default concepts'')
          else Inr ((''deleted'', concept_id),
                    st\<lparr>cs_concepts := update_first (\<lambda>x. c_id x = concept_id) (\<lambda>x. x\<lparr>is_active := False\<rparr>)
                                        (cs_concepts st)\<rparr>))"

section \<open>Requests as steps\<close>

datatype concept_op =
    OpCreateConcept string concept_create
  | OpUpdateConcept string concept_update
  | OpCloneConcept string string string string
  | OpDeleteConcept string

text \<open>The store after a request: the committed store, or the old one when the request failed.\<close>

fun apply_concept_op :: "concept_op \<Rightarrow> concept_store \<Rightarrow> concept_store" where
  "apply_concept_op (OpCreateConcept new_id d) st = (case create_concept new_id d st of Inl _ \<Rightarrow> st | Inr (_, st') \<Rightarrow> st')"
| "apply_concept_op (OpUpdateConcept cid u) st = (case update_concept cid u st of Inl _ \<Rightarrow> st | Inr (_, st') \<Rightarrow> st')"
| "apply_concept_op (OpCloneConcept cid n cust new_id) st =
     (case clone_concept cid n cust new_id st of Inl _ \<Rightarrow> st | Inr (_, st') \<Rightarrow> st')"
| "apply_concept_op (OpDeleteConcept cid) st = (case delete_concept cid st of Inl _ \<Rightarrow> st | Inr (_, st') \<Rightarrow> st')"

section \<open>Example store\<close>

definition ex_system_concept :: concept where
  "ex_system_concept = \<lparr>c_id = ''qsr'', customer_id = ''system'', c_name = ''QSR'', category = ''QSR'',
     description = None, base_revenue_eur = 100000, revenue_variance = 0.2, target_income_min = 30000,
     target_income_max = 50000, optimal_population_density = 10000, target_competitors_per_1k = 2,
     c_weights = \<lparr>w_population = 0.3, w_income = 0.2, w_access = 0.2, w_competition = 0.2,
                   w_walkability = 0.1\<rparr>,
     outcomes_count = 0, avg_prediction_error = None, last_trained_at = None,
     is_system_default = True, is_active = True\<rparr>"

definition ex_store :: concept_store where
  "ex_store = \<lparr>cs_concepts = [ex_system_concept,
       ex_system_concept\<lparr>c_id := ''c1'', customer_id := ''cust'', c_name := ''My QSR'', is_system_default := False\<rparr>],
     cs_customers = [''system'', ''cust'']\<rparr>"

definition ex_no_update :: concept_update where
  "ex_no_update = \<lparr>cu_name = Missing, cu_description = Missing, cu_base_revenue_eur = Missing,
     cu_target_income_min = Missing, cu_target_income_max = Missing, cu_optimal_population_density = Missing,
     cu_target_competitors_per_1k = Missing, cu_weights = None, cu_is_active = None\<rparr>"

section \<open>Properties of the store\<close>

lemma insert_concept_Inr:
  "insert_concept c st = Inr (r, st') \<Longrightarrow>
   c_id c \<notin> set (map c_id (cs_concepts st)) \<and> r = c \<and> st' = st\<lparr>cs_concepts := cs_concepts st @ [c]\<rparr>"
  by (auto simp: insert_concept_def split: if_splits)

lemma create_concept_Inr:
  assumes "create_concept nid d st = Inr (c, st')"
  shows "valid_concept_create d \<and> weights_sum_ok (cc_weights d) \<and> nid \<notin> set (map c_id (cs_concepts st))
    \<and> c_id c = nid \<and> is_active c \<and> c_weights c = cc_weights d
    \<and> target_income_min c = cc_target_income_min d \<and> target_income_max c = cc_target_income_max d
    \<and> cs_concepts st' = cs_concepts st @ [c]"
  using assms by (auto simp: create_concept_def insert_concept_def split: if_splits)

lemma apply_concept_update_frame:
  "apply_concept_update u c = Inr c' \<Longrightarrow>
   c_id c' = c_id c \<and> is_system_default c' = is_system_default c \<and> customer_id c' = customer_id c"
  by (auto simp: apply_concept_update_def r_bind_Inr_iff r_map_Inr_iff)

lemma find_concept_Some: "find_concept cid st = Some c \<Longrightarrow> c_id c = cid \<and> c \<in> set (cs_concepts st)"
  unfolding find_concept_def using find_Some_P by fastforce

text \<open>What a successful request does to the rows, by kind of request.\<close>

lemma apply_concept_op_cases:
  obtains (same) "apply_concept_op op st = st"
  | (appended) c where "\<not> is_system_default c" "c_id c \<notin> set (map c_id (cs_concepts st))"
      "apply_concept_op op st = st\<lparr>cs_concepts := cs_concepts st @ [c]\<rparr>"
  | (replaced) cid c g where "find (\<lambda>x. c_id x = cid) (cs_concepts st) = Some c" "\<not> is_system_default c"
      "c_id (g c) = c_id c" "is_system_default (g c) = is_system_default c"
      "apply_concept_op op st = st\<lparr>cs_concepts := update_first (\<lambda>x. c_id x = cid) g (cs_concepts st)\<rparr>"
proof (cases op)
  case (OpCreateConcept new_id d)
  show ?thesis
  proof (cases "create_concept new_id d st")
    case (Inl e) then show ?thesis using that(1) OpCreateConcept by simp
  next
    case (Inr p)
    then obtain c where "\<not> is_system_default c" "c_id c \<notin> set (map c_id (cs_concepts st))"
      "p = (c, st\<lparr>cs_concepts := cs_concepts st @ [c]\<rparr>)"
      using Inr unfolding create_concept_def insert_concept_def by (fastforce split: if_splits)
    then show ?thesis using that(2) [of c] OpCreateConcept Inr by simp
  qed
next
  case (OpCloneConcept cid n cust new_id)
  show ?thesis
  proof (cases "clone_concept cid n cust new_id st")
    case (Inl e) then show ?thesis using that(1) OpCloneConcept by simp
  next
    case (Inr p)
    then obtain c where "\<not> is_system_default c" "c_id c \<notin> set (map c_id (cs_concepts st))"
      "p = (c, st\<lparr>cs_concepts := cs_concepts st @ [c]\<rparr>)"
      using Inr unfolding clone_concept_def insert_concept_def by (fastforce split: if_splits option.splits)
    then show ?thesis using that(2) [of c] OpCloneConcept Inr by simp
  qed
next
  case (OpUpdateConcept cid u)
  show ?thesis
  proof (cases "update_concept cid u st")
    case (Inl e) then show ?thesis using that(1) OpUpdateConcept by simp
  next
    case (Inr p)
    then obtain c c' where c: "find_concept cid st = Some c" "\<not> is_system_default c"
      "apply_concept_update u c = Inr c'"
      "p = (c', st\<lparr>cs_concepts := update_first (\<lambda>x. c_id x = cid) (\<lambda>_. c') (cs_concepts st)\<rparr>)"
      by (auto simp: update_concept_def r_map_Inr_iff split: if_splits option.splits)
    then show ?thesis using that(3) [of cid c "\<lambda>_. c'"] OpUpdateConcept Inr apply_concept_update_frame [OF c(3)]
      by (simp add: find_concept_def)
  qed
next
  case (OpDeleteConcept cid)
  show ?thesis
  proof (cases "delete_concept cid st")
    case (Inl e) then show ?thesis using that(1) OpDeleteConcept by simp
  next
    case (Inr p)
    then obtain c where c: "find_concept cid st = Some c" "\<not> is_system_default c"
      "p = ((''deleted'', cid), st\<lparr>cs_concepts := update_first (\<lambda>x. c_id x = cid) (\<lambda>x. x\<lparr>is_active := False\<rparr>)
                                        (cs_concepts st)\<rparr>)"
      by (auto simp: delete_concept_def split: if_splits option.splits)
    then show ?thesis using that(3) [of cid c "\<lambda>x. x\<lparr>is_active := False\<rparr>"] OpDeleteConcept Inr
      by (simp add: find_concept_def)
  qed
qed

lemma apply_concept_op_defaults:
  "filter is_system_default (cs_concepts (apply_concept_op op st)) = filter is_system_default (cs_concepts st)"
  by (cases rule: apply_concept_op_cases [of op st]) (simp_all add: filter_update_first [where Q = is_system_default])


text \<open>
  C31. Whatever sequence of create, update, clone and delete requests the API serves, the
  system default concepts are left exactly as they were: none is added, removed or changed.
\<close>

theorem concept_ops_keep_system_defaults:
  "filter is_system_default (cs_concepts (foldl (\<lambda>s op. apply_concept_op op s) st ops))
     = filter is_system_default (cs_concepts st)"
  by (induction ops arbitrary: st) (simp_all add: apply_concept_op_defaults)



lemma list_concepts_members: "set (fst (list_concepts cf catf a st)) \<subseteq> {c \<in> set (cs_concepts st). is_active c = a}"
  by (auto simp: list_concepts_def Let_def split: option.splits if_splits)

text \<open>
  In a store with distinct ids, after a successful soft delete of a concept, listing the
  active concepts (with any customer and category filter) no longer returns it.
\<close>

theorem delete_concept_hides:
  assumes d: "distinct (map c_id (cs_concepts st))" and r: "delete_concept cid st = Inr (resp, st')"
  shows "cid \<notin> set (map c_id (fst (list_concepts cf catf True st')))"
proof
  assume "cid \<in> set (map c_id (fst (list_concepts cf catf True st')))"
  then obtain y where y: "y \<in> set (cs_concepts st')" "is_active y" "c_id y = cid"
    using list_concepts_members by fastforce
  from r obtain c where c: "find_concept cid st = Some c"
    "st' = st\<lparr>cs_concepts := update_first (\<lambda>x. c_id x = cid) (\<lambda>x. x\<lparr>is_active := False\<rparr>) (cs_concepts st)\<rparr>"
    by (auto simp: delete_concept_def split: option.splits if_splits)
  have "y = c\<lparr>is_active := False\<rparr>"
    using find_update_first_other [OF d, of cid c "\<lambda>x. x\<lparr>is_active := False\<rparr>" y] c y find_concept_Some [OF c(1)]
    by (simp add: find_concept_def)
  with y show False by simp
qed

theorem delete_concept_hides_witness:
  "''c1'' \<notin> set (map c_id (fst (list_concepts None None True
     (snd (projr (delete_concept ''c1'' ex_store))))))"
proof -
  have "distinct (map c_id (cs_concepts ex_store))" by (simp add: ex_store_def ex_system_concept_def)
  moreover have "delete_concept ''c1'' ex_store = Inr (projr (delete_concept ''c1'' ex_store))"
    by (simp add: delete_concept_def find_concept_def ex_store_def ex_system_concept_def)
  ultimately show ?thesis using delete_concept_hides [of ex_store "''c1''"] by (metis prod.collapse)
qed

text \<open>
  A system default concept cannot be modified or deleted: a valid update request and a
  delete request on it are both answered with 403 and change nothing.
\<close>

theorem system_concept_protected:
  assumes "find_concept cid st = Some c" "is_system_default c" "valid_concept_update u"
  shows "update_concept cid u st = Inl (HTTPError 403 ''Cannot modify system default concepts. Clone it first.'')
    \<and> delete_concept cid st = Inl (HTTPError 403 ''Cannot delete system default concepts'')"
  using assms by (simp add: update_concept_def delete_concept_def)

theorem system_concept_protected_witness:
  "update_concept ''qsr'' ex_no_update ex_store = Inl (HTTPError 403 ''Cannot modify system default concepts. Clone it first.'')
    \<and> delete_concept ''qsr'' ex_store = Inl (HTTPError 403 ''Cannot delete system default concepts'')"
  by (rule system_concept_protected [of _ _ ex_system_concept])
    (simp_all add: find_concept_def ex_store_def ex_system_concept_def valid_concept_update_def ex_no_update_def)

text \<open>
  \<open>ConceptUpdate\<close> declares no bounds: an update setting a negative base revenue and a
  minimum target income above the maximum is committed, although \<open>ConceptCreate\<close> requires
  every one of these fields to be positive.
\<close>

theorem update_concept_unchecked:
  "update_concept ''c1'' (ex_no_update\<lparr>cu_base_revenue_eur := Present (-1000),
       cu_target_income_min := Present 50000, cu_target_income_max := Present 30000\<rparr>) ex_store
     = Inr (ex_system_concept\<lparr>c_id := ''c1'', customer_id := ''cust'', c_name := ''My QSR'',
              is_system_default := False, base_revenue_eur := -1000, target_income_min := 50000,
              target_income_max := 30000\<rparr>,
            ex_store\<lparr>cs_concepts := [ex_system_concept,
              ex_system_concept\<lparr>c_id := ''c1'', customer_id := ''cust'', c_name := ''My QSR'',
                is_system_default := False, base_revenue_eur := -1000, target_income_min := 50000,
                target_income_max := 30000\<rparr>]\<rparr>)"
  by (simp add: update_concept_def valid_concept_update_def ex_no_update_def find_concept_def ex_store_def
      ex_system_concept_def apply_concept_update_def set_required_def set_nullable_def)

end
