(* ===== verification/MainApi.thy ===== *)
theory MainApi
  imports PyStrings
begin

text \<open>
  The request helpers of \<open>src/backend/main.py\<close>: the universal search box
  (\<open>universal_search\<close>, \<open>_detect_search_type\<close>, \<open>_extract_addresses\<close>). Queries are
  strings of Latin-1 characters (see \<open>PyStrings\<close>).
\<close>

section \<open>Search type detection\<close>

definition newline :: char where
  "newline = CHR 0x0A"

text \<open>
  The letter class \<open>[A-Za-z\<dots>]\<close> of the address pattern as main.py:155 spells it: the
  source file holds the UTF-8 text of a doubly encoded \<open>\"\<auml>\<ouml>\<aring>\<Auml>\<Ouml>\<Aring>\"\<close>, so besides
  A--Z and a--z the class has the characters 195, 164, 182, 165 (\<open>\<Atilde>\<close>, \<open>\<currency>\<close>, \<open>\<paragraph>\<close>,
  \<open>\<yen>\<close>) and three code points above 255 that a Latin-1 query never holds.
\<close>

definition addr_letter :: "char \<Rightarrow> bool" where
  "addr_letter c \<longleftrightarrow> (let n = (of_char c :: nat) in
     (65 \<le> n \<and> n \<le> 90) \<or> (97 \<le> n \<and> n \<le> 122) \<or> n \<in> {195, 164, 182, 165})"

text \<open>
  \<open>re.search(r'\d+\s+[\<dots>]+', query)\<close>: some digit is followed by a non-empty run of
  whitespace and then a letter of the class (the run is maximal, as no letter is
  whitespace, so the backtracking of \<open>\s+\<close> adds no match).
\<close>

definition spaces_then_letter :: "string \<Rightarrow> bool" where
  "spaces_then_letter cs \<longleftrightarrow> cs \<noteq> [] \<and> py_isspace (hd cs) \<and>
     (case dropWhile py_isspace cs of l # _ \<Rightarrow> addr_letter l | [] \<Rightarrow> False)"

fun has_address_pattern :: "string \<Rightarrow> bool" where
  "has_address_pattern [] = False"
| "has_address_pattern (c # cs) = ((is_digit c \<and> spaces_then_letter cs) \<or> has_address_pattern cs)"

text \<open>\<open>re.match(r'^\d{5}$', query.strip())\<close>.\<close>

definition is_postal_code :: "string \<Rightarrow> bool" where
  "is_postal_code q \<longleftrightarrow> length (py_strip q) = 5 \<and> (\<forall>c \<in> set (py_strip q). is_digit c)"

definition detect_search_type :: "string \<Rightarrow> string" where
  "detect_search_type query =
     (if newline \<in> set query \<or> CHR '';'' \<in> set query then ''multiple_addresses''
      else if is_postal_code query then ''postal_code''
      else if length (py_split_ws query) \<le> 2 \<and> \<not> (\<exists>c \<in> set query. is_digit c) then ''city''
      else if has_address_pattern query then ''single_address''
      else ''city'')"

definition extract_addresses :: "string \<Rightarrow> string list" where
  "extract_addresses query =
     (if newline \<in> set query then map py_strip (filter (\<lambda>a. py_strip a \<noteq> []) (py_split newline query))
      else if CHR '';'' \<in> set query then map py_strip (filter (\<lambda>a. py_strip a \<noteq> []) (py_split (CHR '';'') query))
      else [py_strip query])"

section \<open>The search endpoint\<close>

record search_request =
  usr_query :: string
  usr_concept :: "string option"

record search_response =
  usp_search_type :: string
  usp_city :: "string option"
  usp_addresses :: "string list option"
  usp_requires_concept :: bool

definition universal_search :: "search_request \<Rightarrow> search_response result" where
  "universal_search request =
     (let query = py_strip (usr_query request);
          search_type = detect_search_type query;
          requires_concept = (case usr_concept request of None \<Rightarrow> True | Some c \<Rightarrow> c = [])
      in if search_type = ''city'' then
           Inr \<lparr>usp_search_type = ''discovery'', usp_city = Some query, usp_addresses = None,
                usp_requires_concept = requires_concept\<rparr>
         else if search_type = ''postal_code'' then
           Inr \<lparr>usp_search_type = ''discovery'', usp_city = Some query, usp_addresses = None,
                usp_requires_concept = requires_concept\<rparr>
         else if search_type = ''single_address'' then
           Inr \<lparr>usp_search_type = ''single_site'', usp_city = None, usp_addresses = Some [query],
                usp_requires_concept = requires_concept\<rparr>
         else if search_type = ''multiple_addresses'' then
           Inr \<lparr>usp_search_type = ''comparison'', usp_city = None,
                usp_addresses = Some (extract_addresses query), usp_requires_concept = requires_concept\<rparr>
         else Inl (HTTPError 400 ''Could not parse search query''))"

definition clean_address :: "string \<Rightarrow> bool" where
  "clean_address a \<longleftrightarrow> a \<noteq> [] \<and> py_strip a = a \<and> CHR '';'' \<notin> set a \<and> newline \<notin> set a"


section \<open>Properties of the search endpoint\<close>







lemma detect_search_type_cases:
  "detect_search_type q \<in> {''multiple_addresses'', ''postal_code'', ''city'', ''single_address''}"
  by (simp add: detect_search_type_def)

lemma universal_search_total: "\<exists>r. universal_search request = Inr r"
  using detect_search_type_cases [of "py_strip (usr_query request)"]
  by (auto simp: universal_search_def Let_def)

lemma py_strip_stripped:
  assumes "py_strip a = a" "a \<noteq> []"
  shows "\<not> py_isspace (hd a) \<and> \<not> py_isspace (last a)"
proof -
  have l: "length (py_strip s) \<le> length (dropWhile py_isspace s)" for s
    unfolding py_strip_def using length_dropWhile_le [of py_isspace "rev (dropWhile py_isspace s)"] by simp
  have "\<not> py_isspace (hd a)"
  proof
    assume "py_isspace (hd a)"
    with assms(2) have "length (dropWhile py_isspace a) < length a"
      by (cases a) (auto simp: le_imp_less_Suc length_dropWhile_le)
    with l [of a] assms(1) show False by simp
  qed
  moreover have "\<not> py_isspace (last a)"
  proof
    assume sp: "py_isspace (last a)"
    have "length (py_strip a) \<le> length (dropWhile py_isspace (rev (dropWhile py_isspace a)))"
      by (simp add: py_strip_def)
    also have "\<dots> < length (rev (dropWhile py_isspace a))"
    proof -
      have "dropWhile py_isspace a = a" using assms(2) \<open>\<not> py_isspace (hd a)\<close> by (cases a) auto
      moreover have "length (dropWhile py_isspace (rev a)) < length (rev a)"
        using sp assms(2) by (cases "rev a") (auto simp: le_imp_less_Suc length_dropWhile_le hd_rev [symmetric])
      ultimately show ?thesis by simp
    qed
    finally show False using assms(1) length_dropWhile_le [of py_isspace a] by simp
  qed
  ultimately show ?thesis by simp
qed

lemma py_join_hd_last:
  "ws \<noteq> [] \<Longrightarrow> \<forall>w \<in> set ws. w \<noteq> [] \<Longrightarrow>
   py_join sep ws \<noteq> [] \<and> hd (py_join sep ws) = hd (hd ws) \<and> last (py_join sep ws) = last (last ws)"
  by (induction sep ws rule: py_join.induct) auto

lemma set_py_join: "set (py_join sep ws) \<subseteq> set sep \<union> \<Union> (set ` set ws)"
  by (induction sep ws rule: py_join.induct) auto

lemma extract_addresses_join:
  assumes "2 \<le> length addrs" "\<forall>a \<in> set addrs. clean_address a"
  shows "extract_addresses (py_join ''; '' addrs) = addrs"
proof -
  have ne: "addrs \<noteq> []" using assms(1) by auto
  have nl: "newline \<notin> set (py_join ''; '' addrs)"
    using set_py_join [of "''; ''" addrs] assms(2) by (auto simp: clean_address_def newline_def)
  obtain x y zs where xs: "addrs = x # y # zs" using assms(1) by (metis Suc_le_length_iff numeral_2_eq_2)
  have semi: "CHR '';'' \<in> set (py_join ''; '' addrs)" by (simp add: xs)
  have split: "py_split (CHR '';'') (py_join ''; '' addrs) = hd addrs # map (\<lambda>w. '' '' @ w) (tl addrs)"
    unfolding py_split_def using assms(2) ne by (intro py_split_by_join) (auto simp: clean_address_def)
  have sp: "py_isspace (CHR '' '')" by (simp add: py_isspace_def)
  have strip: "py_strip a = a" "py_strip ('' '' @ a) = a" "a \<noteq> []" if "a \<in> set addrs" for a
    using that assms(2) py_strip_pad [of "'' ''" a] sp by (auto simp: clean_address_def)
  have "map py_strip (filter (\<lambda>a. py_strip a \<noteq> []) (hd addrs # map (\<lambda>w. '' '' @ w) (tl addrs))) = addrs"
    using strip by (simp add: xs) (rule map_idI, simp)
  then show ?thesis using nl semi split by (simp add: extract_addresses_def)
qed

text \<open>
  C40. Addresses joined with \<open>"; "\<close> into one query (at least two, each non-empty, without
  surrounding whitespace, semicolon or line break) are routed to a comparison whose address
  list is exactly the addresses given: splitting and stripping undo the join.
\<close>

theorem universal_search_comparison_roundtrip:
  assumes "2 \<le> length addrs" "\<forall>a \<in> set addrs. clean_address a"
  shows "universal_search \<lparr>usr_query = py_join ''; '' addrs, usr_concept = concept\<rparr>
    = Inr \<lparr>usp_search_type = ''comparison'', usp_city = None, usp_addresses = Some addrs,
           usp_requires_concept = (case concept of None \<Rightarrow> True | Some c \<Rightarrow> c = [])\<rparr>"
proof -
  have ne: "addrs \<noteq> []" "\<forall>a \<in> set addrs. a \<noteq> []" using assms by (auto simp: clean_address_def)
  have "\<not> py_isspace (hd (hd addrs))" "\<not> py_isspace (last (last addrs))"
    using assms(2) ne py_strip_stripped [of "hd addrs"] py_strip_stripped [of "last addrs"]
    by (auto simp: clean_address_def)
  then have q: "py_strip (py_join ''; '' addrs) = py_join ''; '' addrs"
    using py_join_hd_last [OF ne] by (intro py_strip_id) simp_all
  obtain x y zs where xs: "addrs = x # y # zs" using assms(1) by (metis Suc_le_length_iff numeral_2_eq_2)
  have "detect_search_type (py_join ''; '' addrs) = ''multiple_addresses''"
    by (simp add: detect_search_type_def xs)
  then show ?thesis using q extract_addresses_join [OF assms] by (simp add: universal_search_def Let_def)
qed

theorem universal_search_comparison_roundtrip_witness:
  "universal_search \<lparr>usr_query = ''Mannerheimintie 20; Aleksanterinkatu 52'', usr_concept = None\<rparr>
    = Inr \<lparr>usp_search_type = ''comparison'', usp_city = None,
           usp_addresses = Some [''Mannerheimintie 20'', ''Aleksanterinkatu 52''], usp_requires_concept = True\<rparr>"
proof -
  have "\<forall>a \<in> set [''Mannerheimintie 20'', ''Aleksanterinkatu 52'']. clean_address a"
    by (simp add: clean_address_def py_strip_def py_isspace_def newline_def)
  then show ?thesis
    using universal_search_comparison_roundtrip [of "[''Mannerheimintie 20'', ''Aleksanterinkatu 52'']" None]
    by simp
qed

text \<open>
  The docstring of \<open>universal_search\<close> routes \<open>"Mannerheimintie 20, Helsinki"\<close> to a single
  site; the address pattern wants a letter after the digits and whitespace, so a Finnish
  street address (street name first) is taken for a city.
\<close>

lemma universal_search_street_address_as_city:
  "universal_search \<lparr>usr_query = ''Mannerheimintie 20, Helsinki'', usr_concept = Some ''QSR''\<rparr>
    = Inr \<lparr>usp_search_type = ''discovery'', usp_city = Some ''Mannerheimintie 20, Helsinki'',
           usp_addresses = None, usp_requires_concept = False\<rparr>"
  by (simp add: universal_search_def detect_search_type_def is_postal_code_def py_strip_def py_isspace_def
      newline_def py_split_ws_def is_digit_def spaces_then_letter_def addr_letter_def)

end
