(* ===== verification/Discovery.thy ===== *)
theory Discovery
  imports MainApi TrustMetrics Candidates
begin

text \<open>
  The discovery view: \<open>DataCollector.collect_area_data\<close> and
  \<open>_estimate_income_for_area\<close> (\<open>src/backend/agents/data_collector.py\<close>), and
  \<open>discover_opportunities\<close> and \<open>_analyze_postal_area\<close> (\<open>src/backend/main.py\<close>), which
  score each area with the scoring engine (\<open>Scoring\<close>), rate it with the trust metrics
  (\<open>TrustMetrics\<close>) and validate it as an \<open>AreaOpportunity\<close>. The data providers
  (population grid, OpenStreetMap, StatFin) are I/O: their replies are parameters, one reply
  of each provider per area name, an exception being an \<open>Inl\<close> value as
  \<open>asyncio.gather(..., return_exceptions=True)\<close> delivers it.
\<close>

section \<open>Collecting the features of an area\<close>

record population_reply =
  pr_total_population :: "real pyfield"
  pr_population_density :: "real pyfield"

record transit_reply =
  tr_nearest_metro_distance_m :: "real pyfield"
  tr_nearest_tram_distance_m :: "real pyfield"

text \<open>The replies of the four providers; of the competitor list only its length is read.\<close>

record area_replies =
  rep_population :: "population_reply result"
  rep_competitors :: "nat result"
  rep_transit :: "transit_reply result"
  rep_walkability :: "real result"

text \<open>\<open>d.get(k)\<close> stored as the value of a new dictionary: an absent key gives \<open>None\<close>.\<close>

definition dict_value :: "'a pyfield \<Rightarrow> 'a pyfield" where
  "dict_value v = (case v of Missing \<Rightarrow> PyNone | _ \<Rightarrow> v)"

text \<open>The income table of \<open>_estimate_income_for_area\<close>; its key \<open>"T\<ouml>\<ouml>l\<ouml>"\<close> is spelt correctly.\<close>

definition income_map :: "(string \<times> real) list" where
  "income_map =
     [(''Kamppi'', 54000), (''Kallio'', 42000), (''Pasila'', 45000),
      (''T'' @ latin1 [246, 246] @ ''l'' @ latin1 [246], 58000), (''Punavuori'', 51000),
      (''Kruununhaka'', 48000), (''Ullanlinna'', 55000), (''Eira'', 68000)]"

definition estimate_income_for_area :: "string \<Rightarrow> real option" where
  "estimate_income_for_area area_name = map_of income_map area_name"

definition no_population :: population_reply where
  "no_population = \<lparr>pr_total_population = Missing, pr_population_density = Missing\<rparr>"

definition no_transit :: transit_reply where
  "no_transit = \<lparr>tr_nearest_metro_distance_m = Missing, tr_nearest_tram_distance_m = Missing\<rparr>"

text \<open>
  \<open>competitors_per_1k_residents\<close>: the guard \<open>population_data.get("total_population", 0) > 0\<close>
  raises \<open>TypeError\<close> on a stored \<open>None\<close>.
\<close>

definition competitors_per_1k :: "nat \<Rightarrow> population_reply \<Rightarrow> real result" where
  "competitors_per_1k n population_data =
     r_bind (py_num (field_get_default (pr_total_population population_data) 0)) (\<lambda>tp.
       if 0 < tp then
         r_bind (py_num (field_get_default (pr_total_population population_data) 1)) (\<lambda>tp1.
           py_div (real n) (tp1 / 1000))
       else Inr 0)"

definition collect_area_data :: "string \<Rightarrow> area_replies \<Rightarrow> features result" where
  "collect_area_data area_name r =
     (let population_data = (case rep_population r of Inl _ \<Rightarrow> no_population | Inr p \<Rightarrow> p);
          n = (case rep_competitors r of Inl _ \<Rightarrow> 0 | Inr k \<Rightarrow> k);
          transit = (case rep_transit r of Inl _ \<Rightarrow> no_transit | Inr t \<Rightarrow> t);
          walkability_poi_count = (case rep_walkability r of Inl _ \<Rightarrow> 0 | Inr w \<Rightarrow> w);
          median_income = estimate_income_for_area area_name
      in r_map (\<lambda>per_1k.
           \<lparr>population_1km = dict_value (pr_total_population population_data),
            population_density = dict_value (pr_population_density population_data),
            median_income = (case median_income of None \<Rightarrow> PyNone | Some m \<Rightarrow> Present m),
            competitors_count = Present (real n),
            competitors_per_1k_residents = Present per_1k,
            nearest_metro_distance_m = dict_value (tr_nearest_metro_distance_m transit),
            nearest_tram_distance_m = dict_value (tr_nearest_tram_distance_m transit),
            walkability_poi_count = Present walkability_poi_count\<rparr>)
         (competitors_per_1k n population_data))"

section \<open>Area opportunities\<close>

record area_opportunity =
  ao_area_id :: string
  ao_area_name :: string
  ao_score :: real
  ao_latitude :: real
  ao_longitude :: real
  ao_predicted_revenue_low :: real
  ao_predicted_revenue_high :: real
  ao_estimated_rent_psqft :: "real option"
  ao_available_properties_count :: nat
  ao_confidence :: real
  ao_coverage :: data_coverage

text \<open>
  The field constraints of \<open>AreaOpportunity\<close> and \<open>DataCoverage\<close>
  (\<open>src/backend/models/schemas.py\<close>); pydantic's \<open>ValidationError\<close> is a \<open>ValueError\<close>.
\<close>

definition in_unit :: "real \<Rightarrow> bool" where
  "in_unit x \<longleftrightarrow> 0 \<le> x \<and> x \<le> 1"

definition area_opportunity_ok :: "area_opportunity \<Rightarrow> bool" where
  "area_opportunity_ok a \<longleftrightarrow> 0 \<le> ao_score a \<and> ao_score a \<le> 100 \<and> in_unit (ao_confidence a)
     \<and> in_unit (dc_demographics (ao_coverage a)) \<and> in_unit (dc_competition (ao_coverage a))
     \<and> in_unit (dc_transit (ao_coverage a)) \<and> in_unit (dc_overall (ao_coverage a))"

definition validate_area_opportunity :: "area_opportunity \<Rightarrow> area_opportunity result" where
  "validate_area_opportunity a =
     (if area_opportunity_ok a then Inr a else Inl (ValueError ''AreaOpportunity validation''))"

record heat_point =
  hp_latitude :: real
  hp_longitude :: real
  hp_score :: real
  hp_weight :: real
  hp_confidence :: real

definition heat_point_of :: "area_opportunity \<Rightarrow> heat_point" where
  "heat_point_of a = \<lparr>hp_latitude = ao_latitude a, hp_longitude = ao_longitude a, hp_score = ao_score a,
     hp_weight = ao_score a / 100, hp_confidence = ao_confidence a\<rparr>"

record discovery_request =
  dq_city :: string
  dq_concept :: string

record discovery_response =
  dr_city :: string
  dr_concept :: string
  dr_heatmap_data :: "heat_point list"
  dr_top_opportunities :: "area_opportunity list"
  dr_total_areas_scored :: nat
  dr_method :: method_info

text \<open>
  One iteration of the discovery loop: collect, score, rate. \<open>calculate_score\<close> is called
  with the concept category and no concept id.
\<close>

definition score_area ::
  "scoring_engine \<Rightarrow> string \<Rightarrow> helsinki_area \<Rightarrow> area_replies \<Rightarrow> area_opportunity result" where
  "score_area eng concept area r =
     r_bind (collect_area_data (ha_name area) r) (\<lambda>features.
     r_map (\<lambda>score_result.
        let coverage = calculate_coverage features;
            confidence = trust_confidence (components_dict (sr_components score_result)) coverage
        in \<lparr>ao_area_id = ''helsinki_'' @ ha_id area, ao_area_name = ha_name area,
            ao_score = sr_score score_result, ao_latitude = ha_lat area, ao_longitude = ha_lng area,
            ao_predicted_revenue_low = sr_revenue_low score_result,
            ao_predicted_revenue_high = sr_revenue_high score_result,
            ao_estimated_rent_psqft = Some (ha_rent_psqft area),
            ao_available_properties_count = ha_properties_count area,
            ao_confidence = confidence, ao_coverage = coverage\<rparr>)
       (calculate_score eng features concept None))"

text \<open>
  \<open>scored_areas[0] if scored_areas else {}\<close>, the dictionary that \<open>get_method_info\<close>
  receives as \<open>features_used\<close>: the keys of an area opportunity, or none at all; in either
  case none of the feature keys that \<open>get_method_info\<close> reads.
\<close>

definition no_feature_keys :: features where
  "no_feature_keys = \<lparr>population_1km = Missing, population_density = Missing, median_income = Missing,
     competitors_count = Missing, competitors_per_1k_residents = Missing,
     nearest_metro_distance_m = Missing, nearest_tram_distance_m = Missing,
     walkability_poi_count = Missing\<rparr>"

text \<open>The body of \<open>discover_opportunities\<close> for the three supported cities.\<close>

definition discover_areas ::
  "scoring_engine \<Rightarrow> (string \<Rightarrow> area_replies) \<Rightarrow> string \<Rightarrow> discovery_request \<Rightarrow> discovery_response result" where
  "discover_areas eng replies now request =
     (let scored_areas = map_ok (\<lambda>area. score_area eng (dq_concept request) area (replies (ha_name area)))
                            helsinki_areas;
          sorted_areas = sort_key (\<lambda>a. - ao_score a) scored_areas
      in r_bind (map_result validate_area_opportunity (take 10 sorted_areas)) (\<lambda>top_opportunities.
         r_map (\<lambda>method_info.
            \<lparr>dr_city = dq_city request, dr_concept = dq_concept request,
             dr_heatmap_data = map heat_point_of sorted_areas, dr_top_opportunities = top_opportunities,
             dr_total_areas_scored = length sorted_areas, dr_method = method_info\<rparr>)
           (get_method_info ''heuristic'' (Some no_feature_keys) None now)))"

section \<open>A postal code area\<close>

text \<open>
  The reply of \<open>StatFinService.get_demographics_by_postal_code\<close>: \<open>None\<close> stands for a
  falsy reply (\<open>None\<close> or an empty dictionary). A stored \<open>None\<close> area name is rendered
  by the f-strings as \<open>"None"\<close> and is not a key of the income table, so it is the
  string \<open>''None''\<close> here.
\<close>

record demographics_reply =
  dem_area_name :: "string pyfield"
  dem_latitude :: "real pyfield"
  dem_longitude :: "real pyfield"
  dem_median_income :: "real pyfield"

definition analyze_postal_area ::
  "scoring_engine \<Rightarrow> (string \<Rightarrow> area_replies) \<Rightarrow> demographics_reply option \<Rightarrow> string \<Rightarrow> string \<Rightarrow> string
   \<Rightarrow> discovery_response result" where
  "analyze_postal_area eng replies demographics now postal_code concept =
     (case demographics of
        None \<Rightarrow> Inl (HTTPError 404 (''Postal code '' @ postal_code @ '' not found in Finland. Please check the postal code.''))
      | Some d \<Rightarrow>
          let area_name = (case dem_area_name d of Missing \<Rightarrow> postal_code | PyNone \<Rightarrow> ''None'' | Present n \<Rightarrow> n)
          in if \<not> field_truthy (dem_latitude d) \<or> \<not> field_truthy (dem_longitude d) then
               Inl (HTTPError 400 (''No geographic coordinates available for postal code '' @ postal_code))
             else
               let lat = the (field_get (dem_latitude d)); lng = the (field_get (dem_longitude d))
               in r_bind (collect_area_data area_name (replies area_name)) (\<lambda>collected.
                  let features = collected\<lparr>median_income := dict_value (dem_median_income d)\<rparr>
                  in r_bind (calculate_score eng features concept None) (\<lambda>score_result.
                     let coverage = calculate_coverage features;
                         confidence = trust_confidence (components_dict (sr_components score_result)) coverage
                     in r_bind (validate_area_opportunity
                          \<lparr>ao_area_id = ''postal_'' @ postal_code,
                           ao_area_name = area_name @ '' ('' @ postal_code @ '')'',
                           ao_score = sr_score score_result, ao_latitude = lat, ao_longitude = lng,
                           ao_predicted_revenue_low = sr_revenue_low score_result,
                           ao_predicted_revenue_high = sr_revenue_high score_result,
                           ao_estimated_rent_psqft = Some 0, ao_available_properties_count = 0,
                           ao_confidence = confidence, ao_coverage = coverage\<rparr>) (\<lambda>opportunity.
                        r_map (\<lambda>method_info.
                           \<lparr>dr_city = area_name @ '' ('' @ postal_code @ '')'', dr_concept = concept,
                            dr_heatmap_data = [\<lparr>hp_latitude = lat, hp_longitude = lng,
                              hp_score = sr_score score_result, hp_weight = sr_score score_result / 100,
                              hp_confidence = confidence\<rparr>],
                            dr_top_opportunities = [opportunity], dr_total_areas_scored = 1,
                            dr_method = method_info\<rparr>)
                          (get_method_info ''heuristic'' (Some features) (Some postal_code) now)))))"

section \<open>The discovery endpoint\<close>

definition discover_opportunities ::
  "scoring_engine \<Rightarrow> (string \<Rightarrow> area_replies) \<Rightarrow> (string \<Rightarrow> demographics_reply option) \<Rightarrow> string
   \<Rightarrow> discovery_request \<Rightarrow> discovery_response result" where
  "discover_opportunities eng replies statfin now request =
     (if is_postal_code (dq_city request) then
        analyze_postal_area eng replies (statfin (dq_city request)) now (dq_city request) (dq_concept request)
      else if py_lower (dq_city request) \<notin> set [''helsinki'', ''espoo'', ''vantaa''] then
        Inl (HTTPError 501 (''City-wide discovery for '' @ [CHR 0x27] @ dq_city request @ [CHR 0x27]
          @ '' coming soon! For now, try:'' @ [newline] @ ''1. Enter a specific address in '' @ dq_city request
          @ [newline] @ ''2. Enter a postal code (e.g., 33100 for Tampere center)'' @ [newline]
          @ ''3. Use Helsinki, Espoo, or Vantaa for full city discovery''))
      else discover_areas eng replies now request)"

section \<open>Examples\<close>

definition toolo_area :: helsinki_area where
  "toolo_area = helsinki_areas ! 3"

text \<open>Example inputs: an engine that knows no concept, and providers that all fail.\<close>

definition ex_no_concepts :: scoring_engine where
  "ex_no_concepts = \<lparr>db_session = None, yaml_concepts = []\<rparr>"

definition ex_failing_replies :: "string \<Rightarrow> area_replies" where
  "ex_failing_replies name = \<lparr>rep_population = Inl TypeError, rep_competitors = Inl TypeError,
     rep_transit = Inl TypeError, rep_walkability = Inl TypeError\<rparr>"

definition ex_discovery_request :: discovery_request where
  "ex_discovery_request = \<lparr>dq_city = ''Helsinki'', dq_concept = ''QSR''\<rparr>"

definition ex_empty_discovery :: discovery_response where
  "ex_empty_discovery = \<lparr>dr_city = ''Helsinki'', dr_concept = ''QSR'', dr_heatmap_data = [],
     dr_top_opportunities = [], dr_total_areas_scored = 0,
     dr_method = \<lparr>mi_scoring_method = ''heuristic'', mi_data_sources = [''Limited data available''],
                  mi_last_updated = ''2026-01-01T00:00:00Z'',
                  mi_confidence_basis = ''Based on data coverage and score component consistency''\<rparr>\<rparr>"

section \<open>Properties of the discovery view\<close>

lemma toolo_area_in: "toolo_area \<in> set helsinki_areas"
  by (simp add: toolo_area_def helsinki_areas_def)

lemma toolo_area_id: "area \<in> set helsinki_areas \<Longrightarrow> ha_id area = ''toolo'' \<Longrightarrow> area = toolo_area"
  by (auto simp: toolo_area_def helsinki_areas_def)

lemma estimate_income_toolo_area: "estimate_income_for_area (ha_name toolo_area) = None"
  by (simp add: estimate_income_for_area_def income_map_def latin1_def toolo_area_def helsinki_areas_def)

lemma collect_area_data_income:
  "collect_area_data name r = Inr f \<Longrightarrow> estimate_income_for_area name = None \<Longrightarrow> median_income f = PyNone"
  by (auto simp: collect_area_data_def Let_def r_map_Inr_iff)

lemma score_components_of_no_income:
  "median_income f = PyNone \<Longrightarrow> \<exists>e. score_components_of f cfg = Inl e"
  by (cases "calculate_population_score (field_get_default (population_density f) 0)
               (cfg_optimal_population_density cfg)")
     (simp_all add: score_components_of_def calculate_income_score_def py_num_def)

lemma calculate_score_no_income:
  "median_income f = PyNone \<Longrightarrow> \<exists>e. calculate_score eng f c cid = Inl e"
proof (cases "get_concept_config eng c cid")
  case (Some p)
  moreover obtain cfg u where "p = (cfg, u)" by (cases p)
  moreover assume "median_income f = PyNone"
  then obtain e where "score_components_of f cfg = Inl e" using score_components_of_no_income by blast
  ultimately show ?thesis by (simp add: calculate_score_def)
qed (simp add: calculate_score_def)

lemma score_area_toolo: "\<exists>e. score_area eng c toolo_area r = Inl e"
proof (cases "collect_area_data (ha_name toolo_area) r")
  case (Inr f)
  then have "median_income f = PyNone" using collect_area_data_income estimate_income_toolo_area by blast
  then obtain e where "calculate_score eng f c None = Inl e" using calculate_score_no_income by blast
  with Inr show ?thesis by (simp add: score_area_def)
qed (simp add: score_area_def)

lemma score_area_Inr:
  "score_area eng c area r = Inr a \<Longrightarrow>
   \<exists>f sr. collect_area_data (ha_name area) r = Inr f \<and> calculate_score eng f c None = Inr sr
     \<and> ao_area_id a = ''helsinki_'' @ ha_id area \<and> ao_score a = sr_score sr
     \<and> ao_coverage a = calculate_coverage f
     \<and> ao_confidence a = trust_confidence (components_dict (sr_components sr)) (calculate_coverage f)"
  by (auto simp: score_area_def r_bind_Inr_iff r_map_Inr_iff Let_def)

lemma validate_list:
  "map_result validate_area_opportunity xs = Inr ys \<Longrightarrow> ys = xs \<and> (\<forall>a \<in> set xs. area_opportunity_ok a)"
proof (induction xs arbitrary: ys)
  case (Cons x xs)
  then show ?case by (auto simp: validate_area_opportunity_def r_map_Inr_iff split: if_splits)
qed simp

lemma length_helsinki_areas: "length helsinki_areas = 8" by (simp add: helsinki_areas_def)

lemma validated_top_subset:
  "map_result validate_area_opportunity (take 10 (sort_key (\<lambda>a. - ao_score a) xs)) = Inr tops \<Longrightarrow> set tops \<subseteq> set xs"
proof -
  assume "map_result validate_area_opportunity (take 10 (sort_key (\<lambda>a. - ao_score a) xs)) = Inr tops"
  then have "tops = take 10 (sort_key (\<lambda>a. - ao_score a) xs)" using validate_list by blast
  then show ?thesis using set_take_subset [of 10 "sort_key (\<lambda>a. - ao_score a) xs"] by (simp add: set_sort)
qed

lemma discover_areas_top:
  assumes "discover_areas eng replies now request = Inr resp"
  shows "\<exists>tops. map_result validate_area_opportunity (take 10 (sort_key (\<lambda>a. - ao_score a)
      (map_ok (\<lambda>area. score_area eng (dq_concept request) area (replies (ha_name area))) helsinki_areas))) = Inr tops
    \<and> dr_top_opportunities resp = tops"
  using assms by (auto simp: discover_areas_def Let_def r_bind_Inr_iff r_map_Inr_iff)

lemma scored_area_not_toolo:
  assumes "a \<in> set (map_ok (\<lambda>area. score_area eng c area (replies (ha_name area))) helsinki_areas)"
  shows "ao_area_id a \<noteq> ''helsinki_toolo''"
proof
  assume id: "ao_area_id a = ''helsinki_toolo''"
  from assms obtain area where area: "area \<in> set helsinki_areas" "score_area eng c area (replies (ha_name area)) = Inr a"
    unfolding set_map_ok by blast
  from area(2) have "ao_area_id a = ''helsinki_'' @ ha_id area" by (blast dest: score_area_Inr)
  with id have "ha_id area = ''toolo''" by simp
  with area(1) have "area = toolo_area" by (rule toolo_area_id)
  moreover obtain e where "score_area eng c toolo_area (replies (ha_name toolo_area)) = Inl e"
    using score_area_toolo by blast
  ultimately show False using area(2) by simp
qed

lemma discover_areas_total:
  assumes "discover_areas eng replies now request = Inr resp"
  shows "dr_total_areas_scored resp
    = length (map_ok (\<lambda>area. score_area eng (dq_concept request) area (replies (ha_name area))) helsinki_areas)"
  using assms by (auto simp: discover_areas_def Let_def r_bind_Inr_iff r_map_Inr_iff)

lemma scored_areas_at_most_7: "length (map_ok (\<lambda>area. score_area eng c area (replies (ha_name area))) helsinki_areas) \<le> 7"
proof -
  obtain e where e: "score_area eng c toolo_area (replies (ha_name toolo_area)) = Inl e"
    using score_area_toolo by blast
  have "length (filter (\<lambda>x. \<exists>y. score_area eng c x (replies (ha_name x)) = Inr y) helsinki_areas)
      < length helsinki_areas"
    using toolo_area_in e by (intro length_filter_less) auto
  then show ?thesis unfolding length_map_ok length_helsinki_areas by linarith
qed

lemma score_area_confidence:
  "score_area eng c area r = Inr a \<Longrightarrow> ao_confidence a \<le> 0.7"
proof -
  assume "score_area eng c area r = Inr a"
  then obtain f and sr :: score_result where a: "ao_confidence a = trust_confidence (components_dict (sr_components sr)) (calculate_coverage f)"
    using score_area_Inr [OF \<open>score_area eng c area r = Inr a\<close>] by blast
  obtain cons where "cons \<le> 1" "trust_confidence (components_dict (sr_components sr)) (calculate_coverage f)
      = py_round 2 (min (dc_overall (calculate_coverage f) * 0.4 + cons * 0.3) 1)"
    using trust_confidence_components_dict by blast
  then show ?thesis
    using a rounded_confidence_le [OF calculate_coverage_overall_le [of f] \<open>cons \<le> 1\<close>] by simp
qed

lemma discover_areas_top_valid:
  assumes "discover_areas eng replies now request = Inr resp"
  shows "dr_top_opportunities resp = take 10 (sort_key (\<lambda>a. - ao_score a)
      (map_ok (\<lambda>area. score_area eng (dq_concept request) area (replies (ha_name area))) helsinki_areas))
    \<and> (\<forall>a \<in> set (dr_top_opportunities resp). area_opportunity_ok a)"
proof -
  obtain tops where "map_result validate_area_opportunity (take 10 (sort_key (\<lambda>a. - ao_score a)
      (map_ok (\<lambda>area. score_area eng (dq_concept request) area (replies (ha_name area))) helsinki_areas))) = Inr tops"
    "dr_top_opportunities resp = tops"
    using discover_areas_top [OF assms] by blast
  then show ?thesis using validate_list by metis
qed

lemma score_area_unknown_concept:
  "get_concept_config eng c None = None \<Longrightarrow> \<exists>e. score_area eng c area r = Inl e"
  by (cases "collect_area_data (ha_name area) r") (simp_all add: score_area_def calculate_score_def)

lemma discover_areas_unknown_concept:
  assumes "get_concept_config eng (dq_concept request) None = None"
  shows "discover_areas eng replies now request =
    Inr \<lparr>dr_city = dq_city request, dr_concept = dq_concept request, dr_heatmap_data = [],
         dr_top_opportunities = [], dr_total_areas_scored = 0,
         dr_method = \<lparr>mi_scoring_method = ''heuristic'', mi_data_sources = [''Limited data available''],
                      mi_last_updated = now @ ''Z'',
                      mi_confidence_basis = ''Based on data coverage and score component consistency''\<rparr>\<rparr>"
proof -
  have "map_ok (\<lambda>area. score_area eng (dq_concept request) area (replies (ha_name area))) helsinki_areas = []"
    using assms by (intro map_ok_Nil) (blast intro: score_area_unknown_concept)
  then show ?thesis
    by (simp add: discover_areas_def get_method_info_def features_empty_def no_feature_keys_def)
qed

lemma ex_discovery_unknown_concept:
  "discover_areas ex_no_concepts ex_failing_replies ''2026-01-01T00:00:00'' ex_discovery_request
     = Inr ex_empty_discovery"
  using discover_areas_unknown_concept [of ex_no_concepts ex_discovery_request ex_failing_replies
      "''2026-01-01T00:00:00''"]
  by (simp add: get_concept_config_def ex_no_concepts_def ex_discovery_request_def ex_empty_discovery_def)

text \<open>
  C24. Whatever the data providers answer and whatever the scoring engine holds, a
  successful discovery of the Helsinki areas never lists T\<ouml>\<ouml>l\<ouml>, and scores at most
  seven of the eight areas: main.py names the area with a doubly encoded
  \<open>"T\<Atilde>\<paragraph>\<Atilde>\<paragraph>l\<Atilde>\<paragraph>"\<close>, which the income table of the data collector does not
  hold, so its median income is \<open>None\<close>, scoring raises \<open>TypeError\<close>, and the loop
  skips the area.
\<close>

theorem discovery_never_lists_toolo:
  assumes "discover_areas eng replies now request = Inr resp"
  shows "''helsinki_toolo'' \<notin> ao_area_id ` set (dr_top_opportunities resp) \<and> dr_total_areas_scored resp \<le> 7"
proof -
  obtain tops where tops: "map_result validate_area_opportunity (take 10 (sort_key (\<lambda>a. - ao_score a)
      (map_ok (\<lambda>area. score_area eng (dq_concept request) area (replies (ha_name area))) helsinki_areas))) = Inr tops"
    "dr_top_opportunities resp = tops"
    using discover_areas_top [OF assms] by blast
  show ?thesis using validated_top_subset [OF tops(1)] tops(2) scored_area_not_toolo discover_areas_total [OF assms] scored_areas_at_most_7 by fastforce
qed

theorem discovery_never_lists_toolo_witness:
  "discover_areas ex_no_concepts ex_failing_replies ''2026-01-01T00:00:00'' ex_discovery_request
     = Inr ex_empty_discovery
   \<and> ''helsinki_toolo'' \<notin> ao_area_id ` set (dr_top_opportunities ex_empty_discovery)
   \<and> dr_total_areas_scored ex_empty_discovery \<le> 7"
  using ex_discovery_unknown_concept discovery_never_lists_toolo [OF ex_discovery_unknown_concept] by simp

text \<open>
  C36. A successful discovery returns at most ten opportunities, the first
  \<open>min 10 n\<close> of the \<open>n\<close> areas scored, in descending order of score, each one valid
  for \<open>AreaOpportunity\<close>, and each with a confidence of at most 0.7 (the trust metric
  never finds its feature keys in the score components it is given).
\<close>

theorem discovery_top_ranked:
  assumes "discover_areas eng replies now request = Inr resp"
  shows "sorted_wrt (\<lambda>a b. ao_score b \<le> ao_score a) (dr_top_opportunities resp)
    \<and> length (dr_top_opportunities resp) = min 10 (dr_total_areas_scored resp)
    \<and> (\<forall>a \<in> set (dr_top_opportunities resp). area_opportunity_ok a \<and> ao_confidence a \<le> 0.7)"
proof -
  let ?xs = "map_ok (\<lambda>area. score_area eng (dq_concept request) area (replies (ha_name area))) helsinki_areas"
  have top: "dr_top_opportunities resp = take 10 (sort_key (\<lambda>a. - ao_score a) ?xs)"
    and ok: "\<forall>a \<in> set (dr_top_opportunities resp). area_opportunity_ok a"
    using discover_areas_top_valid [OF assms] by blast+
  have "sorted (map (\<lambda>a. - ao_score a) (sort_key (\<lambda>a. - ao_score a) ?xs))" by (rule sorted_sort_key)
  then have "sorted_wrt (\<lambda>a b. ao_score b \<le> ao_score a) (sort_key (\<lambda>a. - ao_score a) ?xs)"
    by (simp add: sorted_map)
  then have "sorted_wrt (\<lambda>a b. ao_score b \<le> ao_score a) (dr_top_opportunities resp)"
    unfolding top by (rule sorted_wrt_take)
  moreover have "length (dr_top_opportunities resp) = min 10 (dr_total_areas_scored resp)"
    using top discover_areas_total [OF assms] by simp
  moreover have "ao_confidence a \<le> 0.7" if "a \<in> set (dr_top_opportunities resp)" for a
  proof -
    from that top have "a \<in> set ?xs" using set_take_subset by (fastforce simp: set_sort)
    then show ?thesis unfolding set_map_ok by (blast intro: score_area_confidence)
  qed
  ultimately show ?thesis using ok by blast
qed

theorem discovery_top_ranked_witness:
  "discover_areas ex_no_concepts ex_failing_replies ''2026-01-01T00:00:00'' ex_discovery_request
     = Inr ex_empty_discovery
   \<and> sorted_wrt (\<lambda>a b. ao_score b \<le> ao_score a) (dr_top_opportunities ex_empty_discovery)
   \<and> length (dr_top_opportunities ex_empty_discovery) = min 10 (dr_total_areas_scored ex_empty_discovery)
   \<and> list_all (\<lambda>a. area_opportunity_ok a \<and> ao_confidence a \<le> 0.7) (dr_top_opportunities ex_empty_discovery)"
  using ex_discovery_unknown_concept discovery_top_ranked [OF ex_discovery_unknown_concept]
  by (simp add: list_all_iff)

end
