(* ===== verification/SiteAnalysis.thy ===== *)
theory SiteAnalysis
  imports Discovery
begin

text \<open>
  The site analysis endpoint \<open>analyze_sites\<close> of \<open>src/backend/main.py\<close> with its helpers
  \<open>_check_cannibalization\<close> and the ranking of the predictions. Each address is collected
  by \<open>DataCollector.collect_site_data\<close> and analysed by the LLM-backed orchestrator of
  \<open>agents/agno\<close>; both are I/O here, their results (or exceptions) parameters. The
  \<open>SitePrediction\<close> record keeps the fields the endpoint and its helpers read; the nested
  \<open>features\<close> and reasoning traces, which nothing reads back, are left out.
\<close>

section \<open>Cannibalisation\<close>

text \<open>The local \<open>distance_km\<close> of \<open>_check_cannibalization\<close>: the haversine formula in km.\<close>

definition distance_km :: "real \<Rightarrow> real \<Rightarrow> real \<Rightarrow> real \<Rightarrow> real" where
  "distance_km lat1 lng1 lat2 lng2 =
     (let R = 6371;
          dlat = radians (lat2 - lat1);
          dlng = radians (lng2 - lng1);
          a = sin (dlat / 2) ^ 2 + cos (radians lat1) * cos (radians lat2) * sin (dlng / 2) ^ 2;
          c = 2 * atan2 (sqrt a) (sqrt (1 - a))
      in R * c)"

record site_prediction =
  sp_address :: string
  sp_latitude :: real
  sp_longitude :: real
  sp_postal_code :: "string option"
  sp_score :: real
  sp_predicted_revenue_low :: real
  sp_predicted_revenue_mid :: real
  sp_predicted_revenue_high :: real
  sp_confidence :: real
  sp_coverage :: data_coverage
  sp_rank :: "nat option"
  sp_recommendation :: string
  sp_strengths :: "string list"
  sp_risks :: "string list"

text \<open>The two nested loops over the pairs \<open>i < j\<close>, in the order the code visits them.\<close>

definition pair_distance :: "site_prediction list \<Rightarrow> nat \<Rightarrow> nat \<Rightarrow> real" where
  "pair_distance ps i j =
     distance_km (sp_latitude (ps ! i)) (sp_longitude (ps ! i)) (sp_latitude (ps ! j)) (sp_longitude (ps ! j))"

definition cannibalization_warnings :: "site_prediction list \<Rightarrow> string list" where
  "cannibalization_warnings ps =
     concat (map (\<lambda>i. concat (map (\<lambda>j.
       let dist = pair_distance ps i j
       in if dist < 2 then [''Sites '' @ string_of_nat (i + 1) @ '' and '' @ string_of_nat (j + 1)
                              @ '' are '' @ py_format_1f dist @ ''km apart'']
          else []) [i + 1..<length ps])) [0..<length ps])"

definition check_cannibalization :: "site_prediction list \<Rightarrow> string option" where
  "check_cannibalization predictions =
     (if length predictions < 2 then None
      else let warnings = cannibalization_warnings predictions
           in if warnings = [] then None else Some (py_join ''; '' warnings))"

section \<open>Ranking\<close>

text \<open>
  \<open>sorted(enumerate(predictions), key=score, reverse=True)\<close>: a stable sort, so equal
  scores keep their input order.
\<close>

definition ranked_indices :: "site_prediction list \<Rightarrow> nat list" where
  "ranked_indices predictions =
     map fst (sort_key (\<lambda>(i, p). - sp_score p) (zip [0..<length predictions] predictions))"

text \<open>\<open>for rank, (original_idx, _) in enumerate(sorted_predictions): predictions[original_idx].rank = rank + 1\<close>.\<close>

definition assign_ranks :: "site_prediction list \<Rightarrow> nat list \<Rightarrow> site_prediction list" where
  "assign_ranks predictions ranking =
     foldl (\<lambda>ps (r, i). ps[i := (ps ! i)\<lparr>sp_rank := Some (r + 1)\<rparr>]) predictions
       (zip [0..<length ranking] ranking)"

section \<open>The endpoint\<close>

record site_analysis_request =
  sar_addresses :: "string list"
  sar_concept :: string

text \<open>\<open>SiteAnalysisRequest.addresses\<close> is declared with \<open>min_items=1, max_items=10\<close>.\<close>

definition valid_site_analysis_request :: "site_analysis_request \<Rightarrow> bool" where
  "valid_site_analysis_request r \<longleftrightarrow> 1 \<le> length (sar_addresses r) \<and> length (sar_addresses r) \<le> 10"

text \<open>The entries of the orchestrator's result dictionary that the endpoint reads.\<close>

record orchestrator_analysis =
  oa_latitude :: real
  oa_longitude :: real
  oa_postal_code :: "string option"
  oa_opportunity_score :: real
  oa_revenue_pessimistic :: real
  oa_revenue_realistic :: real
  oa_revenue_optimistic :: real
  oa_confidence :: real
  oa_recommendation :: string
  oa_key_strengths :: "string list"
  oa_key_concerns :: "string list"

text \<open>
  The field constraints of \<open>SitePrediction\<close>: \<open>score\<close> in [0, 100], \<open>confidence\<close> in
  [0, 1], \<open>recommendation\<close> one of four literals, and \<open>coverage\<close> a required
  \<open>DataCoverage\<close>. The constructor call of the endpoint passes no \<open>coverage\<close>: the argument
  is \<open>None\<close> when absent, and pydantic then raises its \<open>ValidationError\<close> (a \<open>ValueError\<close>).
\<close>

definition site_prediction_ok :: "site_prediction \<Rightarrow> bool" where
  "site_prediction_ok p \<longleftrightarrow> 0 \<le> sp_score p \<and> sp_score p \<le> 100 \<and> in_unit (sp_confidence p)
     \<and> sp_recommendation p \<in> set [''strong'', ''moderate'', ''weak'', ''pass'']
     \<and> in_unit (dc_demographics (sp_coverage p)) \<and> in_unit (dc_competition (sp_coverage p))
     \<and> in_unit (dc_transit (sp_coverage p)) \<and> in_unit (dc_overall (sp_coverage p))"

definition make_site_prediction ::
  "string \<Rightarrow> orchestrator_analysis \<Rightarrow> data_coverage option \<Rightarrow> site_prediction result" where
  "make_site_prediction address analysis coverage =
     (case coverage of
        None \<Rightarrow> Inl (ValueError (''1 validation error for SitePrediction'' @ [newline] @ ''coverage'' @ [newline]
                  @ ''  Field required''))
      | Some cov \<Rightarrow>
          let p = \<lparr>sp_address = address, sp_latitude = oa_latitude analysis,
                   sp_longitude = oa_longitude analysis, sp_postal_code = oa_postal_code analysis,
                   sp_score = oa_opportunity_score analysis,
                   sp_predicted_revenue_low = oa_revenue_pessimistic analysis,
                   sp_predicted_revenue_mid = oa_revenue_realistic analysis,
                   sp_predicted_revenue_high = oa_revenue_optimistic analysis,
                   sp_confidence = oa_confidence analysis, sp_coverage = cov, sp_rank = None,
                   sp_recommendation = oa_recommendation analysis,
                   sp_strengths = oa_key_strengths analysis, sp_risks = oa_key_concerns analysis\<rparr>
          in if site_prediction_ok p then Inr p else Inl (ValueError ''validation error for SitePrediction''))"

text \<open>\<open>str(e)\<close> of the exceptions that reach the handler's \<open>except Exception\<close>.\<close>

fun exception_str :: "py_error \<Rightarrow> string" where
  "exception_str (ValueError s) = s"
| "exception_str (HTTPError code s) = s"
| "exception_str ZeroDivisionError = ''division by zero''"
| "exception_str _ = []"

text \<open>The body of the loop for one address: collect, analyse, build the prediction.\<close>

definition analyze_address ::
  "(string \<Rightarrow> features result) \<Rightarrow> (string \<Rightarrow> features \<Rightarrow> orchestrator_analysis result) \<Rightarrow> string
   \<Rightarrow> site_prediction result" where
  "analyze_address collect_site_data orchestrate address =
     (let r = r_bind (collect_site_data address) (\<lambda>features.
                r_bind (orchestrate address features) (\<lambda>analysis.
                  make_site_prediction address analysis None))
      in case r of Inl e \<Rightarrow> Inl (HTTPError 500 (''Error analyzing address: '' @ exception_str e)) | Inr p \<Rightarrow> Inr p)"

record site_analysis_response =
  sa_concept :: string
  sa_sites :: "site_prediction list"
  sa_ranking :: "nat list option"
  sa_cannibalization_warning :: "string option"
  sa_prediction_id :: string
  sa_method :: "method_info option"

text \<open>\<open>SiteAnalysisResponse\<close> requires \<open>method\<close>, which the endpoint does not pass either.\<close>

definition validate_site_analysis_response :: "site_analysis_response \<Rightarrow> site_analysis_response result" where
  "validate_site_analysis_response r =
     (case sa_method r of
        None \<Rightarrow> Inl (ValueError (''1 validation error for SiteAnalysisResponse'' @ [newline] @ ''method''
                  @ [newline] @ ''  Field required''))
      | Some _ \<Rightarrow> Inr r)"

text \<open>\<open>prediction_id\<close> is \<open>"pred_"\<close> and Python's salted hash of the predictions' text.\<close>

definition analyze_sites ::
  "(string \<Rightarrow> features result) \<Rightarrow> (string \<Rightarrow> features \<Rightarrow> orchestrator_analysis result)
   \<Rightarrow> (site_prediction list \<Rightarrow> string) \<Rightarrow> site_analysis_request \<Rightarrow> site_analysis_response result" where
  "analyze_sites collect_site_data orchestrate py_hash request =
     (if \<not> valid_site_analysis_request request then Inl (HTTPError 422 ''validation'')
      else if sar_addresses request = [] then Inl (HTTPError 400 ''At least one address required'')
      else if 10 < length (sar_addresses request) then Inl (HTTPError 400 ''Maximum 10 addresses allowed'')
      else r_bind (map_result (analyze_address collect_site_data orchestrate) (sar_addresses request))
        (\<lambda>predictions.
          let ranking = (if 1 < length predictions then Some (ranked_indices predictions) else None);
              ranked = (case ranking of None \<Rightarrow> predictions | Some order \<Rightarrow> assign_ranks predictions order);
              cannibalization_warning = check_cannibalization ranked
          in validate_site_analysis_response
               \<lparr>sa_concept = sar_concept request, sa_sites = ranked, sa_ranking = ranking,
                sa_cannibalization_warning = cannibalization_warning,
                sa_prediction_id = ''pred_'' @ py_hash ranked, sa_method = None\<rparr>))"

section \<open>Properties of the site analysis\<close>

text \<open>The two haversine implementations agree: \<open>distance_km\<close> is the generator's distance in km.\<close>

lemma distance_km_haversine:
  "1000 * distance_km lat1 lng1 lat2 lng2 = haversine_distance lat1 lng1 lat2 lng2"
  by (simp add: distance_km_def haversine_distance_def Let_def)

lemma analyze_address_fails:
  "\<exists>e. analyze_address collect orchestrate address = Inl e"
  by (cases "r_bind (collect address) (\<lambda>features. r_bind (orchestrate address features)
        (\<lambda>analysis. make_site_prediction address analysis None))")
     (auto simp: analyze_address_def make_site_prediction_def r_bind_def split: sum.splits)

lemma map_result_Cons_Inl: "f x = Inl e \<Longrightarrow> map_result f (x # xs) = Inl e"
  by simp

text \<open>
  C22. \<open>analyze_sites\<close> never answers successfully: every prediction is built without the
  required \<open>coverage\<close> field, so pydantic rejects it and the handler turns the error into
  500 for the first address (and the response would lack the required \<open>method\<close> too);
  a request outside 1..10 addresses is refused with 422 before the handler runs.
\<close>

theorem analyze_sites_never_succeeds:
  "\<exists>e. analyze_sites collect orchestrate py_hash request = Inl e"
proof (cases "valid_site_analysis_request request")
  case True
  then obtain a as where "sar_addresses request = a # as"
    by (cases "sar_addresses request") (auto simp: valid_site_analysis_request_def)
  moreover obtain e where "analyze_address collect orchestrate a = Inl e" using analyze_address_fails by blast
  ultimately show ?thesis using True by (simp add: analyze_sites_def)
qed (simp add: analyze_sites_def)

lemma analyze_address_collected:
  "collect address = Inr f \<Longrightarrow> orchestrate address f = Inr an \<Longrightarrow>
   analyze_address collect orchestrate address = Inl (HTTPError 500 (''Error analyzing address: 1 validation error for SitePrediction''
      @ [newline] @ ''coverage'' @ [newline] @ ''  Field required''))"
  by (simp add: analyze_address_def make_site_prediction_def)

lemma concat_map_Nil: "concat (map f xs) = [] \<longleftrightarrow> (\<forall>x \<in> set xs. f x = [])"
  by (induction xs) auto

lemma if_single_Nil: "(if P then [a] else []) = [] \<longleftrightarrow> \<not> P"
  by simp

lemma cannibalization_warnings_Nil:
  "cannibalization_warnings ps = [] \<longleftrightarrow> (\<forall>i j. i < j \<longrightarrow> j < length ps \<longrightarrow> 2 \<le> pair_distance ps i j)"
  unfolding cannibalization_warnings_def Let_def concat_map_Nil if_single_Nil set_upt
  by (auto simp: not_less Suc_le_eq)

theorem check_cannibalization_None:
  "check_cannibalization ps = None \<longleftrightarrow> (\<forall>i j. i < j \<longrightarrow> j < length ps \<longrightarrow> 2 \<le> pair_distance ps i j)"
  by (auto simp: check_cannibalization_def cannibalization_warnings_Nil Let_def)

lemma analyze_sites_no_400: "analyze_sites collect orchestrate py_hash request \<noteq> Inl (HTTPError 400 m)"
proof
  assume a: "analyze_sites collect orchestrate py_hash request = Inl (HTTPError 400 m)"
  show False
  proof (cases "valid_site_analysis_request request")
    case True
    then have "sar_addresses request \<noteq> []" "\<not> 10 < length (sar_addresses request)"
      by (auto simp: valid_site_analysis_request_def)
    moreover have "validate_site_analysis_response r \<noteq> Inl (HTTPError 400 m)" for r
      by (simp add: validate_site_analysis_response_def split: option.splits)
    moreover have "analyze_address collect orchestrate x \<noteq> Inl (HTTPError 400 m)" for x
      by (simp add: analyze_address_def split: sum.splits)
    then have "map_result (analyze_address collect orchestrate) xs \<noteq> Inl (HTTPError 400 m)" for xs
      by (induction xs) (auto simp: r_bind_def r_map_def split: sum.splits)
    ultimately show False using a True
      by (auto simp: analyze_sites_def r_bind_def Let_def split: sum.splits)
  qed (use a in \<open>simp add: analyze_sites_def\<close>)
qed

lemma ranked_indices_perm: "mset (ranked_indices ps) = mset [0..<length ps]"
proof -
  have "mset (ranked_indices ps) = mset (map fst (zip [0..<length ps] ps))"
    unfolding ranked_indices_def mset_map by simp
  also have "map fst (zip [0..<length ps] ps) = [0..<length ps]" by simp
  finally show ?thesis .
qed

lemma ranked_indices_sorted:
  "sorted_wrt (\<lambda>i j. sp_score (ps ! j) \<le> sp_score (ps ! i)) (ranked_indices ps)"
proof -
  let ?f = "\<lambda>(i, p). - sp_score p" and ?zs = "zip [0..<length ps] ps"
  have "sorted (map ?f (sort_key ?f ?zs))" by (rule sorted_sort_key)
  then have s: "sorted_wrt (\<lambda>x y. ?f x \<le> ?f y) (sort_key ?f ?zs)" by (simp add: sorted_map)
  have elem: "x \<in> set (sort_key ?f ?zs) \<Longrightarrow> snd x = ps ! fst x" for x
    by (auto simp: set_zip)
  from s have "sorted_wrt (\<lambda>x y. sp_score (ps ! fst y) \<le> sp_score (ps ! fst x)) (sort_key ?f ?zs)"
  proof (rule sorted_wrt_mono_rel [rotated])
    fix x y assume "x \<in> set (sort_key ?f ?zs)" "y \<in> set (sort_key ?f ?zs)" "?f x \<le> ?f y"
    then show "sp_score (ps ! fst y) \<le> sp_score (ps ! fst x)"
      using elem [of x] elem [of y] by (auto split: prod.splits)
  qed
  then show ?thesis by (simp add: ranked_indices_def sorted_wrt_map)
qed

end
