(* ===== verification/AreaDetail.thy ===== *)
theory AreaDetail
  imports Discovery
begin

text \<open>
  The area detail page \<open>get_area_detail\<close> of \<open>src/backend/main.py\<close> with
  \<open>_generate_insights\<close> (\<open>main.py\<close>) and \<open>TrustMetrics.generate_why_bullets\<close>
  (\<open>src/backend/services/trust_metrics.py\<close>). The bullets are f-strings whose literal text
  holds characters above code point 255 (a mis-encoded euro sign, \<open>"\<acircumflex>\<dots>\<not>"\<close>), which the
  model's strings cannot hold; a bullet is therefore the constructor of its text and the
  numbers it shows, in the order the code appends them.
\<close>

section \<open>Insights\<close>

datatype insight =
    HighPopulationDensity int
  | LowPopulationDensity int
  | HighIncomeArea int
  | LowerIncomeArea int
  | ExcellentMetroAccess int
  | LimitedMetroAccess int
  | LowCompetition real
  | HighCompetition real
  | YoungDemographic real

text \<open>
  \<open>features.get(k, d)\<close> in a comparison (\<open>None\<close> raises \<open>TypeError\<close>), and
  \<open>int(features[k])\<close> (an absent key raises \<open>KeyError\<close>, \<open>None\<close> a \<open>TypeError\<close>).
\<close>

definition get_compared :: "real pyfield \<Rightarrow> real \<Rightarrow> real result" where
  "get_compared v d = py_num (field_get_default v d)"

definition int_item :: "real pyfield \<Rightarrow> int result" where
  "int_item v = (case v of Missing \<Rightarrow> Inl KeyError | PyNone \<Rightarrow> Inl TypeError | Present x \<Rightarrow> Inr (py_int x))"

definition insight_by ::
  "(int \<Rightarrow> insight) \<Rightarrow> (int \<Rightarrow> insight) \<Rightarrow> real pyfield \<Rightarrow> real \<Rightarrow> real \<Rightarrow> (insight list \<times> insight list) result" where
  "insight_by strength risk v high low =
     r_bind (get_compared v 0) (\<lambda>x.
       if high < x then r_map (\<lambda>i. ([strength i], [])) (int_item v)
       else if x < low then r_map (\<lambda>i. ([], [risk i])) (int_item v)
       else Inr ([], []))"

text \<open>\<open>metro_dist and metro_dist < 300\<close>: a present non-zero distance.\<close>

definition metro_insight :: "real pyfield \<Rightarrow> insight list \<times> insight list" where
  "metro_insight v =
     (case v of
        Present d \<Rightarrow> if d \<noteq> 0 \<and> d < 300 then ([ExcellentMetroAccess (py_int d)], [])
                    else if d \<noteq> 0 \<and> 800 < d then ([], [LimitedMetroAccess (py_int d)]) else ([], [])
      | _ \<Rightarrow> ([], []))"

text \<open>\<open>age\<close> is the entry \<open>age_18_24_percent\<close>, which is not one of the scoring features.\<close>

definition generate_insights ::
  "features \<Rightarrow> real pyfield \<Rightarrow> (insight list \<times> insight list) result" where
  "generate_insights f age =
     r_bind (insight_by HighPopulationDensity LowPopulationDensity (population_density f) 10000 3000) (\<lambda>(s1, r1).
     r_bind (insight_by HighIncomeArea LowerIncomeArea (median_income f) 55000 35000) (\<lambda>(s2, r2).
     let (s3, r3) = metro_insight (nearest_metro_distance_m f)
     in r_bind (get_compared (competitors_count f) 0) (\<lambda>comp_count.
        let (s4, r4) = (if comp_count < 3 then ([LowCompetition comp_count], [])
                        else if 10 < comp_count then ([], [HighCompetition comp_count]) else ([], []))
        in r_map (\<lambda>a. let s5 = (if 15 < a then [YoungDemographic a] else [])
                       in (take 5 (s1 @ s2 @ s3 @ s4 @ s5), take 5 (r1 @ r2 @ r3 @ r4)))
             (get_compared age 0))))"

section \<open>Why bullets\<close>

datatype why_bullet =
    HighPopulation real
  | ModeratePopulation real
  | LimitedPopulation real
  | HighMedianIncome real
  | MedianIncome real
  | LowerMedianIncome real
  | ExcellentTransit int
  | GoodTransit int
  | LowCompetitionWhy real
  | ModerateCompetitionWhy real
  | HighCompetitionWhy real

text \<open>\<open>if pop:\<close>: a present, non-zero value.\<close>

definition truthy_value :: "real pyfield \<Rightarrow> real option" where
  "truthy_value v = (case v of Present x \<Rightarrow> if x \<noteq> 0 then Some x else None | _ \<Rightarrow> None)"

definition generate_why_bullets :: "features \<Rightarrow> why_bullet list" where
  "generate_why_bullets f =
     take 5
       ((case truthy_value (population_1km f) of None \<Rightarrow> []
         | Some pop \<Rightarrow> [if 20000 < pop then HighPopulation pop else if 10000 < pop then ModeratePopulation pop
                        else LimitedPopulation pop])
      @ (case truthy_value (median_income f) of None \<Rightarrow> []
         | Some income \<Rightarrow> [if 50000 < income then HighMedianIncome income
                           else if 35000 < income then MedianIncome income else LowerMedianIncome income])
      @ (let tram_part = (case truthy_value (nearest_tram_distance_m f) of
                            Some t \<Rightarrow> if t < 200 then [GoodTransit (py_int t)] else [] | None \<Rightarrow> [])
         in case truthy_value (nearest_metro_distance_m f) of
              Some m \<Rightarrow> if m < 300 then [ExcellentTransit (py_int m)] else tram_part
            | None \<Rightarrow> tram_part)
      @ (case field_get (competitors_count f) of None \<Rightarrow> []
         | Some c \<Rightarrow> [if c < 5 then LowCompetitionWhy c else if c < 15 then ModerateCompetitionWhy c
                      else HighCompetitionWhy c]))"

section \<open>The endpoint\<close>

record area_detail_response =
  ad_area_id :: string
  ad_area_name :: string
  ad_city :: string
  ad_score :: real
  ad_predicted_revenue_low :: real
  ad_predicted_revenue_mid :: real
  ad_predicted_revenue_high :: real
  ad_confidence :: real
  ad_coverage :: data_coverage
  ad_method :: method_info
  ad_why :: "why_bullet list"
  ad_features :: features
  ad_latitude :: "real pyfield"
  ad_longitude :: "real pyfield"
  ad_strengths :: "insight list"
  ad_risks :: "insight list"

text \<open>
  \<open>AreaDetailResponse\<close>: \<open>confidence\<close> in [0, 1], a valid \<open>DataCoverage\<close>, and
  \<open>latitude\<close> and \<open>longitude\<close> required floats. The dictionaries \<open>demographics\<close>,
  \<open>competition_analysis\<close> and \<open>traffic_access\<close> copy entries of the features
  (\<open>ad_features\<close>); \<open>nearest_competitor_distance\<close> is always \<open>None\<close>, as the area
  features carry no competitor list.
\<close>

definition area_detail_ok :: "area_detail_response \<Rightarrow> bool" where
  "area_detail_ok r \<longleftrightarrow> in_unit (ad_confidence r)
     \<and> in_unit (dc_demographics (ad_coverage r)) \<and> in_unit (dc_competition (ad_coverage r))
     \<and> in_unit (dc_transit (ad_coverage r)) \<and> in_unit (dc_overall (ad_coverage r))
     \<and> field_get (ad_latitude r) \<noteq> None \<and> field_get (ad_longitude r) \<noteq> None"

definition validate_area_detail :: "area_detail_response \<Rightarrow> area_detail_response result" where
  "validate_area_detail r = (if area_detail_ok r then Inr r else Inl (ValueError ''AreaDetailResponse validation''))"

text \<open>
  Where the area comes from: its name, city, coordinates, features and the features'
  \<open>postal_code\<close> entry, or the HTTP error of the lookup. The postal branch does not check
  the coordinates.
\<close>

definition locate_area ::
  "(string \<Rightarrow> area_replies) \<Rightarrow> (string \<Rightarrow> demographics_reply option) \<Rightarrow> string
   \<Rightarrow> (string \<times> string \<times> real pyfield \<times> real pyfield \<times> features \<times> string option) result" where
  "locate_area replies statfin area_id =
     (if py_startswith area_id ''postal_'' then
        let postal_code = py_replace ''postal_'' [] area_id
        in case statfin postal_code of
             None \<Rightarrow> Inl (HTTPError 404 (''Postal code '' @ postal_code @ '' not found''))
           | Some d \<Rightarrow>
               let area_name = (case dem_area_name d of Missing \<Rightarrow> postal_code | PyNone \<Rightarrow> ''None'' | Present n \<Rightarrow> n)
               in r_map (\<lambda>collected. (area_name, ''Finland'', dict_value (dem_latitude d), dict_value (dem_longitude d),
                                      collected\<lparr>median_income := dict_value (dem_median_income d)\<rparr>, Some postal_code))
                    (collect_area_data area_name (replies area_name))
      else if py_startswith area_id ''helsinki_'' then
        let area_key = py_replace ''helsinki_'' [] area_id
        in case find (\<lambda>a. ha_id a = area_key) helsinki_areas of
             None \<Rightarrow> Inl (HTTPError 404 (''Area '' @ area_id @ '' not found''))
           | Some a \<Rightarrow> r_map (\<lambda>features. (ha_name a, ''Helsinki'', Present (ha_lat a), Present (ha_lng a), features, None))
                          (collect_area_data (ha_name a) (replies (ha_name a)))
      else Inl (HTTPError 400 ''Invalid area_id format''))"

definition get_area_detail ::
  "scoring_engine \<Rightarrow> (string \<Rightarrow> area_replies) \<Rightarrow> (string \<Rightarrow> demographics_reply option) \<Rightarrow> string
   \<Rightarrow> string \<Rightarrow> string \<Rightarrow> area_detail_response result" where
  "get_area_detail eng replies statfin now area_id concept =
     r_bind (locate_area replies statfin area_id) (\<lambda>(area_name, city, lat, lng, features, postal_code).
     r_bind (calculate_score eng features concept None) (\<lambda>score_result.
       let coverage = calculate_coverage features;
           confidence = trust_confidence (components_dict (sr_components score_result)) coverage;
           why_bullets = generate_why_bullets features
       in r_bind (generate_insights features Missing) (\<lambda>(strengths, risks).
          r_bind (get_method_info ''heuristic'' (Some features) postal_code now) (\<lambda>method_info.
            validate_area_detail
              \<lparr>ad_area_id = area_id, ad_area_name = area_name, ad_city = city,
               ad_score = sr_score score_result, ad_predicted_revenue_low = sr_revenue_low score_result,
               ad_predicted_revenue_mid = sr_revenue_mid score_result,
               ad_predicted_revenue_high = sr_revenue_high score_result,
               ad_confidence = confidence, ad_coverage = coverage, ad_method = method_info,
               ad_why = why_bullets, ad_features = features, ad_latitude = lat, ad_longitude = lng,
               ad_strengths = strengths, ad_risks = risks\<rparr>))))"

section \<open>Properties of the area detail page\<close>

lemma find_toolo: "find (\<lambda>a. ha_id a = ''toolo'') helsinki_areas = Some toolo_area"
  by (simp add: helsinki_areas_def toolo_area_def)

lemma locate_toolo:
  "locate_area replies statfin ''helsinki_toolo'' =
     r_map (\<lambda>features. (ha_name toolo_area, ''Helsinki'', Present (ha_lat toolo_area), Present (ha_lng toolo_area),
                        features, None))
       (collect_area_data (ha_name toolo_area) (replies (ha_name toolo_area)))"
  by (simp add: locate_area_def py_startswith_def find_toolo)

text \<open>
  The detail page of T\<ouml>\<ouml>l\<ouml> always fails: its features carry no median income, and
  \<open>calculate_score\<close>, called outside any \<open>try\<close>, raises (FastAPI answers 500).
\<close>

theorem area_detail_toolo_fails: "\<exists>e. get_area_detail eng replies statfin now ''helsinki_toolo'' c = Inl e"
proof (cases "collect_area_data (ha_name toolo_area) (replies (ha_name toolo_area))")
  case (Inr f)
  then have "median_income f = PyNone" using collect_area_data_income estimate_income_toolo_area by blast
  then obtain e where "calculate_score eng f c None = Inl e" using calculate_score_no_income by blast
  with Inr show ?thesis by (simp add: get_area_detail_def locate_toolo)
qed (simp add: get_area_detail_def locate_toolo)

lemma area_detail_bad_id:
  "\<not> py_startswith area_id ''postal_'' \<Longrightarrow> \<not> py_startswith area_id ''helsinki_'' \<Longrightarrow>
   get_area_detail eng replies statfin now area_id c = Inl (HTTPError 400 ''Invalid area_id format'')"
  by (simp add: get_area_detail_def locate_area_def)

lemma get_area_detail_Inr:
  assumes "get_area_detail eng replies statfin now area_id c = Inr r"
  shows "area_detail_ok r \<and> ad_confidence r \<le> 0.7"
proof -
  obtain x sr where x: "locate_area replies statfin area_id = Inr x"
    and sr: "calculate_score eng (fst (snd (snd (snd (snd x))))) c None = Inr (sr :: score_result)"
    using assms by (auto simp: get_area_detail_def r_bind_Inr_iff split: prod.splits)
  obtain an ci la lo f pc where xx: "x = (an, ci, la, lo, f, pc)" by (cases x) auto
  obtain m st rk where r: "validate_area_detail \<lparr>ad_area_id = area_id, ad_area_name = an, ad_city = ci, ad_score = sr_score sr,
       ad_predicted_revenue_low = sr_revenue_low sr, ad_predicted_revenue_mid = sr_revenue_mid sr,
       ad_predicted_revenue_high = sr_revenue_high sr,
       ad_confidence = trust_confidence (components_dict (sr_components sr)) (calculate_coverage f),
       ad_coverage = calculate_coverage f, ad_method = m, ad_why = generate_why_bullets f,
       ad_features = f, ad_latitude = la, ad_longitude = lo, ad_strengths = st,
       ad_risks = rk\<rparr> = Inr r"
    using assms x sr xx by (fastforce simp: get_area_detail_def r_bind_Inr_iff Let_def split: prod.splits)
  then have ok: "area_detail_ok r" and eq: "\<lparr>ad_area_id = area_id, ad_area_name = an, ad_city = ci, ad_score = sr_score sr,
       ad_predicted_revenue_low = sr_revenue_low sr, ad_predicted_revenue_mid = sr_revenue_mid sr,
       ad_predicted_revenue_high = sr_revenue_high sr,
       ad_confidence = trust_confidence (components_dict (sr_components sr)) (calculate_coverage f),
       ad_coverage = calculate_coverage f, ad_method = m, ad_why = generate_why_bullets f,
       ad_features = f, ad_latitude = la, ad_longitude = lo, ad_strengths = st,
       ad_risks = rk\<rparr> = r"
    by (auto simp: validate_area_detail_def split: if_splits)
  have c: "ad_confidence r = trust_confidence (components_dict (sr_components sr)) (calculate_coverage f)"
    by (simp flip: eq)
  obtain cons where "cons \<le> 1" "trust_confidence (components_dict (sr_components sr)) (calculate_coverage f)
      = py_round 2 (min (dc_overall (calculate_coverage f) * 0.4 + cons * 0.3) 1)"
    using trust_confidence_components_dict by blast
  then show ?thesis
    using ok c rounded_confidence_le [OF calculate_coverage_overall_le [of f] \<open>cons \<le> 1\<close>] by simp
qed

lemma generate_insights_missing_density:
  "population_density f = Missing \<Longrightarrow> generate_insights f age = Inl KeyError"
  by (simp add: generate_insights_def insight_by_def get_compared_def int_item_def)

lemma generate_insights_none_density:
  "population_density f = PyNone \<Longrightarrow> generate_insights f age = Inl TypeError"
  by (simp add: generate_insights_def insight_by_def get_compared_def py_num_def)

lemma length_generate_why_bullets: "length (generate_why_bullets f) \<le> 4"
  by (simp add: generate_why_bullets_def Let_def split: option.splits)

end
