(* ===== verification/Outcomes.thy ===== *)
theory Outcomes
  imports Learner PyStrings
begin

text \<open>
  The outcome endpoint \<open>POST /api/outcomes\<close> of \<open>src/backend/main.py\<close>
  (\<open>submit_outcome\<close>) composed with \<open>ConceptLearner.record_outcome\<close> of Learner. The
  database session is the learner's state together with the \<open>Outcome\<close> table
  (\<open>src/backend/models/database.py\<close>). The endpoint commits the \<open>Outcome\<close> row before it
  calls the learner, so a failure of the learner leaves that row committed while the
  learner's own uncommitted work is discarded: the model returns the state after an
  error as well as after a success.
\<close>

section \<open>State, request and response\<close>

text \<open>A row of the \<open>outcomes\<close> table.\<close>

record outcome_row =
  out_id :: nat
  out_prediction_id :: nat
  out_actual_revenue :: real
  out_opening_date :: nat
  out_reported_date :: nat
  out_variance_percent :: real
  out_within_predicted_band :: string
  out_notes :: "string option"

record api_db =
  api_learner :: learner_db
  api_outcomes :: "outcome_row list"
  api_next_outcome_id :: nat

text \<open>\<open>OutcomeSubmission\<close> and \<open>OutcomeResponse\<close> of \<open>models/schemas.py\<close>.\<close>

record outcome_submission =
  os_prediction_id :: string
  os_actual_revenue :: real
  os_opening_date :: nat
  os_notes :: "string option"

record outcome_api_response =
  oar_status :: string
  oar_variance_percent :: real
  oar_within_predicted_band :: bool
  oar_message :: string

section \<open>The endpoint\<close>

text \<open>\<open>int(outcome.prediction_id.replace("pred_", ""))\<close>.\<close>

definition parse_prediction_id :: "string \<Rightarrow> int result" where
  "parse_prediction_id s = py_int_of_string (py_replace ''pred_'' [] s)"

text \<open>
  The prediction query and the 404 answer. The table's ids are the learner's
  prediction ids; a negative parsed id matches no row.
\<close>

definition lookup_prediction :: "learner_db \<Rightarrow> string \<Rightarrow> prediction result" where
  "lookup_prediction ldb pid_str =
     r_bind (parse_prediction_id pid_str) (\<lambda>i.
       case find (\<lambda>p. int (pred_id p) = i) (ld_predictions ldb) of
         None \<Rightarrow> Inl (HTTPError 404 (''Prediction '' @ pid_str @ '' not found''))
       | Some p \<Rightarrow> Inr p)"

text \<open>\<open>if prediction.concept_id:\<close> and the learner call; no call gives \<open>None\<close>.\<close>

definition learn_outcome ::
  "learner_db \<Rightarrow> prediction \<Rightarrow> outcome_submission \<Rightarrow> (outcome_response option \<times> learner_db) result" where
  "learn_outcome ldb prediction outcome =
     (case pred_concept_id prediction of
        Some cid \<Rightarrow>
          if cid \<noteq> [] then
            r_map (\<lambda>(r, ldb'). (Some r, ldb'))
              (record_outcome ldb (pred_id prediction) (os_actual_revenue outcome) (os_opening_date outcome))
          else Inr (None, ldb)
      | None \<Rightarrow> Inr (None, ldb))"

text \<open>
  The response message. Formatting \<open>new_accuracy\<close> with \<open>:.1f\<close> raises \<open>TypeError\<close>
  when it is \<open>None\<close>; \<open>str(None)\<close> is \<open>"None"\<close>.
\<close>

definition outcome_message :: "outcome_response option \<Rightarrow> string result" where
  "outcome_message lr =
     (case lr of
        Some r \<Rightarrow>
          if triggered_retraining r then
            (case new_accuracy r of
               None \<Rightarrow> Inl TypeError
             | Some acc \<Rightarrow>
                 Inr (''Outcome recorded! This triggered concept re-training. ''
                      @ ''New prediction accuracy: '' @ py_format_1f acc @ ''% MAPE. ''
                      @ ''Total outcomes for this concept: ''
                      @ (case resp_outcomes_count r of None \<Rightarrow> ''None'' | Some n \<Rightarrow> string_of_nat n)
                      @ ''.''))
          else Inr ''Outcome recorded successfully. Thank you for helping improve our predictions!''
      | None \<Rightarrow> Inr ''Outcome recorded successfully. Thank you for helping improve our predictions!'')"

definition within_band :: "prediction \<Rightarrow> real \<Rightarrow> bool" where
  "within_band prediction actual \<longleftrightarrow>
     pred_revenue_low prediction \<le> actual \<and> actual \<le> pred_revenue_high prediction"

definition new_outcome_row :: "api_db \<Rightarrow> prediction \<Rightarrow> outcome_submission \<Rightarrow> real \<Rightarrow> outcome_row" where
  "new_outcome_row db prediction outcome variance_percent =
     \<lparr>out_id = api_next_outcome_id db, out_prediction_id = pred_id prediction,
      out_actual_revenue = os_actual_revenue outcome, out_opening_date = os_opening_date outcome,
      out_reported_date = ld_now (api_learner db), out_variance_percent = variance_percent,
      out_within_predicted_band =
        (if within_band prediction (os_actual_revenue outcome) then ''yes'' else ''no''),
      out_notes = os_notes outcome\<rparr>"

text \<open>
  \<open>submit_outcome\<close>: the answer (an error is an HTTP error or the exception FastAPI turns
  into a 500) and the committed state.
\<close>

definition submit_outcome ::
  "api_db \<Rightarrow> outcome_submission \<Rightarrow> outcome_api_response result \<times> api_db" where
  "submit_outcome db outcome =
     (case lookup_prediction (api_learner db) (os_prediction_id outcome) of
        Inl e \<Rightarrow> (Inl e, db)
      | Inr prediction \<Rightarrow>
          if list_ex (\<lambda>o1. out_prediction_id o1 = pred_id prediction) (api_outcomes db)
          then (Inl (HTTPError 400 ''Outcome already submitted for this prediction''), db)
          else
            (case py_div (os_actual_revenue outcome - pred_revenue_mid prediction)
                         (pred_revenue_mid prediction) of
               Inl e \<Rightarrow> (Inl e, db)
             | Inr q \<Rightarrow>
                 let variance_percent = q * 100;
                     db1 = db\<lparr>api_outcomes := api_outcomes db @ [new_outcome_row db prediction outcome variance_percent],
                              api_next_outcome_id := Suc (api_next_outcome_id db)\<rparr>
                 in (case learn_outcome (api_learner db) prediction outcome of
                       Inl e \<Rightarrow> (Inl e, db1)
                     | Inr (lr, ldb') \<Rightarrow>
                         (r_map (\<lambda>message.
                             \<lparr>oar_status = ''recorded'', oar_variance_percent = py_round 2 variance_percent,
                              oar_within_predicted_band = within_band prediction (os_actual_revenue outcome),
                              oar_message = message\<rparr>) (outcome_message lr),
                          db1\<lparr>api_learner := ldb'\<rparr>))))"

text \<open>A sequence of submissions, each on the state the previous one committed.\<close>

fun submit_outcomes ::
  "api_db \<Rightarrow> outcome_submission list \<Rightarrow> outcome_api_response result list \<times> api_db" where
  "submit_outcomes db [] = ([], db)"
| "submit_outcomes db (s # ss) =
     (let (r, db1) = submit_outcome db s; (rs, db2) = submit_outcomes db1 ss in (r # rs, db2))"

text \<open>
  The table invariant: one row per prediction (the unique constraint on
  \<open>prediction_id\<close>), and every row names a prediction of the table.
\<close>

definition outcomes_wf :: "api_db \<Rightarrow> bool" where
  "outcomes_wf db \<longleftrightarrow> distinct (map out_prediction_id (api_outcomes db))
     \<and> list_all (\<lambda>o1. list_ex (\<lambda>p. pred_id p = out_prediction_id o1) (ld_predictions (api_learner db)))
                (api_outcomes db)"

section \<open>Example states\<close>

text \<open>The learner's example prediction 7 with an empty \<open>outcomes\<close> table, and its submission.\<close>

definition ex_api_db :: "string option \<Rightarrow> api_db" where
  "ex_api_db cid = \<lparr>api_learner = ex_record_db cid [], api_outcomes = [], api_next_outcome_id = 1\<rparr>"

definition ex_submission :: outcome_submission where
  "ex_submission = \<lparr>os_prediction_id = ''pred_7'', os_actual_revenue = 120000, os_opening_date = 0,
     os_notes = None\<rparr>"

section \<open>Lemmas\<close>



lemma record_outcome_predictions:
  assumes r: "record_outcome db pid a t = Inr (resp, db')"
  shows "ld_predictions db' = ld_predictions db"
proof (cases "find (\<lambda>p. pred_id p = pid) (ld_predictions db)")
  case None
  with r show ?thesis by (simp add: record_outcome_def)
next
  case (Some p)
  show ?thesis
  proof (cases "pred_concept_id p = None \<or> pred_concept_id p = Some []")
    case True
    with r Some show ?thesis by (auto simp: record_outcome_def)
  next
    case False
    then obtain cid where cid: "pred_concept_id p = Some cid" "cid \<noteq> []" by auto
    from r Some cid show ?thesis
    proof (cases rule: record_outcome_concept_Inr)
      case (retrained c q)
      then show ?thesis using retrain_concept_frame [OF retrained(5)] by (simp add: store_outcome_def)
    qed (simp add: store_outcome_def)
  qed
qed

lemma learn_outcome_predictions:
  "learn_outcome ldb p s = Inr (lr, ldb') \<Longrightarrow> ld_predictions ldb' = ld_predictions ldb"
  by (auto simp: learn_outcome_def r_map_Inr_iff record_outcome_predictions split: option.splits if_splits)

lemma learn_outcome_no_concept:
  "\<not> (\<exists>cid. pred_concept_id p = Some cid \<and> cid \<noteq> []) \<Longrightarrow> learn_outcome ldb p s = Inr (None, ldb)"
  by (cases "pred_concept_id p") (auto simp: learn_outcome_def)

lemma lookup_prediction_Inr:
  "lookup_prediction ldb str = Inr p \<Longrightarrow> p \<in> set (ld_predictions ldb)"
  by (auto simp: lookup_prediction_def r_bind_Inr_iff dest: find_Some_P split: option.splits)

text \<open>
  Every call either leaves the state as it was or commits exactly one new row, for a
  prediction of the table that had none, with the prediction table unchanged.
\<close>

lemma submit_outcome_state:
  assumes "submit_outcome db s = (r, db')"
  obtains "db' = db"
  | p v where "lookup_prediction (api_learner db) (os_prediction_id s) = Inr p"
      "\<not> list_ex (\<lambda>o1. out_prediction_id o1 = pred_id p) (api_outcomes db)"
      "api_outcomes db' = api_outcomes db @ [new_outcome_row db p s v]"
      "ld_predictions (api_learner db') = ld_predictions (api_learner db)"
proof (cases "lookup_prediction (api_learner db) (os_prediction_id s)")
  case (Inl e)
  with assms that(1) show ?thesis by (simp add: submit_outcome_def)
next
  case (Inr p)
  note l = Inr
  show ?thesis
  proof (cases "list_ex (\<lambda>o1. out_prediction_id o1 = pred_id p) (api_outcomes db)
                \<or> pred_revenue_mid p = 0")
    case True
    with assms l that(1) show ?thesis by (auto simp: submit_outcome_def py_div_def split: if_splits)
  next
    case False
    define v where "v = (os_actual_revenue s - pred_revenue_mid p) / pred_revenue_mid p * 100"
    define db1 where "db1 = db\<lparr>api_outcomes := api_outcomes db @ [new_outcome_row db p s v],
                              api_next_outcome_id := Suc (api_next_outcome_id db)\<rparr>"
    have o: "api_outcomes db1 = api_outcomes db @ [new_outcome_row db p s v]"
      by (simp add: db1_def)
    show ?thesis
    proof (cases "learn_outcome (api_learner db) p s")
      case (Inl e)
      with assms l False have "db' = db1" by (simp add: submit_outcome_def v_def db1_def)
      with l False o show ?thesis by (intro that(2)) (simp_all add: db1_def)
    next
      case (Inr x)
      then obtain lr ldb' where x: "learn_outcome (api_learner db) p s = Inr (lr, ldb')" by (cases x) auto
      with assms l False have "db' = db1\<lparr>api_learner := ldb'\<rparr>"
        by (simp add: submit_outcome_def v_def db1_def Let_def)
      with l False o learn_outcome_predictions [OF x] show ?thesis
        by (intro that(2)) (simp_all add: db1_def)
    qed
  qed
qed

lemma submit_outcome_wf:
  assumes "outcomes_wf db"
  shows "outcomes_wf (snd (submit_outcome db s))"
proof -
  obtain r db' where eq: "submit_outcome db s = (r, db')" by (cases "submit_outcome db s")
  from eq show ?thesis
  proof (cases rule: submit_outcome_state)
    case (2 p v)
    have "p \<in> set (ld_predictions (api_learner db))" using 2(1) by (rule lookup_prediction_Inr)
    with assms 2 eq show ?thesis
      by (auto simp: outcomes_wf_def new_outcome_row_def list_ex_iff list_all_iff)
  qed (use assms eq in simp)
qed

text \<open>
  An outcome for a prediction without a concept is recorded without learning: the
  answer carries the rounded variance, the band check and the plain message, and the
  only change of state is the new row.
\<close>

lemma submit_outcome_recorded:
  assumes "lookup_prediction (api_learner db) (os_prediction_id s) = Inr p"
    and "\<not> list_ex (\<lambda>o1. out_prediction_id o1 = pred_id p) (api_outcomes db)"
    and "pred_revenue_mid p \<noteq> 0"
    and "\<not> (\<exists>cid. pred_concept_id p = Some cid \<and> cid \<noteq> [])"
  defines "v \<equiv> (os_actual_revenue s - pred_revenue_mid p) / pred_revenue_mid p * 100"
  shows "submit_outcome db s =
    (Inr \<lparr>oar_status = ''recorded'', oar_variance_percent = py_round 2 v,
          oar_within_predicted_band = within_band p (os_actual_revenue s),
          oar_message = ''Outcome recorded successfully. Thank you for helping improve our predictions!''\<rparr>,
     db\<lparr>api_outcomes := api_outcomes db @ [new_outcome_row db p s v],
        api_next_outcome_id := Suc (api_next_outcome_id db)\<rparr>)"
  using assms learn_outcome_no_concept [OF assms(4)]
  by (simp add: submit_outcome_def Let_def outcome_message_def)

lemma ex_lookup_prediction:
  "lookup_prediction (ex_record_db cid []) ''pred_7'' = Inr (ex_prediction cid)"
  by (simp add: lookup_prediction_def parse_prediction_id_def py_int_of_string_def py_strip_def
      py_isspace_def is_digit_def decimal_value_def ex_record_db_def ex_prediction_def)

text \<open>
  C18. Any sequence of outcome submissions keeps the \<open>outcomes\<close> table well formed: at
  most one row per prediction, and every row names a stored prediction, whatever
  each submission answers (errors after the commit included).
\<close>

theorem submit_outcomes_wf:
  "outcomes_wf db \<Longrightarrow> outcomes_wf (snd (submit_outcomes db ss))"
proof (induction ss arbitrary: db)
  case (Cons s ss)
  obtain r db1 where eq: "submit_outcome db s = (r, db1)" by (cases "submit_outcome db s")
  then have "outcomes_wf db1" using submit_outcome_wf [OF Cons.prems, of s] by simp
  with eq Cons.IH show ?case by (auto split: prod.splits dest: Cons.IH)
qed simp

theorem submit_outcomes_wf_witness:
  "outcomes_wf (ex_api_db (Some ''c1''))
   \<and> outcomes_wf (snd (submit_outcomes (ex_api_db (Some ''c1'')) [ex_submission, ex_submission]))"
proof -
  have "outcomes_wf (ex_api_db (Some ''c1''))" by (simp add: outcomes_wf_def ex_api_db_def)
  then show ?thesis using submit_outcomes_wf by blast
qed

text \<open>
  C19. When the learner raises after the endpoint has committed the \<open>Outcome\<close> row (a
  retraining that fails, as in C15, or a prediction whose concept has no row), the
  client gets the error while the row stays committed and the learner has stored
  nothing; submitting the same outcome again is then answered with 400, so the outcome
  can never reach the learner.
\<close>

theorem submit_outcome_learning_failure:
  assumes "lookup_prediction (api_learner db) (os_prediction_id s) = Inr p"
    and "\<not> list_ex (\<lambda>o1. out_prediction_id o1 = pred_id p) (api_outcomes db)"
    and "pred_revenue_mid p \<noteq> 0"
    and "learn_outcome (api_learner db) p s = Inl e"
  shows "\<exists>db'. submit_outcome db s = (Inl e, db') \<and> api_learner db' = api_learner db
     \<and> map out_prediction_id (api_outcomes db') = map out_prediction_id (api_outcomes db) @ [pred_id p]
     \<and> submit_outcome db' s = (Inl (HTTPError 400 ''Outcome already submitted for this prediction''), db')"
  using assms by (simp add: submit_outcome_def Let_def new_outcome_row_def)

theorem submit_outcome_learning_failure_witness:
  "\<exists>db'. submit_outcome (ex_api_db (Some ''c9'')) ex_submission = (Inl AttributeError, db')
     \<and> api_learner db' = ex_record_db (Some ''c9'') []
     \<and> map out_prediction_id (api_outcomes db') = [7]
     \<and> submit_outcome db' ex_submission
         = (Inl (HTTPError 400 ''Outcome already submitted for this prediction''), db')"
proof -
  have l: "lookup_prediction (api_learner (ex_api_db (Some ''c9''))) (os_prediction_id ex_submission)
      = Inr (ex_prediction (Some ''c9''))"
    by (simp add: ex_api_db_def ex_submission_def ex_lookup_prediction)
  have n: "\<not> list_ex (\<lambda>o1. out_prediction_id o1 = pred_id (ex_prediction (Some ''c9'')))
      (api_outcomes (ex_api_db (Some ''c9'')))"
    by (simp add: ex_api_db_def)
  have m: "pred_revenue_mid (ex_prediction (Some ''c9'')) \<noteq> 0" by (simp add: ex_prediction_def)
  have f: "learn_outcome (api_learner (ex_api_db (Some ''c9''))) (ex_prediction (Some ''c9'')) ex_submission
      = Inl AttributeError"
    by (simp add: learn_outcome_def record_outcome_def ex_learner_defs ex_submission_def ex_api_db_def)
  from submit_outcome_learning_failure [OF l n m f] show ?thesis
    by (simp add: ex_api_db_def ex_prediction_def)
qed


end
