(* ===== verification/AgentScores.thy ===== *)
theory AgentScores
  imports PyStrings
begin

text \<open>
  The deterministic helpers of the specialist agents in \<open>src/backend/agents/agno\<close>:
  the sub-scores and ratings of \<open>DemoAgent\<close> (\<open>demo_agent.py\<close>), \<open>CompAgent\<close>
  (\<open>comp_agent.py\<close>), \<open>TransitAgent\<close> (\<open>transit_agent.py\<close>), \<open>GeoAgent\<close>
  (\<open>geo_agent.py\<close>), the confidence table of \<open>RiskAgent\<close> (\<open>risk_agent.py\<close>) and the
  revenue arithmetic of \<open>RevenueAgent\<close> (\<open>revenue_agent.py\<close>). Numbers are reals; an
  \<open>Optional[int]\<close> distance is a \<open>real option\<close>, and its truthiness
  (\<open>if nearest_distance:\<close>) is \<open>Some d\<close> with \<open>d \<noteq> 0\<close>.
\<close>

section \<open>DemoAgent\<close>

record concept_profile =
  income_min :: real
  income_max :: real
  density_min :: real
  density_max :: real
  target_age_min :: real
  education_min :: real

text \<open>The \<open>concept_profiles\<close> dictionary of \<open>analyze_demographics\<close>.\<close>

definition concept_profiles :: "(string \<times> concept_profile) list" where
  "concept_profiles =
     [(''casual_dining'', \<lparr>income_min = 35000, income_max = 65000, density_min = 4000,
         density_max = 15000, target_age_min = 60, education_min = 35\<rparr>),
      (''fine_dining'', \<lparr>income_min = 55000, income_max = 100000, density_min = 3000,
         density_max = 12000, target_age_min = 55, education_min = 50\<rparr>),
      (''quick_service'', \<lparr>income_min = 25000, income_max = 55000, density_min = 6000,
         density_max = 20000, target_age_min = 65, education_min = 25\<rparr>)]"

definition demo_profile :: "string \<Rightarrow> concept_profile" where
  "demo_profile concept =
     (case map_of concept_profiles concept of Some p \<Rightarrow> p
      | None \<Rightarrow> the (map_of concept_profiles ''casual_dining''))"

definition score_density :: "real \<Rightarrow> concept_profile \<Rightarrow> real" where
  "score_density density profile =
     (if density < density_min profile then
        max (50 - (density_min profile - density) / density_min profile * 50) 0
      else if density > density_max profile then
        max (75 - (density - density_max profile) / density_max profile * 25) 50
      else
        (let middle = (density_min profile + density_max profile) / 2;
             distance = \<bar>density - middle\<bar>;
             max_distance = (density_max profile - density_min profile) / 2
         in 100 - distance / max_distance * 10))"

definition score_income :: "real \<Rightarrow> concept_profile \<Rightarrow> real" where
  "score_income income profile =
     (if income < income_min profile then
        max (50 - (income_min profile - income) / income_min profile * 50) 0
      else if income > income_max profile then
        max (80 - (income - income_max profile) / income_max profile * 30) 60
      else
        (let middle = (income_min profile + income_max profile) / 2;
             distance = \<bar>income - middle\<bar>;
             max_distance = (income_max profile - income_min profile) / 2
         in 100 - distance / max_distance * 10))"

definition score_age :: "real \<Rightarrow> concept_profile \<Rightarrow> real" where
  "score_age age_percent profile =
     (if age_percent \<ge> target_age_min profile then
        min (90 + min ((age_percent - target_age_min profile) * 2) 10) 100
      else max (70 - (target_age_min profile - age_percent) * 2) 30)"

definition score_education :: "real \<Rightarrow> concept_profile \<Rightarrow> real" where
  "score_education education_percent profile =
     (if education_percent \<ge> education_min profile then
        min (85 + min ((education_percent - education_min profile) * 1.5) 15) 100
      else max (60 - (education_min profile - education_percent) * 1.5) 20)"

definition rate_density :: "real \<Rightarrow> concept_profile \<Rightarrow> string" where
  "rate_density density profile =
     (if density < density_min profile then ''too low''
      else if density > density_max profile then ''too high'' else ''optimal'')"

definition rate_income :: "real \<Rightarrow> concept_profile \<Rightarrow> string" where
  "rate_income income profile =
     (if income < income_min profile then ''below target''
      else if income > income_max profile then ''above target'' else ''excellent'')"

definition rate_age :: "real \<Rightarrow> concept_profile \<Rightarrow> string" where
  "rate_age age_percent profile =
     (if age_percent \<ge> target_age_min profile then ''excellent''
      else if age_percent \<ge> target_age_min profile - 5 then ''good'' else ''below target'')"

definition rate_education :: "real \<Rightarrow> concept_profile \<Rightarrow> string" where
  "rate_education education_percent profile =
     (if education_percent \<ge> education_min profile then ''high''
      else if education_percent \<ge> education_min profile - 10 then ''moderate'' else ''low'')"

text \<open>The divisors of the sub-scores are non-zero for a well-formed profile.\<close>

definition profile_ok :: "concept_profile \<Rightarrow> bool" where
  "profile_ok p \<longleftrightarrow> 0 < density_min p \<and> density_min p < density_max p
     \<and> 0 < income_min p \<and> income_min p < income_max p"

text \<open>\<open>_assess_confidence\<close>: the arguments are the truthiness of the two dictionaries.\<close>

definition demo_confidence :: "bool \<Rightarrow> bool \<Rightarrow> string" where
  "demo_confidence has_demographics has_population =
     (if \<not> has_demographics \<and> \<not> has_population then ''low''
      else if has_demographics \<and> has_population then ''high'' else ''medium'')"

text \<open>The weighted \<open>overall_score\<close> of \<open>analyze_demographics\<close>, before rounding.\<close>

definition demographic_score :: "real \<Rightarrow> real \<Rightarrow> real \<Rightarrow> real \<Rightarrow> concept_profile \<Rightarrow> real" where
  "demographic_score density income age edu profile =
     score_density density profile * 0.30 + score_income income profile * 0.35
     + score_age age profile * 0.20 + score_education edu profile * 0.15"

section \<open>CompAgent\<close>

definition assess_saturation :: "real \<Rightarrow> string" where
  "assess_saturation per_1k = (if per_1k < 2 then ''low'' else if per_1k < 5 then ''moderate'' else ''high'')"

definition py_truthy_dist :: "real option \<Rightarrow> bool" where
  "py_truthy_dist d \<longleftrightarrow> (case d of Some x \<Rightarrow> x \<noteq> 0 | None \<Rightarrow> False)"

text \<open>\<open>_calculate_competition_score\<close>; its \<open>population\<close> argument is not read.\<close>

definition calculate_competition_score_agent :: "nat \<Rightarrow> real \<Rightarrow> real option \<Rightarrow> real" where
  "calculate_competition_score_agent cnt per_1k nearest =
     (let saturation_score :: real =
            (if per_1k < 2 then 90 else if per_1k < 3 then 75 else if per_1k < 5 then 60
             else if per_1k < 7 then 45 else 30);
          distance_bonus :: real =
            (if py_truthy_dist nearest then
               (let d = the nearest in
                if d > 500 then 10 else if d > 300 then 5 else if d < 100 then -10 else 0)
             else 0);
          count_penalty :: real =
            (if cnt > 25 then 15 else if cnt > 20 then 10 else if cnt > 15 then 5 else 0)
      in max (min (saturation_score + distance_bonus - count_penalty) 100) 0)"

definition assess_pressure :: "nat \<Rightarrow> real option \<Rightarrow> string" where
  "assess_pressure cnt nearest =
     (if cnt < 8 \<and> (\<not> py_truthy_dist nearest \<or> the nearest > 300) then ''low''
      else if cnt > 20 \<or> (py_truthy_dist nearest \<and> the nearest < 150) then ''high''
      else ''medium'')"

text \<open>A competitor of \<open>OSMService.get_competitors\<close>, with the keys the agent reads.\<close>

record competitor =
  comp_name :: string
  comp_cuisine :: string
  comp_distance_m :: real

definition identify_gaps :: "competitor list \<Rightarrow> string list" where
  "identify_gaps cs =
     (let cuisines = map py_lower (filter (\<lambda>s. s \<noteq> []) (map comp_cuisine cs));
          gap_checks =
            [(''No vegan-focused restaurants'', ''vegan'' \<notin> set cuisines),
             (''No fine dining options'', ''fine_dining'' \<notin> set cuisines),
             (''Limited Asian cuisine'', \<not> list_ex (\<lambda>c. c \<in> set cuisines) [''asian'', ''chinese'', ''japanese'', ''thai'']),
             (''No Mediterranean restaurants'', \<not> list_ex (\<lambda>c. c \<in> set cuisines) [''mediterranean'', ''greek'', ''italian'']),
             (''Limited breakfast/brunch spots'', ''breakfast'' \<notin> set cuisines \<and> ''brunch'' \<notin> set cuisines)]
      in take 3 (map fst (filter snd gap_checks)))"

section \<open>TransitAgent\<close>

text \<open>A stop of \<open>OSMService.get_transit_stops\<close>, with the keys the agent reads.\<close>

record transit_stop =
  stop_name :: string
  stop_distance_m :: real


definition metro_points :: "real \<Rightarrow> real" where
  "metro_points d =
     (if d < 200 then 50 else if d < 300 then 45 else if d < 400 then 38 else if d < 500 then 30
      else if d < 600 then 20 else 10)"

definition tram_points :: "real \<Rightarrow> real" where
  "tram_points d =
     (if d < 150 then 40 else if d < 250 then 35 else if d < 350 then 28 else if d < 500 then 20 else 10)"

definition calculate_transit_score :: "real option \<Rightarrow> real option \<Rightarrow> nat \<Rightarrow> nat \<Rightarrow> real" where
  "calculate_transit_score metro_distance tram_distance metro_count tram_count =
     min ((case metro_distance of Some d \<Rightarrow> metro_points d | None \<Rightarrow> 0)
          + (case tram_distance of Some d \<Rightarrow> tram_points d | None \<Rightarrow> 0)
          + (if metro_count > 1 \<or> tram_count > 2 then real (min (metro_count + tram_count * 2) 10) else 0))
         100"

definition transit_walkability_score :: "nat \<Rightarrow> real" where
  "transit_walkability_score poi_count =
     (if poi_count \<ge> 50 then 100 else if poi_count \<ge> 40 then 90 else if poi_count \<ge> 30 then 75
      else if poi_count \<ge> 20 then 60 else if poi_count \<ge> 10 then 45
      else real (max (poi_count * 3) 20))"

text \<open>\<open>_rate_transit_access\<close>: the nearer of the known distances.\<close>

definition rate_transit_access :: "real option \<Rightarrow> real option \<Rightarrow> string" where
  "rate_transit_access metro_distance tram_distance =
     (case [d. Some d \<leftarrow> [metro_distance, tram_distance]] of
        [] \<Rightarrow> ''poor''
      | d # ds \<Rightarrow>
          let best_distance = foldl min d ds in
          if best_distance < 200 then ''excellent'' else if best_distance < 400 then ''good''
          else if best_distance < 600 then ''fair'' else ''poor'')"

definition rate_walkability :: "nat \<Rightarrow> string" where
  "rate_walkability poi_count =
     (if poi_count \<ge> 40 then ''high'' else if poi_count \<ge> 20 then ''moderate'' else ''low'')"

definition transit_confidence :: "real option \<Rightarrow> real option \<Rightarrow> nat \<Rightarrow> string" where
  "transit_confidence metro_distance tram_distance poi_count =
     (let has_metro = metro_distance \<noteq> None; has_tram = tram_distance \<noteq> None;
          has_walkability = poi_count > 0
      in if has_metro \<and> has_tram \<and> has_walkability then ''high''
         else if (has_metro \<or> has_tram) \<and> has_walkability then ''medium'' else ''low'')"

section \<open>GeoAgent\<close>

text \<open>
  The dictionary a geocoder returns, with the keys \<open>GeoAgent\<close> reads; a key is absent,
  \<open>None\<close> or a value.
\<close>

record geocode_dict =
  gd_latitude :: "real pyfield"
  gd_longitude :: "real pyfield"
  gd_postal_code :: "string pyfield"
  gd_municipality :: "string pyfield"
  gd_label :: "string pyfield"

definition truthy_num :: "real pyfield \<Rightarrow> bool" where
  "truthy_num f \<longleftrightarrow> (case f of Present x \<Rightarrow> x \<noteq> 0 | _ \<Rightarrow> False)"

definition truthy_str :: "string pyfield \<Rightarrow> bool" where
  "truthy_str f \<longleftrightarrow> (case f of Present s \<Rightarrow> s \<noteq> [] | _ \<Rightarrow> False)"

definition geo_confidence :: "geocode_dict \<Rightarrow> string" where
  "geo_confidence g =
     (if truthy_str (gd_postal_code g) \<and> truthy_str (gd_municipality g) \<and> truthy_str (gd_label g)
      then ''high''
      else if truthy_num (gd_latitude g) \<and> truthy_num (gd_longitude g) then ''medium'' else ''low'')"

text \<open>
  \<open>_assess_context\<close>: \<open>get("municipality", "")\<close> is \<open>None\<close> when the key holds \<open>None\<close>,
  and \<open>None.lower()\<close> raises \<open>AttributeError\<close>.
\<close>

definition urban_municipalities :: "string list" where
  "urban_municipalities = [''helsinki'', ''espoo'', ''vantaa'', ''tampere'', ''turku'', ''oulu'']"

definition assess_context :: "geocode_dict \<Rightarrow> string result" where
  "assess_context g =
     (case gd_municipality g of
        PyNone \<Rightarrow> Inl AttributeError
      | _ \<Rightarrow>
          let municipality = py_lower (case gd_municipality g of Present s \<Rightarrow> s | _ \<Rightarrow> [])
          in Inr (if municipality \<in> set urban_municipalities then ''dense urban core''
                  else if municipality \<noteq> [] then ''suburban/small city'' else ''unknown context''))"

definition calculate_quality_score :: "geocode_dict \<Rightarrow> nat" where
  "calculate_quality_score g =
     (if truthy_num (gd_latitude g) \<and> truthy_num (gd_longitude g) then 50 else 0)
     + (if truthy_str (gd_postal_code g) then 25 else 0)
     + (if truthy_str (gd_municipality g) then 15 else 0)
     + (if truthy_str (gd_label g) then 10 else 0)"

section \<open>RiskAgent and RevenueAgent\<close>

text \<open>\<open>confidence_scores.get(c, 70)\<close>.\<close>

definition confidence_points :: "string \<Rightarrow> real" where
  "confidence_points c =
     (if c = ''high'' then 90 else if c = ''medium'' then 70 else if c = ''low'' then 40 else 70)"

record revenue_params =
  avg_check :: real
  daily_covers :: real
  operating_days :: real

definition revenue_param_table :: "(string \<times> revenue_params) list" where
  "revenue_param_table =
     [(''casual_dining'', \<lparr>avg_check = 28, daily_covers = 120, operating_days = 26\<rparr>),
      (''fine_dining'', \<lparr>avg_check = 85, daily_covers = 50, operating_days = 24\<rparr>),
      (''quick_service'', \<lparr>avg_check = 12, daily_covers = 250, operating_days = 28\<rparr>)]"

definition get_concept_parameters :: "string \<Rightarrow> revenue_params" where
  "get_concept_parameters concept =
     (case map_of revenue_param_table concept of Some p \<Rightarrow> p
      | None \<Rightarrow> the (map_of revenue_param_table ''casual_dining''))"

definition calculate_adjustment :: "real \<Rightarrow> real \<Rightarrow> real \<Rightarrow> real" where
  "calculate_adjustment score base weight = base * weight * ((score - 50) / 50)"

text \<open>\<open>_calculate_location_adjustment\<close>: \<open>multipliers.get(context, 0.0)\<close>.\<close>

definition calculate_location_adjustment :: "string option \<Rightarrow> real \<Rightarrow> real \<Rightarrow> real" where
  "calculate_location_adjustment context base weight =
     base * weight * (if context = Some ''dense urban core'' then 1
                      else if context = Some ''suburban/small city'' then 0.5 else 0)"

definition rate_confidence :: "real \<Rightarrow> string" where
  "rate_confidence confidence =
     (if confidence \<ge> 85 then ''very high'' else if confidence \<ge> 75 then ''high''
      else if confidence \<ge> 60 then ''medium'' else ''low'')"

section \<open>Lemmas: the demographic sub-scores\<close>

lemma demo_profile_ok: "profile_ok (demo_profile c)"
proof -
  have "\<forall>p \<in> snd ` set concept_profiles. profile_ok p"
    by (simp add: concept_profiles_def profile_ok_def)
  moreover have "demo_profile c \<in> snd ` set concept_profiles"
    by (auto simp: demo_profile_def concept_profiles_def split: option.splits dest!: map_of_SomeD)
  ultimately show ?thesis by blast
qed

text \<open>Inside a range, the distance to its middle is at most half its width.\<close>

lemma middle_distance_le:
  assumes "lo < hi" "lo \<le> x" "x \<le> hi"
  shows "\<bar>x - (lo + hi) / 2\<bar> / ((hi - lo) / 2) * 10 \<le> (10::real)"
proof -
  have "\<bar>x - (lo + hi) / 2\<bar> \<le> (hi - lo) / 2" using assms by (auto simp: abs_le_iff field_simps)
  then have "\<bar>x - (lo + hi) / 2\<bar> / ((hi - lo) / 2) \<le> 1" using assms(1) by (simp add: divide_le_eq_1)
  then show ?thesis by simp
qed

lemma score_density_range:
  assumes "profile_ok p"
  shows "0 \<le> score_density d p \<and> score_density d p \<le> 100
    \<and> (90 \<le> score_density d p \<longleftrightarrow> rate_density d p = ''optimal'')"
proof (cases "d < density_min p \<or> d > density_max p")
  case True
  have "(density_min p - d) / density_min p * 50 \<ge> 0" if "d < density_min p"
    using assms that by (simp add: profile_ok_def)
  moreover have "(d - density_max p) / density_max p * 25 \<ge> 0" if "d > density_max p"
    using assms that by (simp add: profile_ok_def)
  ultimately show ?thesis using True by (auto simp: score_density_def rate_density_def)
next
  case False
  then have "\<bar>d - (density_min p + density_max p) / 2\<bar> / ((density_max p - density_min p) / 2) * 10 \<le> 10"
    using assms by (intro middle_distance_le) (auto simp: profile_ok_def)
  moreover have "0 \<le> \<bar>d - (density_min p + density_max p) / 2\<bar> / ((density_max p - density_min p) / 2) * 10"
    using assms by (simp add: profile_ok_def)
  ultimately show ?thesis using False by (simp add: score_density_def rate_density_def Let_def)
qed

lemma score_income_range:
  assumes "profile_ok p"
  shows "0 \<le> score_income i p \<and> score_income i p \<le> 100
    \<and> (90 \<le> score_income i p \<longleftrightarrow> rate_income i p = ''excellent'')"
proof (cases "i < income_min p \<or> i > income_max p")
  case True
  have "(income_min p - i) / income_min p * 50 \<ge> 0" if "i < income_min p"
    using assms that by (simp add: profile_ok_def)
  moreover have "(i - income_max p) / income_max p * 30 \<ge> 0" if "i > income_max p"
    using assms that by (simp add: profile_ok_def)
  ultimately show ?thesis using True by (auto simp: score_income_def rate_income_def)
next
  case False
  then have "\<bar>i - (income_min p + income_max p) / 2\<bar> / ((income_max p - income_min p) / 2) * 10 \<le> 10"
    using assms by (intro middle_distance_le) (auto simp: profile_ok_def)
  moreover have "0 \<le> \<bar>i - (income_min p + income_max p) / 2\<bar> / ((income_max p - income_min p) / 2) * 10"
    using assms by (simp add: profile_ok_def)
  ultimately show ?thesis using False by (simp add: score_income_def rate_income_def Let_def)
qed

lemma score_age_range:
  "30 \<le> score_age a p \<and> score_age a p \<le> 100 \<and> (90 \<le> score_age a p \<longleftrightarrow> rate_age a p = ''excellent'')"
  by (auto simp: score_age_def rate_age_def)

lemma score_education_range:
  "20 \<le> score_education e p \<and> score_education e p \<le> 100
   \<and> (85 \<le> score_education e p \<longleftrightarrow> rate_education e p = ''high'')"
  by (auto simp: score_education_def rate_education_def max_def min_def field_simps)

lemma demographic_score_range:
  "profile_ok p \<Longrightarrow> 0 \<le> demographic_score d i a e p \<and> demographic_score d i a e p \<le> 100"
  using score_density_range [of p d] score_income_range [of p i] score_age_range [of a p]
    score_education_range [of e p]
  by (simp add: demographic_score_def)

section \<open>Lemmas: competition, transit and geocoding scores\<close>

text \<open>
  C21. A competitor at distance 0 is falsy in \<open>if nearest_distance:\<close>: CompAgent gives
  it no proximity penalty, so it scores 10 points more than one 1--99 m away, exactly as
  if there were no competitor, and with fewer than 8 competitors the pressure is low.
\<close>

theorem competition_score_zero_distance:
  assumes "0 < d" "d < 100"
  shows "calculate_competition_score_agent n r (Some 0) = calculate_competition_score_agent n r None
    \<and> calculate_competition_score_agent n r (Some 0) = calculate_competition_score_agent n r (Some d) + 10
    \<and> (n < 8 \<longrightarrow> assess_pressure n (Some 0) = ''low'')"
  using assms by (simp add: calculate_competition_score_agent_def assess_pressure_def py_truthy_dist_def Let_def)

theorem competition_score_zero_distance_witness:
  "calculate_competition_score_agent 3 1 (Some 0) = calculate_competition_score_agent 3 1 None
   \<and> calculate_competition_score_agent 3 1 (Some 0) = calculate_competition_score_agent 3 1 (Some 50) + 10
   \<and> assess_pressure 3 (Some 0) = ''low''"
  using competition_score_zero_distance [of 50 3 1] by simp

lemma competition_score_range:
  "0 \<le> calculate_competition_score_agent n r d \<and> calculate_competition_score_agent n r d \<le> 100"
  by (simp add: calculate_competition_score_agent_def Let_def)

lemma metro_points_antimono: "d \<le> d' \<Longrightarrow> metro_points d' \<le> metro_points d"
  by (simp add: metro_points_def)

lemma tram_points_antimono: "d \<le> d' \<Longrightarrow> tram_points d' \<le> tram_points d"
  by (simp add: tram_points_def)

lemma transit_points_range: "10 \<le> metro_points d \<and> metro_points d \<le> 50 \<and> 10 \<le> tram_points d \<and> tram_points d \<le> 40"
  by (simp add: metro_points_def tram_points_def)

lemma transit_points_nonneg [simp]: "0 \<le> metro_points d" "0 \<le> tram_points d"
  using transit_points_range [of d] by linarith+

lemma calculate_transit_score_range:
  "0 \<le> calculate_transit_score m t mc tc \<and> calculate_transit_score m t mc tc \<le> 100"
  by (auto simp: calculate_transit_score_def split: option.splits intro!: add_nonneg_nonneg)

lemma transit_walkability_score_range:
  "20 \<le> transit_walkability_score n \<and> transit_walkability_score n \<le> 100"
  by (simp add: transit_walkability_score_def)

lemma transit_walkability_score_mono:
  "n \<le> n' \<Longrightarrow> transit_walkability_score n \<le> transit_walkability_score n'"
  by (simp add: transit_walkability_score_def max_def)

lemma calculate_quality_score_le: "calculate_quality_score g \<le> 100"
  by (simp add: calculate_quality_score_def)

lemma confidence_points_range: "40 \<le> confidence_points c \<and> confidence_points c \<le> 90"
  by (simp add: confidence_points_def)

text \<open>Outside all four targets the weighted score stays at most 73.5.\<close>

lemma demographic_score_no_fit:
  assumes "profile_ok p"
    and "\<not> (density_min p \<le> d \<and> d \<le> density_max p)" "\<not> (income_min p \<le> i \<and> i \<le> income_max p)"
    and "a < target_age_min p" "e < education_min p"
  shows "demographic_score d i a e p \<le> 73.5"
proof -
  have "0 \<le> (density_min p - d) / density_min p * 50" if "d < density_min p"
    using assms(1) that by (simp add: profile_ok_def)
  moreover have "0 \<le> (d - density_max p) / density_max p * 25" if "d > density_max p"
    using assms(1) that by (simp add: profile_ok_def)
  ultimately have "score_density d p \<le> 75"
    using assms(2) by (auto simp: score_density_def)
  have "0 \<le> (income_min p - i) / income_min p * 50" if "i < income_min p"
    using assms(1) that by (simp add: profile_ok_def)
  moreover have "0 \<le> (i - income_max p) / income_max p * 30" if "i > income_max p"
    using assms(1) that by (simp add: profile_ok_def)
  ultimately have "score_income i p \<le> 80"
    using assms(3) by (auto simp: score_income_def)
  note \<open>score_density d p \<le> 75\<close> this
  moreover have "score_age a p \<le> 70" using assms(4) by (simp add: score_age_def)
  moreover have "score_education e p \<le> 60" using assms(5) by (simp add: score_education_def)
  ultimately show ?thesis by (simp add: demographic_score_def)
qed

text \<open>An adjustment of weight \<open>w\<close> moves the base revenue by at most \<open>w\<close> of it either way.\<close>

lemma calculate_adjustment_bounds:
  assumes "0 \<le> base" "0 \<le> w" "0 \<le> s" "s \<le> 100"
  shows "- (base * w) \<le> calculate_adjustment s base w \<and> calculate_adjustment s base w \<le> base * w"
proof -
  have "-1 \<le> (s - 50) / 50 \<and> (s - 50) / 50 \<le> (1::real)" using assms(3,4) by simp
  then have "base * w * (-1) \<le> base * w * ((s - 50) / 50) \<and> base * w * ((s - 50) / 50) \<le> base * w * 1"
    using assms(1,2) by (intro conjI mult_left_mono) simp_all
  then show ?thesis by (simp add: calculate_adjustment_def)
qed

lemma calculate_location_adjustment_bounds:
  "0 \<le> base \<Longrightarrow> 0 \<le> w \<Longrightarrow> 0 \<le> calculate_location_adjustment c base w \<and> calculate_location_adjustment c base w \<le> base * w"
  by (simp add: calculate_location_adjustment_def)

lemma concept_parameters_pos:
  "0 < avg_check (get_concept_parameters c) \<and> 0 < daily_covers (get_concept_parameters c)
   \<and> 0 < operating_days (get_concept_parameters c)"
proof -
  have "\<forall>p \<in> snd ` set revenue_param_table. 0 < avg_check p \<and> 0 < daily_covers p \<and> 0 < operating_days p"
    by (simp add: revenue_param_table_def)
  moreover have "get_concept_parameters c \<in> snd ` set revenue_param_table"
    by (auto simp: get_concept_parameters_def revenue_param_table_def split: option.splits dest!: map_of_SomeD)
  ultimately show ?thesis by blast
qed

text \<open>
  C34. For every concept, DemoAgent's four sub-scores lie in [0, 100] and agree with its
  ratings: the density and income scores reach 90 exactly when they are rated
  \<open>optimal\<close> and \<open>excellent\<close>, the age score reaches 90 exactly when rated
  \<open>excellent\<close>, and the education score reaches 85 exactly when rated \<open>high\<close>.
\<close>

theorem demo_scores_match_ratings:
  "0 \<le> score_density d (demo_profile concept) \<and> score_density d (demo_profile concept) \<le> 100
      \<and> (90 \<le> score_density d (demo_profile concept) \<longleftrightarrow> rate_density d (demo_profile concept) = ''optimal'')
    \<and> 0 \<le> score_income i (demo_profile concept) \<and> score_income i (demo_profile concept) \<le> 100
      \<and> (90 \<le> score_income i (demo_profile concept) \<longleftrightarrow> rate_income i (demo_profile concept) = ''excellent'')
    \<and> 0 \<le> score_age a (demo_profile concept) \<and> score_age a (demo_profile concept) \<le> 100
      \<and> (90 \<le> score_age a (demo_profile concept) \<longleftrightarrow> rate_age a (demo_profile concept) = ''excellent'')
    \<and> 0 \<le> score_education e (demo_profile concept) \<and> score_education e (demo_profile concept) \<le> 100
      \<and> (85 \<le> score_education e (demo_profile concept) \<longleftrightarrow> rate_education e (demo_profile concept) = ''high'')"
  using score_density_range [OF demo_profile_ok [of concept], of d] score_income_range [OF demo_profile_ok [of concept], of i]
    score_age_range [of a "demo_profile concept"] score_education_range [of e "demo_profile concept"]
  by linarith

end
