(* ===== verification/AgnoAgents.thy ===== *)
theory AgnoAgents
  imports AgentScores
begin

text \<open>
  The analysis methods of the specialist agents of \<open>src/backend/agents/agno\<close>:
  \<open>GeoAgent.geocode_and_validate\<close>, \<open>DemoAgent.analyze_demographics\<close>,
  \<open>CompAgent.analyze_competition\<close> and \<open>TransitAgent.analyze_transit\<close>. Each builds a
  prompt, calls the language model (\<open>self.run\<close>) and computes its result from the
  helpers of AgentScores. The model's reply is a parameter \<open>llm\<close> giving, per agent,
  the reply text or the exception of the call; the prompt text is not modelled, but
  its formatting errors are (\<open>f"{x:,}"\<close> with \<open>x = None\<close> raises \<open>TypeError\<close>).
  Insights are constructors carrying the numbers they print.
\<close>

section \<open>The language model\<close>

datatype agent = GEO | DEMO | COMP | TRANSIT | RISK | REVENUE | ORCHESTRATOR

type_synonym llm = "agent \<Rightarrow> string result"

section \<open>GeoAgent\<close>

record geo_found =
  gf_address :: string
  gf_latitude :: "real option"
  gf_longitude :: "real option"
  gf_postal_code :: "string option"
  gf_municipality :: "string option"
  gf_label :: "string option"
  gf_confidence :: string
  gf_context :: string
  gf_reasoning :: string
  gf_quality :: nat

text \<open>The failure dictionary (\<open>"error": "Geocoding failed"\<close>) or the validated location.\<close>

datatype geo_result = GeoFailed string | GeoFound geo_found

text \<open>\<open>geocode_result["latitude"]\<close>: an absent key raises \<open>KeyError\<close>.\<close>

definition subscript :: "'a pyfield \<Rightarrow> 'a option result" where
  "subscript f = (case f of Missing \<Rightarrow> Inl KeyError | PyNone \<Rightarrow> Inr None | Present v \<Rightarrow> Inr (Some v))"

definition geocode_and_validate :: "llm \<Rightarrow> string \<Rightarrow> geocode_dict option \<Rightarrow> geo_result result" where
  "geocode_and_validate llm address geocode_result =
     (case geocode_result of
        None \<Rightarrow> Inr (GeoFailed address)
      | Some g \<Rightarrow>
          r_bind (subscript (gd_latitude g)) (\<lambda>lat.
          r_bind (subscript (gd_longitude g)) (\<lambda>lng.
          r_bind (llm GEO) (\<lambda>reasoning.
          r_map (\<lambda>context.
            GeoFound \<lparr>gf_address = address, gf_latitude = lat, gf_longitude = lng,
              gf_postal_code = field_get (gd_postal_code g), gf_municipality = field_get (gd_municipality g),
              gf_label = field_get (gd_label g), gf_confidence = geo_confidence g,
              gf_context = context, gf_reasoning = reasoning,
              gf_quality = calculate_quality_score g\<rparr>)
            (assess_context g)))))"

section \<open>DemoAgent\<close>

text \<open>
  The \<open>demographics\<close> and \<open>population_grid\<close> dictionaries the endpoint passes
  (\<open>main.py\<close>, \<open>analyze_sites\<close>), with the keys the agent reads.
\<close>

record demographics_input =
  di_population :: "real pyfield"
  di_median_income :: "real pyfield"
  di_age_15_64_percent :: "real pyfield"
  di_higher_education_percent :: "real pyfield"

record population_grid_input =
  pgi_total_population :: "real pyfield"
  pgi_population_density :: "real pyfield"

datatype demo_insight =
    OptimalDensity real string | IncomeMatch real | WorkingAge real | HigherEducation real

record demo_result =
  da_score :: real
  da_confidence :: string
  da_population_density :: real
  da_density_rating :: string
  da_income_fit :: string
  da_median_income :: real
  da_age_fit :: string
  da_target_age_percent :: real
  da_education_fit :: string
  da_higher_education_percent :: real
  da_reasoning :: string
  da_insights :: "demo_insight list"

text \<open>\<open>demographics_data.get(k, 0) if demographics_data else 0\<close>.\<close>

definition demo_get :: "demographics_input option \<Rightarrow> (demographics_input \<Rightarrow> real pyfield) \<Rightarrow> real option" where
  "demo_get dd k = (case dd of None \<Rightarrow> Some 0 | Some d \<Rightarrow> field_get_default (k d) 0)"

definition demo_insights :: "string \<Rightarrow> concept_profile \<Rightarrow> real \<Rightarrow> real \<Rightarrow> real \<Rightarrow> real \<Rightarrow> demo_insight list" where
  "demo_insights concept profile density income age edu =
     (if density_min profile \<le> density \<and> density \<le> density_max profile
      then [OptimalDensity density concept] else [])
     @ (if income_min profile \<le> income \<and> income \<le> income_max profile then [IncomeMatch income] else [])
     @ (if age \<ge> target_age_min profile then [WorkingAge age] else [])
     @ (if edu \<ge> education_min profile then [HigherEducation edu] else [])"

text \<open>
  The prompt formats population, density and income with \<open>:,\<close>, so a \<open>None\<close> among
  them raises before the model is called; a \<open>None\<close> age or education share raises
  in \<open>_score_age\<close> or \<open>_score_education\<close> after it.
\<close>

definition analyze_demographics ::
  "llm \<Rightarrow> string \<Rightarrow> demographics_input option \<Rightarrow> population_grid_input \<Rightarrow> demo_result result" where
  "analyze_demographics llm concept dd pg =
     (let population = demo_get dd di_population;
          density = field_get_default (pgi_population_density pg) 0;
          median_income = demo_get dd di_median_income;
          age = demo_get dd di_age_15_64_percent;
          edu = demo_get dd di_higher_education_percent;
          profile = demo_profile concept
      in if population = None then Inl TypeError else
         case density of None \<Rightarrow> Inl TypeError | Some d \<Rightarrow>
         case median_income of None \<Rightarrow> Inl TypeError | Some i \<Rightarrow>
           r_bind (llm DEMO) (\<lambda>reasoning.
             case age of None \<Rightarrow> Inl TypeError | Some a \<Rightarrow>
             case edu of None \<Rightarrow> Inl TypeError | Some e \<Rightarrow>
               Inr \<lparr>da_score = py_round 1 (demographic_score d i a e profile),
                    da_confidence = demo_confidence (dd \<noteq> None) True,
                    da_population_density = d, da_density_rating = rate_density d profile,
                    da_income_fit = rate_income i profile, da_median_income = i,
                    da_age_fit = rate_age a profile, da_target_age_percent = a,
                    da_education_fit = rate_education e profile,
                    da_higher_education_percent = e, da_reasoning = reasoning,
                    da_insights = demo_insights concept profile d i a e\<rparr>))"

section \<open>CompAgent\<close>

datatype comp_insight =
    LowSaturation nat | ModerateMarket nat | HighlyCompetitive nat
  | GoodSeparation real | CloseProximity real | MarketGap string

record comp_result =
  cr_score :: real
  cr_confidence :: string
  cr_competitor_count :: nat
  cr_saturation_level :: string
  cr_per_1k :: real
  cr_nearest :: "real option"
  cr_pressure :: string
  cr_market_gaps :: "string list"
  cr_reasoning :: string
  cr_insights :: "comp_insight list"
  cr_top_competitors :: "competitor list"

text \<open>\<open>min([c.get("distance_m", 9999) for c in competitors]) if competitors else None\<close>.\<close>

definition nearest_distance :: "competitor list \<Rightarrow> real option" where
  "nearest_distance cs = (case map comp_distance_m cs of [] \<Rightarrow> None | d # ds \<Rightarrow> Some (foldl min d ds))"

definition comp_insights :: "nat \<Rightarrow> real option \<Rightarrow> string list \<Rightarrow> comp_insight list" where
  "comp_insights n nearest gaps =
     [if n < 10 then LowSaturation n else if n < 20 then ModerateMarket n else HighlyCompetitive n]
     @ (if py_truthy_dist nearest \<and> the nearest > 300 then [GoodSeparation (the nearest)]
        else if py_truthy_dist nearest \<and> the nearest < 150 then [CloseProximity (the nearest)] else [])
     @ (case gaps of [] \<Rightarrow> [] | g # _ \<Rightarrow> [MarketGap g])"

text \<open>
  \<open>analyze_competition\<close>; \<open>population\<close> is \<open>None\<close> when the grid holds \<open>None\<close>, and
  \<open>population > 0\<close> then raises \<open>TypeError\<close>.
\<close>

definition analyze_competition ::
  "llm \<Rightarrow> string \<Rightarrow> competitor list \<Rightarrow> real option \<Rightarrow> comp_result result" where
  "analyze_competition llm concept competitors population =
     (case population of
        None \<Rightarrow> Inl TypeError
      | Some pop \<Rightarrow>
          let n = length competitors;
              per_1k = (if pop > 0 then real n / (pop / 1000) else 0);
              nearest = nearest_distance competitors
          in r_bind (llm COMP) (\<lambda>reasoning.
               let gaps = identify_gaps competitors in
               Inr \<lparr>cr_score = py_round 1 (calculate_competition_score_agent n per_1k nearest),
                    cr_confidence = (if pop > 0 \<and> competitors \<noteq> [] then ''high'' else ''medium''),
                    cr_competitor_count = n, cr_saturation_level = assess_saturation per_1k,
                    cr_per_1k = py_round 2 per_1k, cr_nearest = nearest,
                    cr_pressure = assess_pressure n nearest, cr_market_gaps = gaps,
                    cr_reasoning = reasoning, cr_insights = comp_insights n nearest gaps,
                    cr_top_competitors = take 5 competitors\<rparr>))"

section \<open>TransitAgent\<close>

record transit_input =
  ti_metro_distance :: "real option"
  ti_tram_distance :: "real option"
  ti_metro_stations :: "transit_stop list"
  ti_tram_stops :: "transit_stop list"

datatype transit_insight = TramAccess real | MetroAccess real | VibrantArea nat | ModerateFootTraffic nat

record transit_result =
  tr_score :: real
  tr_confidence :: string
  tr_nearest_metro :: "real option"
  tr_nearest_tram :: "real option"
  tr_metro_count :: nat
  tr_tram_count :: nat
  tr_access_rating :: string
  tr_walkability_score :: real
  tr_poi_count :: nat
  tr_walkability_rating :: string
  tr_summary :: string
  tr_reasoning :: string
  tr_insights :: "transit_insight list"

definition generate_summary :: "string \<Rightarrow> string \<Rightarrow> string" where
  "generate_summary transit_rating walkability_rating =
     (case map_of [(''excellent'', ''Excellent public transit access''), (''good'', ''Good public transit access''),
                   (''fair'', ''Fair public transit access''), (''poor'', ''Limited public transit access'')]
             transit_rating of Some t \<Rightarrow> t | None \<Rightarrow> ''Transit access unknown'')
     @ '' in ''
     @ (case map_of [(''high'', ''highly walkable area''), (''moderate'', ''moderately walkable area''),
                     (''low'', ''low walkability area'')] walkability_rating of Some w \<Rightarrow> w | None \<Rightarrow> ''area'')"

definition transit_insights :: "real option \<Rightarrow> real option \<Rightarrow> nat \<Rightarrow> transit_insight list" where
  "transit_insights metro tram poi =
     (if py_truthy_dist tram \<and> the tram < 200 then [TramAccess (the tram)] else [])
     @ (if py_truthy_dist metro \<and> the metro < 300 then [MetroAccess (the metro)] else [])
     @ (if poi > 40 then [VibrantArea poi] else if poi > 20 then [ModerateFootTraffic poi] else [])"

definition analyze_transit :: "llm \<Rightarrow> transit_input \<Rightarrow> nat \<Rightarrow> transit_result result" where
  "analyze_transit llm td poi =
     r_bind (llm TRANSIT) (\<lambda>reasoning.
       let metro = ti_metro_distance td; tram = ti_tram_distance td;
           ts = calculate_transit_score metro tram (length (ti_metro_stations td)) (length (ti_tram_stops td));
           ws = transit_walkability_score poi;
           rating = rate_transit_access metro tram;
           walk_rating = rate_walkability poi
       in Inr \<lparr>tr_score = py_round 1 (ts * 0.7 + ws * 0.3),
               tr_confidence = transit_confidence metro tram poi,
               tr_nearest_metro = metro, tr_nearest_tram = tram,
               tr_metro_count = length (ti_metro_stations td), tr_tram_count = length (ti_tram_stops td),
               tr_access_rating = rating, tr_walkability_score = ws, tr_poi_count = poi,
               tr_walkability_rating = walk_rating, tr_summary = generate_summary rating walk_rating,
               tr_reasoning = reasoning, tr_insights = transit_insights metro tram poi\<rparr>)"

section \<open>RiskAgent\<close>

record risk_factor =
  rf_factor :: string
  rf_severity :: string
  rf_description :: string

text \<open>\<open>_generate_transparency_warning\<close>: the warning texts, which open with an emoji.\<close>

datatype transparency_warning = LowConfidenceWarning string string "string list" | NoteWarning string

record risk_result =
  rr_overall_confidence :: real
  rr_confidence_rating :: string
  rr_data_quality :: real
  rr_risk_level :: string
  rr_missing_data :: "string list"
  rr_risk_factors :: "risk_factor list"
  rr_data_coverage :: "(string \<times> real) list"
  rr_reasoning :: string
  rr_recommendations :: "string list"
  rr_warning :: "transparency_warning option"

text \<open>The entries of the GEO result the other agents read through \<open>get\<close>.\<close>

definition geo_confidence_of :: "geo_result \<Rightarrow> string" where
  "geo_confidence_of g = (case g of GeoFailed _ \<Rightarrow> ''none'' | GeoFound f \<Rightarrow> gf_confidence f)"

definition geo_quality_of :: "geo_result \<Rightarrow> real" where
  "geo_quality_of g = (case g of GeoFailed _ \<Rightarrow> 0 | GeoFound f \<Rightarrow> real (gf_quality f))"

definition geo_has_postal_code :: "geo_result \<Rightarrow> bool" where
  "geo_has_postal_code g =
     (case g of GeoFailed _ \<Rightarrow> False | GeoFound f \<Rightarrow> (case gf_postal_code f of Some pc \<Rightarrow> pc \<noteq> [] | None \<Rightarrow> False))"

definition geo_context_of :: "geo_result \<Rightarrow> string option" where
  "geo_context_of g = (case g of GeoFailed _ \<Rightarrow> None | GeoFound f \<Rightarrow> Some (gf_context f))"

definition risk_factors_of :: "nat \<Rightarrow> string \<Rightarrow> real \<Rightarrow> real \<Rightarrow> risk_factor list" where
  "risk_factors_of competitor_count transit_rating demo_score overall_confidence =
     (if competitor_count > 20 then
        [\<lparr>rf_factor = ''High competition'', rf_severity = ''medium'',
          rf_description = string_of_nat competitor_count @ '' competitors in 1km radius''\<rparr>] else [])
     @ (if transit_rating = ''poor'' then
        [\<lparr>rf_factor = ''Limited transit access'', rf_severity = ''medium'',
          rf_description = ''Poor public transit connectivity''\<rparr>] else [])
     @ (if demo_score < 60 then
        [\<lparr>rf_factor = ''Demographic mismatch'', rf_severity = ''high'',
          rf_description = ''Demographics below target for concept''\<rparr>] else [])
     @ (if overall_confidence < 70 then
        [\<lparr>rf_factor = ''Data quality concerns'', rf_severity = ''medium'',
          rf_description = ''Limited data availability affects prediction confidence''\<rparr>] else [])"

definition risk_level_of :: "real \<Rightarrow> nat \<Rightarrow> string" where
  "risk_level_of overall_confidence n_factors =
     (if overall_confidence \<ge> 80 \<and> n_factors < 2 then ''low''
      else if overall_confidence \<ge> 65 \<and> n_factors < 3 then ''medium'' else ''high'')"

definition generate_transparency_warning :: "string \<Rightarrow> string \<Rightarrow> string list \<Rightarrow> transparency_warning option" where
  "generate_transparency_warning confidence_rating risk_level missing_data =
     (if confidence_rating = ''low'' \<or> risk_level = ''high''
      then Some (LowConfidenceWarning confidence_rating risk_level (take 3 missing_data))
      else if confidence_rating = ''medium'' \<or> risk_level = ''medium''
      then Some (NoteWarning confidence_rating) else None)"

text \<open>
  The weighted confidence of \<open>assess_risk_and_confidence\<close>: the mean of the four agents'
  confidence points (an unknown label counts 70) and of their four scores.
\<close>

definition overall_confidence :: "string list \<Rightarrow> real list \<Rightarrow> real" where
  "overall_confidence labels scores =
     sum_list (map confidence_points labels) / 4 * 0.6 + sum_list scores / 4 * 0.4"

definition assess_risk_and_confidence ::
  "llm \<Rightarrow> geo_result \<Rightarrow> demo_result \<Rightarrow> comp_result \<Rightarrow> transit_result \<Rightarrow> risk_result result" where
  "assess_risk_and_confidence llm geo demo cmp transit =
     r_bind (llm RISK) (\<lambda>reasoning.
       let labels = [geo_confidence_of geo, da_confidence demo, cr_confidence cmp, tr_confidence transit];
           scores = [geo_quality_of geo, da_score demo, cr_score cmp, tr_score transit];
           data_quality_avg = sum_list scores / 4;
           overall = overall_confidence labels scores;
           factors = risk_factors_of (cr_competitor_count cmp) (tr_access_rating transit) (da_score demo) overall;
           missing_data = (if geo_has_postal_code geo then [] else [''Postal code data''])
             @ (if da_score demo < 50 then [''Complete demographic data''] else [])
             @ [''Crime statistics'', ''Foot traffic counts'', ''Parking availability'', ''Rent/lease costs''];
           level = risk_level_of overall (length factors);
           rating = rate_confidence overall
       in Inr \<lparr>rr_overall_confidence = py_round 1 overall, rr_confidence_rating = rating,
               rr_data_quality = py_round 1 data_quality_avg, rr_risk_level = level,
               rr_missing_data = take 5 missing_data, rr_risk_factors = factors,
               rr_data_coverage = [(''geocoding'', py_round 1 (geo_quality_of geo)),
                                   (''demographics'', py_round 1 (min (da_score demo) 100)),
                                   (''competition'', py_round 1 (min (cr_score cmp) 100)),
                                   (''transit'', py_round 1 (min (tr_score transit) 100))],
               rr_reasoning = reasoning,
               rr_recommendations = (if tr_score transit < 70 then [''Consider collecting peak-hour foot traffic data''] else [])
                 @ (if cr_competitor_count cmp > 15 then [''Conduct competitive differentiation analysis''] else [])
                 @ (if overall < 75 then [''Verify predictions with on-site visit and local market research''] else []),
               rr_warning = generate_transparency_warning rating level missing_data\<rparr>)"

section \<open>RevenueAgent\<close>

record key_driver =
  kd_factor :: string
  kd_impact :: string
  kd_weight :: real
  kd_score :: real
  kd_contribution :: real

record revenue_result =
  rv_opportunity_score :: real
  rv_predicted_monthly_revenue :: real
  rv_revenue_confidence :: string
  rv_pessimistic :: real
  rv_realistic :: real
  rv_optimistic :: real
  rv_key_drivers :: "key_driver list"
  rv_reasoning :: string
  rv_base_revenue :: real
  rv_demographic_adjustment :: real
  rv_competition_adjustment :: real
  rv_transit_adjustment :: real
  rv_location_adjustment :: real
  rv_params :: revenue_params

definition impact_of :: "real \<Rightarrow> string" where
  "impact_of score = (if score > 75 then ''positive'' else if score > 60 then ''neutral'' else ''negative'')"

text \<open>
  \<open>predict_revenue\<close>: the base revenue of the concept's parameters, four adjustments,
  the confidence band and the weighted opportunity score; the drivers are sorted by the
  size of their contribution, largest first (a stable sort, as \<open>list.sort\<close>).
\<close>

definition predict_revenue ::
  "llm \<Rightarrow> string \<Rightarrow> geo_result \<Rightarrow> demo_result \<Rightarrow> comp_result \<Rightarrow> transit_result \<Rightarrow> risk_result
   \<Rightarrow> revenue_result result" where
  "predict_revenue llm concept geo demo cmp transit risk =
     r_bind (llm REVENUE) (\<lambda>reasoning.
       let demo_score = da_score demo; comp_score = cr_score cmp; transit_score = tr_score transit;
           confidence = rr_overall_confidence risk;
           params = get_concept_parameters concept;
           base = avg_check params * daily_covers params * operating_days params;
           demo_adj = calculate_adjustment demo_score base 0.35;
           comp_adj = calculate_adjustment comp_score base 0.25;
           transit_adj = calculate_adjustment transit_score base 0.20;
           location_adj = calculate_location_adjustment (geo_context_of geo) base 0.20;
           realistic = base + demo_adj + comp_adj + transit_adj + location_adj;
           confidence_factor = confidence / 100;
           pessimistic = realistic * (0.65 + 0.15 * confidence_factor);
           optimistic = realistic * (1.20 + 0.10 * confidence_factor);
           opportunity = demo_score * 0.35 + comp_score * 0.25 + transit_score * 0.20 + confidence * 0.20;
           drivers =
             [\<lparr>kd_factor = ''Demographics'', kd_impact = impact_of demo_score, kd_weight = 0.35,
                kd_score = demo_score, kd_contribution = demo_adj\<rparr>,
              \<lparr>kd_factor = ''Competition'', kd_impact = impact_of comp_score, kd_weight = 0.25,
                kd_score = comp_score, kd_contribution = comp_adj\<rparr>,
              \<lparr>kd_factor = ''Transit & Access'', kd_impact = impact_of transit_score, kd_weight = 0.20,
                kd_score = transit_score, kd_contribution = transit_adj\<rparr>,
              \<lparr>kd_factor = ''Location Quality'', kd_impact = (if confidence > 75 then ''positive'' else ''neutral''),
                kd_weight = 0.20, kd_score = confidence, kd_contribution = location_adj\<rparr>]
       in Inr \<lparr>rv_opportunity_score = py_round 1 opportunity,
               rv_predicted_monthly_revenue = py_round 0 realistic,
               rv_revenue_confidence = rate_confidence confidence,
               rv_pessimistic = py_round 0 pessimistic, rv_realistic = py_round 0 realistic,
               rv_optimistic = py_round 0 optimistic,
               rv_key_drivers = sort_key (\<lambda>d. - \<bar>kd_contribution d\<bar>) drivers,
               rv_reasoning = reasoning, rv_base_revenue = py_round 0 base,
               rv_demographic_adjustment = py_round 0 demo_adj,
               rv_competition_adjustment = py_round 0 comp_adj,
               rv_transit_adjustment = py_round 0 transit_adj,
               rv_location_adjustment = py_round 0 location_adj, rv_params = params\<rparr>)"

section \<open>OrchestratorAgent\<close>

datatype strength =
    StrongDemographics demo_insight | LowCompetition comp_insight | ExcellentAccess transit_insight

record synthesis =
  sy_recommendation :: string
  sy_strengths :: "strength list"
  sy_concerns :: "string list"
  sy_action_items :: "string list"
  sy_reasoning :: string

definition recommendation_of :: "real \<Rightarrow> real \<Rightarrow> string" where
  "recommendation_of opportunity_score confidence =
     (if opportunity_score \<ge> 85 \<and> confidence \<ge> 80 then ''Highly Recommended''
      else if opportunity_score \<ge> 70 \<and> confidence \<ge> 65 then ''Recommended''
      else if opportunity_score \<ge> 55 \<or> confidence \<ge> 65 then ''Consider Alternatives''
      else ''Not Recommended'')"

text \<open>
  \<open>results.get('insights', [default])[0]\<close>: the default is used only when the key is
  absent, so an empty list of insights raises \<open>IndexError\<close>.
\<close>

definition first_insight :: "'a list \<Rightarrow> 'a result" where
  "first_insight xs = (case xs of [] \<Rightarrow> Inl IndexError | x # _ \<Rightarrow> Inr x)"

definition key_strengths ::
  "demo_result \<Rightarrow> comp_result \<Rightarrow> transit_result \<Rightarrow> strength list result" where
  "key_strengths demo cmp transit =
     r_bind (if da_score demo \<ge> 75 then r_map (\<lambda>i. [StrongDemographics i]) (first_insight (da_insights demo))
             else Inr []) (\<lambda>s1.
     r_bind (if cr_score cmp \<ge> 75 then r_map (\<lambda>i. [LowCompetition i]) (first_insight (cr_insights cmp))
             else Inr []) (\<lambda>s2.
     r_map (\<lambda>s3. s1 @ s2 @ s3)
       (if tr_score transit \<ge> 75 then r_map (\<lambda>i. [ExcellentAccess i]) (first_insight (tr_insights transit))
        else Inr [])))"

definition key_concerns :: "risk_result \<Rightarrow> string list" where
  "key_concerns risk =
     (let cs = map (\<lambda>f. rf_factor f @ '': '' @ rf_description f)
                 (filter (\<lambda>f. rf_severity f \<in> set [''high'', ''medium'']) (rr_risk_factors risk))
      in if cs = [] then [''No major concerns identified''] else cs)"

text \<open>
  \<open>_synthesize_analysis\<close>; the executive summary is free text and not modelled (its
  formatting cannot fail on the numbers it is given).
\<close>

definition synthesize_analysis ::
  "llm \<Rightarrow> demo_result \<Rightarrow> comp_result \<Rightarrow> transit_result \<Rightarrow> risk_result \<Rightarrow> revenue_result
   \<Rightarrow> synthesis result" where
  "synthesize_analysis llm demo cmp transit risk revenue =
     r_bind (llm ORCHESTRATOR) (\<lambda>reasoning.
     r_map (\<lambda>strengths.
       \<lparr>sy_recommendation = recommendation_of (rv_opportunity_score revenue) (rr_overall_confidence risk),
        sy_strengths = take 3 strengths, sy_concerns = take 3 (key_concerns risk),
        sy_action_items = take 3 (if rr_recommendations risk = [] then [''Proceed with site visit to validate findings'']
                                  else rr_recommendations risk),
        sy_reasoning = reasoning\<rparr>)
       (key_strengths demo cmp transit))"

text \<open>
  The \<open>raw_data\<close> dictionary \<open>analyze_sites\<close> hands to the orchestrator: the
  demographics (\<open>None\<close> without a median income), the population grid, the
  competitors, the transit data and the walkability count.
\<close>

record raw_data =
  rd_demographics :: "demographics_input option"
  rd_population_grid :: population_grid_input
  rd_competitors :: "competitor list"
  rd_transit :: transit_input
  rd_walkability_poi_count :: nat

record site_analysis =
  an_opportunity_score :: real
  an_predicted_monthly_revenue :: real
  an_confidence :: real
  an_confidence_rating :: string
  an_recommendation :: string
  an_geo :: geo_result
  an_demographics :: demo_result
  an_competition :: comp_result
  an_transit :: transit_result
  an_risk :: risk_result
  an_revenue :: revenue_result
  an_key_strengths :: "strength list"
  an_key_concerns :: "string list"
  an_action_items :: "string list"

text \<open>
  \<open>OrchestratorAgent.analyze_site\<close>: the six agents in order, then the synthesis; the
  geocoder is \<open>data_services["geocoder"].geocode_address\<close>.
\<close>

definition analyze_site ::
  "llm \<Rightarrow> (string \<Rightarrow> geocode_dict option) \<Rightarrow> string \<Rightarrow> string \<Rightarrow> raw_data \<Rightarrow> site_analysis result" where
  "analyze_site llm geocoder address concept rd =
     r_bind (geocode_and_validate llm address (geocoder address)) (\<lambda>geo.
     r_bind (analyze_demographics llm concept (rd_demographics rd) (rd_population_grid rd)) (\<lambda>demo.
     r_bind (analyze_competition llm concept (rd_competitors rd)
               (field_get_default (pgi_total_population (rd_population_grid rd)) 10000)) (\<lambda>cmp.
     r_bind (analyze_transit llm (rd_transit rd) (rd_walkability_poi_count rd)) (\<lambda>transit.
     r_bind (assess_risk_and_confidence llm geo demo cmp transit) (\<lambda>risk.
     r_bind (predict_revenue llm concept geo demo cmp transit risk) (\<lambda>revenue.
     r_map (\<lambda>sy.
       \<lparr>an_opportunity_score = rv_opportunity_score revenue,
        an_predicted_monthly_revenue = rv_predicted_monthly_revenue revenue,
        an_confidence = rr_overall_confidence risk, an_confidence_rating = rr_confidence_rating risk,
        an_recommendation = sy_recommendation sy, an_geo = geo, an_demographics = demo,
        an_competition = cmp, an_transit = transit, an_risk = risk, an_revenue = revenue,
        an_key_strengths = sy_strengths sy, an_key_concerns = sy_concerns sy,
        an_action_items = sy_action_items sy\<rparr>)
       (synthesize_analysis llm demo cmp transit risk revenue)))))))"

definition in_score_range :: "real \<Rightarrow> bool" where
  "in_score_range x \<longleftrightarrow> 0 \<le> x \<and> x \<le> 100"

section \<open>Example inputs\<close>

text \<open>A model that answers every prompt, and a site without geocoding or demographics.\<close>

definition ex_llm :: llm where
  "ex_llm = (\<lambda>_. Inr ''ok'')"

definition ex_sparse_site :: raw_data where
  "ex_sparse_site = \<lparr>rd_demographics = None,
     rd_population_grid = \<lparr>pgi_total_population = Present 10000, pgi_population_density = Present 5000\<rparr>,
     rd_competitors = [],
     rd_transit = \<lparr>ti_metro_distance = None, ti_tram_distance = None, ti_metro_stations = [], ti_tram_stops = []\<rparr>,
     rd_walkability_poi_count = 0\<rparr>"

text \<open>
  The same site with a metro station 350 m and a tram stop 220 m away, three of each
  within 500 m (the data collector keeps three), and 20 walkability points of interest.
\<close>

definition ex_transit_site :: raw_data where
  "ex_transit_site = ex_sparse_site\<lparr>rd_transit :=
     \<lparr>ti_metro_distance = Some 350, ti_tram_distance = Some 220,
      ti_metro_stations = replicate 3 \<lparr>stop_name = ''metro'', stop_distance_m = 350\<rparr>,
      ti_tram_stops = replicate 3 \<lparr>stop_name = ''tram'', stop_distance_m = 220\<rparr>\<rparr>,
     rd_walkability_poi_count := 20\<rparr>"

section \<open>Lemmas: the ranges of the agents' scores\<close>

lemma py_round_score_range: "in_score_range x \<Longrightarrow> in_score_range (py_round n x)"
  using py_round_between [of 0 x 100 n] by (simp add: in_score_range_def)

lemma analyze_demographics_Inr:
  assumes "analyze_demographics llm concept dd pg = Inr d"
  shows "in_score_range (da_score d) \<and> (da_insights d = [] \<longrightarrow> da_score d \<le> 73.5)"
proof -
  obtain dens i a e r where
    v: "field_get_default (pgi_population_density pg) 0 = Some dens" "demo_get dd di_median_income = Some i"
       "demo_get dd di_age_15_64_percent = Some a" "demo_get dd di_higher_education_percent = Some e"
       "llm DEMO = Inr r" "demo_get dd di_population \<noteq> None"
    using assms
    by (cases "field_get_default (pgi_population_density pg) 0"; cases "demo_get dd di_median_income";
        cases "demo_get dd di_age_15_64_percent"; cases "demo_get dd di_higher_education_percent";
        cases "llm DEMO") (auto simp: analyze_demographics_def Let_def split: if_split_asm)
  then have d: "da_score d = py_round 1 (demographic_score dens i a e (demo_profile concept))
      \<and> da_insights d = demo_insights concept (demo_profile concept) dens i a e"
    using assms by (auto simp: analyze_demographics_def Let_def split: if_split_asm)
  have ok: "profile_ok (demo_profile concept)" by (rule demo_profile_ok)
  have "in_score_range (demographic_score dens i a e (demo_profile concept))"
    using demographic_score_range [OF ok] by (simp add: in_score_range_def)
  moreover have "py_round 1 (demographic_score dens i a e (demo_profile concept)) \<le> 73.5"
    if "demo_insights concept (demo_profile concept) dens i a e = []"
  proof -
    have "demographic_score dens i a e (demo_profile concept) \<le> of_int 735 / 10 ^ 1"
      using that demographic_score_no_fit [OF ok] by (simp add: demo_insights_def split: if_splits)
    then have "py_round 1 (demographic_score dens i a e (demo_profile concept)) \<le> of_int 735 / 10 ^ 1"
      using py_round_mono py_round_grid by metis
    then show ?thesis by simp
  qed
  ultimately show ?thesis using py_round_score_range d by simp
qed

lemma analyze_competition_Inr:
  assumes "analyze_competition llm concept cs pop = Inr c"
  shows "in_score_range (cr_score c) \<and> cr_insights c \<noteq> []"
  using assms py_round_score_range competition_score_range
  by (auto simp: analyze_competition_def Let_def r_bind_Inr_iff in_score_range_def comp_insights_def
           split: option.splits)

lemma analyze_transit_Inr:
  assumes "analyze_transit llm td poi = Inr t"
  shows "in_score_range (tr_score t)"
proof -
  let ?ts = "calculate_transit_score (ti_metro_distance td) (ti_tram_distance td)
               (length (ti_metro_stations td)) (length (ti_tram_stops td))"
  have "in_score_range (?ts * 0.7 + transit_walkability_score poi * 0.3)"
    using calculate_transit_score_range [of "ti_metro_distance td" "ti_tram_distance td"
            "length (ti_metro_stations td)" "length (ti_tram_stops td)"]
          transit_walkability_score_range [of poi]
    by (simp add: in_score_range_def)
  with assms show ?thesis
    by (auto simp: analyze_transit_def Let_def r_bind_Inr_iff intro: py_round_score_range)
qed

lemma geocode_and_validate_quality:
  "geocode_and_validate llm address r = Inr g \<Longrightarrow> in_score_range (geo_quality_of g)"
  using calculate_quality_score_le
  by (auto simp: geocode_and_validate_def geo_quality_of_def in_score_range_def r_bind_Inr_iff r_map_Inr_iff
           split: option.splits)

lemma confidence_points_sum:
  "length labels = 4 \<Longrightarrow>
   160 \<le> sum_list (map confidence_points labels) \<and> sum_list (map confidence_points labels) \<le> 360"
  using confidence_points_range
  by (cases labels rule: list.exhaust; auto simp: numeral_eq_Suc length_Suc_conv)
     (smt (verit) confidence_points_range)+

lemma overall_confidence_range:
  assumes "length labels = 4" "list_all in_score_range scores" "length scores = 4"
  shows "in_score_range (overall_confidence labels scores)"
proof -
  have "0 \<le> sum_list scores \<and> sum_list scores \<le> 400"
    using assms(2,3) by (auto simp: in_score_range_def numeral_eq_Suc length_Suc_conv)
  then show ?thesis using confidence_points_sum [OF assms(1)]
    by (simp add: overall_confidence_def in_score_range_def)
qed

text \<open>The label points alone give at least \<open>160 / 4 * 0.6 = 24\<close>.\<close>

lemma overall_confidence_ge:
  assumes "length labels = 4" "list_all in_score_range scores"
  shows "24 \<le> overall_confidence labels scores"
proof -
  have "0 \<le> sum_list scores"
    using assms(2) by (induction scores) (auto simp: in_score_range_def)
  then show ?thesis using confidence_points_sum [OF assms(1)]
    by (simp add: overall_confidence_def)
qed

lemma assess_risk_Inr:
  assumes "assess_risk_and_confidence llm geo demo cmp transit = Inr r"
    and "in_score_range (geo_quality_of geo)" "in_score_range (da_score demo)"
    "in_score_range (cr_score cmp)" "in_score_range (tr_score transit)"
  shows "in_score_range (rr_overall_confidence r) \<and> 24 \<le> rr_overall_confidence r"
proof -
  let ?labels = "[geo_confidence_of geo, da_confidence demo, cr_confidence cmp, tr_confidence transit]"
  let ?scores = "[geo_quality_of geo, da_score demo, cr_score cmp, tr_score transit]"
  have "in_score_range (overall_confidence ?labels ?scores)"
    using assms(2-5) by (intro overall_confidence_range) simp_all
  moreover have "24 \<le> overall_confidence ?labels ?scores"
    using assms(2-5) by (intro overall_confidence_ge) simp_all
  then have "24 \<le> py_round 1 (overall_confidence ?labels ?scores)"
    using py_round_mono [of 24 _ 1] by simp
  ultimately show ?thesis using assms(1)
    by (auto simp: assess_risk_and_confidence_def Let_def r_bind_Inr_iff intro: py_round_score_range)
qed

text \<open>
  With scores and confidence in [0, 100], the realistic revenue lies between 20\% and
  200\% of the base, and the pessimistic and optimistic factors (0.65--0.80 and
  1.20--1.30) keep the three figures in order, also after rounding.
\<close>

lemma revenue_band_ordered:
  fixes ctx :: "string option"
  assumes "0 < base" "in_score_range ds" "in_score_range cs" "in_score_range ts" "in_score_range conf"
  defines "realistic \<equiv> base + calculate_adjustment ds base 0.35 + calculate_adjustment cs base 0.25
             + calculate_adjustment ts base 0.20 + calculate_location_adjustment ctx base 0.20"
  shows "0 \<le> py_round 0 (realistic * (0.65 + 0.15 * (conf / 100)))
    \<and> py_round 0 (realistic * (0.65 + 0.15 * (conf / 100))) \<le> py_round 0 realistic
    \<and> py_round 0 realistic \<le> py_round 0 (realistic * (1.20 + 0.10 * (conf / 100)))"
proof -
  have b: "0 \<le> base" using assms(1) by simp
  have "- (base * 0.35) \<le> calculate_adjustment ds base 0.35" "- (base * 0.25) \<le> calculate_adjustment cs base 0.25"
    "- (base * 0.20) \<le> calculate_adjustment ts base 0.20" "0 \<le> calculate_location_adjustment ctx base 0.20"
    using calculate_adjustment_bounds [OF b, of "0.35" ds] calculate_adjustment_bounds [OF b, of "0.25" cs]
          calculate_adjustment_bounds [OF b, of "0.20" ts] calculate_location_adjustment_bounds [OF b, of "0.20" ctx]
          assms(2-4)
    by (simp_all add: in_score_range_def)
  then have "0 < realistic" using assms(1) unfolding realistic_def by (simp add: power2_eq_square; linarith)
  moreover have "0.65 \<le> 0.65 + 0.15 * (conf / 100) \<and> 0.65 + 0.15 * (conf / 100) \<le> (1::real)"
    "1 \<le> 1.20 + 0.10 * (conf / 100)"
    using assms(5) by (simp_all add: in_score_range_def)
  ultimately have "0 \<le> realistic * (0.65 + 0.15 * (conf / 100))"
    "realistic * (0.65 + 0.15 * (conf / 100)) \<le> realistic"
    "realistic \<le> realistic * (1.20 + 0.10 * (conf / 100))"
    by (simp_all add: mult_le_cancel_left1 mult_le_cancel_left2)
  then show ?thesis by (simp add: py_round_nonneg py_round_mono)
qed

lemma predict_revenue_Inr:
  assumes "predict_revenue llm concept geo demo cmp transit risk = Inr rv"
    and "in_score_range (da_score demo)" "in_score_range (cr_score cmp)" "in_score_range (tr_score transit)"
    "in_score_range (rr_overall_confidence risk)"
  shows "0 \<le> rv_pessimistic rv \<and> rv_pessimistic rv \<le> rv_realistic rv \<and> rv_realistic rv \<le> rv_optimistic rv
    \<and> in_score_range (rv_opportunity_score rv)"
proof -
  let ?p = "get_concept_parameters concept"
  have base: "0 < avg_check ?p * daily_covers ?p * operating_days ?p"
    using concept_parameters_pos [of concept] by simp
  have "in_score_range (da_score demo * 0.35 + cr_score cmp * 0.25 + tr_score transit * 0.20
                        + rr_overall_confidence risk * 0.20)"
    using assms(2-5) by (simp add: in_score_range_def)
  then show ?thesis
    using assms(1) revenue_band_ordered [OF base assms(2-5)]
    by (auto simp: predict_revenue_def Let_def r_bind_Inr_iff intro: py_round_score_range)
qed

lemma analyze_site_stages:
  assumes "analyze_site llm geocoder address concept rd = Inr a"
  obtains geo demo cmp transit risk revenue sy where
    "geocode_and_validate llm address (geocoder address) = Inr geo"
    "analyze_demographics llm concept (rd_demographics rd) (rd_population_grid rd) = Inr demo"
    "analyze_competition llm concept (rd_competitors rd)
       (field_get_default (pgi_total_population (rd_population_grid rd)) 10000) = Inr cmp"
    "analyze_transit llm (rd_transit rd) (rd_walkability_poi_count rd) = Inr transit"
    "assess_risk_and_confidence llm geo demo cmp transit = Inr risk"
    "predict_revenue llm concept geo demo cmp transit risk = Inr revenue"
    "synthesize_analysis llm demo cmp transit risk revenue = Inr sy"
    "an_revenue a = revenue" "an_risk a = risk" "an_opportunity_score a = rv_opportunity_score revenue"
    "an_confidence a = rr_overall_confidence risk"
  using assms by (auto simp: analyze_site_def r_bind_Inr_iff r_map_Inr_iff)

lemma analyze_site_ranges:
  assumes "analyze_site llm geocoder address concept rd = Inr a"
  obtains geo demo cmp transit risk where
    "predict_revenue llm concept geo demo cmp transit risk = Inr (an_revenue a)"
    "in_score_range (da_score demo)" "in_score_range (cr_score cmp)" "in_score_range (tr_score transit)"
    "rr_overall_confidence risk = an_confidence a" "in_score_range (an_confidence a)"
    "24 \<le> an_confidence a" "an_opportunity_score a = rv_opportunity_score (an_revenue a)"
proof -
  from assms obtain geo demo cmp transit risk revenue sy where st:
    "geocode_and_validate llm address (geocoder address) = Inr geo"
    "analyze_demographics llm concept (rd_demographics rd) (rd_population_grid rd) = Inr demo"
    "analyze_competition llm concept (rd_competitors rd)
       (field_get_default (pgi_total_population (rd_population_grid rd)) 10000) = Inr cmp"
    "analyze_transit llm (rd_transit rd) (rd_walkability_poi_count rd) = Inr transit"
    "assess_risk_and_confidence llm geo demo cmp transit = Inr risk"
    "predict_revenue llm concept geo demo cmp transit risk = Inr revenue"
    "synthesize_analysis llm demo cmp transit risk revenue = Inr sy"
    "an_revenue a = revenue" "an_risk a = risk" "an_opportunity_score a = rv_opportunity_score revenue"
    "an_confidence a = rr_overall_confidence risk"
    by (rule analyze_site_stages)
  have d: "in_score_range (da_score demo)" using analyze_demographics_Inr [OF st(2)] by simp
  have c: "in_score_range (cr_score cmp)" using analyze_competition_Inr [OF st(3)] by simp
  have t: "in_score_range (tr_score transit)" by (rule analyze_transit_Inr [OF st(4)])
  have "in_score_range (rr_overall_confidence risk) \<and> 24 \<le> rr_overall_confidence risk"
    by (rule assess_risk_Inr [OF st(5) geocode_and_validate_quality [OF st(1)] d c t])
  then show ?thesis using that st(6,8,10,11) d c t by simp
qed

text \<open>
  C5. Whatever the model replies and whatever the data, a completed site analysis
  reports a revenue band with \<open>0 \<le> pessimistic \<le> realistic \<le> optimistic\<close>, and an
  opportunity score and a confidence in [0, 100]: every agent's score stays in range
  and the realistic revenue stays between 20\% and 200\% of the concept's base.
\<close>

theorem analyze_site_revenue_band:
  assumes "analyze_site llm geocoder address concept rd = Inr a"
  shows "0 \<le> rv_pessimistic (an_revenue a) \<and> rv_pessimistic (an_revenue a) \<le> rv_realistic (an_revenue a)
    \<and> rv_realistic (an_revenue a) \<le> rv_optimistic (an_revenue a)
    \<and> in_score_range (an_opportunity_score a) \<and> in_score_range (an_confidence a)"
proof -
  from assms obtain geo demo cmp transit risk where
    p: "predict_revenue llm concept geo demo cmp transit risk = Inr (an_revenue a)"
    and d: "in_score_range (da_score demo)" and c: "in_score_range (cr_score cmp)"
    and t: "in_score_range (tr_score transit)" and r: "rr_overall_confidence risk = an_confidence a"
    and conf: "in_score_range (an_confidence a)"
    and opp: "an_opportunity_score a = rv_opportunity_score (an_revenue a)"
    by (rule analyze_site_ranges)
  show ?thesis using predict_revenue_Inr [OF p d c t] r conf opp by simp
qed

lemma demographic_score_no_income:
  assumes "profile_ok p"
  shows "py_round 1 (demographic_score d 0 a e p) \<le> 65"
proof -
  have "score_income 0 p = 0" using assms by (simp add: score_income_def profile_ok_def)
  then have "demographic_score d 0 a e p \<le> 65"
    using score_density_range [OF assms, of d] score_age_range [of a p] score_education_range [of e p]
    by (simp add: demographic_score_def)
  then show ?thesis using py_round_mono [of _ 65 1] by fastforce
qed

lemma analyze_site_sparse_Inr:
  "\<exists>a. analyze_site ex_llm (\<lambda>_. None) ''Mannerheimintie 1'' ''casual_dining'' ex_sparse_site = Inr a"
proof -
  have low: "\<not> 75 \<le> py_round 1 (demographic_score 5000 0 0 0 (demo_profile ''casual_dining''))"
    using demographic_score_no_income [OF demo_profile_ok, of 5000 0 0 "''casual_dining''"] by linarith
  then show ?thesis
    by (simp add: analyze_site_def ex_llm_def ex_sparse_site_def geocode_and_validate_def
        analyze_demographics_def demo_get_def analyze_competition_def nearest_distance_def
        calculate_competition_score_agent_def py_truthy_dist_def analyze_transit_def
        calculate_transit_score_def transit_walkability_score_def assess_risk_and_confidence_def
        predict_revenue_def synthesize_analysis_def key_strengths_def comp_insights_def
        first_insight_def Let_def)
qed

lemma recommendation_of_cases:
  "recommendation_of s c \<in> {''Highly Recommended'', ''Recommended'', ''Consider Alternatives'', ''Not Recommended''}"
  by (simp add: recommendation_of_def)

lemma analyze_site_recommendation:
  "analyze_site llm geocoder address concept rd = Inr a \<Longrightarrow>
   an_recommendation a \<in> {''Highly Recommended'', ''Recommended'', ''Consider Alternatives'', ''Not Recommended''}"
proof -
  assume "analyze_site llm geocoder address concept rd = Inr a"
  then have "\<exists>s c. an_recommendation a = recommendation_of s c"
    by (auto simp: analyze_site_def r_bind_Inr_iff r_map_Inr_iff synthesize_analysis_def; blast)
  then show ?thesis using recommendation_of_cases by metis
qed

theorem analyze_site_revenue_band_witness:
  "\<exists>a. analyze_site ex_llm (\<lambda>_. None) ''Mannerheimintie 1'' ''casual_dining'' ex_sparse_site = Inr a
     \<and> 0 \<le> rv_pessimistic (an_revenue a) \<and> rv_pessimistic (an_revenue a) \<le> rv_realistic (an_revenue a)
     \<and> rv_realistic (an_revenue a) \<le> rv_optimistic (an_revenue a)
     \<and> in_score_range (an_opportunity_score a) \<and> in_score_range (an_confidence a)"
proof -
  obtain a where "analyze_site ex_llm (\<lambda>_. None) ''Mannerheimintie 1'' ''casual_dining'' ex_sparse_site = Inr a"
    using analyze_site_sparse_Inr by blast
  then show ?thesis using analyze_site_revenue_band by blast
qed
lemma key_strengths_transit_index_error:
  assumes "analyze_demographics llm concept dd pg = Inr demo"
    and "analyze_competition llm concept cs pop = Inr cmp"
    and "75 \<le> tr_score t" "tr_insights t = []"
  shows "key_strengths demo cmp t = Inl IndexError"
proof -
  have "da_insights demo \<noteq> []" if "75 \<le> da_score demo"
    using that analyze_demographics_Inr [OF assms(1)] by auto
  moreover have "cr_insights cmp \<noteq> []" using analyze_competition_Inr [OF assms(2)] by simp
  ultimately show ?thesis using assms(3,4)
    by (auto simp: key_strengths_def first_insight_def neq_Nil_conv)
qed

text \<open>
  C14. A site whose transit score reaches 75 without any transit insight (no tram within
  200 m, no metro within 300 m, at most 20 points of interest, yet several stations in
  reach) makes the orchestrator's synthesis raise \<open>IndexError\<close>: it takes the first of
  an empty list of insights, since \<open>get('insights', [default])\<close> falls back only for a
  missing key. The whole analysis then fails once the earlier agents have succeeded.
\<close>

theorem analyze_site_transit_index_error:
  assumes "analyze_transit llm (rd_transit rd) (rd_walkability_poi_count rd) = Inr t"
    and "75 \<le> tr_score t" "tr_insights t = []"
    and "geocode_and_validate llm address (geocoder address) = Inr geo"
    and "analyze_demographics llm concept (rd_demographics rd) (rd_population_grid rd) = Inr demo"
    and "analyze_competition llm concept (rd_competitors rd)
           (field_get_default (pgi_total_population (rd_population_grid rd)) 10000) = Inr cmp"
    and "llm RISK = Inr r1" "llm REVENUE = Inr r2" "llm ORCHESTRATOR = Inr r3"
  shows "analyze_site llm geocoder address concept rd = Inl IndexError"
proof -
  obtain risk where risk: "assess_risk_and_confidence llm geo demo cmp t = Inr risk"
    using assms(7) by (simp add: assess_risk_and_confidence_def Let_def)
  obtain revenue where revenue: "predict_revenue llm concept geo demo cmp t risk = Inr revenue"
    using assms(8) by (simp add: predict_revenue_def Let_def)
  have "synthesize_analysis llm demo cmp t risk revenue = Inl IndexError"
    using key_strengths_transit_index_error [OF assms(5,6,2,3)] assms(9)
    by (simp add: synthesize_analysis_def)
  then show ?thesis using assms(1,4,5,6) risk revenue by (simp add: analyze_site_def)
qed

theorem analyze_site_transit_index_error_witness:
  "analyze_site ex_llm (\<lambda>_. None) ''Mannerheimintie 1'' ''casual_dining'' ex_transit_site = Inl IndexError"
proof -
  have grid: "py_round (Suc 0) (377 / 5 :: real) = 377 / 5" using py_round_grid [of 1 754] by simp
  obtain t where t: "analyze_transit ex_llm (rd_transit ex_transit_site) (rd_walkability_poi_count ex_transit_site) = Inr t"
    and ts: "tr_score t = 377 / 5" and ti: "tr_insights t = []"
    by (simp add: analyze_transit_def ex_llm_def ex_transit_site_def calculate_transit_score_def
        metro_points_def tram_points_def transit_walkability_score_def transit_insights_def
        py_truthy_dist_def Let_def grid)
  have high: "75 \<le> tr_score t" using ts by simp
  obtain demo where demo:
    "analyze_demographics ex_llm ''casual_dining'' (rd_demographics ex_transit_site) (rd_population_grid ex_transit_site) = Inr demo"
    by (simp add: analyze_demographics_def ex_llm_def ex_transit_site_def ex_sparse_site_def demo_get_def Let_def)
  obtain cmp where cmp:
    "analyze_competition ex_llm ''casual_dining'' (rd_competitors ex_transit_site)
       (field_get_default (pgi_total_population (rd_population_grid ex_transit_site)) 10000) = Inr cmp"
    by (simp add: analyze_competition_def ex_llm_def ex_transit_site_def ex_sparse_site_def Let_def)
  have geo: "geocode_and_validate ex_llm ''Mannerheimintie 1'' ((\<lambda>_. None) ''Mannerheimintie 1'')
      = Inr (GeoFailed ''Mannerheimintie 1'')"
    by (simp add: geocode_and_validate_def)
  show ?thesis
    by (rule analyze_site_transit_index_error [OF t high ti geo demo cmp])
      (simp_all add: ex_llm_def)
qed

end
