(* ===== verification/DataServices.thy ===== *)
theory DataServices
  imports AgentScores Candidates
begin

text \<open>
  The data services the site analysis reads through: the forward geocoder of
  \<open>DigitransitService\<close> (\<open>src/backend/services/digitransit.py\<close>, \<open>geocode_address\<close>) and
  \<open>StatFinService\<close> (\<open>src/backend/services/statfin.py\<close>): its fallback table of
  Helsinki postal codes, the derivation of the PAAVO figures from a PXWeb reply, the
  30-day cache of \<open>get_demographics_by_postal_code\<close>, and its two numeric helpers. HTTP
  replies are parameters; a reply the code rejects (a status other than 200, a missing
  value list, an exception) is \<open>None\<close>.
\<close>

section \<open>Digitransit geocoding\<close>

text \<open>The first feature of a Pelias search reply, with the properties the service reads.\<close>

record pelias_feature =
  pf_lng :: real
  pf_lat :: real
  pf_label :: "string pyfield"
  pf_postalcode :: "string pyfield"
  pf_locality :: "string pyfield"

text \<open>
  \<open>geocode_address\<close>: the dictionary it returns has the keys \<open>address\<close>, \<open>latitude\<close>,
  \<open>longitude\<close>, \<open>postal_code\<close>, \<open>city\<close> and \<open>confidence\<close>; of the keys \<open>GeoAgent\<close> reads,
  \<open>municipality\<close> and \<open>label\<close> are absent. \<open>props.get("postalcode")\<close> stores \<open>None\<close> for
  a missing property.
\<close>

definition digitransit_geocode_address :: "pelias_feature list option \<Rightarrow> geocode_dict option" where
  "digitransit_geocode_address reply =
     (case reply of
        None \<Rightarrow> None
      | Some [] \<Rightarrow> None
      | Some (f # _) \<Rightarrow>
          Some \<lparr>gd_latitude = Present (pf_lat f), gd_longitude = Present (pf_lng f),
                gd_postal_code = (case pf_postalcode f of Missing \<Rightarrow> PyNone | v \<Rightarrow> v),
                gd_municipality = Missing, gd_label = Missing\<rparr>)"

section \<open>OpenStreetMap transit stops\<close>

text \<open>A node of an Overpass reply; \<open>element.get("tags", {}).get(k)\<close> is a \<open>pyfield\<close>.\<close>

record osm_node =
  on_type :: string
  on_lat :: real
  on_lon :: real
  on_name :: "string pyfield"
  on_railway :: "string pyfield"

record osm_transit =
  ot_metro_stations :: "transit_stop list"
  ot_tram_stops :: "transit_stop list"
  ot_nearest_metro :: "real option"
  ot_nearest_tram :: "real option"

definition stop_of_node :: "real \<Rightarrow> real \<Rightarrow> osm_node \<Rightarrow> transit_stop" where
  "stop_of_node lat lng e =
     \<lparr>stop_name = (case on_name e of Present n \<Rightarrow> n | _ \<Rightarrow> ''Unknown''),
      stop_distance_m = haversine_distance lat lng (on_lat e) (on_lon e)\<rparr>"

text \<open>
  \<open>get_transit_stops\<close> after the Overpass call (\<open>None\<close>: an HTTP error). The lists are
  returned sorted by distance, but the nearest distances are read from the unsorted
  lists, i.e. from the first node of each kind in reply order.
\<close>

definition get_transit_stops :: "real \<Rightarrow> real \<Rightarrow> osm_node list option \<Rightarrow> osm_transit" where
  "get_transit_stops lat lng reply =
     (case reply of
        None \<Rightarrow> \<lparr>ot_metro_stations = [], ot_tram_stops = [], ot_nearest_metro = None, ot_nearest_tram = None\<rparr>
      | Some elements \<Rightarrow>
          let nodes = filter (\<lambda>e. on_type e = ''node'') elements;
              metro_stations = map (stop_of_node lat lng) (filter (\<lambda>e. on_railway e = Present ''subway_entrance'') nodes);
              tram_stops = map (stop_of_node lat lng) (filter (\<lambda>e. on_railway e = Present ''tram_stop'') nodes)
          in \<lparr>ot_metro_stations = sort_key stop_distance_m metro_stations,
              ot_tram_stops = sort_key stop_distance_m tram_stops,
              ot_nearest_metro = (case metro_stations of [] \<Rightarrow> None | s # _ \<Rightarrow> Some (stop_distance_m s)),
              ot_nearest_tram = (case tram_stops of [] \<Rightarrow> None | s # _ \<Rightarrow> Some (stop_distance_m s))\<rparr>)"

section \<open>StatFin demographics\<close>

text \<open>
  A demographics dictionary of \<open>StatFinService\<close>; the keys only one of its two sources
  sets are \<open>pyfield\<close>s.
\<close>

record paavo =
  pv_postal_code :: string
  pv_area_name :: string
  pv_population :: real
  pv_population_density :: real
  pv_median_income :: real
  pv_mean_income :: real
  pv_age_0_14 :: real
  pv_age_15_64 :: real
  pv_age_65_plus :: real
  pv_age_18_24 :: "real pyfield"
  pv_higher_education :: real
  pv_employment_rate :: "real pyfield"
  pv_average_age :: "real pyfield"

text \<open>A dictionary display: for a repeated key the last value wins.\<close>

definition py_dict_literal :: "('k \<times> 'v) list \<Rightarrow> 'k \<Rightarrow> 'v option" where
  "py_dict_literal kvs = map_of (rev kvs)"

definition fallback_entry ::
  "string \<Rightarrow> string \<Rightarrow> real \<Rightarrow> real \<Rightarrow> real \<Rightarrow> real \<Rightarrow> real \<Rightarrow> real \<Rightarrow> real \<Rightarrow> real pyfield \<Rightarrow> real
   \<Rightarrow> paavo" where
  "fallback_entry pc name pop dens med mean a014 a1564 a65 a1824 edu =
     \<lparr>pv_postal_code = pc, pv_area_name = name, pv_population = pop, pv_population_density = dens,
      pv_median_income = med, pv_mean_income = mean, pv_age_0_14 = a014, pv_age_15_64 = a1564,
      pv_age_65_plus = a65, pv_age_18_24 = a1824, pv_higher_education = edu,
      pv_employment_rate = Missing, pv_average_age = Missing\<rparr>"

text \<open>The \<open>data_map\<close> of \<open>_get_demo_data_helsinki\<close>, in source order (\<open>00100\<close> twice).\<close>

definition helsinki_demo_literal :: "(string \<times> paavo) list" where
  "helsinki_demo_literal =
     [(''00100'', fallback_entry ''00100'' ''Keskusta'' 2850 4200 48000 55000 8.5 75.2 16.3 Missing 52.1),
      (''00120'', fallback_entry ''00120'' ''Punavuori'' 6200 8100 51000 62000 12.1 72.8 15.1 Missing 58.3),
      (''00100'', fallback_entry ''00100'' ''Kamppi'' 28000 12500 54000 64000 11.2 73.5 15.3 (Present 18.5) 55.7),
      (''00530'', fallback_entry ''00530'' ''Kallio'' 24500 11200 42000 48000 14.8 71.2 14.0 (Present 16.2) 48.3),
      (''00520'', fallback_entry ''00520'' ''Pasila'' 8500 3200 45000 52000 13.5 72.8 13.7 (Present 14.1) 51.2),
      (''02100'', fallback_entry ''02100'' ''Tapiola'' 18200 5600 58000 72000 16.2 68.5 15.3 (Present 8.5) 62.1)]"

definition get_demo_data_helsinki :: "string \<Rightarrow> paavo option" where
  "get_demo_data_helsinki postal_code = py_dict_literal helsinki_demo_literal postal_code"

text \<open>\<open>area_label.split("  ", 1)[1] if "  " in area_label\<close>: the text after the first separator.\<close>

fun after_sep :: "string \<Rightarrow> string \<Rightarrow> string option" where
  "after_sep sep [] = (if sep = [] then Some [] else None)"
| "after_sep sep (c # cs) =
     (if take (length sep) (c # cs) = sep then Some (drop (length sep) (c # cs)) else after_sep sep cs)"

text \<open>
  The PXWeb reply after parsing: the label of the postal-code area and the value of each
  requested \<open>Tiedot\<close> code (absent, JSON \<open>null\<close>, or a number).
\<close>

type_synonym pxweb_reply = "string \<times> (string \<Rightarrow> real pyfield)"

text \<open>
  The derived figures of \<open>_fetch_from_pxweb_api\<close>. \<open>float(None)\<close> raises
  \<open>TypeError\<close>, which the method's \<open>except Exception\<close> turns into \<open>None\<close>. The
  coordinate conversion (\<open>pyproj\<close>) is outside the model and its two keys are left out.
\<close>

text \<open>\<open>round(x / population * 100, 1) if population > 0 else 0\<close>.\<close>

definition age_share :: "real \<Rightarrow> real \<Rightarrow> real" where
  "age_share population x = (if population > 0 then py_round 1 (x / population * 100) else 0)"

definition paavo_from_pxweb :: "string \<Rightarrow> pxweb_reply \<Rightarrow> paavo option" where
  "paavo_from_pxweb postal_code reply =
     (let (label, vm) = reply; get = (\<lambda>k d. field_get_default (vm k) d) in
      case those [get ''he_vakiy'' 0, get ''pinta_ala'' 1,
                  get ''he_0_2'' 0, get ''he_3_6'' 0, get ''he_7_12'' 0, get ''he_13_15'' 0,
                  get ''he_65_69'' 0, get ''he_70_74'' 0, get ''he_75_79'' 0, get ''he_80_84'' 0, get ''he_85_'' 0,
                  get ''ko_yl_kork'' 0, get ''ko_al_kork'' 0, get ''pt_tyoll'' 0, get ''pt_tyott'' 0,
                  get ''euref_x'' 0, get ''euref_y'' 0, get ''hr_mtu'' 0, get ''hr_ktu'' 0, get ''he_kika'' 0] of
        Some [population, area_m2, a02, a36, a712, a1315, a6569, a7074, a7579, a8084, a85,
              yl, al, employed, unemployed, _, _, mtu, ktu, kika] \<Rightarrow>
          (case get ''ko_ika18y'' population of
             None \<Rightarrow> None
           | Some adults \<Rightarrow>
               let area_km2 = (if area_m2 > 0 then area_m2 / 1000000 else 0.01);
                   density = (if area_km2 > 0 then population / area_km2 else 0);
                   age_0_14 = a02 + a36 + a712 + a1315;
                   age_65_plus = a6569 + a7074 + a7579 + a8084 + a85;
                   age_15_64 = population - age_0_14 - age_65_plus;
                   higher_ed_percent = (if adults > 0 then (yl + al) / adults * 100 else 0);
                   employment_rate =
                     (if employed + unemployed > 0 then employed / (employed + unemployed) * 100 else 0)
               in Some \<lparr>pv_postal_code = postal_code,
                        pv_area_name = (case after_sep ''  '' label of Some n \<Rightarrow> n | None \<Rightarrow> postal_code),
                        pv_population = of_int (py_int population),
                        pv_population_density = of_int (py_int density),
                        pv_median_income = of_int (py_int mtu), pv_mean_income = of_int (py_int ktu),
                        pv_age_0_14 = age_share population age_0_14,
                        pv_age_15_64 = age_share population age_15_64,
                        pv_age_65_plus = age_share population age_65_plus, pv_age_18_24 = Missing,
                        pv_higher_education = py_round 1 higher_ed_percent,
                        pv_employment_rate = Present (py_round 1 employment_rate),
                        pv_average_age = Present kika\<rparr>)
      | _ \<Rightarrow> None)"

text \<open>The cache of \<open>get_demographics_by_postal_code\<close>: data and the time it was stored.\<close>

type_synonym statfin_cache = "string \<Rightarrow> (paavo \<times> nat) option"

definition cache_ttl :: nat where
  "cache_ttl = 30 * 24 * 3600"

definition cache_fresh :: "statfin_cache \<Rightarrow> nat \<Rightarrow> string \<Rightarrow> bool" where
  "cache_fresh cache now postal_code =
     (case cache postal_code of Some (_, t) \<Rightarrow> now - t < cache_ttl | None \<Rightarrow> False)"

text \<open>
  \<open>get_demographics_by_postal_code\<close> at time \<open>now\<close> (seconds), with \<open>reply\<close> the PXWeb
  answer it would get: a fresh cache entry, else the API (cached on success), else the
  fallback table (not cached).
\<close>

definition get_demographics_by_postal_code ::
  "statfin_cache \<Rightarrow> nat \<Rightarrow> pxweb_reply option \<Rightarrow> string \<Rightarrow> paavo option \<times> statfin_cache" where
  "get_demographics_by_postal_code cache now reply postal_code =
     (if cache_fresh cache now postal_code then (map_option fst (cache postal_code), cache)
      else case Option.bind reply (paavo_from_pxweb postal_code) of
             Some d \<Rightarrow> (Some d, cache(postal_code \<mapsto> (d, now)))
           | None \<Rightarrow> (get_demo_data_helsinki postal_code, cache))"

text \<open>A sequence of requests for one postal code, at the given times with the given replies.\<close>

fun statfin_requests ::
  "statfin_cache \<Rightarrow> (nat \<times> pxweb_reply option) list \<Rightarrow> string \<Rightarrow> bool list \<times> statfin_cache" where
  "statfin_requests cache [] pc = ([], cache)"
| "statfin_requests cache ((now, reply) # rs) pc =
     (let fetched = \<not> cache_fresh cache now pc;
          (_, cache1) = get_demographics_by_postal_code cache now reply pc;
          (fs, cache2) = statfin_requests cache1 rs pc
      in (fetched # fs, cache2))"

definition estimate_population_in_radius :: "string list \<Rightarrow> real" where
  "estimate_population_in_radius postal_codes =
     sum_list (map (\<lambda>pc. case get_demo_data_helsinki pc of Some d \<Rightarrow> pv_population d | None \<Rightarrow> 0) postal_codes)"

text \<open>\<open>calculate_income_fit_score\<close>; the divisions raise on a zero divisor.\<close>

definition calculate_income_fit_score :: "real \<Rightarrow> real \<Rightarrow> real \<Rightarrow> real result" where
  "calculate_income_fit_score median_income target_min target_max =
     (if median_income < target_min then
        r_map (\<lambda>q. max (50 - min (q * 100) 50) 0) (py_div (target_min - median_income) target_min)
      else if median_income > target_max then
        r_map (\<lambda>q. max (75 - min (q * 50) 25) 50) (py_div (median_income - target_max) target_max)
      else
        let middle = (target_min + target_max) / 2;
            distance_from_middle = \<bar>median_income - middle\<bar>;
            max_distance = (target_max - target_min) / 2
        in r_map (\<lambda>q. max (100 - q * 15) 85) (py_div distance_from_middle max_distance))"

text \<open>A PXWeb reply for an area of 1000 inhabitants, 150 under 15 and 200 over 64.\<close>

definition ex_pxweb_values :: "string \<Rightarrow> real pyfield" where
  "ex_pxweb_values k =
     (if k = ''he_vakiy'' then Present 1000 else if k = ''pinta_ala'' then Present 500000
      else if k = ''he_0_2'' then Present 150 else if k = ''he_65_69'' then Present 200
      else Missing)"

section \<open>Lemmas\<close>

text \<open>
  The repeated key \<open>00100\<close> of the fallback table keeps only its last value, Kamppi: the
  Keskusta entry can never be returned.
\<close>

lemma get_demo_data_00100:
  "get_demo_data_helsinki ''00100''
     = Some (fallback_entry ''00100'' ''Kamppi'' 28000 12500 54000 64000 11.2 73.5 15.3 (Present 18.5) 55.7)"
  by (simp add: get_demo_data_helsinki_def py_dict_literal_def helsinki_demo_literal_def)

lemma keskusta_unreachable: "get_demo_data_helsinki pc \<noteq> Some d \<or> pv_area_name d \<noteq> ''Keskusta''"
proof (cases "pc = ''00100''")
  case True
  then show ?thesis by (auto simp: get_demo_data_00100 fallback_entry_def)
next
  case False
  have "pv_area_name d \<noteq> ''Keskusta''" if "(pc, d) \<in> set helsinki_demo_literal"
    using that False by (auto simp: helsinki_demo_literal_def fallback_entry_def)
  then show ?thesis
    by (auto simp: get_demo_data_helsinki_def py_dict_literal_def dest!: map_of_SomeD)
qed

lemma paavo_from_pxweb_age_18_24: "paavo_from_pxweb pc r = Some d \<Longrightarrow> pv_age_18_24 d = Missing"
  by (auto simp: paavo_from_pxweb_def Let_def split: prod.splits option.splits list.splits)

lemma py_round_1_close: "\<bar>py_round 1 x - x\<bar> \<le> 1 / 20"
  using py_round_close [of 1 x] by simp

lemma age_share_sum:
  "age_share p a + age_share p (p - a - b) + age_share p b = 0
   \<or> \<bar>age_share p a + age_share p (p - a - b) + age_share p b - 100\<bar> \<le> 3 / 20"
proof (cases "0 < p")
  case True
  have e: "age_share p a = py_round 1 (a / p * 100)" "age_share p (p - a - b) = py_round 1 ((p - a - b) / p * 100)"
    "age_share p b = py_round 1 (b / p * 100)"
    using True by (simp_all add: age_share_def)
  have "a / p * 100 + (p - a - b) / p * 100 + b / p * 100 = 100"
    using True by (simp add: field_simps)
  then have "\<bar>age_share p a + age_share p (p - a - b) + age_share p b - 100\<bar> \<le> 3 / 20"
    using e py_round_1_close [of "a / p * 100"] py_round_1_close [of "(p - a - b) / p * 100"]
      py_round_1_close [of "b / p * 100"]
    by linarith
  then show ?thesis ..
qed (simp add: age_share_def)

lemma paavo_from_pxweb_shares:
  "paavo_from_pxweb pc r = Some d \<Longrightarrow>
   \<exists>p a b. pv_age_0_14 d = age_share p a \<and> pv_age_15_64 d = age_share p (p - a - b)
     \<and> pv_age_65_plus d = age_share p b"
  by (auto simp: paavo_from_pxweb_def Let_def split: prod.splits option.splits list.splits) blast+

text \<open>
  C35. The three age shares derived from a PXWeb reply (0--14, 15--64, 65+) add up to
  100 within the rounding of each to one decimal (at most 0.15 off), or are all 0 for an
  empty area: the 15--64 group is computed as the rest of the population.
\<close>

theorem paavo_age_shares_sum:
  assumes "paavo_from_pxweb pc r = Some d"
  shows "pv_age_0_14 d + pv_age_15_64 d + pv_age_65_plus d = 0
    \<or> \<bar>pv_age_0_14 d + pv_age_15_64 d + pv_age_65_plus d - 100\<bar> \<le> 3 / 20"
  using paavo_from_pxweb_shares [OF assms] age_share_sum by metis

theorem paavo_age_shares_sum_witness:
  "\<exists>d. paavo_from_pxweb ''00100'' (''00100  Helsinki keskusta'', ex_pxweb_values) = Some d
     \<and> (pv_age_0_14 d + pv_age_15_64 d + pv_age_65_plus d = 0
        \<or> \<bar>pv_age_0_14 d + pv_age_15_64 d + pv_age_65_plus d - 100\<bar> \<le> 3 / 20)"
proof -
  obtain d where "paavo_from_pxweb ''00100'' (''00100  Helsinki keskusta'', ex_pxweb_values) = Some d"
    by (simp add: paavo_from_pxweb_def ex_pxweb_values_def Let_def)
  then show ?thesis using paavo_age_shares_sum by blast
qed

lemma statfin_requests_Cons:
  "fst (statfin_requests cache ((now, r) # rs) pc)
     = (if cache_fresh cache now pc then False # fst (statfin_requests cache rs pc)
        else True # fst (statfin_requests (snd (get_demographics_by_postal_code cache now r pc)) rs pc))"
  by (simp add: get_demographics_by_postal_code_def Let_def split: prod.splits)

text \<open>
  C33. The cache never holds a postal code's figures for good: once a request comes 30
  days or more after the cached entry was stored (or nothing is cached), some request of
  the sequence goes to the PXWeb API. Until a fetch succeeds the entry is not replaced,
  so every later request is stale as well.
\<close>

theorem statfin_refetches:
  assumes "(t, reply) \<in> set rs"
    and "case cache pc of Some (_, c) \<Rightarrow> c + cache_ttl \<le> t | None \<Rightarrow> True"
  shows "True \<in> set (fst (statfin_requests cache rs pc))"
  using assms(1)
proof (induction rs)
  case Nil
  then show ?case by simp
next
  case (Cons q rs)
  obtain now r where q: "q = (now, r)" by (cases q)
  show ?case
  proof (cases "cache_fresh cache now pc")
    case False
    then show ?thesis by (simp add: q statfin_requests_Cons del: statfin_requests.simps)
  next
    case True
    then obtain d c where c: "cache pc = Some (d, c)" "now - c < cache_ttl"
      by (auto simp: cache_fresh_def split: option.splits)
    with assms(2) have "now \<noteq> t" by auto
    with Cons.prems q have "(t, reply) \<in> set rs" by auto
    then show ?thesis using Cons.IH True by (simp add: q statfin_requests_Cons del: statfin_requests.simps)
  qed
qed

theorem statfin_refetches_witness:
  "True \<in> set (fst (statfin_requests (\<lambda>_. None) [(0, None)] ''00100''))"
  using statfin_refetches [of 0 None "[(0, None)]" "\<lambda>_. None" "''00100''"] by simp

text \<open>A target range of one income gives \<open>max_distance = 0\<close> and a division by zero.\<close>

lemma income_fit_score_point_range: "calculate_income_fit_score m m m = Inl ZeroDivisionError"
  by (simp add: calculate_income_fit_score_def)

end
