(* ===== verification/SiteData.thy ===== *)
theory SiteData
  imports AgnoAgents DataServices SiteAnalysis
begin

text \<open>
  The data path of the site analysis: \<open>DataCollector.collect_site_data\<close>
  (\<open>src/backend/agents/data_collector.py\<close>) gathers the geocoder's location and the
  replies of StatFin, the population grid and OpenStreetMap into one feature
  dictionary, and \<open>analyze_sites\<close> (\<open>src/backend/main.py\<close>) turns it into the
  \<open>raw_data\<close> of the orchestrator. The providers are parameters returning their reply
  or the exception \<open>asyncio.gather(..., return_exceptions=True)\<close> collects.
\<close>

section \<open>collect_site_data\<close>





section \<open>The orchestrator's input\<close>



section \<open>Example replies\<close>

definition ex_geocode :: geocode_dict where
  "ex_geocode = the (digitransit_geocode_address (Some [\<lparr>pf_lng = 24.94, pf_lat = 60.17,
     pf_label = Present ''Mannerheimintie 1, Helsinki'', pf_postalcode = Present ''00100'',
     pf_locality = Present ''Helsinki''\<rparr>]))"




definition ex_full_coverage :: data_coverage where
  "ex_full_coverage = \<lparr>dc_demographics = 1, dc_competition = 1, dc_transit = 1, dc_overall = 1\<rparr>"

section \<open>Lemmas\<close>




lemma digitransit_geocode_address_fields:
  "digitransit_geocode_address reply = Some g \<Longrightarrow>
   gd_municipality g = Missing \<and> gd_label g = Missing"
  by (auto simp: digitransit_geocode_address_def split: option.splits list.splits)

lemma geocode_and_validate_digitransit:
  assumes "geocode_and_validate llm address (digitransit_geocode_address reply) = Inr geo"
  shows "geo_context_of geo \<in> {None, Some ''unknown context''}
    \<and> geo_confidence_of geo \<noteq> ''high'' \<and> geo_quality_of geo \<le> 75"
proof (cases "digitransit_geocode_address reply")
  case None
  then show ?thesis using assms
    by (auto simp: geocode_and_validate_def geo_context_of_def geo_confidence_of_def geo_quality_of_def)
next
  case (Some g)
  then have m: "gd_municipality g = Missing" "gd_label g = Missing"
    using digitransit_geocode_address_fields by blast+
  then show ?thesis using assms Some
    by (auto simp: geocode_and_validate_def r_bind_Inr_iff r_map_Inr_iff assess_context_def
        geo_context_of_def geo_confidence_of_def geo_quality_of_def geo_confidence_def
        calculate_quality_score_def truthy_str_def Let_def py_lower_def urban_municipalities_def split: if_splits)
qed

text \<open>
  C37. Every site located by the Digitransit geocoder, the one \<open>analyze_sites\<close> uses,
  comes without a municipality and a label: RevenueAgent's location adjustment is
  then zero, the geocoding confidence is never \<open>high\<close> and its quality at most 75,
  so the urban-core premium of \<open>_calculate_location_adjustment\<close> is never earned.
\<close>

theorem digitransit_no_location_premium:
  assumes "geocode_and_validate llm address (digitransit_geocode_address reply) = Inr geo"
    and "predict_revenue llm concept geo demo cmp transit risk = Inr rv"
  shows "rv_location_adjustment rv = 0 \<and> geo_confidence_of geo \<noteq> ''high'' \<and> geo_quality_of geo \<le> 75"
proof -
  have g: "geo_context_of geo \<in> {None, Some ''unknown context''}"
    "geo_confidence_of geo \<noteq> ''high'' \<and> geo_quality_of geo \<le> 75"
    using geocode_and_validate_digitransit [OF assms(1)] by blast+
  have "calculate_location_adjustment (geo_context_of geo) b w = 0" for b w
    using g(1) by (auto simp: calculate_location_adjustment_def)
  moreover have "rv_location_adjustment rv
      = py_round 0 (calculate_location_adjustment (geo_context_of geo)
          (avg_check (get_concept_parameters concept) * daily_covers (get_concept_parameters concept)
           * operating_days (get_concept_parameters concept)) 0.20)"
    using assms(2) by (auto simp: predict_revenue_def r_bind_Inr_iff Let_def)
  ultimately show ?thesis using g(2) round_half_even_of_int [of 0] by (simp add: py_round_def)
qed

theorem digitransit_no_location_premium_witness:
  "\<forall>demo cmp transit risk.
     rv_location_adjustment (projr (predict_revenue ex_llm ''casual_dining''
       (projr (geocode_and_validate ex_llm ''Mannerheimintie 1'' (Some ex_geocode)))
       demo cmp transit risk)) = 0
   \<and> geo_confidence_of (projr (geocode_and_validate ex_llm ''Mannerheimintie 1'' (Some ex_geocode)))
       \<noteq> ''high''"
proof (intro allI)
  fix demo cmp transit risk
  have ex: "Some ex_geocode = digitransit_geocode_address (Some [\<lparr>pf_lng = 24.94, pf_lat = 60.17,
     pf_label = Present ''Mannerheimintie 1, Helsinki'', pf_postalcode = Present ''00100'',
     pf_locality = Present ''Helsinki''\<rparr>])"
    by (simp add: ex_geocode_def digitransit_geocode_address_def)
  obtain geo where geo: "geocode_and_validate ex_llm ''Mannerheimintie 1'' (Some ex_geocode) = Inr geo"
    by (simp add: geocode_and_validate_def ex_geocode_def digitransit_geocode_address_def subscript_def
        ex_llm_def assess_context_def Let_def)
  obtain rv where rv: "predict_revenue ex_llm ''casual_dining'' geo demo cmp transit risk = Inr rv"
    by (simp add: predict_revenue_def ex_llm_def Let_def)
  show "rv_location_adjustment (projr (predict_revenue ex_llm ''casual_dining''
       (projr (geocode_and_validate ex_llm ''Mannerheimintie 1'' (Some ex_geocode)))
       demo cmp transit risk)) = 0
   \<and> geo_confidence_of (projr (geocode_and_validate ex_llm ''Mannerheimintie 1'' (Some ex_geocode)))
       \<noteq> ''high''"
    using digitransit_no_location_premium [OF geo [unfolded ex] rv] geo rv by simp
qed

text \<open>
  C12. The orchestrator's result does not fit the response schema it is mapped to:
  its confidence lies in [24, 100], on the agents' percent scale, where
  \<open>SitePrediction.confidence\<close> requires [0, 1], and its recommendation is one of
  \<open>"Highly Recommended"\<close> \dots \<open>"Not Recommended"\<close>, where the schema allows
  \<open>strong/moderate/weak/pass\<close>. Building the prediction from a completed analysis
  raises a \<open>ValueError\<close> even when a coverage is supplied.
\<close>

theorem orchestrator_analysis_fails_site_prediction:
  assumes "analyze_site llm geocoder address concept rd = Inr a"
    and "oa_confidence oa = an_confidence a \<or> oa_recommendation oa = an_recommendation a"
  shows "\<exists>m. make_site_prediction address' oa cov = Inl (ValueError m)"
proof (cases cov)
  case None
  then show ?thesis by (simp add: make_site_prediction_def)
next
  case (Some c)
  have "24 \<le> an_confidence a"
    using assms(1) by (rule analyze_site_ranges) simp
  moreover have "an_recommendation a \<notin> set [''strong'', ''moderate'', ''weak'', ''pass'']"
    using analyze_site_recommendation [OF assms(1)] by auto
  ultimately show ?thesis using Some assms(2)
    by (auto simp: make_site_prediction_def site_prediction_ok_def in_unit_def Let_def)
qed

theorem orchestrator_analysis_fails_site_prediction_witness:
  "\<exists>a m. analyze_site ex_llm (\<lambda>_. None) ''Mannerheimintie 1'' ''casual_dining'' ex_sparse_site = Inr a
     \<and> make_site_prediction ''Mannerheimintie 1''
         \<lparr>oa_latitude = 60.17, oa_longitude = 24.94, oa_postal_code = None,
          oa_opportunity_score = an_opportunity_score a,
          oa_revenue_pessimistic = rv_pessimistic (an_revenue a),
          oa_revenue_realistic = rv_realistic (an_revenue a),
          oa_revenue_optimistic = rv_optimistic (an_revenue a),
          oa_confidence = an_confidence a, oa_recommendation = an_recommendation a,
          oa_key_strengths = [], oa_key_concerns = []\<rparr>
         (Some ex_full_coverage) = Inl (ValueError m)"
proof -
  obtain a where a: "analyze_site ex_llm (\<lambda>_. None) ''Mannerheimintie 1'' ''casual_dining'' ex_sparse_site = Inr a"
    using analyze_site_sparse_Inr by blast
  show ?thesis
    using a orchestrator_analysis_fails_site_prediction [OF a, of "\<lparr>oa_latitude = 60.17, oa_longitude = 24.94,
          oa_postal_code = None, oa_opportunity_score = an_opportunity_score a,
          oa_revenue_pessimistic = rv_pessimistic (an_revenue a),
          oa_revenue_realistic = rv_realistic (an_revenue a),
          oa_revenue_optimistic = rv_optimistic (an_revenue a),
          oa_confidence = an_confidence a, oa_recommendation = an_recommendation a,
          oa_key_strengths = [], oa_key_concerns = []\<rparr>" "''Mannerheimintie 1''" "Some ex_full_coverage"]
    by auto
qed

end
