(* ===== verification/Spec2Isabelle.thy ===== *)
theory Spec2Isabelle
  imports Scoring Learner Candidates Jobs Recommend TrustMetrics ConceptRoutes SiteAnalysis AreaDetail
    Outcomes SiteData
begin

text \<open>
  \<^bold>\<open>Spotlight: a verification development of the site-selection backend.\<close>

  The backend (\<open>src/backend\<close>) scores candidate restaurant locations for a business
  concept and learns the concept's parameters from reported openings. Its parts and the
  theories that model them:

  \<^item> \<open>Prelude\<close>: Python's runtime as values. Exceptions are a datatype \<open>py_error\<close> and a
    fallible computation returns \<open>py_error + 'a\<close> (\<open>r_bind\<close>, \<open>r_map\<close>); a key of a feature
    dictionary is absent, \<open>None\<close> or a value (\<open>pyfield\<close>); \<open>round\<close> rounds half to even
    (\<open>py_round\<close>), \<open>int\<close> truncates (\<open>py_int\<close>), \<open>statistics.median/mean\<close> raise on empty
    data, \<open>xs[:k]\<close> is \<open>py_take\<close>. Floats are exact reals: binary rounding error is not
    modelled.
  \<^item> \<open>DataModel\<close>: the rows of \<open>models/database.py\<close> (concepts, predictions, training
    outcomes) as records and the feature dictionary of \<open>agents/data_collector.py\<close>.
  \<^item> \<open>Scoring\<close>: \<open>agents/scorer.py\<close>, \<open>ScoringEngine.calculate_score\<close> and its five factor
    scores, revenue band and confidence, with the concept looked up in the database rows
    first and the YAML file second. Lemmas: every factor score lies in [0, 100], the
    score is a convex combination of them when the weights are, the band is ordered,
    the confidence is the share of present features; the error paths (unknown concept,
    a \<open>None\<close> density) are theorems.
  \<^item> \<open>Learner\<close>: \<open>services/concept_learner.py\<close> over an explicit database state
    (\<open>learner_db\<close>). \<open>record_outcome\<close> stores one training outcome, increments the
    counter and retrains from 5 outcomes; \<open>retrain_concept\<close> sets the median revenue, the
    MAPE and its band, and from 20 outcomes the weights of \<open>optimize_weights\<close> (Pearson
    correlations normalised, rounded to two decimals, the residual given to the largest).
    Lemmas: the new weights sum to exactly 1, the band is monotone and in [0.10, 0.20],
    prediction ids of outcomes stay distinct, duplicates and missing concepts are errors.
  \<^item> \<open>Candidates\<close>: \<open>services/address_generator.py\<close>: top areas, the 3 x 3 grid, reverse
    geocoding with the coordinate-derived fallback, the weighted score and decision of a
    point, the hard-coded population table, greedy deduplication with the haversine
    distance (\<open>sin\<close>, \<open>cos\<close>, \<open>arctan\<close> of HOL; \<open>math.atan2\<close> as \<open>atan2\<close>) and the ranking.
    Python's salted string hash and the geocoder's reply are parameters. Lemmas: the
    returned list is ranked, sorted and 80 m separated; deduplication only drops a point
    for a better one nearby, but is not optimal; the distance is symmetric, zero on a
    point, and on a meridian the arc length, with \<open>3 \<le> pi\<close> from \<open>sin_x_le_x\<close>.
  \<^item> \<open>Jobs\<close>: \<open>services/job_manager.py\<close>, the job registry and one event queue per job
    (a list; \<open>put\<close> appends, \<open>get\<close> takes the head, \<open>None\<close> is \<open>EndOfStream\<close>), generic in
    the result type. Every operation is a constructor of \<open>job_op\<close>, \<open>apply_op\<close> runs it,
    and \<open>jm_reachable\<close> is the inductive set of registries reachable from an empty one.
    The consumer loop \<open>stream_job_events\<close> waits 60 s per keep-alive on an empty queue;
    it runs on fuel, one unit per wait, and the theorem \<open>stream_queue_terminates\<close> says
    exactly how much fuel is enough (one per queued event before the end mark) and that
    without an end mark no fuel is. \<open>run_ops\<close> interleaves a consumer's gets with other
    operations; delivery is FIFO under every interleaving.
  \<^item> \<open>Recommend\<close>: \<open>routes/recommend.py\<close>. \<open>run_recommendation_job\<close> is the list of
    registry operations the background task issues (\<open>recommendation_job_ops\<close>), the
    response validated as the pydantic models of \<open>models/schemas.py\<close> do; the route
    handlers create jobs, report status and stream, with 404 for unknown jobs.
  \<^item> \<open>TrustMetrics\<close>: \<open>services/trust_metrics.py\<close>: data coverage, the confidence of
    \<open>calculate_confidence\<close> (\<open>trust_confidence\<close>, its dictionary an association list) and
    the method information. Lemmas: coverage and confidence lie in [0, 1]; fed the score
    components of the scoring engine, as \<open>main.py\<close> does, the confidence never exceeds
    0.7, because the completeness term looks up feature names that dictionary lacks.
  \<^item> \<open>ConceptRoutes\<close>: \<open>routes/concepts.py\<close> over a store of concept rows and customer
    ids; every endpoint with its validation (422), 404, 403 and 400 answers and the
    database's \<open>IntegrityError\<close>; \<open>apply_concept_op\<close> commits a request or nothing.
    Lemmas: system defaults are never changed, ids stay distinct, a soft-deleted concept is
    no longer listed, updates are not validated.
  \<^item> \<open>PyStrings\<close>: \<open>str\<close> primitives (\<open>isspace\<close>, \<open>strip\<close>, \<open>split\<close>, \<open>join\<close>, \<open>lower\<close>,
    \<open>\d\<close>, \<open>str(n)\<close>, \<open>int(s)\<close>). Strings are lists of code points below 256: HOL's \<open>char\<close> is the
    Latin-1 part of Unicode, enough for every literal the modelled code compares with (the
    mis-encoded Finnish names included); characters above 255 are outside the model.
  \<^item> \<open>MainApi\<close>: the search box of \<open>main.py\<close> (\<open>universal_search\<close>,
    \<open>_detect_search_type\<close> with its regular expressions as recursive predicates,
    \<open>_extract_addresses\<close>). Lemmas: the endpoint never answers 400; joining clean
    addresses with \<open>"; "\<close> and searching gives them back (a round trip); street-first
    addresses are taken for cities.
  \<^item> \<open>Discovery\<close>: \<open>collect_area_data\<close> of \<open>agents/data_collector.py\<close> (provider replies
    as parameters) and \<open>discover_opportunities\<close> of \<open>main.py\<close> with its Helsinki loop
    and postal-code branch, composed with \<open>Scoring\<close>, \<open>TrustMetrics\<close> and the
    \<open>AreaOpportunity\<close> validation. Lemmas: the result is ranked, at most ten long, valid
    and capped at confidence 0.7; T\<ouml>\<ouml>l\<ouml> is never listed; an unknown concept gives an empty
    answer instead of an error.
  \<^item> \<open>SiteAnalysis\<close>: \<open>analyze_sites\<close> of \<open>main.py\<close> with \<open>_check_cannibalization\<close>
    and the stable ranking; address collection and the LLM orchestrator are parameters.
    Lemmas: the endpoint never succeeds (the \<open>SitePrediction\<close> it builds lacks the
    required \<open>coverage\<close>); its 400 answers are unreachable behind pydantic's 422; the
    warning is absent exactly when all pairs are 2 km apart; \<open>distance_km\<close> is the
    generator's haversine distance in km; the ranking is a permutation in score order.
  \<^item> \<open>AreaDetail\<close>: \<open>get_area_detail\<close> with \<open>_generate_insights\<close> and
    \<open>generate_why_bullets\<close>; a bullet is a constructor with the numbers it shows, since
    the texts hold code points above 255. Lemmas: the T\<ouml>\<ouml>l\<ouml> page always fails, a
    successful page is valid with confidence at most 0.7, missing or \<open>None\<close> densities
    make the insights raise.
  \<^item> \<open>Outcomes\<close>: \<open>submit_outcome\<close> of \<open>main.py\<close> (\<open>POST /api/outcomes\<close>) on a state
    that joins the learner's tables to the \<open>outcomes\<close> table, composed with
    \<open>record_outcome\<close>; the id is parsed as Python's \<open>int\<close> after removing \<open>"pred_"\<close>
    (\<open>py_int_of_string\<close> in \<open>PyStrings\<close>). A call returns its answer and the committed
    state, so the \<open>Outcome\<close> row committed before the learner runs survives a failure of
    the learner. Lemmas: any sequence of submissions keeps one row per stored prediction;
    a failing learner leaves a row that blocks every resubmission with 400; ids of the
    form \<open>pred_<n>\<close> parse back to \<open>n\<close>.
  \<^item> \<open>AgentScores\<close>: the deterministic scoring helpers of the agents of \<open>agents/agno\<close>
    (\<open>demo_agent.py\<close> concept profiles and the four sub-scores, \<open>comp_agent.py\<close>
    saturation, competition score and gaps, \<open>transit_agent.py\<close> metro, tram and
    walkability points, \<open>geo_agent.py\<close> confidence, context and quality,
    \<open>risk_agent.py\<close> and \<open>revenue_agent.py\<close> points, parameters and adjustments).
    Lemmas: every score lies in [0, 100] and matches its rating; a competitor at distance
    0 counts as none.
  \<^item> \<open>AgnoAgents\<close>: the seven agents' analysis methods and \<open>OrchestratorAgent.analyze_site\<close>
    chaining them (geo, demographics, competition, transit, risk, revenue, synthesis). The
    language model is a parameter \<open>llm :: agent \<Rightarrow> string result\<close>: its reply is
    only carried as reasoning text, and a failing call is an error value; the prompts are
    not modelled, except where formatting one raises (\<open>f"{None:,}"\<close>). Lemmas: a
    completed analysis has an ordered revenue band and scores in range, its confidence is
    at least 24; a transit score of 75 without insights makes the synthesis raise
    \<open>IndexError\<close>.
  \<^item> \<open>DataServices\<close>: the parts of the provider clients that compute on a reply:
    \<open>DigitransitService.geocode_address\<close> (\<open>services/digitransit.py\<close>),
    \<open>OSMService.get_transit_stops\<close> (\<open>services/osm.py\<close>), and of
    \<open>services/statfin.py\<close> the fallback table, the PXWeb reply parser, the 30-day cache,
    the radius estimate and the income fit. The HTTP reply is a parameter (\<open>None\<close> for a
    failed request). Lemmas: the repeated key of the fallback table hides Keskusta; the
    parsed age shares sum to 100 up to rounding; a stale cache entry is fetched again.
  \<^item> \<open>SiteData\<close>: \<open>DataCollector.collect_site_data\<close> with the providers' replies as
    parameters and the \<open>raw_data\<close> that \<open>analyze_sites\<close> builds from it, composed with
    the agents and \<open>SitePrediction\<close>. Lemmas: PXWeb demographics make DemoAgent raise
    \<open>TypeError\<close>; a Digitransit location never earns the location premium; a completed
    orchestrator analysis never validates as a \<open>SitePrediction\<close>.
  \<^item> This theory: the properties spanning the generator, the pipeline and the registry, and
    the concept routes with the scoring engine (weights accepted up to 1.05 give scores up
    to 105).

  Time (\<open>datetime.utcnow()\<close>), job ids (\<open>uuid4\<close>) and measured durations are parameters of
  the operations that read them.

  \<^bold>\<open>Not modelled.\<close> Logging, printing and the free-text explanations (the \<open>why\<close> bullets,
  decision reasoning, the agents' prompts and insight texts, e-mail text of \<open>/api/pursue\<close>);
  in \<open>main.py\<close> the accuracy endpoint (it returns constants) and the startup and health
  routes; the language model behind the agents, whose answers are parameters; the transport
  of the HTTP clients (requests, timeouts, JSON decoding) and the providers that only
  forward a reply (\<open>services/hsy.py\<close>, \<open>services/population_grid.py\<close>, the Paavo
  query builder of \<open>statfin.py\<close>); database engine and session wiring
  (\<open>models/db_init.py\<close>) and the seeding script, which only insert the YAML defaults.
\<close>

section \<open>Example request\<close>

definition ex_request :: recommend_request where
  "ex_request = \<lparr>req_city = ''Helsinki'', req_concept = ''QSR'', req_limit = 10, req_include_crime = False\<rparr>"

definition ex_empty_response :: recommend_response where
  "ex_empty_response = \<lparr>rr_job_id = ''j1'', rr_city = ''Helsinki'', rr_concept = ''QSR'', rr_top = [],
     rr_weights_version = ''v1.0'', rr_weights = response_weights False, rr_degraded = []\<rparr>"

section \<open>A custom concept scored by the engine\<close>

definition ex_create :: concept_create where
  "ex_create = \<lparr>cc_customer_id = ''cust'', cc_name = ''Heavy'', cc_category = ''QSR'', cc_description = None,
     cc_base_revenue_eur = 100000, cc_target_income_min = 30000, cc_target_income_max = 50000,
     cc_optimal_population_density = 10000, cc_target_competitors_per_1k = 2,
     cc_weights = \<lparr>w_population = 0.21, w_income = 0.21, w_access = 0.21, w_competition = 0.21,
                   w_walkability = 0.21\<rparr>\<rparr>"
definition ex_full_features :: features where
  "ex_full_features = \<lparr>population_1km = Present 20000, population_density = Present 10000,
     median_income = Present 40000, competitors_count = Present 20,
     competitors_per_1k_residents = Present 2, nearest_metro_distance_m = Present 150,
     nearest_tram_distance_m = Present 80, walkability_poi_count = Present 120\<rparr>"
definition ex_heavy_concept :: concept where
  "ex_heavy_concept = \<lparr>c_id = ''n1'', customer_id = ''cust'', c_name = ''Heavy'', category = ''QSR'',
     description = None, base_revenue_eur = 100000, revenue_variance = 0.2, target_income_min = 30000,
     target_income_max = 50000, optimal_population_density = 10000, target_competitors_per_1k = 2,
     c_weights = cc_weights ex_create, outcomes_count = 0, avg_prediction_error = None,
     last_trained_at = None, is_system_default = False, is_active = True\<rparr>"

definition ex_heavy_result :: score_result where
  "ex_heavy_result = \<lparr>sr_score = 105, sr_revenue_low = 85000, sr_revenue_mid = 100000,
     sr_revenue_high = 115000, sr_confidence = 1,
     sr_components = \<lparr>sc_population = 100, sc_income = 100, sc_access = 100,
                      sc_competition = 100, sc_walkability = 100\<rparr>,
     sr_concept_id = Some ''n1''\<rparr>"

section \<open>The recommendation flow end to end\<close>

lemma recommendation_job_ops_no_reset:
  "\<not> list_ex (resets_queue job_id) (recommendation_job_ops job_id city concept ic cands total_ms now)"
  by (simp add: recommendation_job_ops_def stage_done_ops_def Let_def split: sum.splits)

text \<open>
  C28. A valid recommendation request creates a job; when its background run gets the
  candidate generator's list (which always passes the response validation), the job ends
  \<open>complete\<close> and a client stream with ten waits receives exactly nine events, no
  keep-alive, the last one the completion carrying the generated candidates in order.
\<close>

theorem recommend_pipeline_complete:
  assumes req: "recommend_addresses job_id now req jm = Inr (resp, jm1)"
    and fuel: "10 \<le> fuel"
  shows "map_option j_status (jm_jobs (run_recommendation_job job_id (req_city req) (req_concept req)
           (req_include_crime req) (Inr (generate_candidates h geo (req_city req) (req_limit req) (req_include_crime req)))
           total_ms now' jm1) job_id) = Some COMPLETE
    \<and> (\<exists>evs result jm3. stream_job_progress fuel job_id (run_recommendation_job job_id (req_city req) (req_concept req)
           (req_include_crime req) (Inr (generate_candidates h geo (req_city req) (req_limit req) (req_include_crime req)))
           total_ms now' jm1) = Inr (Some (evs, jm3))
         \<and> length evs = 9 \<and> KeepAlive \<notin> set evs \<and> last evs = CompleteEvent job_id result
         \<and> map ra_address (rr_top result)
             = map cand_address (generate_candidates h geo (req_city req) (req_limit req) (req_include_crime req))
         \<and> map ra_score (rr_top result)
             = map cand_score (generate_candidates h geo (req_city req) (req_limit req) (req_include_crime req)))"
proof -
  define cs where "cs = generate_candidates h geo (req_city req) (req_limit req) (req_include_crime req)"
  have jm1: "jm1 = create_job job_id now (req_city req) (req_concept req) (req_limit req) (req_include_crime req) jm"
    using req by (simp add: recommend_addresses_def split: if_splits)
  obtain j where j: "jm_jobs jm1 job_id = Some j" by (simp add: jm1 create_job_def)
  have q: "jm_queues jm1 job_id = Some []" by (simp add: jm1 create_job_def)
  obtain result where r: "build_response job_id (req_city req) (req_concept req) (req_include_crime req) cs = Inr result"
      "rr_top result = map (\<lambda>c. \<lparr>ra_rank = int (the (cand_rank c)), ra_address = cand_address c,
          ra_lat = cand_lat c, ra_lng = cand_lng c, ra_score = cand_score c,
          ra_revenue_min_eur = sd_revenue_min_eur (cand_data c),
          ra_revenue_max_eur = sd_revenue_max_eur (cand_data c),
          ra_confidence = sd_confidence (cand_data c), ra_decision = sd_decision (cand_data c),
          ra_area_id = cand_area_id c\<rparr>) cs"
    using build_response_generated unfolding cs_def by blast
  note run = run_recommendation_job_success [OF j q r(1), of total_ms now']
  have "stream_queue fuel ([] @ [StageEvent job_id ''GEO'' StageRunning [] (Some 0) False,
              StageEvent job_id ''GEO'' StageDone [(''areas_identified'', 8)] (Some (int (total_ms div 7))) False,
              StageEvent job_id ''DEMO'' StageDone [(''areas_scored'', int (length cs))] (Some (int (total_ms div 7))) False,
              StageEvent job_id ''COMP'' StageDone [(''competitors_counted'', int (length cs))] (Some (int (total_ms div 7))) False,
              StageEvent job_id ''TRANSIT'' StageDone [(''transit_scored'', int (length cs))] (Some (int (total_ms div 7))) False,
              StageEvent job_id ''TRAFFIC'' StageDone [(''traffic_points'', 0)] (Some (int (total_ms div 7))) False,
              StageEvent job_id ''RENTS'' StageDone [(''rent_bands'', 0)] (Some (int (total_ms div 7))) False,
              StageEvent job_id ''REVENUE'' StageDone [(''predictions'', int (length cs))] (Some (int (total_ms div 7))) False,
              CompleteEvent job_id result, EndOfStream])
      = Some ([StageEvent job_id ''GEO'' StageRunning [] (Some 0) False,
              StageEvent job_id ''GEO'' StageDone [(''areas_identified'', 8)] (Some (int (total_ms div 7))) False,
              StageEvent job_id ''DEMO'' StageDone [(''areas_scored'', int (length cs))] (Some (int (total_ms div 7))) False,
              StageEvent job_id ''COMP'' StageDone [(''competitors_counted'', int (length cs))] (Some (int (total_ms div 7))) False,
              StageEvent job_id ''TRANSIT'' StageDone [(''transit_scored'', int (length cs))] (Some (int (total_ms div 7))) False,
              StageEvent job_id ''TRAFFIC'' StageDone [(''traffic_points'', 0)] (Some (int (total_ms div 7))) False,
              StageEvent job_id ''RENTS'' StageDone [(''rent_bands'', 0)] (Some (int (total_ms div 7))) False,
              StageEvent job_id ''REVENUE'' StageDone [(''predictions'', int (length cs))] (Some (int (total_ms div 7))) False,
              CompleteEvent job_id result], [])"
    using fuel by (intro trans [OF stream_queue_eos]) simp_all
  then show ?thesis
    using run r(2)
    by (auto simp: cs_def [symmetric] stream_job_progress_def stream_job_events_def get_job_def comp_def)
qed

theorem recommend_pipeline_complete_witness:
  "map_option j_status (jm_jobs (run_recommendation_job ''j1'' (req_city ex_request) (req_concept ex_request) (req_include_crime ex_request) (Inr (generate_candidates (\<lambda>_. 0) (\<lambda>_ _. Inl TypeError) (req_city ex_request) (req_limit ex_request) (req_include_crime ex_request))) 700 5 (create_job ''j1'' 0 (req_city ex_request) (req_concept ex_request) (req_limit ex_request) (req_include_crime ex_request) (new_job_manager 3600))) ''j1'') = Some COMPLETE
    \<and> (\<exists>evs result jm3. stream_job_progress 10 ''j1'' (run_recommendation_job ''j1'' (req_city ex_request) (req_concept ex_request) (req_include_crime ex_request) (Inr (generate_candidates (\<lambda>_. 0) (\<lambda>_ _. Inl TypeError) (req_city ex_request) (req_limit ex_request) (req_include_crime ex_request))) 700 5 (create_job ''j1'' 0 (req_city ex_request) (req_concept ex_request) (req_limit ex_request) (req_include_crime ex_request) (new_job_manager 3600))) = Inr (Some (evs, jm3))
         \<and> length evs = 9 \<and> KeepAlive \<notin> set evs \<and> last evs = CompleteEvent ''j1'' result
         \<and> map ra_address (rr_top result) = map cand_address (generate_candidates (\<lambda>_. 0) (\<lambda>_ _. Inl TypeError) (req_city ex_request) (req_limit ex_request) (req_include_crime ex_request))
         \<and> map ra_score (rr_top result) = map cand_score (generate_candidates (\<lambda>_. 0) (\<lambda>_ _. Inl TypeError) (req_city ex_request) (req_limit ex_request) (req_include_crime ex_request)))"
  by (rule recommend_pipeline_complete [of "''j1''" 0 ex_request "new_job_manager 3600"])
    (simp_all add: recommend_addresses_def valid_recommend_request_def ex_request_def)

text \<open>
  C30. However a client's reads of the stream interleave with the background job, the
  events it has read followed by those still queued are exactly the job's nine stage and
  completion events and the end-of-stream mark, in the order the job emitted them.
\<close>

theorem recommend_interleaving:
  assumes ops: "filter (\<lambda>op. \<not> is_get op) ops
      = recommendation_job_ops job_id city concept ic (Inr cs) total_ms now"
    and j: "jm_jobs jm job_id = Some j" and q: "jm_queues jm job_id = Some []"
    and r: "build_response job_id city concept ic cs = Inr result"
  shows "snd (run_ops job_id ops jm) @ queue_of job_id (fst (run_ops job_id ops jm))
       = [StageEvent job_id ''GEO'' StageRunning [] (Some 0) False,
          StageEvent job_id ''GEO'' StageDone [(''areas_identified'', 8)] (Some (int (total_ms div 7))) False,
          StageEvent job_id ''DEMO'' StageDone [(''areas_scored'', int (length cs))] (Some (int (total_ms div 7))) False,
          StageEvent job_id ''COMP'' StageDone [(''competitors_counted'', int (length cs))] (Some (int (total_ms div 7))) False,
          StageEvent job_id ''TRANSIT'' StageDone [(''transit_scored'', int (length cs))] (Some (int (total_ms div 7))) False,
          StageEvent job_id ''TRAFFIC'' StageDone [(''traffic_points'', 0)] (Some (int (total_ms div 7))) False,
          StageEvent job_id ''RENTS'' StageDone [(''rent_bands'', 0)] (Some (int (total_ms div 7))) False,
          StageEvent job_id ''REVENUE'' StageDone [(''predictions'', int (length cs))] (Some (int (total_ms div 7))) False,
          CompleteEvent job_id result, EndOfStream]"
proof -
  have "\<not> list_ex (resets_queue job_id) ops"
  proof
    assume "list_ex (resets_queue job_id) ops"
    then obtain op where op: "op \<in> set ops" "resets_queue job_id op" by (auto simp: list_ex_iff)
    have "\<not> is_get op" using op(2) by (cases op) auto
    with op have "list_ex (resets_queue job_id) (filter (\<lambda>op. \<not> is_get op) ops)"
      by (auto simp: list_ex_iff)
    with recommendation_job_ops_no_reset show False by (simp add: ops)
  qed
  then have "snd (run_ops job_id ops jm) @ queue_of job_id (fst (run_ops job_id ops jm))
      = queue_of job_id (run_recommendation_job job_id city concept ic (Inr cs) total_ms now jm)"
    using run_ops_shadow [of jm jm job_id "[]" ops] ops
    by (simp add: same_shape_def run_recommendation_job_def)
  then show ?thesis
    using run_recommendation_job_success [OF j q r, of total_ms now] by (simp add: queue_of_def)
qed

theorem recommend_interleaving_witness:
  "snd (run_ops ''j1'' (OpGet ''j1'' # recommendation_job_ops ''j1'' ''Helsinki'' ''QSR'' False (Inr []) 700 5 @ [OpGet ''j1''])
        (create_job ''j1'' 0 ''Helsinki'' ''QSR'' 10 False (new_job_manager 3600)))
   @ queue_of ''j1'' (fst (run_ops ''j1'' (OpGet ''j1'' # recommendation_job_ops ''j1'' ''Helsinki'' ''QSR'' False (Inr []) 700 5 @ [OpGet ''j1''])
        (create_job ''j1'' 0 ''Helsinki'' ''QSR'' 10 False (new_job_manager 3600))))
   = [StageEvent ''j1'' ''GEO'' StageRunning [] (Some 0) False,
          StageEvent ''j1'' ''GEO'' StageDone [(''areas_identified'', 8)] (Some (int (700 div 7))) False,
          StageEvent ''j1'' ''DEMO'' StageDone [(''areas_scored'', int (length ([]::candidate list)))] (Some (int (700 div 7))) False,
          StageEvent ''j1'' ''COMP'' StageDone [(''competitors_counted'', int (length ([]::candidate list)))] (Some (int (700 div 7))) False,
          StageEvent ''j1'' ''TRANSIT'' StageDone [(''transit_scored'', int (length ([]::candidate list)))] (Some (int (700 div 7))) False,
          StageEvent ''j1'' ''TRAFFIC'' StageDone [(''traffic_points'', 0)] (Some (int (700 div 7))) False,
          StageEvent ''j1'' ''RENTS'' StageDone [(''rent_bands'', 0)] (Some (int (700 div 7))) False,
          StageEvent ''j1'' ''REVENUE'' StageDone [(''predictions'', int (length ([]::candidate list)))] (Some (int (700 div 7))) False,
          CompleteEvent ''j1'' ex_empty_response, EndOfStream]"
  by (rule recommend_interleaving)
    (simp_all add: recommendation_job_ops_def stage_done_ops_def build_response_def ex_empty_response_def
      create_job_def Let_def)

section \<open>Concepts created through the API and the score\<close>

lemma created_concept_config:
  assumes "create_concept nid d st = Inr (c, st')" "nid \<noteq> []"
  shows "get_concept_config \<lparr>db_session = Some (cs_concepts st'), yaml_concepts = y\<rparr> cat (Some nid)
           = Some (db_concept_to_config c, Some nid)"
  using create_concept_Inr [OF assms(1)] assms(2)
    find_append_fresh [of nid c_id "cs_concepts st" is_active c]
  by (simp add: get_concept_config_def)

text \<open>
  C39. A concept accepted by \<open>create_concept\<close> and then looked up by its id by the scoring
  engine yields a score in [0, 105]: the route accepts weights summing up to 1.05, so the
  score can exceed the 100 that \<open>calculate_score\<close> documents, and the witness reaches 105.
\<close>

theorem created_concept_score_bound:
  assumes cr: "create_concept nid d st = Inr (c, st')" and nid: "nid \<noteq> []"
    and r: "calculate_score \<lparr>db_session = Some (cs_concepts st'), yaml_concepts = y\<rparr> f cat (Some nid) = Inr r"
  shows "0 \<le> sr_score r \<and> sr_score r \<le> 105"
proof -
  let ?cfg = "db_concept_to_config c"
  note ci = create_concept_Inr [OF cr]
  from r created_concept_config [OF cr nid] obtain sc mid where sc: "score_components_of f ?cfg = Inr sc"
    and rr: "r = score_result_of ?cfg (Some nid) f sc mid"
    by (auto simp: calculate_score_Inr)
  have w: "weights_nonneg (cfg_weights ?cfg)" "weights_total (cfg_weights ?cfg) \<le> 1.05"
    using ci by (auto simp: db_concept_to_config_def valid_concept_create_def valid_concept_weights_def
        weights_nonneg_def weights_sum_ok_def)
  have "components_in_range sc"
    using ci by (intro score_components_of_range [OF sc]) (auto simp: db_concept_to_config_def valid_concept_create_def)
  with w have "of_int 0 \<le> weighted_score (cfg_weights ?cfg) sc \<and> weighted_score (cfg_weights ?cfg) sc \<le> of_int 105"
    using weighted_score_bounds [of "cfg_weights ?cfg" sc] by simp
  then show ?thesis
    using py_round_between [of 0 "weighted_score (cfg_weights ?cfg) sc" 105 1]
    by (simp add: rr score_result_of_def Let_def)
qed

lemma ex_create_concept:
  "create_concept ''n1'' ex_create ex_store
     = Inr (ex_heavy_concept, ex_store\<lparr>cs_concepts := cs_concepts ex_store @ [ex_heavy_concept]\<rparr>)"
  by (simp add: create_concept_def insert_concept_def valid_concept_create_def valid_concept_weights_def
      weights_sum_ok_def weights_total_def ex_create_def ex_store_def ex_system_concept_def ex_heavy_concept_def)

lemma ex_heavy_score:
  "calculate_score \<lparr>db_session = Some (cs_concepts ex_store @ [ex_heavy_concept]), yaml_concepts = []\<rparr>
     ex_full_features ''QSR'' (Some ''n1'') = Inr ex_heavy_result"
  by (simp add: scoring_defs py_num_def py_div_def Let_def ex_full_features_def ex_heavy_concept_def
      ex_create_def ex_store_def ex_system_concept_def db_concept_to_config_def ex_heavy_result_def
      field_get_default_def field_get_def py_round_def round_half_even_def)

theorem created_concept_score_bound_witness:
  "create_concept ''n1'' ex_create ex_store
     = Inr (ex_heavy_concept, ex_store\<lparr>cs_concepts := cs_concepts ex_store @ [ex_heavy_concept]\<rparr>)
   \<and> calculate_score \<lparr>db_session = Some (cs_concepts ex_store @ [ex_heavy_concept]), yaml_concepts = []\<rparr>
       ex_full_features ''QSR'' (Some ''n1'') = Inr ex_heavy_result
   \<and> 0 \<le> sr_score ex_heavy_result \<and> sr_score ex_heavy_result \<le> 105 \<and> sr_score ex_heavy_result = 105"
  using created_concept_score_bound [of "''n1''" ex_create ex_store ex_heavy_concept
      "ex_store\<lparr>cs_concepts := cs_concepts ex_store @ [ex_heavy_concept]\<rparr>" "[]" ex_full_features "''QSR''"
      ex_heavy_result] ex_create_concept ex_heavy_score
  by (simp add: ex_heavy_result_def)

end
